(* ===== verification/Prelude.thy ===== *)
theory Prelude
  imports Main "HOL-Library.Char_ord" "HOL-Library.List_Lexorder"
begin

text \<open>
  Shared vocabulary of the development: Python exceptions as values, the result type, Python's
  string operations on code points, insertion-ordered dictionaries as association lists, and
  offset-aware timestamps. Strings are \<open>char\<close> lists; a \<open>char\<close> is a code point from 0 to 255.
\<close>

named_theorems result_simps \<open>rewriting of the result monad\<close>
named_theorems str_simps \<open>unfolding of Python string operations\<close>
named_theorems dict_simps \<open>facts on insertion-ordered dictionaries\<close>

section \<open>Exceptions and results\<close>

text \<open>
  Each constructor is an exception class that the code raises. The string is the message (for
  \<open>Authorization_Error\<close> the registered code follows, for \<open>Validation_Error\<close> the issues as
  pairs of path and message). A pydantic ValidationError lists locations with messages; the
  decoders of this development report the first one.
\<close>

datatype loc_part = Name string | Index int

datatype exn =
    Value_Error string
  | Pydantic_Error "(loc_part list \<times> string) list"
  | Validation_Error string "(string \<times> string) list"
  | Authorization_Error string string
  | Assertion_Error string
  | Type_Error string
  | Runtime_Error string
  | Key_Error string
  | Recursion_Error string
  | Pyjwt_Error string

text \<open>\<open>except ValueError\<close>: pydantic's ValidationError is a subclass of ValueError; the classes of
  \<^verbatim>\<open>core/errors.py\<close> derive from Exception and are not.\<close>

fun is_value_error :: "exn \<Rightarrow> bool" where
  "is_value_error (Value_Error _) = True"
| "is_value_error (Pydantic_Error _) = True"
| "is_value_error _ = False"

fun is_validation_error :: "exn \<Rightarrow> bool" where
  "is_validation_error (Validation_Error _ _) = True"
| "is_validation_error _ = False"

text \<open>\<open>except jwt.PyJWTError\<close>: the base class of what PyJWT documents. A RecursionError, raised when a document is
  nested deeper than the interpreter allows, is neither of these.\<close>

fun is_pyjwt_error :: "exn \<Rightarrow> bool" where
  "is_pyjwt_error (Pyjwt_Error _) = True"
| "is_pyjwt_error _ = False"

fun is_recursion_error :: "exn \<Rightarrow> bool" where
  "is_recursion_error (Recursion_Error _) = True"
| "is_recursion_error _ = False"

fun is_assertion_error :: "exn \<Rightarrow> bool" where
  "is_assertion_error (Assertion_Error _) = True"
| "is_assertion_error _ = False"

type_synonym 'a result = "exn + 'a"

abbreviation Ok :: "'a \<Rightarrow> 'a result" where "Ok \<equiv> Inr"
abbreviation Raise :: "exn \<Rightarrow> 'a result" where "Raise \<equiv> Inl"

definition rbind :: "'a result \<Rightarrow> ('a \<Rightarrow> 'b result) \<Rightarrow> 'b result" where
  "rbind m f = (case m of Inl e \<Rightarrow> Inl e | Inr a \<Rightarrow> f a)"

definition require :: "bool \<Rightarrow> exn \<Rightarrow> unit result" where
  "require b e = (if b then Ok () else Raise e)"

definition is_ok :: "'a result \<Rightarrow> bool" where
  "is_ok m = (case m of Inl _ \<Rightarrow> False | Inr _ \<Rightarrow> True)"

text \<open>\<open>try ... except ValueError as error: raise E\<close>\<close>

definition reraise_value_error :: "'a result \<Rightarrow> exn \<Rightarrow> 'a result" where
  "reraise_value_error m e' =
     (case m of Inl e \<Rightarrow> if is_value_error e then Inl e' else Inl e | Inr a \<Rightarrow> Inr a)"

fun rmap :: "('a \<Rightarrow> 'b result) \<Rightarrow> 'a list \<Rightarrow> 'b list result" where
  "rmap f [] = Ok []"
| "rmap f (x # xs) = rbind (f x) (\<lambda>y. rbind (rmap f xs) (\<lambda>ys. Ok (y # ys)))"

lemma rbind_simps [simp]:
  "rbind (Inl e) f = Inl e"
  "rbind (Inr a) f = f a"
  by (simp_all add: rbind_def)

lemma rbind_Ok_iff [result_simps]:
  "rbind m f = Inr b \<longleftrightarrow> (\<exists>a. m = Inr a \<and> f a = Inr b)"
  by (cases m) auto

lemma rbind_Raise_iff [result_simps]:
  "rbind m f = Inl e \<longleftrightarrow> m = Inl e \<or> (\<exists>a. m = Inr a \<and> f a = Inl e)"
  by (cases m) auto

lemma rbind_assoc: "rbind (rbind m f) g = rbind m (\<lambda>x. rbind (f x) g)"
  by (cases m) auto

lemma require_Ok_iff [simp]: "require b e = Inr u \<longleftrightarrow> b"
  by (auto simp: require_def)

lemma require_Raise_iff [simp]: "require b e = Inl e' \<longleftrightarrow> \<not> b \<and> e' = e"
  by (auto simp: require_def)

lemma require_True [simp]: "require True e = Inr ()"
  by (simp add: require_def)

lemma require_False [simp]: "require False e = Inl e"
  by (simp add: require_def)

lemma is_ok_simps [simp]: "is_ok (Inl e) = False" "is_ok (Inr a) = True"
  by (simp_all add: is_ok_def)

lemma is_ok_rbind [simp]: "is_ok (rbind m f) \<longleftrightarrow> (\<exists>a. m = Inr a \<and> is_ok (f a))"
  by (cases m) auto

lemma is_ok_iff: "is_ok m \<longleftrightarrow> (\<exists>a. m = Inr a)"
  by (cases m) auto

lemma is_ok_unit: "is_ok (m :: unit result) \<longleftrightarrow> m = Inr ()"
  by (cases m) auto

lemma is_okE: "is_ok m \<Longrightarrow> (\<And>a. m = Inr a \<Longrightarrow> P) \<Longrightarrow> P"
  by (cases m) auto

lemma is_ok_require [simp]: "is_ok (require b e) \<longleftrightarrow> b"
  by (simp add: require_def)

text \<open>What raises nothing but a ValueError.\<close>

definition value_error :: "'a result \<Rightarrow> bool" where
  "value_error m = (\<forall>e. m = Inl e \<longrightarrow> is_value_error e)"

lemma value_error_simps [simp]:
  "value_error (Inr v)" "value_error (Inl (Value_Error msg))" "value_error (require b (Value_Error msg))"
  by (auto simp: value_error_def)

lemma value_error_Raise: "value_error m \<Longrightarrow> m = Inl e \<Longrightarrow> is_value_error e"
  by (simp add: value_error_def)

lemma value_error_rbind: "value_error m \<Longrightarrow> (\<And>a. value_error (f a)) \<Longrightarrow> value_error (rbind m f)"
  by (cases m) (auto simp: value_error_def)

lemma value_error_rmap: "(\<And>x. x \<in> set xs \<Longrightarrow> value_error (f x)) \<Longrightarrow> value_error (rmap f xs)"
  by (induction xs) (auto intro!: value_error_rbind)

lemma reraise_value_error_Ok [simp]:
  "reraise_value_error m e = Inr a \<longleftrightarrow> m = Inr a"
  by (cases m) (auto simp: reraise_value_error_def)

lemma rmap_cong [fundef_cong]:
  assumes "xs = ys" and "\<And>x. x \<in> set ys \<Longrightarrow> f x = g x"
  shows "rmap f xs = rmap g ys"
  unfolding assms(1) using assms(2) by (induction ys) auto

lemma rmap_length: "rmap f xs = Inr ys \<Longrightarrow> length ys = length xs"
  by (induction xs arbitrary: ys) (auto simp: rbind_Ok_iff)

lemma rmap_Ok_iff: "rmap f xs = Inr ys \<longleftrightarrow> list_all2 (\<lambda>x y. f x = Inr y) xs ys"
  by (induction xs arbitrary: ys) (auto simp: rbind_Ok_iff list_all2_Cons1)

lemma rmap_map_Ok: "(\<And>x. x \<in> set xs \<Longrightarrow> f (g x) = Inr x) \<Longrightarrow> rmap f (map g xs) = Inr xs"
  by (induction xs) auto

section \<open>Python strings\<close>

abbreviation ord :: "char \<Rightarrow> nat" where "ord c \<equiv> of_char c"

definition in_range :: "nat \<Rightarrow> nat \<Rightarrow> char \<Rightarrow> bool" where
  "in_range lo hi c = (lo \<le> ord c \<and> ord c \<le> hi)"

definition is_ascii_char :: "char \<Rightarrow> bool" where
  "is_ascii_char c = (ord c < 128)"

definition isascii :: "string \<Rightarrow> bool" where
  "isascii s = list_all is_ascii_char s"

definition is_digit :: "char \<Rightarrow> bool" where "is_digit c = in_range 48 57 c"
definition is_upper :: "char \<Rightarrow> bool" where "is_upper c = in_range 65 90 c"
definition is_lower :: "char \<Rightarrow> bool" where "is_lower c = in_range 97 122 c"
definition is_alpha :: "char \<Rightarrow> bool" where "is_alpha c = (is_upper c \<or> is_lower c)"

text \<open>\<open>str.isspace\<close> on one code point below 256.\<close>

definition is_space :: "char \<Rightarrow> bool" where
  "is_space c = (in_range 9 13 c \<or> in_range 28 32 c \<or> ord c = 133 \<or> ord c = 160)"

text \<open>\<open>str.lower\<close>: ASCII capitals and the Latin-1 capitals move by 32 (215 is the multiplication sign).\<close>

definition lower_char :: "char \<Rightarrow> char" where
  "lower_char c = (if is_upper c \<or> (in_range 192 222 c \<and> ord c \<noteq> 215)
                   then char_of (ord c + 32) else c)"

definition lower :: "string \<Rightarrow> string" where
  "lower s = map lower_char s"

text \<open>\<open>str.upper\<close> on ASCII letters.\<close>

definition upper_char :: "char \<Rightarrow> char" where
  "upper_char c = (if is_lower c then char_of (ord c - 32) else c)"

definition upper :: "string \<Rightarrow> string" where
  "upper s = map upper_char s"

fun starts_with :: "string \<Rightarrow> string \<Rightarrow> bool" where
  "starts_with s [] = True"
| "starts_with [] (p # ps) = False"
| "starts_with (c # cs) (p # ps) = (c = p \<and> starts_with cs ps)"

definition ends_with :: "string \<Rightarrow> string \<Rightarrow> bool" where
  "ends_with s p = starts_with (rev s) (rev p)"

definition remove_prefix :: "string \<Rightarrow> string \<Rightarrow> string" where
  "remove_prefix s p = (if starts_with s p then drop (length p) s else s)"

definition lstrip_by :: "(char \<Rightarrow> bool) \<Rightarrow> string \<Rightarrow> string" where
  "lstrip_by p s = dropWhile p s"

definition strip_by :: "(char \<Rightarrow> bool) \<Rightarrow> string \<Rightarrow> string" where
  "strip_by p s = rev (dropWhile p (rev (dropWhile p s)))"

definition strip :: "string \<Rightarrow> string" where
  "strip s = strip_by is_space s"

text \<open>\<open>str.partition\<close> and \<open>str.rpartition\<close> with a one-character separator: the part before, whether
  the separator was found, the part after.\<close>

fun partition_at :: "char \<Rightarrow> string \<Rightarrow> string \<times> bool \<times> string" where
  "partition_at d [] = ([], False, [])"
| "partition_at d (c # cs) =
     (if c = d then ([], True, cs)
      else case partition_at d cs of (a, f, b) \<Rightarrow> (c # a, f, b))"

definition rpartition_at :: "char \<Rightarrow> string \<Rightarrow> string \<times> bool \<times> string" where
  "rpartition_at d s =
     (case partition_at d (rev s) of
        (a, True, b) \<Rightarrow> (rev b, True, rev a)
      | (a, False, b) \<Rightarrow> ([], False, s))"

text \<open>\<open>str.split(d)\<close> with a one-character separator: never the empty list.\<close>

fun split_on :: "char \<Rightarrow> string \<Rightarrow> string list" where
  "split_on d [] = [[]]"
| "split_on d (c # cs) =
     (if c = d then [] # split_on d cs
      else case split_on d cs of [] \<Rightarrow> [[c]] | p # ps \<Rightarrow> (c # p) # ps)"

fun join :: "string \<Rightarrow> string list \<Rightarrow> string" where
  "join d [] = []"
| "join d [p] = p"
| "join d (p # q # ps) = p @ d @ join d (q # ps)"

text \<open>\<open>str.split(d, n)\<close>: at most \<open>n\<close> cuts.\<close>

fun split_max :: "char \<Rightarrow> nat \<Rightarrow> string \<Rightarrow> string list" where
  "split_max d 0 s = [s]"
| "split_max d (Suc n) s =
     (case partition_at d s of (a, True, b) \<Rightarrow> a # split_max d n b | (a, False, b) \<Rightarrow> [a])"

text \<open>\<open>str.count\<close>: non-overlapping occurrences; \<open>str.replace\<close> of every occurrence.\<close>

function count_sub :: "string \<Rightarrow> string \<Rightarrow> nat" where
  "count_sub p [] = 0"
| "count_sub p (c # cs) =
     (if p \<noteq> [] \<and> starts_with (c # cs) p then Suc (count_sub p (drop (length p) (c # cs)))
      else count_sub p cs)"
  by pat_completeness auto
termination by (relation "measure (\<lambda>(p, s). length s)") (auto simp: Suc_le_eq)

function replace_sub :: "string \<Rightarrow> string \<Rightarrow> string \<Rightarrow> string" where
  "replace_sub p r [] = []"
| "replace_sub p r (c # cs) =
     (if p \<noteq> [] \<and> starts_with (c # cs) p then r @ replace_sub p r (drop (length p) (c # cs))
      else c # replace_sub p r cs)"
  by pat_completeness auto
termination by (relation "measure (\<lambda>(p, r, s). length s)") (auto simp: Suc_le_eq)

definition decimal_value :: "string \<Rightarrow> nat" where
  "decimal_value s = foldl (\<lambda>n c. 10 * n + (ord c - 48)) 0 s"

fun show_nat :: "nat \<Rightarrow> string" where
  "show_nat n = (if n < 10 then [char_of (48 + n)] else show_nat (n div 10) @ [char_of (48 + n mod 10)])"

declare show_nat.simps [simp del]

definition show_int :: "int \<Rightarrow> string" where
  "show_int i = (if i < 0 then CHR ''-'' # show_nat (nat (- i)) else show_nat (nat i))"

lemma partition_at_not_found: "d \<notin> set s \<Longrightarrow> partition_at d s = (s, False, [])"
  by (induction s) auto

lemma partition_at_append: "d \<notin> set a \<Longrightarrow> partition_at d (a @ d # b) = (a, True, b)"
  by (induction a) auto

lemma partition_at_found:
  "partition_at d s = (a, True, b) \<Longrightarrow> s = a @ d # b \<and> d \<notin> set a"
  by (induction s arbitrary: a) (auto split: if_splits prod.splits)

lemma partition_at_missing:
  "partition_at d s = (a, False, b) \<Longrightarrow> a = s \<and> b = [] \<and> d \<notin> set s"
  by (induction s arbitrary: a) (auto split: if_splits prod.splits)

lemma split_on_nonempty [simp]: "split_on d s \<noteq> []"
  by (cases s) (auto split: list.splits)

lemma join_split_on: "join [d] (split_on d s) = s"
proof (induction s)
  case (Cons c cs)
  show ?case
  proof (cases "split_on d cs")
    case (Cons p ps)
    with Cons.IH show ?thesis by (cases ps) auto
  qed simp
qed simp

lemma split_on_no_sep: "d \<notin> set s \<Longrightarrow> split_on d s = [s]"
  by (induction s) auto

lemma split_on_append: "d \<notin> set a \<Longrightarrow> split_on d (a @ d # b) = a # split_on d b"
  by (induction a) auto

lemma split_on_append_gen: "split_on d (a @ d # b) = split_on d a @ split_on d b"
proof (induction a)
  case (Cons c a)
  then show ?case by (cases "split_on d a") (auto split: list.splits)
qed simp

lemma set_join: "set (join d ps) \<subseteq> (\<Union>p \<in> set ps. set p) \<union> set d"
  by (induction d ps rule: join.induct) auto

lemma split_on_set: "p \<in> set (split_on d s) \<Longrightarrow> set p \<subseteq> set s"
proof (induction s arbitrary: p)
  case (Cons c s)
  obtain q qs where q: "split_on d s = q # qs" by (cases "split_on d s") auto
  then have "set q \<subseteq> set s" "\<And>p. p \<in> set qs \<Longrightarrow> set p \<subseteq> set s"
    using Cons.IH by simp_all
  with Cons.prems q show ?case by (auto split: if_splits)
qed simp

lemma decimal_value_snoc: "decimal_value (s @ [c]) = 10 * decimal_value s + (ord c - 48)"
  by (simp add: decimal_value_def)

lemma is_digit_char_of: "(k::nat) < 10 \<Longrightarrow> is_digit (char_of (48 + k))"
  by (simp add: is_digit_def in_range_def of_char_of)

lemma show_nat_nonempty [simp]: "show_nat n \<noteq> []"
  by (simp add: show_nat.simps [of n])

lemma show_nat_digits: "list_all is_digit (show_nat n)"
proof (induction n rule: show_nat.induct)
  case (1 n)
  then show ?case
    using is_digit_char_of [of n] is_digit_char_of [of "n mod 10"]
    by (cases "n < 10") (simp_all add: show_nat.simps [of n])
qed

lemma decimal_value_show_nat [simp]: "decimal_value (show_nat n) = n"
proof (induction n rule: show_nat.induct)
  case (1 n)
  have "ord (char_of (48 + n mod 10)) = 48 + n mod 10" by (simp add: of_char_of)
  moreover have "n < 10 \<Longrightarrow> ord (char_of (48 + n)) = 48 + n" by (simp add: of_char_of)
  ultimately show ?case using 1
    by (subst show_nat.simps) (auto simp: decimal_value_snoc decimal_value_def)
qed

lemma show_nat_inject [simp]: "show_nat m = show_nat n \<longleftrightarrow> m = n"
  by (metis decimal_value_show_nat)

lemma last_separator:
  assumes "(d :: char) \<notin> set b" and "d \<notin> set b'" and "a @ d # b = a' @ d # b'"
  shows "a = a' \<and> b = b'"
proof -
  have "rev (a @ d # b) = rev (a' @ d # b')" using assms(3) by simp
  then have "rev b @ d # rev a = rev b' @ d # rev a'" by simp
  moreover have "partition_at d (rev b @ d # rev a) = (rev b, True, rev a)"
    using assms(1) by (intro partition_at_append) simp
  moreover have "partition_at d (rev b' @ d # rev a') = (rev b', True, rev a')"
    using assms(2) by (intro partition_at_append) simp
  ultimately have "(rev b, True, rev a) = (rev b', True, rev a')" by (simp only:)
  then show ?thesis by simp
qed


lemma split_on_pieces: "p \<in> set (split_on d s) \<Longrightarrow> d \<notin> set p"
  by (induction s arbitrary: p) (auto split: if_splits list.splits)

lemma takeWhile_all: "list_all p a \<Longrightarrow> (b \<noteq> [] \<Longrightarrow> \<not> p (hd b)) \<Longrightarrow> takeWhile p (a @ b) = a \<and> dropWhile p (a @ b) = b"
  by (induction a) (auto, (cases b; simp)+)

lemma starts_with_iff: "starts_with s p \<longleftrightarrow> (\<exists>r. s = p @ r)"
  by (induction s p rule: starts_with.induct) auto

lemma starts_with_self [simp]: "starts_with (p @ r) p"
  by (simp add: starts_with_iff)

lemma remove_prefix_append [simp]: "remove_prefix (p @ r) p = r"
  by (simp add: remove_prefix_def)

lemma lower_length [simp]: "length (lower s) = length s"
  by (simp add: lower_def)

lemma ord_lt_256: "ord c < 256"
  by (rule nat_of_char_less_256)

section \<open>Dictionaries in insertion order\<close>

text \<open>
  \<open>d.get(k)\<close> is \<^const>\<open>map_of\<close>. Assigning an existing key keeps its place; a new key goes last.
\<close>

type_synonym ('k, 'v) dict = "('k \<times> 'v) list"

fun dict_set :: "'k \<Rightarrow> 'v \<Rightarrow> ('k, 'v) dict \<Rightarrow> ('k, 'v) dict" where
  "dict_set k v [] = [(k, v)]"
| "dict_set k v ((k', v') # d) = (if k = k' then (k, v) # d else (k', v') # dict_set k v d)"

definition dict_pop :: "'k \<Rightarrow> ('k, 'v) dict \<Rightarrow> ('k, 'v) dict" where
  "dict_pop k d = filter (\<lambda>(k', _). k' \<noteq> k) d"

definition dict_has :: "'k \<Rightarrow> ('k, 'v) dict \<Rightarrow> bool" where
  "dict_has k d = (k \<in> set (map fst d))"

definition dict_keep :: "('k \<times> 'v \<Rightarrow> bool) \<Rightarrow> ('k, 'v) dict \<Rightarrow> ('k, 'v) dict" where
  "dict_keep p d = filter p d"

text \<open>\<open>d.update(e)\<close>\<close>

definition dict_update :: "('k, 'v) dict \<Rightarrow> ('k, 'v) dict \<Rightarrow> ('k, 'v) dict" where
  "dict_update d e = foldl (\<lambda>acc (k, v). dict_set k v acc) d e"

definition dict_ok :: "('k, 'v) dict \<Rightarrow> bool" where
  "dict_ok d = distinct (map fst d)"

lemma map_of_dict_set [simp, dict_simps]: "map_of (dict_set k v d) = (map_of d)(k \<mapsto> v)"
  by (induction k v d rule: dict_set.induct) auto

lemma keys_dict_set [dict_simps]: "set (map fst (dict_set k v d)) = insert k (set (map fst d))"
  by (induction k v d rule: dict_set.induct) auto

lemma fst_set_dict_set [simp]: "fst ` set (dict_set k v d) = insert k (fst ` set d)"
  using keys_dict_set [of k v d] by simp

lemma set_dict_set: "set (dict_set k v d) \<subseteq> insert (k, v) (set d)"
  by (induction k v d rule: dict_set.induct) auto

lemma dict_ok_set [simp, intro]: "dict_ok d \<Longrightarrow> dict_ok (dict_set k v d)"
  unfolding dict_ok_def by (induction k v d rule: dict_set.induct) auto

lemma map_of_dict_pop [simp, dict_simps]: "map_of (dict_pop k d) = (map_of d)(k := None)"
  unfolding dict_pop_def by (induction d) (auto simp: fun_eq_iff)

lemma dict_ok_filter [intro]: "dict_ok d \<Longrightarrow> dict_ok (filter p d)"
  unfolding dict_ok_def by (induction d) auto

lemma dict_ok_pop [simp, intro]: "dict_ok d \<Longrightarrow> dict_ok (dict_pop k d)"
  unfolding dict_pop_def by (rule dict_ok_filter)

lemma dict_ok_keep [simp, intro]: "dict_ok d \<Longrightarrow> dict_ok (dict_keep p d)"
  unfolding dict_keep_def by (rule dict_ok_filter)

lemma dict_ok_Nil [simp, intro]: "dict_ok []"
  by (simp add: dict_ok_def)

lemma map_of_dict_keep [dict_simps]:
  assumes "dict_ok d"
  shows "map_of (dict_keep p d) k =
    (case map_of d k of None \<Rightarrow> None | Some v \<Rightarrow> if p (k, v) then Some v else None)"
  using assms unfolding dict_keep_def dict_ok_def
  by (induction d) (auto split: option.splits simp: map_of_eq_None_iff image_iff)

lemma dict_has_lookup: "dict_has k d \<longleftrightarrow> map_of d k \<noteq> None"
  by (simp add: dict_has_def map_of_eq_None_iff)

lemma map_of_SomeD_mem: "map_of d k = Some v \<Longrightarrow> (k, v) \<in> set d"
  by (rule map_of_SomeD)

lemma map_of_dict_update:
  "map_of (dict_update d e) = map_of d ++ map_of (rev e)"
  unfolding dict_update_def
  by (induction e arbitrary: d) (auto simp: map_add_def fun_eq_iff split: option.splits)

lemma dict_ok_update [simp, intro]: "dict_ok d \<Longrightarrow> dict_ok (dict_update d e)"
  unfolding dict_update_def by (induction e arbitrary: d) auto

section \<open>Timestamps\<close>

text \<open>
  A \<open>datetime\<close> is an instant in microseconds since the epoch, with \<open>utcoffset()\<close> in seconds; a
  naive value has no offset. Two aware values compare by instant.
\<close>

record datetime =
  instant :: int
  utcoffset :: "int option"

definition aware :: "datetime \<Rightarrow> bool" where
  "aware t = (utcoffset t \<noteq> None)"

definition seconds :: "int \<Rightarrow> int" where
  "seconds n = n * 1000000"

text \<open>\<open>int(t.timestamp())\<close> truncates towards zero.\<close>

definition timestamp :: "datetime \<Rightarrow> int" where
  "timestamp t = (if 0 \<le> instant t then instant t div 1000000 else - ((- instant t) div 1000000))"

definition plus_us :: "datetime \<Rightarrow> int \<Rightarrow> datetime" where
  "plus_us t d = t\<lparr>instant := instant t + d\<rparr>"

end
