(* ===== verification/Json.thy ===== *)
theory Json
  imports Complex_Main Prelude
begin

text \<open>
  JSON documents and \<^verbatim>\<open>core/validation.py\<close>, \<^verbatim>\<open>core/errors.py\<close>. A body of bytes is modelled by its
  length and the outcome of reading it: the document, or the exception with which \<open>json.loads\<close> stops
  before the end of the text, a ValueError where the bytes are not JSON and a RecursionError where they
  are nested deeper than the interpreter allows; this exception is taken also where one of the hooks below would
  have refused an earlier part of the text. The document keeps object members as a list of pairs, duplicates included, because the
  code inspects them before they become a dictionary; \<open>JConst\<close> is one of the non-standard tokens
  NaN, Infinity, -Infinity. A float is its exact value; \<open>float_repr\<close>, the text Python prints
  for one, is a parameter of the printer.
\<close>

datatype json =
    JNull
  | JBool bool
  | JInt int
  | JFloat rat
  | JConst string
  | JStr string
  | JArr "json list"
  | JObj "(string \<times> json) list"

record body =
  body_size :: nat
  body_doc :: "json result"

abbreviation not_json :: "json result" where
  "not_json \<equiv> Inl (Value_Error ''not JSON'')"

section \<open>errors.py\<close>

definition path_segment :: "loc_part \<Rightarrow> string" where
  "path_segment part = (case part of Index i \<Rightarrow> ''['' @ show_int i @ '']'' | Name s \<Rightarrow> CHR ''.'' # s)"

type_synonym validation_issue = "string \<times> string"

definition exn_message :: "exn \<Rightarrow> string" where
  "exn_message e = (case e of
      Value_Error m \<Rightarrow> m
    | Pydantic_Error _ \<Rightarrow> ''validation error''
    | Validation_Error m _ \<Rightarrow> m
    | Authorization_Error m _ \<Rightarrow> m
    | Assertion_Error m \<Rightarrow> m
    | Type_Error m \<Rightarrow> m
    | Runtime_Error m \<Rightarrow> m
    | Key_Error m \<Rightarrow> m
    | Recursion_Error m \<Rightarrow> m
    | Pyjwt_Error m \<Rightarrow> m)"

definition validation_issues :: "exn \<Rightarrow> validation_issue list" where
  "validation_issues e = (case e of
      Pydantic_Error items \<Rightarrow>
        map (\<lambda>(location, msg). (CHR ''$'' # concat (map path_segment location), msg)) items
    | _ \<Rightarrow> [(''$'', exn_message e)])"

section \<open>Printing\<close>

definition hex_digit :: "nat \<Rightarrow> char" where
  "hex_digit n = (if n < 10 then char_of (48 + n) else char_of (87 + n))"

definition escape_char :: "char \<Rightarrow> string" where
  "escape_char c = (
     if ord c = 34 then [char_of (92::nat), c]
     else if ord c = 92 then [c, c]
     else if ord c = 10 then [char_of (92::nat), CHR ''n'']
     else if ord c = 13 then [char_of (92::nat), CHR ''r'']
     else if ord c = 9 then [char_of (92::nat), CHR ''t'']
     else if ord c = 12 then [char_of (92::nat), CHR ''f'']
     else if ord c = 8 then [char_of (92::nat), CHR ''b'']
     else if in_range 32 126 c then [c]
     else char_of (92::nat) # ''u00'' @ [hex_digit (ord c div 16), hex_digit (ord c mod 16)])"

definition quote_string :: "string \<Rightarrow> string" where
  "quote_string s = [char_of (34::nat)] @ concat (map escape_char s) @ [char_of (34::nat)]"

text \<open>\<open>json.dumps(value, separators=(item_sep, key_sep), sort_keys=srt)\<close>\<close>

fun dumps :: "string \<Rightarrow> string \<Rightarrow> bool \<Rightarrow> (rat \<Rightarrow> string) \<Rightarrow> json \<Rightarrow> string" where
  "dumps item_sep key_sep srt float_repr JNull = ''null''"
| "dumps item_sep key_sep srt float_repr (JBool b) = (if b then ''true'' else ''false'')"
| "dumps item_sep key_sep srt float_repr (JInt i) = show_int i"
| "dumps item_sep key_sep srt float_repr (JFloat r) = float_repr r"
| "dumps item_sep key_sep srt float_repr (JConst s) = s"
| "dumps item_sep key_sep srt float_repr (JStr s) = quote_string s"
| "dumps item_sep key_sep srt float_repr (JArr vs) =
     ''['' @ join item_sep (map (dumps item_sep key_sep srt float_repr) vs) @ '']''"
| "dumps item_sep key_sep srt float_repr (JObj ms) =
     (let printed = map (\<lambda>(k, v). (k, quote_string k @ key_sep @ dumps item_sep key_sep srt float_repr v)) ms
      in ''{'' @ join item_sep (map snd (if srt then sort_key fst printed else printed)) @ ''}'')"

abbreviation dumps_compact :: "(rat \<Rightarrow> string) \<Rightarrow> json \<Rightarrow> string" where
  "dumps_compact \<equiv> dumps '','' '':'' False"

abbreviation dumps_canonical :: "(rat \<Rightarrow> string) \<Rightarrow> json \<Rightarrow> string" where
  "dumps_canonical \<equiv> dumps '','' '':'' True"

section \<open>validation.py\<close>

text \<open>
  The \<open>pairs\<close> hook sees an object after its members have been read, so inner objects are
  inspected first and, among members, in order of appearance.
\<close>

fun duplicate_member :: "string list \<Rightarrow> string list \<Rightarrow> string option" where
  "duplicate_member seen [] = None"
| "duplicate_member seen (k # ks) =
     (if k \<in> set seen then Some k else duplicate_member (k # seen) ks)"

definition pairs_hook :: "(string \<times> json) list \<Rightarrow> unit result" where
  "pairs_hook ms = (case duplicate_member [] (map fst ms) of
      None \<Rightarrow> Ok ()
    | Some k \<Rightarrow> Raise (Value_Error (''duplicate object member: '' @ k)))"

fun load_hooks :: "json \<Rightarrow> unit result" where
  "load_hooks (JConst s) = Raise (Value_Error (''invalid JSON constant: '' @ s))"
| "load_hooks (JArr vs) = rbind (rmap load_hooks vs) (\<lambda>_. Ok ())"
| "load_hooks (JObj ms) = rbind (rmap (\<lambda>(k, v). load_hooks v) ms) (\<lambda>_. pairs_hook ms)"
| "load_hooks _ = Ok ()"

definition json_loads :: "json result \<Rightarrow> json result" where
  "json_loads d = rbind d (\<lambda>j. rbind (load_hooks j) (\<lambda>_. Ok j))"

text \<open>\<open>except (json.JSONDecodeError, UnicodeDecodeError, ValueError)\<close>: all three are ValueErrors; a
  RecursionError is not and goes through.\<close>

definition reject_duplicate_members :: "json result \<Rightarrow> string \<Rightarrow> json result" where
  "reject_duplicate_members d document_type =
     (case json_loads d of
        Inl e \<Rightarrow> if is_value_error e
          then Raise (Validation_Error (''Invalid AEP '' @ document_type @ '' JSON.'') [(''$'', exn_message e)])
          else Raise e
      | Inr j \<Rightarrow> Ok j)"

text \<open>\<open>parse_json_model(data, model, document_type)\<close>; \<open>model\<close> is the decoder of the class.\<close>

definition parse_json_model :: "json result \<Rightarrow> (json \<Rightarrow> 'a result) \<Rightarrow> string \<Rightarrow> 'a result" where
  "parse_json_model d model document_type =
     rbind (reject_duplicate_members d document_type) (\<lambda>j.
       case model j of
         Inl e \<Rightarrow> (case e of
             Pydantic_Error _ \<Rightarrow>
               Raise (Validation_Error (''Invalid AEP '' @ document_type @ ''.'') (validation_issues e))
           | _ \<Rightarrow> Raise e)
       | Inr v \<Rightarrow> Ok v)"

record 'a validation_result =
  vr_value :: "'a option"
  vr_issues :: "validation_issue list"

definition vr_ok :: "'a validation_result \<Rightarrow> bool" where
  "vr_ok r = (vr_issues r = [])"

definition validate_json_model :: "json result \<Rightarrow> (json \<Rightarrow> 'a result) \<Rightarrow> string \<Rightarrow> 'a validation_result result" where
  "validate_json_model d model document_type =
     (case parse_json_model d model document_type of
        Inr v \<Rightarrow> Ok \<lparr>vr_value = Some v, vr_issues = []\<rparr>
      | Inl (Validation_Error m issues) \<Rightarrow> Ok \<lparr>vr_value = None, vr_issues = issues\<rparr>
      | Inl e \<Rightarrow> Raise e)"

section \<open>Facts\<close>

text \<open>A document that passed the hooks has no object with a repeated member, at any depth, and no
  non-standard constant.\<close>

fun clean :: "json \<Rightarrow> bool" where
  "clean (JConst _) = False"
| "clean (JArr vs) = list_all clean vs"
| "clean (JObj ms) = (distinct (map fst ms) \<and> list_all (\<lambda>(k, v). clean v) ms)"
| "clean _ = True"

lemma duplicate_member_None:
  "duplicate_member seen ks = None \<longleftrightarrow> distinct ks \<and> set seen \<inter> set ks = {}"
  by (induction seen ks rule: duplicate_member.induct) auto

lemma duplicate_member_Some:
  "duplicate_member seen ks = Some k \<Longrightarrow> k \<in> set ks"
  by (induction seen ks rule: duplicate_member.induct) (auto split: if_splits)

lemma pairs_hook_ok [simp]: "pairs_hook ms = Inr u \<longleftrightarrow> distinct (map fst ms)"
  using duplicate_member_None [of "[]" "map fst ms"]
  by (auto simp: pairs_hook_def split: option.splits)

lemma is_ok_rmap: "is_ok (rmap f xs) \<longleftrightarrow> list_all (\<lambda>x. is_ok (f x)) xs"
proof (induction xs)
  case (Cons x xs)
  then show ?case by (cases "f x"; cases "rmap f xs") auto
qed simp

lemma is_ok_pairs_hook: "is_ok (pairs_hook ms) \<longleftrightarrow> distinct (map fst ms)"
  by (simp add: is_ok_unit)

lemma is_ok_then: "is_ok (rbind m (\<lambda>_. f)) \<longleftrightarrow> is_ok m \<and> is_ok f"
  by (cases m) auto

lemma is_ok_load_hooks: "is_ok (load_hooks j) \<longleftrightarrow> clean j"
proof (induction j)
  case (JArr vs)
  then show ?case by (simp add: is_ok_then is_ok_rmap list_all_iff del: is_ok_rbind)
next
  case (JObj ms)
  have "is_ok (load_hooks v) \<longleftrightarrow> clean v" if "(k, v) \<in> set ms" for k v
    using JObj [of "(k, v)" v] that by (simp add: snds.simps)
  then show ?case
    by (auto simp: is_ok_then is_ok_rmap is_ok_pairs_hook list_all_iff simp del: is_ok_rbind)
qed simp_all

lemma json_loads_Ok: "json_loads d = Inr j \<longleftrightarrow> d = Inr j \<and> clean j"
  using is_ok_load_hooks [of j]
  by (cases d) (auto simp: json_loads_def rbind_Ok_iff is_ok_unit)

lemma value_error_load_hooks: "value_error (load_hooks j)"
proof (induction j)
  case (JArr vs)
  have "value_error (rmap load_hooks vs)" by (rule value_error_rmap) (rule JArr)
  then show ?case by (simp add: value_error_rbind)
next
  case (JObj ms)
  have "value_error (load_hooks v)" if "(k, v) \<in> set ms" for k v
    using JObj [of "(k, v)" v] that by (simp add: snds.simps)
  then have "value_error (rmap (\<lambda>(k, v). load_hooks v) ms)" by (auto intro!: value_error_rmap)
  moreover have "value_error (pairs_hook ms)" by (simp add: pairs_hook_def split: option.split)
  ultimately show ?case by (simp add: value_error_rbind)
qed simp_all

lemma reject_duplicate_members_Ok [simp]:
  "reject_duplicate_members d t = Inr j \<longleftrightarrow> d = Inr j \<and> clean j"
  using json_loads_Ok [of d j] by (auto simp: reject_duplicate_members_def split: sum.splits if_splits)

lemma reject_duplicate_members_Raise:
  "reject_duplicate_members d t = Inl e \<Longrightarrow> is_validation_error e \<or> d = Inl e \<and> \<not> is_value_error e"
  by (cases d) (auto simp: reject_duplicate_members_def json_loads_def rbind_Raise_iff
      dest: value_error_Raise [OF value_error_load_hooks] split: sum.splits if_splits)

lemma parse_json_model_Ok:
  "parse_json_model d model t = Inr v \<longleftrightarrow> (\<exists>j. d = Inr j \<and> clean j \<and> model j = Inr v)"
proof -
  have "(case model j of
         Inl e \<Rightarrow> (case e of
             Pydantic_Error _ \<Rightarrow> Raise (Validation_Error m (validation_issues e))
           | _ \<Rightarrow> Raise e)
       | Inr v \<Rightarrow> Ok v) = Inr v \<longleftrightarrow> model j = Inr v" for j m
    by (cases "model j") (auto split: exn.split)
  then show ?thesis by (auto simp: parse_json_model_def rbind_Ok_iff)
qed

text \<open>C26 A JSON document is accepted exactly when it parses, no object in it repeats a member and no
  non-standard constant occurs, at any depth, and the model's decoder accepts it; the value is the
  decoder's. What the duplicate check raises is an \<open>AepValidationError\<close>, or else the exception that reading
  the text stopped with, if that is no ValueError (a RecursionError); a repeated member, a constant and text that
  is not JSON are thus always refused with an \<open>AepValidationError\<close>.\<close>

theorem parse_json_model_iff:
  "(parse_json_model d model t = Inr v \<longleftrightarrow> (\<exists>j. d = Inr j \<and> clean j \<and> model j = Inr v))
   \<and> (case reject_duplicate_members d t of
        Inl e \<Rightarrow> is_validation_error e \<or> d = Inl e \<and> \<not> is_value_error e
      | Inr j \<Rightarrow> clean j)"
  using parse_json_model_Ok [of d model t v] reject_duplicate_members_Raise [of d t]
    reject_duplicate_members_Ok [of d t]
  by (auto split: sum.split)

lemma parse_json_model_clean:
  "clean j \<Longrightarrow> model j = Inr v \<Longrightarrow> parse_json_model (Inr j) model t = Inr v"
  by (auto simp: parse_json_model_Ok)

text \<open>Decoders raise nothing but pydantic errors; then the only error of a text that was read is \<open>AepValidationError\<close>.\<close>

definition decodes :: "(json \<Rightarrow> 'a result) \<Rightarrow> bool" where
  "decodes model = (\<forall>j e. model j = Inl e \<longrightarrow> (\<exists>items. e = Pydantic_Error items))"

lemma parse_json_model_Raise:
  assumes "decodes model" and "parse_json_model d model t = Inl e"
  shows "is_validation_error e \<or> d = Inl e \<and> \<not> is_value_error e"
proof (cases "reject_duplicate_members d t")
  case (Inl e')
  with assms(2) show ?thesis
    using reject_duplicate_members_Raise by (auto simp: parse_json_model_def)
next
  case (Inr j)
  with assms show ?thesis
    unfolding decodes_def parse_json_model_def
    by (cases "model j") (fastforce split: exn.splits)+
qed

end
