(* ===== verification/Regex.thy ===== *)
theory Regex
  imports Prelude
begin

text \<open>
  Regular expressions as data, with the matcher that \<open>re.fullmatch\<close> stands for: the source's
  patterns (\<^verbatim>\<open>core/models.py\<close>, \<^verbatim>\<open>core/http.py\<close> and others) are written as values of this type.
  The declarative meaning is the inductive relation \<open>matches\<close>; the executable matcher takes one
  derivative per character and agrees with it.
\<close>

datatype regex =
    Fail
  | Empty
  | Cls "(nat \<times> nat) list"
  | Seq regex regex
  | Alt regex regex
  | Many regex

definition in_cls :: "(nat \<times> nat) list \<Rightarrow> char \<Rightarrow> bool" where
  "in_cls rs c = list_ex (\<lambda>(lo, hi). in_range lo hi c) rs"

inductive matches :: "regex \<Rightarrow> string \<Rightarrow> bool" where
  empty: "matches Empty []"
| cls: "in_cls rs c \<Longrightarrow> matches (Cls rs) [c]"
| seq: "matches r a \<Longrightarrow> matches q b \<Longrightarrow> matches (Seq r q) (a @ b)"
| alt_left: "matches r a \<Longrightarrow> matches (Alt r q) a"
| alt_right: "matches q a \<Longrightarrow> matches (Alt r q) a"
| many_stop: "matches (Many r) []"
| many_step: "matches r a \<Longrightarrow> matches (Many r) b \<Longrightarrow> matches (Many r) (a @ b)"

inductive_simps matches_Fail [simp]: "matches Fail s"
inductive_simps matches_Empty [simp]: "matches Empty s"
inductive_simps matches_Cls: "matches (Cls rs) s"
inductive_simps matches_Seq: "matches (Seq r q) s"
inductive_simps matches_Alt [simp]: "matches (Alt r q) s"
inductive_cases matches_ManyE: "matches (Many r) s"

lemmas matches_shapes = matches_Cls matches_Seq

section \<open>The matcher\<close>

fun nullable :: "regex \<Rightarrow> bool" where
  "nullable Fail = False"
| "nullable Empty = True"
| "nullable (Cls _) = False"
| "nullable (Seq r q) = (nullable r \<and> nullable q)"
| "nullable (Alt r q) = (nullable r \<or> nullable q)"
| "nullable (Many _) = True"

text \<open>Smart constructors keep derivatives small.\<close>

definition mk_seq :: "regex \<Rightarrow> regex \<Rightarrow> regex" where
  "mk_seq r q = (if r = Fail \<or> q = Fail then Fail else if r = Empty then q else Seq r q)"

definition mk_alt :: "regex \<Rightarrow> regex \<Rightarrow> regex" where
  "mk_alt r q = (if r = Fail then q else if q = Fail \<or> q = r then r else Alt r q)"

fun deriv :: "char \<Rightarrow> regex \<Rightarrow> regex" where
  "deriv c Fail = Fail"
| "deriv c Empty = Fail"
| "deriv c (Cls rs) = (if in_cls rs c then Empty else Fail)"
| "deriv c (Seq r q) =
     (if nullable r then mk_alt (mk_seq (deriv c r) q) (deriv c q) else mk_seq (deriv c r) q)"
| "deriv c (Alt r q) = mk_alt (deriv c r) (deriv c q)"
| "deriv c (Many r) = mk_seq (deriv c r) (Many r)"

fun fullmatch :: "regex \<Rightarrow> string \<Rightarrow> bool" where
  "fullmatch r [] = nullable r"
| "fullmatch r (c # cs) = fullmatch (deriv c r) cs"

lemma matches_nil_iff: "matches r [] \<longleftrightarrow> nullable r"
proof (induction r)
  case (Many r)
  then show ?case by (auto intro: matches.many_stop)
qed (auto simp: matches_shapes)

lemma matches_mk_seq [simp]: "matches (mk_seq r q) s \<longleftrightarrow> matches (Seq r q) s"
  by (auto simp: mk_seq_def matches_Seq)

lemma matches_mk_alt [simp]: "matches (mk_alt r q) s \<longleftrightarrow> matches (Alt r q) s"
  by (auto simp: mk_alt_def)

lemma many_cons_split:
  "matches (Many r) s \<Longrightarrow> s = c # t \<Longrightarrow>
     \<exists>a b. t = a @ b \<and> matches r (c # a) \<and> matches (Many r) b"
proof (induction "Many r" s arbitrary: t rule: matches.induct)
  case (many_step a b)
  show ?case
  proof (cases a)
    case Nil
    with many_step show ?thesis by auto
  next
    case (Cons d a')
    with many_step.prems have "d = c" "t = a' @ b" by auto
    with many_step Cons show ?thesis by blast
  qed
qed simp

lemma matches_Many_Cons:
  "matches (Many r) (c # t) \<longleftrightarrow> (\<exists>a b. t = a @ b \<and> matches r (c # a) \<and> matches (Many r) b)"
  using many_cons_split [of r "c # t" c t] matches.many_step [of r "c # _"] by fastforce

lemma matches_Seq_Cons:
  "matches (Seq r q) (c # t) \<longleftrightarrow>
     (nullable r \<and> matches q (c # t)) \<or>
     (\<exists>a b. t = a @ b \<and> matches r (c # a) \<and> matches q b)"
proof -
  have "matches (Seq r q) (c # t) \<longleftrightarrow>
      (matches r [] \<and> matches q (c # t)) \<or> (\<exists>a b. t = a @ b \<and> matches r (c # a) \<and> matches q b)"
    unfolding matches_Seq Cons_eq_append_conv by blast
  then show ?thesis by (simp add: matches_nil_iff)
qed

lemma matches_deriv: "matches (deriv c r) s \<longleftrightarrow> matches r (c # s)"
proof (induction r arbitrary: s)
  case (Cls rs)
  then show ?case by (auto simp: matches_Cls)
next
  case (Seq r q)
  then show ?case by (auto simp: matches_Seq_Cons) (auto simp: matches_Seq)
next
  case (Many r)
  then show ?case by (simp add: matches_Many_Cons) (simp add: matches_Seq)
qed auto

theorem fullmatch_matches: "fullmatch r s \<longleftrightarrow> matches r s"
  by (induction r s rule: fullmatch.induct) (simp_all add: matches_nil_iff matches_deriv)

section \<open>Building patterns\<close>

definition rng :: "char \<Rightarrow> char \<Rightarrow> nat \<times> nat" where
  "rng a b = (ord a, ord b)"

definition singles :: "string \<Rightarrow> (nat \<times> nat) list" where
  "singles s = map (\<lambda>c. (ord c, ord c)) s"

fun Lit :: "string \<Rightarrow> regex" where
  "Lit [] = Empty"
| "Lit [c] = Cls [(ord c, ord c)]"
| "Lit (c # cs) = Seq (Cls [(ord c, ord c)]) (Lit cs)"

definition Opt :: "regex \<Rightarrow> regex" where "Opt r = Alt r Empty"
definition Plus :: "regex \<Rightarrow> regex" where "Plus r = Seq r (Many r)"

fun Times :: "nat \<Rightarrow> regex \<Rightarrow> regex" where
  "Times 0 r = Empty"
| "Times (Suc n) r = Seq r (Times n r)"

text \<open>\<open>r{0,n}\<close>\<close>

fun UpTo :: "nat \<Rightarrow> regex \<Rightarrow> regex" where
  "UpTo 0 r = Empty"
| "UpTo (Suc n) r = Opt (Seq r (UpTo n r))"

text \<open>\<open>a|b|c\<close> and concatenation of several parts.\<close>

fun AnyOf :: "regex list \<Rightarrow> regex" where
  "AnyOf [] = Fail"
| "AnyOf [r] = r"
| "AnyOf (r # rs) = Alt r (AnyOf rs)"

fun Cat :: "regex list \<Rightarrow> regex" where
  "Cat [] = Empty"
| "Cat [r] = r"
| "Cat (r # rs) = Seq r (Cat rs)"

lemma matches_Opt [simp]: "matches (Opt r) s \<longleftrightarrow> matches r s \<or> s = []"
  by (auto simp: Opt_def)

lemma ord_inject [simp]: "ord c = ord d \<longleftrightarrow> c = d"
  by (metis char_of_char)

lemma in_cls_single [simp]: "in_cls [(ord c, ord c)] d \<longleftrightarrow> d = c"
proof -
  have "in_cls [(ord c, ord c)] d \<longleftrightarrow> ord c = ord d"
    by (simp add: in_cls_def in_range_def eq_iff)
  then show ?thesis by auto
qed

lemma in_singles [simp]: "in_cls (singles s) c \<longleftrightarrow> c \<in> set s"
proof (induction s)
  case (Cons d s)
  then show ?case using in_cls_single [of d c] by (simp add: in_cls_def singles_def)
qed (simp add: in_cls_def singles_def)

lemma matches_Lit: "matches (Lit p) s \<longleftrightarrow> s = p"
proof (induction p arbitrary: s rule: Lit.induct)
  case (2 c)
  show ?case by (simp add: matches_Cls)
next
  case (3 c d cs)
  then show ?case by (auto simp: matches_Seq matches_Cls)
qed simp

section \<open>Alphabets\<close>

text \<open>The characters a pattern can consume; a match contains no others.\<close>

fun in_alphabet :: "regex \<Rightarrow> char \<Rightarrow> bool" where
  "in_alphabet Fail c = False"
| "in_alphabet Empty c = False"
| "in_alphabet (Cls rs) c = in_cls rs c"
| "in_alphabet (Seq r q) c = (in_alphabet r c \<or> in_alphabet q c)"
| "in_alphabet (Alt r q) c = (in_alphabet r c \<or> in_alphabet q c)"
| "in_alphabet (Many r) c = in_alphabet r c"

lemma matches_alphabet: "matches r s \<Longrightarrow> c \<in> set s \<Longrightarrow> in_alphabet r c"
  by (induction rule: matches.induct) auto

lemma fullmatch_alphabet: "fullmatch r s \<Longrightarrow> c \<in> set s \<Longrightarrow> in_alphabet r c"
  by (simp add: fullmatch_matches matches_alphabet)

lemma matches_Many_Cls: "matches (Many (Cls rs)) s \<longleftrightarrow> list_all (in_cls rs) s"
proof (induction s)
  case Nil
  show ?case by (simp add: matches_nil_iff)
next
  case (Cons c s)
  then show ?case by (auto simp: matches_Many_Cons matches_Cls)
qed

lemma matches_Plus_Cls: "matches (Plus (Cls rs)) s \<longleftrightarrow> s \<noteq> [] \<and> list_all (in_cls rs) s"
  by (cases s)
    (simp_all add: Plus_def matches_Seq_Cons matches_nil_iff matches_Cls matches_Many_Cls)

lemma matches_nonempty: "\<not> nullable r \<Longrightarrow> matches r s \<Longrightarrow> s \<noteq> []"
  using matches_nil_iff by blast

end
