(* ===== verification/Url.thy ===== *)
theory Url
  imports Regex
begin

text \<open>
  The parts of Python's \<^verbatim>\<open>urllib.parse\<close> and \<^verbatim>\<open>ipaddress\<close> that the program uses, after
  CPython 3.12: \<open>urlsplit\<close> with the accessors of its result, \<open>urlunsplit\<close>, \<open>unquote\<close>, and the
  syntax check of \<open>IPv6Address\<close>. Code points are below 256, where the NFKC check of a netloc never
  raises. In \<open>unquote\<close> an escaped byte above 127 becomes one non-ASCII character; Python decodes
  UTF-8 there, and the callers only ask whether the outcome is ASCII and which ASCII characters it has.
\<close>

section \<open>IPv6 addresses\<close>

definition is_hex :: "char \<Rightarrow> bool" where
  "is_hex c = (is_digit c \<or> in_range 65 70 c \<or> in_range 97 102 c)"

definition hextet_ok :: "string \<Rightarrow> bool" where
  "hextet_ok s = (s \<noteq> [] \<and> length s \<le> 4 \<and> list_all is_hex s)"

definition octet_ok :: "string \<Rightarrow> bool" where
  "octet_ok s = (s \<noteq> [] \<and> list_all is_digit s \<and> length s \<le> 3
     \<and> (s = ''0'' \<or> hd s \<noteq> CHR ''0'') \<and> decimal_value s \<le> 255)"

definition ipv4_ok :: "string \<Rightarrow> bool" where
  "ipv4_ok s = (let ps = split_on CHR ''.'' s in length ps = 4 \<and> list_all octet_ok ps)"

text \<open>The groups of an address after an IPv4 suffix has been replaced by two groups.\<close>

definition ipv6_groups :: "string list \<Rightarrow> bool" where
  "ipv6_groups ps =
     (let inner = butlast (tl ps); n = length ps in
      if 9 < n then False
      else if 1 < length (filter (\<lambda>p. p = []) inner) then False
      else if [] \<in> set inner then
        (let pre = takeWhile (\<lambda>p. p \<noteq> []) inner;
             hi = hd ps # pre;
             lo = drop (Suc (length pre)) inner @ [last ps];
             hi' = (if hd ps = [] then tl hi else hi);
             lo' = (if last ps = [] then butlast lo else lo)
         in (hd ps = [] \<longrightarrow> hi' = []) \<and> (last ps = [] \<longrightarrow> lo' = [])
            \<and> length hi' + length lo' \<le> 7
            \<and> list_all hextet_ok hi' \<and> list_all hextet_ok lo')
      else n = 8 \<and> list_all hextet_ok ps)"

definition ipv6_address_ok :: "string \<Rightarrow> bool" where
  "ipv6_address_ok s =
     (if CHR ''/'' \<in> set s then False
      else case partition_at CHR ''%'' s of
        (addr, scoped, scope) \<Rightarrow>
          if scoped \<and> (scope = [] \<or> CHR ''%'' \<in> set scope) then False
          else let ps = split_on CHR '':'' addr in
            if addr = [] \<or> length ps < 3 then False
            else if CHR ''.'' \<in> set (last ps)
              then ipv4_ok (last ps) \<and> ipv6_groups (butlast ps @ [''0'', ''0''])
              else ipv6_groups ps)"

section \<open>Splitting\<close>

record split_result =
  scheme :: string
  netloc :: string
  url_path :: string
  query :: string
  fragment :: string

definition scheme_char :: "char \<Rightarrow> bool" where
  "scheme_char c = (is_alpha c \<or> is_digit c \<or> c \<in> set ''+-.'')"

definition sanitize :: "string \<Rightarrow> string" where
  "sanitize u = filter (\<lambda>c. ord c \<noteq> 9 \<and> ord c \<noteq> 10 \<and> ord c \<noteq> 13) (lstrip_by (\<lambda>c. ord c \<le> 32) u)"

definition take_scheme :: "string \<Rightarrow> string \<times> string" where
  "take_scheme u =
     (case partition_at CHR '':'' u of
        (s, True, rest) \<Rightarrow>
          if s \<noteq> [] \<and> is_alpha (hd s) \<and> list_all scheme_char s then (lower s, rest) else ([], u)
      | (_, False, _) \<Rightarrow> ([], u))"

definition netloc_end :: "char \<Rightarrow> bool" where
  "netloc_end c = (c \<in> set ''/?#'')"

definition bracketed_host_ok :: "string \<Rightarrow> bool" where
  "bracketed_host_ok h =
     (if starts_with h ''v'' then
        (case partition_at CHR ''.'' (tl h) of
           (a, dot, b) \<Rightarrow> dot \<and> a \<noteq> [] \<and> list_all is_hex a \<and> b \<noteq> [] \<and> CHR 0x0A \<notin> set b)
      else ipv6_address_ok h)"

definition netloc_ok :: "string \<Rightarrow> bool" where
  "netloc_ok n =
     (let opened = CHR ''['' \<in> set n; closed = CHR '']'' \<in> set n in
      if opened \<noteq> closed then False
      else if opened then
        (case partition_at CHR ''['' (snd (snd (rpartition_at CHR ''@'' n))) of
           (pre, True, bracketed) \<Rightarrow>
             (case partition_at CHR '']'' bracketed of
                (h, _, port) \<Rightarrow> pre = [] \<and> (port = [] \<or> starts_with port '':'') \<and> bracketed_host_ok h)
         | (pre, False, _) \<Rightarrow> bracketed_host_ok (fst (partition_at CHR '':'' pre)))
      else True)"

definition urlsplit :: "string \<Rightarrow> split_result result" where
  "urlsplit url =
     (let (s, u) = take_scheme (sanitize url);
          has = starts_with u ''//'';
          n = (if has then takeWhile (\<lambda>c. \<not> netloc_end c) (drop 2 u) else []);
          u1 = (if has then dropWhile (\<lambda>c. \<not> netloc_end c) (drop 2 u) else u)
      in if has \<and> \<not> netloc_ok n then Raise (Value_Error ''Invalid IPv6 URL'')
         else (case partition_at CHR ''#'' u1 of
           (u2, _, f) \<Rightarrow> (case partition_at CHR ''?'' u2 of
             (p, _, q) \<Rightarrow>
               Ok \<lparr>scheme = s, netloc = n, url_path = p, query = q, fragment = f\<rparr>)))"

definition host_port :: "split_result \<Rightarrow> string \<times> string" where
  "host_port r =
     (let info = snd (snd (rpartition_at CHR ''@'' (netloc r))) in
      case partition_at CHR ''['' info of
        (_, True, bracketed) \<Rightarrow>
          (case partition_at CHR '']'' bracketed of
             (h, _, rest) \<Rightarrow> (h, snd (snd (partition_at CHR '':'' rest))))
      | (_, False, _) \<Rightarrow> (case partition_at CHR '':'' info of (h, _, p) \<Rightarrow> (h, p)))"

text \<open>\<open>SplitResult.hostname\<close>: \<^const>\<open>None\<close> when empty; lower case up to a zone identifier.\<close>

definition hostname :: "split_result \<Rightarrow> string option" where
  "hostname r =
     (let h = fst (host_port r) in
      if h = [] then None
      else case partition_at CHR ''%'' h of
        (a, True, z) \<Rightarrow> Some (lower a @ ''%'' @ z)
      | (a, False, _) \<Rightarrow> Some (lower a))"

definition has_userinfo :: "split_result \<Rightarrow> bool" where
  "has_userinfo r = (CHR ''@'' \<in> set (netloc r))"

definition username :: "split_result \<Rightarrow> string option" where
  "username r =
     (case rpartition_at CHR ''@'' (netloc r) of
        (u, True, _) \<Rightarrow> Some (fst (partition_at CHR '':'' u)) | (_, False, _) \<Rightarrow> None)"

definition password :: "split_result \<Rightarrow> string option" where
  "password r =
     (case rpartition_at CHR ''@'' (netloc r) of
        (u, True, _) \<Rightarrow>
          (case partition_at CHR '':'' u of (_, True, p) \<Rightarrow> Some p | (_, False, _) \<Rightarrow> None)
      | (_, False, _) \<Rightarrow> None)"

text \<open>\<open>SplitResult.port\<close> raises ValueError on anything but decimal digits up to 65535.\<close>

definition port :: "split_result \<Rightarrow> int option result" where
  "port r =
     (let p = snd (host_port r) in
      if p = [] then Ok None
      else if \<not> list_all is_digit p then Raise (Value_Error ''Port could not be cast to integer value'')
      else if 65535 < decimal_value p then Raise (Value_Error ''Port out of range 0-65535'')
      else Ok (Some (int (decimal_value p))))"

definition truthy :: "string option \<Rightarrow> bool" where
  "truthy o' = (case o' of None \<Rightarrow> False | Some s \<Rightarrow> s \<noteq> [])"

text \<open>\<open>urlunsplit\<close> for the schemes http and https and a path that is empty or starts with a slash.\<close>

definition urlunsplit :: "string \<Rightarrow> string \<Rightarrow> string \<Rightarrow> string \<Rightarrow> string \<Rightarrow> string" where
  "urlunsplit s n p q f =
     (let u1 = (if n \<noteq> [] \<or> (s \<in> {''http'', ''https''} \<and> \<not> starts_with p ''//'')
                then ''//'' @ n @ (if p \<noteq> [] \<and> \<not> starts_with p ''/'' then CHR ''/'' # p else p) else p);
          u2 = (if s \<noteq> [] then s @ '':'' @ u1 else u1);
          u3 = (if q \<noteq> [] then u2 @ ''?'' @ q else u2)
      in if f \<noteq> [] then u3 @ ''#'' @ f else u3)"

text \<open>\<open>urljoin\<close> for a base whose scheme is http or https. A path may end in parameters after a semicolon.\<close>

definition split_params :: "string \<Rightarrow> string \<times> string" where
  "split_params p =
     (case rpartition_at CHR ''/'' p of
        (dir, True, leaf) \<Rightarrow>
          (case partition_at CHR '';'' leaf of
             (a, True, b) \<Rightarrow> (dir @ ''/'' @ a, b) | (_, False, _) \<Rightarrow> (p, []))
      | (_, False, _) \<Rightarrow> (case partition_at CHR '';'' p of (a, _, b) \<Rightarrow> (a, b)))"

definition urlunparse :: "string \<Rightarrow> string \<Rightarrow> string \<Rightarrow> string \<Rightarrow> string \<Rightarrow> string \<Rightarrow> string" where
  "urlunparse s n p params q f = urlunsplit s n (if params = [] then p else p @ '';'' @ params) q f"

fun resolve_segments :: "string list \<Rightarrow> string list \<Rightarrow> string list" where
  "resolve_segments acc [] = rev acc"
| "resolve_segments acc (seg # segs) =
     (if seg = ''..'' then resolve_segments (tl acc) segs
      else if seg = ''.'' then resolve_segments acc segs
      else resolve_segments (seg # acc) segs)"

definition filter_inner :: "string list \<Rightarrow> string list" where
  "filter_inner segs =
     (if length segs \<le> 1 then segs
      else hd segs # filter (\<lambda>s. s \<noteq> []) (butlast (tl segs)) @ [last segs])"

definition join_path :: "string \<Rightarrow> string \<Rightarrow> string" where
  "join_path bpath path =
     (let parts = split_on CHR ''/'' bpath;
          base_parts = (if last parts \<noteq> [] then butlast parts else parts);
          segs = (if starts_with path ''/'' then split_on CHR ''/'' path
                  else filter_inner (base_parts @ split_on CHR ''/'' path));
          resolved = resolve_segments [] segs
            @ (if last segs \<in> {''.'', ''..''} then [[]] else []);
          joined = join ''/'' resolved
      in if joined = [] then ''/'' else joined)"

definition urljoin :: "string \<Rightarrow> string \<Rightarrow> string result" where
  "urljoin base url =
     (if base = [] then Ok url
      else if url = [] then Ok base
      else rbind (urlsplit base) (\<lambda>b. rbind (urlsplit url) (\<lambda>u.
        let s = (if scheme u = [] then scheme b else scheme u);
            (bpath, bparams) = split_params (url_path b);
            (path, params) = (if s \<in> {''http'', ''https''} then split_params (url_path u) else (url_path u, []))
        in if s \<noteq> scheme b then Ok url
           else if netloc u \<noteq> [] then Ok (urlunparse s (netloc u) path params (query u) (fragment u))
           else if path = [] \<and> params = []
           then Ok (urlunparse s (netloc b) bpath bparams (if query u = [] then query b else query u) (fragment u))
           else Ok (urlunparse s (netloc b) (join_path bpath path) params (query u) (fragment u)))))"

text \<open>\<open>SplitResult.geturl()\<close>\<close>

definition geturl :: "split_result \<Rightarrow> string" where
  "geturl r = urlunsplit (scheme r) (netloc r) (url_path r) (query r) (fragment r)"

definition hex_value :: "char \<Rightarrow> nat" where
  "hex_value c = (if is_digit c then ord c - 48 else if in_range 65 70 c then ord c - 55 else ord c - 87)"

fun unquote :: "string \<Rightarrow> string" where
  "unquote (c # a # b # s) =
     (if c = CHR ''%'' \<and> is_hex a \<and> is_hex b
      then char_of (16 * hex_value a + hex_value b) # unquote s
      else c # unquote (a # b # s))"
| "unquote s = s"

section \<open>Facts\<close>

definition loopback_hosts :: "string set" where
  "loopback_hosts = {''localhost'', ''127.0.0.1'', ''::1''}"

definition is_loopback_host :: "string option \<Rightarrow> bool" where
  "is_loopback_host h = (h \<in> {Some ''localhost'', Some ''127.0.0.1'', Some ''::1''})"

lemma rpartition_at_no_sep: "d \<notin> set s \<Longrightarrow> rpartition_at d s = ([], False, s)"
  by (simp add: rpartition_at_def partition_at_not_found)

lemma rpartition_at_found_iff: "fst (snd (rpartition_at d s)) \<longleftrightarrow> d \<in> set s"
proof (cases "partition_at d (rev s)")
  case (fields a f b)
  then show ?thesis
    using partition_at_found [of d "rev s" a b] partition_at_missing [of d "rev s" a b]
    by (cases f) (auto simp: rpartition_at_def dest: arg_cong [where f = set])
qed

lemma has_userinfo_username: "has_userinfo r \<longleftrightarrow> username r \<noteq> None"
  using rpartition_at_found_iff [of "CHR ''@''" "netloc r"]
  by (auto simp: has_userinfo_def username_def split: prod.splits bool.splits)

lemma no_userinfo: "\<not> has_userinfo r \<Longrightarrow> username r = None \<and> password r = None"
  by (simp add: has_userinfo_def username_def password_def rpartition_at_no_sep)

lemma urlsplit_netloc_ends:
  "urlsplit u = Inr r \<Longrightarrow> c \<in> set (netloc r) \<Longrightarrow> c \<notin> set ''/?#''"
  by (auto simp: urlsplit_def netloc_end_def Let_def split: prod.splits if_splits
      dest!: set_takeWhileD)

lemma urlsplit_query_no_hash: "urlsplit u = Inr r \<Longrightarrow> CHR ''?'' \<notin> set (url_path r)"
proof -
  assume a: "urlsplit u = Inr r"
  have "\<And>s p f q. partition_at CHR ''?'' s = (p, f, q) \<Longrightarrow> CHR ''?'' \<notin> set p"
    by (metis (full_types) partition_at_found partition_at_missing)
  with a show ?thesis
    by (auto simp: urlsplit_def Let_def split: prod.splits if_splits)
qed

lemma sanitize_visible: "list_all (in_range 33 126) u \<Longrightarrow> sanitize u = u"
proof -
  assume a: "list_all (in_range 33 126) u"
  then have "dropWhile (\<lambda>c. ord c \<le> 32) u = u"
    by (cases u) (auto simp: in_range_def)
  moreover have "filter (\<lambda>c. ord c \<noteq> 9 \<and> ord c \<noteq> 10 \<and> ord c \<noteq> 13) u = u"
    using a by (auto simp: filter_id_conv list_all_iff in_range_def)
  ultimately show ?thesis by (simp add: sanitize_def lstrip_by_def)
qed

lemma take_scheme_none: "take_scheme (''//'' @ h) = ([], ''//'' @ h)"
  by (auto simp: take_scheme_def is_alpha_def is_upper_def is_lower_def in_range_def split: prod.splits bool.splits)

lemma take_scheme_http:
  "s \<in> {''http'', ''https''} \<Longrightarrow> take_scheme (s @ '':'' @ u) = (s, u)"
proof -
  assume "s \<in> {''http'', ''https''}"
  moreover have "lower ''http'' = ''http''" "lower ''https'' = ''https''" 
    "list_all scheme_char ''http''" "list_all scheme_char ''https''" "is_alpha CHR ''h''"
    by code_simp+
  ultimately show ?thesis by (auto simp: take_scheme_def)
qed

lemma urlsplit_parts:
  assumes "take_scheme (sanitize u) = (s, ''//'' @ n @ p)"
    and "list_all (\<lambda>c. \<not> netloc_end c) n" and "p = [] \<or> starts_with p ''/''"
    and "CHR ''?'' \<notin> set p" and "CHR ''#'' \<notin> set p" and "netloc_ok n"
  shows "urlsplit u = Inr \<lparr>scheme = s, netloc = n, url_path = p, query = [], fragment = []\<rparr>"
proof -
  have "p \<noteq> [] \<Longrightarrow> netloc_end (hd p)" using assms(3) by (cases p) (auto simp: netloc_end_def)
  then have "takeWhile (\<lambda>c. \<not> netloc_end c) (n @ p) = n \<and> dropWhile (\<lambda>c. \<not> netloc_end c) (n @ p) = p"
    using assms(2) takeWhile_all [of "\<lambda>c. \<not> netloc_end c" n p] by simp
  with assms show ?thesis
    by (simp add: urlsplit_def partition_at_not_found)
qed

lemma urlsplit_bare_netloc:
  assumes "urlsplit (''//'' @ h) = Inr r" and "list_all (in_range 33 126) h"
    and "url_path r = []" and "CHR ''?'' \<notin> set h" and "CHR ''#'' \<notin> set h"
  shows "netloc r = h \<and> netloc_ok h \<and> list_all (\<lambda>c. \<not> netloc_end c) h"
proof -
  let ?rest = "dropWhile (\<lambda>c. \<not> netloc_end c) h"
  have v: "list_all (in_range 33 126) (''//'' @ h)" using assms(2) by (simp add: in_range_def)
  have "set ?rest \<subseteq> set h" by (auto dest: set_dropWhileD)
  then have "CHR ''?'' \<notin> set ?rest" "CHR ''#'' \<notin> set ?rest" using assms(4,5) by auto
  then have "urlsplit (''//'' @ h) = (if netloc_ok (takeWhile (\<lambda>c. \<not> netloc_end c) h)
      then Inr \<lparr>scheme = [], netloc = takeWhile (\<lambda>c. \<not> netloc_end c) h, url_path = ?rest, query = [], fragment = []\<rparr>
      else Inl (Value_Error ''Invalid IPv6 URL''))"
    unfolding urlsplit_def sanitize_visible [OF v] take_scheme_none
    by (simp add: partition_at_not_found)
  with assms(1,3) have r: "?rest = []" "netloc_ok (takeWhile (\<lambda>c. \<not> netloc_end c) h)"
      "netloc r = takeWhile (\<lambda>c. \<not> netloc_end c) h"
    by (auto split: if_splits)
  from r(1) have "list_all (\<lambda>c. \<not> netloc_end c) h" by (simp add: dropWhile_eq_Nil_conv list_all_iff)
  moreover from this have "takeWhile (\<lambda>c. \<not> netloc_end c) h = h" by (simp add: takeWhile_eq_all_conv list_all_iff)
  ultimately show ?thesis using r by metis
qed

lemma unquote_keeps:
  "c \<in> set s \<Longrightarrow> \<not> is_hex c \<Longrightarrow> c \<noteq> CHR ''%'' \<Longrightarrow> c \<in> set (unquote s)"
  by (induction s rule: unquote.induct) auto

lemma urlsplit_take_scheme:
  "urlsplit u = Inr r \<Longrightarrow> scheme r = fst (take_scheme (sanitize u))"
  by (auto simp: urlsplit_def Let_def split: prod.splits if_splits)

lemma port_nonneg: "port r = Inr (Some n) \<Longrightarrow> 0 \<le> n \<and> n \<le> 65535"
  by (auto simp: port_def Let_def split: if_splits)

definition effective_port :: "split_result \<Rightarrow> int \<Rightarrow> bool" where
  "effective_port r n = (\<exists>p. port r = Inr p \<and>
     n = (case p of Some k \<Rightarrow> k | None \<Rightarrow> if scheme r = ''https'' then 443 else 80))"

lemma urlsplit_scheme:
  assumes "s \<in> {''http'', ''https''}" and "list_all (in_range 33 126) host"
    and "urlsplit (s @ ''://'' @ host) = Inr r"
  shows "scheme r = s"
proof -
  have "list_all (in_range 33 126) ''http''" "list_all (in_range 33 126) ''https''" "list_all (in_range 33 126) ''://''"
    by code_simp+
  then have "list_all (in_range 33 126) (s @ '':'' @ (''//'' @ host))" using assms(1,2) by auto
  moreover have "take_scheme (s @ '':'' @ (''//'' @ host)) = (s, ''//'' @ host)"
    by (rule take_scheme_http) (use assms in simp)
  ultimately show ?thesis
    using urlsplit_take_scheme [OF assms(3)] by (simp add: sanitize_visible)
qed
end
