(* ===== verification/Model_Syntax.thy ===== *)
theory Model_Syntax
  imports Url
begin

text \<open>
  The lexical layer of \<^verbatim>\<open>core/models.py\<close> and \<^verbatim>\<open>core/constants.py\<close>: the compiled patterns, the
  string enumerations, and the helper predicates at the end of the file (endpoint paths, RFC 3339
  times, resource URIs, mailboxes).
\<close>

section \<open>constants.py\<close>

definition AEP_VERSION :: string where "AEP_VERSION = ''1.0''"
definition AEP_MEDIA_TYPE :: string where "AEP_MEDIA_TYPE = ''application/aep+json''"
definition AEP_PROBLEM_MEDIA_TYPE :: string where "AEP_PROBLEM_MEDIA_TYPE = ''application/problem+json''"
definition AEP_AUTHORIZATION_HEADER :: string where "AEP_AUTHORIZATION_HEADER = ''AEP-Authorization''"
definition AEP_WELL_KNOWN_PATH :: string where "AEP_WELL_KNOWN_PATH = ''/.well-known/aep''"
definition DEFAULT_HTTP_ENDPOINT_BASE :: string where "DEFAULT_HTTP_ENDPOINT_BASE = ''/aep/''"
definition AEP_SERVICE_DOCUMENTS_EXTENSION :: string where
  "AEP_SERVICE_DOCUMENTS_EXTENSION = ''urn:aep:ext:aep-foundation:service-documents#v=1.0.0''"
definition MAX_SERVICE_DOCUMENT_BYTES :: nat where "MAX_SERVICE_DOCUMENT_BYTES = 1048576"
definition AEP_SIGNING_ALGORITHMS :: "string list" where "AEP_SIGNING_ALGORITHMS = [''EdDSA'', ''ES256'']"
definition AEP_AUTHENTICATION_METHOD_JWT :: string where "AEP_AUTHENTICATION_METHOD_JWT = ''aep-jwt''"
definition AEP_CLAIM_NAMES :: "string list" where
  "AEP_CLAIM_NAMES = [''contact.address.primary'', ''contact.email'', ''contact.mobile'',
     ''person.birthdate'', ''person.first_name'', ''person.last_name'', ''person.username'']"
definition AEP_GRANT_TYPE_OAUTH_BEARER :: string where "AEP_GRANT_TYPE_OAUTH_BEARER = ''oauth-bearer''"
definition AEP_GRANT_TYPE_API_KEY :: string where "AEP_GRANT_TYPE_API_KEY = ''api-key''"
definition AEP_GRANT_TYPE_BASIC :: string where "AEP_GRANT_TYPE_BASIC = ''basic''"

section \<open>Patterns\<close>

definition lower_alnum :: "(nat \<times> nat) list" where
  "lower_alnum = [rng CHR ''a'' CHR ''z'', rng CHR ''0'' CHR ''9'']"
definition digits09 :: "(nat \<times> nat) list" where "digits09 = [rng CHR ''0'' CHR ''9'']"
definition alnum :: "(nat \<times> nat) list" where
  "alnum = [rng CHR ''A'' CHR ''Z'', rng CHR ''a'' CHR ''z'', rng CHR ''0'' CHR ''9'']"

definition IDENTIFIER_PATTERN :: regex where
  "IDENTIFIER_PATTERN =
     Seq (Plus (Cls lower_alnum)) (Many (Seq (Lit ''-'') (Plus (Cls lower_alnum))))"

definition claim_word :: regex where
  "claim_word = Seq (Cls [rng CHR ''a'' CHR ''z''])
     (Many (Cls [rng CHR ''a'' CHR ''z'', rng CHR ''0'' CHR ''9'', rng CHR ''_'' CHR ''_'']))"

definition CLAIM_NAME_PATTERN :: regex where
  "CLAIM_NAME_PATTERN = Seq claim_word (Many (Seq (Lit ''.'') claim_word))"

definition IDENTITY_METHOD_PATTERN :: regex where
  "IDENTITY_METHOD_PATTERN = Cat [Plus (Cls lower_alnum),
     Many (Seq (Lit '':'') (Plus (Cls lower_alnum))), Many (Seq (Lit ''-'') (Plus (Cls lower_alnum)))]"

definition decimal_integer :: regex where
  "decimal_integer = AnyOf [Lit ''0'', Seq (Cls [rng CHR ''1'' CHR ''9'']) (Many (Cls digits09))]"

definition VERSION_PATTERN :: regex where
  "VERSION_PATTERN = Cat [decimal_integer, Lit ''.'', decimal_integer]"

definition E164_PATTERN :: regex where
  "E164_PATTERN = Cat [Lit ''+'', Cls [rng CHR ''1'' CHR ''9''],
     Seq (Cls digits09) (UpTo 13 (Cls digits09))]"

definition COUNTRY_PATTERN :: regex where
  "COUNTRY_PATTERN = Times 2 (Cls [rng CHR ''A'' CHR ''Z''])"

definition BODY_HASH_PATTERN :: regex where
  "BODY_HASH_PATTERN = Seq (Lit ''sha256:'')
     (Times 64 (Cls [rng CHR ''0'' CHR ''9'', rng CHR ''a'' CHR ''f'']))"

definition ERROR_CODE_PATTERN :: regex where
  "ERROR_CODE_PATTERN = claim_word"

definition token_chars :: "(nat \<times> nat) list" where
  "token_chars = singles ''!#$%&*+.^_`|~-'' @ [(39, 39)] @ alnum"

definition HTTP_FIELD_NAME_PATTERN :: regex where
  "HTTP_FIELD_NAME_PATTERN = Plus (Cls token_chars)"

definition NON_NEGATIVE_INTEGER_PATTERN :: regex where
  "NON_NEGATIVE_INTEGER_PATTERN = decimal_integer"

definition POSITIVE_SECONDS_PATTERN :: regex where
  "POSITIVE_SECONDS_PATTERN = AnyOf [Cls [rng CHR ''1'' CHR ''9''],
     Seq (Cls [rng CHR ''1'' CHR ''9'']) (Cls digits09),
     Seq (Cls [rng CHR ''1'' CHR ''2'']) (Times 2 (Cls digits09)), Lit ''300'']"

definition RFC3339_FULL_DATE_PATTERN :: regex where
  "RFC3339_FULL_DATE_PATTERN = Cat [Times 4 (Cls digits09), Lit ''-'', Times 2 (Cls digits09),
     Lit ''-'', Times 2 (Cls digits09)]"

definition RFC3339_DATETIME_PATTERN :: regex where
  "RFC3339_DATETIME_PATTERN = Cat [RFC3339_FULL_DATE_PATTERN, Cls (singles ''Tt''),
     Times 2 (Cls digits09), Lit '':'', Times 2 (Cls digits09), Lit '':'', Times 2 (Cls digits09),
     Opt (Seq (Lit ''.'') (Plus (Cls digits09))),
     AnyOf [Cls (singles ''Zz''),
       Cat [Cls (singles ''+-''),
         AnyOf [Seq (Cls [rng CHR ''0'' CHR ''1'']) (Cls digits09),
                Seq (Lit ''2'') (Cls [rng CHR ''0'' CHR ''3''])],
         Lit '':'', Cls [rng CHR ''0'' CHR ''5''], Cls digits09]]]"

definition URI_SCHEME_PATTERN :: regex where
  "URI_SCHEME_PATTERN = Seq (Cls [rng CHR ''A'' CHR ''Z'', rng CHR ''a'' CHR ''z''])
     (Many (Cls (alnum @ singles ''+.-'')))"

definition DOCUMENT_ID_PATTERN :: regex where
  "DOCUMENT_ID_PATTERN = Seq (Cls alnum) (UpTo 31 (Cls (alnum @ singles ''._-'')))"

definition media_word :: regex where
  "media_word = Seq (Cls lower_alnum) (Many (Cls (lower_alnum @ singles ''!#$&^_.+-'')))"

definition MEDIA_TYPE_NAME_PATTERN :: regex where
  "MEDIA_TYPE_NAME_PATTERN = Cat [media_word, Lit ''/'', media_word]"

definition DOCUMENT_TYPE_PATTERN :: regex where
  "DOCUMENT_TYPE_PATTERN = claim_word"

section \<open>Enumerations\<close>

text \<open>A \<open>StrEnum\<close> is a datatype with the wire value of each member.\<close>

datatype command = Cmd_Inspect | Cmd_Enroll | Cmd_Grant | Cmd_Revoke | Cmd_Status

fun command_value :: "command \<Rightarrow> string" where
  "command_value Cmd_Inspect = ''inspect''"
| "command_value Cmd_Enroll = ''enroll''"
| "command_value Cmd_Grant = ''grant''"
| "command_value Cmd_Revoke = ''revoke''"
| "command_value Cmd_Status = ''status''"

datatype assertion_operation = Op_Enroll | Op_Grant | Op_Revoke | Op_Status | Op_Authenticate

fun operation_value :: "assertion_operation \<Rightarrow> string" where
  "operation_value Op_Enroll = ''enroll''"
| "operation_value Op_Grant = ''grant''"
| "operation_value Op_Revoke = ''revoke''"
| "operation_value Op_Status = ''status''"
| "operation_value Op_Authenticate = ''authenticate''"

datatype agent_status =
  Agent_Active | Agent_Pending | Agent_Rejected | Agent_Suspended | Agent_Terminated | Agent_Unavailable

fun agent_status_value :: "agent_status \<Rightarrow> string" where
  "agent_status_value Agent_Active = ''active''"
| "agent_status_value Agent_Pending = ''pending''"
| "agent_status_value Agent_Rejected = ''rejected''"
| "agent_status_value Agent_Suspended = ''suspended''"
| "agent_status_value Agent_Terminated = ''terminated''"
| "agent_status_value Agent_Unavailable = ''unavailable''"

datatype decision_status = Decision_Active | Decision_Pending | Decision_Rejected

text \<open>\<open>AgentStatus(decision.status.value)\<close>\<close>

fun agent_status_of_decision :: "decision_status \<Rightarrow> agent_status" where
  "agent_status_of_decision Decision_Active = Agent_Active"
| "agent_status_of_decision Decision_Pending = Agent_Pending"
| "agent_status_of_decision Decision_Rejected = Agent_Rejected"

datatype managed_status = Managed_Active | Managed_Revoked | Managed_Suspended | Managed_Terminated

fun managed_status_value :: "managed_status \<Rightarrow> string" where
  "managed_status_value Managed_Active = ''active''"
| "managed_status_value Managed_Revoked = ''revoked''"
| "managed_status_value Managed_Suspended = ''suspended''"
| "managed_status_value Managed_Terminated = ''terminated''"

datatype signing_algorithm = EdDSA | ES256

fun algorithm_value :: "signing_algorithm \<Rightarrow> string" where
  "algorithm_value EdDSA = ''EdDSA''"
| "algorithm_value ES256 = ''ES256''"

datatype trailing_slash = Slash_Strict | Slash_Equivalent

fun trailing_slash_value :: "trailing_slash \<Rightarrow> string" where
  "trailing_slash_value Slash_Strict = ''strict''"
| "trailing_slash_value Slash_Equivalent = ''equivalent''"

datatype carrier = Carrier_Standard | Carrier_Dedicated

fun carrier_value :: "carrier \<Rightarrow> string" where
  "carrier_value Carrier_Standard = ''Authorization''"
| "carrier_value Carrier_Dedicated = ''AEP-Authorization''"

datatype auth_scheme = Scheme_AEP | Scheme_Bearer | Scheme_Basic

fun scheme_value :: "auth_scheme \<Rightarrow> string" where
  "scheme_value Scheme_AEP = ''AEP''"
| "scheme_value Scheme_Bearer = ''Bearer''"
| "scheme_value Scheme_Basic = ''Basic''"

text \<open>Calling the enumeration with a value: the member that has it.\<close>

definition enum_of :: "('a \<Rightarrow> string) \<Rightarrow> 'a list \<Rightarrow> string \<Rightarrow> 'a option" where
  "enum_of val members s = find (\<lambda>m. val m = s) members"

definition all_commands :: "command list" where
  "all_commands = [Cmd_Inspect, Cmd_Enroll, Cmd_Grant, Cmd_Revoke, Cmd_Status]"
definition all_operations :: "assertion_operation list" where
  "all_operations = [Op_Enroll, Op_Grant, Op_Revoke, Op_Status, Op_Authenticate]"
definition all_agent_statuses :: "agent_status list" where
  "all_agent_statuses = [Agent_Active, Agent_Pending, Agent_Rejected, Agent_Suspended,
     Agent_Terminated, Agent_Unavailable]"
definition all_managed_statuses :: "managed_status list" where
  "all_managed_statuses = [Managed_Active, Managed_Revoked, Managed_Suspended, Managed_Terminated]"
definition all_algorithms :: "signing_algorithm list" where "all_algorithms = [EdDSA, ES256]"
definition all_trailing_slashes :: "trailing_slash list" where
  "all_trailing_slashes = [Slash_Strict, Slash_Equivalent]"

lemma enum_of_value:
  assumes "m \<in> set members" and "inj_on val (set members)"
  shows "enum_of val members (val m) = Some m"
proof -
  have "enum_of val members (val m) \<noteq> None"
    using assms(1) by (auto simp: enum_of_def find_None_iff)
  then obtain m' where "enum_of val members (val m) = Some m'" by blast
  moreover from this have "m' \<in> set members" "val m' = val m"
    unfolding enum_of_def find_Some_iff by auto
  ultimately show ?thesis using assms inj_onD by metis
qed

lemma enum_of_operation [simp]: "enum_of operation_value all_operations (operation_value x) = Some x"
  by (cases x) (simp_all add: enum_of_def all_operations_def)

lemma enum_of_agent_status [simp]:
  "enum_of agent_status_value all_agent_statuses (agent_status_value x) = Some x"
  by (cases x) (simp_all add: enum_of_def all_agent_statuses_def)

lemma enum_of_managed_status [simp]:
  "enum_of managed_status_value all_managed_statuses (managed_status_value x) = Some x"
  by (cases x) (simp_all add: enum_of_def all_managed_statuses_def)

lemma enum_of_algorithm [simp]: "enum_of algorithm_value all_algorithms (algorithm_value x) = Some x"
  by (cases x) (simp_all add: enum_of_def all_algorithms_def)

lemma enum_of_trailing_slash [simp]:
  "enum_of trailing_slash_value all_trailing_slashes (trailing_slash_value x) = Some x"
  by (cases x) (simp_all add: enum_of_def all_trailing_slashes_def)

lemma enum_of_Some: "enum_of val ms s = Some m \<Longrightarrow> val m = s \<and> m \<in> set ms"
  by (auto simp: enum_of_def find_Some_iff)

section \<open>Helper predicates\<close>

text \<open>\<open>_is_endpoint_path\<close>, repeated in \<^verbatim>\<open>core/http.py\<close> as \<open>is_endpoint_path\<close>.\<close>

definition is_endpoint_path :: "string \<Rightarrow> bool" where
  "is_endpoint_path v =
     (if \<not> starts_with v ''/'' \<or> starts_with v ''//'' then False
      else if CHR ''?'' \<in> set v \<or> CHR ''#'' \<in> set v then False
      else \<not> list_ex (\<lambda>segment. segment \<in> {''.'', ''..''}) (split_on CHR ''/'' v))"

definition require_identifiers :: "string list \<Rightarrow> string \<Rightarrow> bool \<Rightarrow> unit result" where
  "require_identifiers values name unique =
     (if list_ex (\<lambda>v. \<not> fullmatch IDENTIFIER_PATTERN v) values
      then Raise (Value_Error (name @ '' uses the registered identifier syntax''))
      else if unique \<and> \<not> distinct values
      then Raise (Value_Error (name @ '' must contain unique values''))
      else Ok ())"

definition require_did :: "string \<Rightarrow> string \<Rightarrow> unit result" where
  "require_did v name = require (starts_with v ''did:'') (Value_Error (name @ '' must be a DID''))"

definition require_https_uri :: "string \<Rightarrow> string \<Rightarrow> unit result" where
  "require_https_uri v name = rbind (urlsplit v) (\<lambda>parsed.
     require (\<not> (scheme parsed \<noteq> ''https'' \<or> \<not> truthy (hostname parsed) \<or> CHR ''#'' \<in> set v
                \<or> truthy (username parsed) \<or> truthy (password parsed)))
       (Value_Error (name @ '' must be an absolute HTTPS URI without a fragment or user info'')))"

definition require_resource_uri :: "string \<Rightarrow> string \<Rightarrow> bool \<Rightarrow> unit result" where
  "require_resource_uri v name allow_insecure_loopback = rbind (urlsplit v) (\<lambda>parsed.
     let secure = (scheme parsed = ''https'');
         loopback = (allow_insecure_loopback \<and> scheme parsed = ''http'' \<and> is_loopback_host (hostname parsed))
     in require (\<not> ((\<not> secure \<and> \<not> loopback) \<or> \<not> truthy (hostname parsed) \<or> CHR ''#'' \<in> set v
                  \<or> username parsed \<noteq> None \<or> password parsed \<noteq> None))
          (Value_Error (name @ '' must be an absolute HTTPS URI without a fragment or user info'')))"

definition normalize_resource_uri :: "string \<Rightarrow> bool \<Rightarrow> string result" where
  "normalize_resource_uri v allow_insecure_loopback =
     rbind (require_resource_uri v ''resource'' allow_insecure_loopback) (\<lambda>_.
     rbind (urlsplit v) (\<lambda>parsed.
     let host = (case hostname parsed of None \<Rightarrow> [] | Some h \<Rightarrow> h);
         authority = (if CHR '':'' \<in> set host then ''['' @ host @ '']'' else host)
     in rbind (port parsed) (\<lambda>p.
        let authority' = (case p of
              Some n \<Rightarrow> if n \<noteq> (if scheme parsed = ''https'' then 443 else 80)
                        then authority @ '':'' @ show_int n else authority
            | None \<Rightarrow> authority);
            normalized = urlunsplit (scheme parsed) authority'
              (if url_path parsed = [] then ''/'' else url_path parsed) (query parsed) []
        in Ok (if CHR ''?'' \<in> set v \<and> query parsed = [] then normalized @ ''?'' else normalized))))"

definition validate_operation_resource :: "assertion_operation \<Rightarrow> string option \<Rightarrow> unit result" where
  "validate_operation_resource op resource =
     (if op = Op_Authenticate then
        (case resource of
           None \<Rightarrow> Raise (Value_Error ''authenticate requires resource'')
         | Some r \<Rightarrow> require_https_uri r ''resource'')
      else require (resource = None) (Value_Error ''resource is only valid for authenticate''))"

definition is_absolute_uri :: "string \<Rightarrow> bool" where
  "is_absolute_uri v =
     (if list_ex is_space v then False
      else case partition_at CHR '':'' v of
        (s, separator, remainder) \<Rightarrow> separator \<and> remainder \<noteq> [] \<and> fullmatch URI_SCHEME_PATTERN s)"

definition contains_control_character :: "string \<Rightarrow> bool" where
  "contains_control_character v = list_ex (\<lambda>c. ord c < 32 \<or> ord c = 127) v"

definition is_ascii_alphanumeric :: "char \<Rightarrow> bool" where
  "is_ascii_alphanumeric c = (is_alpha c \<or> is_digit c)"

section \<open>RFC 3339 times\<close>

definition days_before_year :: "int \<Rightarrow> int" where
  "days_before_year y = (let p = y - 1 in p * 365 + p div 4 - p div 100 + p div 400)"

definition is_leap :: "int \<Rightarrow> bool" where
  "is_leap y = (y mod 4 = 0 \<and> (y mod 100 \<noteq> 0 \<or> y mod 400 = 0))"

definition month_lengths :: "int \<Rightarrow> int list" where
  "month_lengths y = [31, if is_leap y then 29 else 28, 31, 30, 31, 30, 31, 31, 30, 31, 30, 31]"

definition valid_date :: "int \<Rightarrow> int \<Rightarrow> int \<Rightarrow> bool" where
  "valid_date y m d = (1 \<le> y \<and> 1 \<le> m \<and> m \<le> 12 \<and> 1 \<le> d \<and> d \<le> month_lengths y ! nat (m - 1))"

text \<open>Days since 1970-01-01 in the proleptic Gregorian calendar.\<close>

definition epoch_day :: "int \<Rightarrow> int \<Rightarrow> int \<Rightarrow> int" where
  "epoch_day y m d = days_before_year y + sum_list (take (nat (m - 1)) (month_lengths y)) + d - 719163"

definition digits_at :: "nat \<Rightarrow> nat \<Rightarrow> string \<Rightarrow> int" where
  "digits_at i n s = int (decimal_value (take n (drop i s)))"

definition parse_full_date :: "string \<Rightarrow> int result" where
  "parse_full_date v =
     (if \<not> fullmatch RFC3339_FULL_DATE_PATTERN v then Raise (Value_Error ''invalid RFC 3339 full-date'')
      else let y = digits_at 0 4 v; m = digits_at 5 2 v; d = digits_at 8 2 v in
        if valid_date y m d then Ok (epoch_day y m d) else Raise (Value_Error ''day is out of range''))"

definition offset_seconds :: "string \<Rightarrow> int" where
  "offset_seconds z =
     (if hd z \<in> set ''Zz'' then 0
      else (if hd z = CHR ''-'' then -1 else 1) * (digits_at 1 2 z * 3600 + digits_at 4 2 z * 60))"

text \<open>\<open>datetime.fromisoformat\<close> keeps six fraction digits and drops the rest.\<close>

definition parse_rfc3339 :: "string \<Rightarrow> datetime result" where
  "parse_rfc3339 v =
     (if \<not> fullmatch RFC3339_DATETIME_PATTERN v then Raise (Value_Error ''invalid RFC 3339 date-time'')
      else
        let y = digits_at 0 4 v; m = digits_at 5 2 v; d = digits_at 8 2 v;
            hh = digits_at 11 2 v; mm = digits_at 14 2 v; ss = digits_at 17 2 v;
            rest = drop 19 v;
            dotted = starts_with rest ''.'';
            frac = (if dotted then takeWhile is_digit (tl rest) else []);
            z = (if dotted then dropWhile is_digit (tl rest) else rest);
            off = offset_seconds z
        in if valid_date y m d \<and> hh \<le> 23 \<and> mm \<le> 59 \<and> ss \<le> 59
           then Ok \<lparr>instant =
               seconds (epoch_day y m d * 86400 + hh * 3600 + mm * 60 + ss - off)
                 + int (decimal_value (take 6 (frac @ ''000000''))),
               utcoffset = Some off\<rparr>
           else Raise (Value_Error ''value is out of range''))"

definition require_datetime :: "string \<Rightarrow> string \<Rightarrow> unit result" where
  "require_datetime v name =
     (case parse_rfc3339 v of
        Inl _ \<Rightarrow> Raise (Value_Error (name @ '' must be an RFC 3339 date-time''))
      | Inr _ \<Rightarrow> Ok ())"

section \<open>Mailboxes\<close>

definition atext :: "(nat \<times> nat) list" where
  "atext = alnum @ singles ''!#$%&*+/=?^_`{|}~-'' @ [(39, 39)]"

definition MAILBOX_LOCAL_PATTERN :: regex where
  "MAILBOX_LOCAL_PATTERN = Alt
     (Seq (Plus (Cls atext)) (Many (Seq (Lit ''.'') (Plus (Cls atext)))))
     (Cat [Cls [(34, 34)],
        Many (Alt (Cls [(32, 33), (35, 91), (93, 126)]) (Seq (Cls [(92, 92)]) (Cls [(32, 126)]))),
        Cls [(34, 34)]])"

definition IPV4_LITERAL_PATTERN :: regex where
  "IPV4_LITERAL_PATTERN =
     (let octet = Seq (Cls digits09) (UpTo 2 (Cls digits09))
      in Seq octet (Times 3 (Seq (Lit ''.'') octet)))"

definition TAGGED_LITERAL_PATTERN :: regex where
  "TAGGED_LITERAL_PATTERN = Cat [Many (Cls (alnum @ singles ''-'')), Cls alnum, Lit '':'',
     Plus (Cls [(33, 90), (94, 126)])]"

definition is_mailbox_literal :: "string \<Rightarrow> bool" where
  "is_mailbox_literal literal =
     (if fullmatch IPV4_LITERAL_PATTERN literal
      then list_all (\<lambda>octet. decimal_value octet \<le> 255) (split_on CHR ''.'' literal)
      else if lower (take 5 literal) = ''ipv6:''
      then ipv6_address_ok (drop 5 literal) \<and> CHR ''%'' \<notin> set literal
      else fullmatch TAGGED_LITERAL_PATTERN literal)"

definition is_mailbox_label :: "string \<Rightarrow> bool" where
  "is_mailbox_label l = (l \<noteq> [] \<and> length l \<le> 63 \<and> is_ascii_alphanumeric (hd l)
     \<and> is_ascii_alphanumeric (last l)
     \<and> list_all (\<lambda>c. is_ascii_alphanumeric c \<or> c = CHR ''-'') l)"

definition is_mailbox :: "string \<Rightarrow> bool" where
  "is_mailbox v =
     (if \<not> isascii v \<or> 320 < length v \<or> CHR ''@'' \<notin> set v then False
      else case rpartition_at CHR ''@'' v of
        (local, separator, domain) \<Rightarrow>
          if \<not> separator \<or> 64 < length local \<or> 255 < length domain then False
          else if \<not> fullmatch MAILBOX_LOCAL_PATTERN local then False
          else if starts_with domain ''['' \<and> ends_with domain '']''
          then is_mailbox_literal (butlast (tl domain))
          else list_all is_mailbox_label (split_on CHR ''.'' domain))"

end
