(* ===== verification/Model_Base.thy ===== *)
theory Model_Base
  imports Json Model_Syntax
begin

text \<open>
  The meaning given to the class declarations of \<^verbatim>\<open>core/models.py\<close>. A declaration such as
  \<open>x: str = Field(min_length=1)\<close> is read as pydantic documents it in strict JSON mode: a member
  must have exactly the declared JSON type, an absent optional member takes its default, an absent
  required member is an error, members of other names are kept (\<open>extra="allow"\<close>) or refused
  (\<open>extra="forbid"\<close>). Each class becomes a record, a function \<open>check_\<dots>\<close> for its \<open>Field\<close>
  constraints and \<open>mode="after"\<close> validators, a decoder \<open>\<dots>_of_json\<close> and, where the program
  serialises it, an encoder \<open>\<dots>_to_wire\<close>. \<open>AepModel.reject_explicit_null\<close> is part of
  \<open>aep_members\<close>.
\<close>

named_theorems pydantic_intros \<open>decoders raise nothing but pydantic errors\<close>
named_theorems wire_simps \<open>decoding what an encoder printed\<close>

type_synonym members = "(string \<times> json) list"

definition at_loc :: "loc_part \<Rightarrow> 'a result \<Rightarrow> 'a result" where
  "at_loc l m = (case m of
      Inl (Pydantic_Error items) \<Rightarrow> Inl (Pydantic_Error (map (\<lambda>(loc, msg). (l # loc, msg)) items))
    | _ \<Rightarrow> m)"

definition type_error :: "string \<Rightarrow> 'a result" where
  "type_error msg = Raise (Pydantic_Error [([], msg)])"

text \<open>A ValueError raised by a validator becomes a pydantic error at the level of its class.\<close>

definition in_validator :: "'a result \<Rightarrow> 'a result" where
  "in_validator m = (case m of
      Inl (Value_Error msg) \<Rightarrow> Inl (Pydantic_Error [([], ''Value error, '' @ msg)])
    | _ \<Rightarrow> m)"

text \<open>\<open>AepModel.reject_explicit_null\<close>: a known member must be omitted instead of null unless the class
  lists it in \<open>nullable_fields\<close>.\<close>

definition reject_explicit_null :: "string list \<Rightarrow> string list \<Rightarrow> members \<Rightarrow> unit result" where
  "reject_explicit_null known nulls ms =
     (case find (\<lambda>(k, v). v = JNull \<and> k \<in> set known \<and> k \<notin> set nulls) ms of
        None \<Rightarrow> Ok ()
      | Some (k, _) \<Rightarrow> Raise (Value_Error (k @ '' must be omitted instead of null'')))"

definition aep_members :: "bool \<Rightarrow> string list \<Rightarrow> string list \<Rightarrow> json \<Rightarrow> members result" where
  "aep_members forbid known nulls j = (case j of
      JObj ms \<Rightarrow> rbind (in_validator (reject_explicit_null known nulls ms)) (\<lambda>_.
        if forbid \<and> list_ex (\<lambda>(k, _). k \<notin> set known) ms
        then type_error ''Extra inputs are not permitted'' else Ok ms)
    | _ \<Rightarrow> type_error ''Input should be an object'')"

abbreviation open_members :: "string list \<Rightarrow> json \<Rightarrow> members result" where
  "open_members known \<equiv> aep_members False known []"

abbreviation forbid_members :: "string list \<Rightarrow> json \<Rightarrow> members result" where
  "forbid_members known \<equiv> aep_members True known []"

definition extras :: "string list \<Rightarrow> members \<Rightarrow> members" where
  "extras known ms = filter (\<lambda>(k, _). k \<notin> set known) ms"

section \<open>Fields\<close>

definition field :: "string \<Rightarrow> (json \<Rightarrow> 'a result) \<Rightarrow> members \<Rightarrow> 'a result" where
  "field k dec ms = (case map_of ms k of
      None \<Rightarrow> Raise (Pydantic_Error [([Name k], ''Field required'')])
    | Some j \<Rightarrow> at_loc (Name k) (dec j))"

definition opt_field :: "string \<Rightarrow> (json \<Rightarrow> 'a result) \<Rightarrow> members \<Rightarrow> 'a option result" where
  "opt_field k dec ms = (case map_of ms k of
      None \<Rightarrow> Ok None
    | Some j \<Rightarrow> rbind (at_loc (Name k) (dec j)) (\<lambda>v. Ok (Some v)))"

definition dec_str :: "json \<Rightarrow> string result" where
  "dec_str j = (case j of JStr s \<Rightarrow> Ok s | _ \<Rightarrow> type_error ''Input should be a valid string'')"

definition dec_bool :: "json \<Rightarrow> bool result" where
  "dec_bool j = (case j of JBool b \<Rightarrow> Ok b | _ \<Rightarrow> type_error ''Input should be a valid boolean'')"

definition dec_int :: "json \<Rightarrow> int result" where
  "dec_int j = (case j of JInt i \<Rightarrow> Ok i | _ \<Rightarrow> type_error ''Input should be a valid integer'')"

definition dec_literal :: "string list \<Rightarrow> json \<Rightarrow> string result" where
  "dec_literal vals j = (case j of
      JStr s \<Rightarrow> if s \<in> set vals then Ok s else type_error ''Input should be one of the literals''
    | _ \<Rightarrow> type_error ''Input should be one of the literals'')"

definition dec_enum :: "('a \<Rightarrow> string) \<Rightarrow> 'a list \<Rightarrow> json \<Rightarrow> 'a result" where
  "dec_enum val members j = (case j of
      JStr s \<Rightarrow> (case enum_of val members s of
          Some m \<Rightarrow> Ok m | None \<Rightarrow> type_error ''Input should be a member of the enumeration'')
    | _ \<Rightarrow> type_error ''Input should be a valid string'')"

definition dec_obj :: "json \<Rightarrow> members result" where
  "dec_obj j = (case j of JObj ms \<Rightarrow> Ok ms | _ \<Rightarrow> type_error ''Input should be an object'')"

fun dec_items :: "(json \<Rightarrow> 'a result) \<Rightarrow> int \<Rightarrow> json list \<Rightarrow> 'a list result" where
  "dec_items dec i [] = Ok []"
| "dec_items dec i (j # js) =
     rbind (at_loc (Index i) (dec j)) (\<lambda>v. rbind (dec_items dec (i + 1) js) (\<lambda>vs. Ok (v # vs)))"

text \<open>\<open>_as_tuple\<close>: a JSON array is accepted where a tuple is declared.\<close>

definition dec_tuple :: "(json \<Rightarrow> 'a result) \<Rightarrow> json \<Rightarrow> 'a list result" where
  "dec_tuple dec j = (case j of
      JArr js \<Rightarrow> dec_items dec 0 js | _ \<Rightarrow> type_error ''Input should be a valid tuple'')"

abbreviation dec_strs :: "json \<Rightarrow> string list result" where "dec_strs \<equiv> dec_tuple dec_str"

text \<open>\<open>Field(min_length=lo, max_length=hi)\<close> on strings and tuples.\<close>

definition length_between :: "nat \<Rightarrow> nat option \<Rightarrow> 'a list \<Rightarrow> string \<Rightarrow> unit result" where
  "length_between lo hi xs name =
     (if length xs < lo then Raise (Pydantic_Error [([Name name], ''too short'')])
      else case hi of
        Some n \<Rightarrow> if n < length xs then Raise (Pydantic_Error [([Name name], ''too long'')]) else Ok ()
      | None \<Rightarrow> Ok ())"

definition opt_length_between :: "nat \<Rightarrow> nat option \<Rightarrow> 'a list option \<Rightarrow> string \<Rightarrow> unit result" where
  "opt_length_between lo hi v name =
     (case v of None \<Rightarrow> Ok () | Some xs \<Rightarrow> length_between lo hi xs name)"

definition has_pattern :: "regex \<Rightarrow> string \<Rightarrow> string \<Rightarrow> unit result" where
  "has_pattern r s name =
     require (fullmatch r s) (Pydantic_Error [([Name name], ''String should match pattern'')])"

text \<open>Several checks in order; the first failure is reported.\<close>

fun checks :: "unit result list \<Rightarrow> 'a \<Rightarrow> 'a result" where
  "checks [] v = Ok v"
| "checks (c # cs) v = rbind c (\<lambda>_. checks cs v)"

section \<open>Encoding\<close>

definition enc_strs :: "string list \<Rightarrow> json" where "enc_strs ss = JArr (map JStr ss)"

definition wire :: "string \<Rightarrow> json \<Rightarrow> members" where "wire k j = [(k, j)]"

definition wire_opt :: "string \<Rightarrow> ('a \<Rightarrow> json) \<Rightarrow> 'a option \<Rightarrow> members" where
  "wire_opt k enc v = (case v of None \<Rightarrow> [] | Some x \<Rightarrow> [(k, enc x)])"

section \<open>Facts\<close>

definition pydantic :: "'a result \<Rightarrow> bool" where
  "pydantic m = (\<forall>e. m = Inl e \<longrightarrow> (\<exists>items. e = Pydantic_Error items))"

lemma pydantic_Ok [simp, pydantic_intros]: "pydantic (Inr v)"
  by (simp add: pydantic_def)

lemma pydantic_Raise [simp, pydantic_intros]: "pydantic (Inl (Pydantic_Error items))"
  by (simp add: pydantic_def)

lemma pydantic_type_error [simp, pydantic_intros]: "pydantic (type_error msg)"
  by (simp add: type_error_def)

lemma pydantic_rbind [pydantic_intros]:
  "pydantic m \<Longrightarrow> (\<And>a. pydantic (f a)) \<Longrightarrow> pydantic (rbind m f)"
  by (cases m) (auto simp: pydantic_def)

lemma pydantic_at_loc [pydantic_intros]: "pydantic m \<Longrightarrow> pydantic (at_loc l m)"
  by (cases m) (auto simp: pydantic_def at_loc_def)

text \<open>A validator body raises only ValueError.\<close>

definition validator_body :: "'a result \<Rightarrow> bool" where
  "validator_body m = (\<forall>e. m = Inl e \<longrightarrow> (\<exists>msg. e = Value_Error msg))"

lemma validator_body_simps [simp]:
  "validator_body (Inr v)" "validator_body (Inl (Value_Error msg))"
  "validator_body (require b (Value_Error msg))"
  by (auto simp: validator_body_def)

lemma validator_body_rbind: "validator_body m \<Longrightarrow> (\<And>a. validator_body (f a)) \<Longrightarrow> validator_body (rbind m f)"
  by (cases m) (auto simp: validator_body_def)

lemma pydantic_in_validator [pydantic_intros]: "validator_body m \<Longrightarrow> pydantic (in_validator m)"
  by (cases m) (auto simp: validator_body_def in_validator_def)

lemma pydantic_require [pydantic_intros]: "pydantic (require b (Pydantic_Error items))"
  by (simp add: pydantic_def)

lemma pydantic_checks [pydantic_intros]: "list_all pydantic cs \<Longrightarrow> pydantic (checks cs v)"
  by (induction cs) (auto intro: pydantic_rbind)

lemma pydantic_length_between [simp, pydantic_intros]: "pydantic (length_between lo hi xs name)"
  by (simp add: length_between_def split: option.splits)

lemma pydantic_opt_length_between [simp, pydantic_intros]: "pydantic (opt_length_between lo hi v name)"
  by (simp add: opt_length_between_def split: option.splits)

lemma pydantic_has_pattern [simp, pydantic_intros]: "pydantic (has_pattern r s name)"
  by (simp add: has_pattern_def pydantic_require)

lemma pydantic_field [pydantic_intros]: "(\<And>j. pydantic (dec j)) \<Longrightarrow> pydantic (field k dec ms)"
  by (auto simp: field_def split: option.splits intro: pydantic_at_loc)

lemma pydantic_opt_field [pydantic_intros]: "(\<And>j. pydantic (dec j)) \<Longrightarrow> pydantic (opt_field k dec ms)"
  by (auto simp: opt_field_def split: option.splits intro!: pydantic_intros)

lemma pydantic_decs [simp, pydantic_intros]:
  "pydantic (dec_str j)" "pydantic (dec_bool j)" "pydantic (dec_int j)" "pydantic (dec_literal vals j)"
  "pydantic (dec_enum val ms j)" "pydantic (dec_obj j)"
  by (auto simp: dec_str_def dec_bool_def dec_int_def dec_literal_def dec_enum_def dec_obj_def
      split: json.splits option.splits)

lemma pydantic_dec_items: "(\<And>j. pydantic (dec j)) \<Longrightarrow> pydantic (dec_items dec i js)"
  by (induction dec i js rule: dec_items.induct) (auto intro!: pydantic_intros)

lemma pydantic_dec_tuple [pydantic_intros]: "(\<And>j. pydantic (dec j)) \<Longrightarrow> pydantic (dec_tuple dec j)"
  by (auto simp: dec_tuple_def split: json.splits intro: pydantic_dec_items)

lemma validator_body_reject_null: "validator_body (reject_explicit_null known nulls ms)"
  by (auto simp: reject_explicit_null_def validator_body_def split: option.splits)

lemma pydantic_aep_members [simp, pydantic_intros]: "pydantic (aep_members forbid known nulls j)"
  by (auto simp: aep_members_def split: json.splits intro!: pydantic_intros validator_body_reject_null)

lemma pydantic_decodes: "(\<And>j. pydantic (model j)) \<Longrightarrow> decodes model"
  by (simp add: decodes_def pydantic_def)

lemma in_validator_Ok [simp]: "in_validator m = Inr v \<longleftrightarrow> m = Inr v"
  by (cases m) (auto simp: in_validator_def split: exn.splits)

lemma at_loc_Ok [simp]: "at_loc l m = Inr v \<longleftrightarrow> m = Inr v"
  by (cases m) (auto simp: at_loc_def split: exn.splits)

lemma at_loc_Inr [simp]: "at_loc l (Inr v) = Inr v"
  by (simp add: at_loc_def)

lemma in_validator_Inr [simp]: "in_validator (Inr v) = Inr v"
  by (simp add: in_validator_def)

lemma checks_Ok [simp]: "checks cs v = Inr w \<longleftrightarrow> list_all (\<lambda>c. c = Inr ()) cs \<and> w = v"
  by (induction cs) (auto simp: rbind_Ok_iff)

lemma length_between_Ok [simp]:
  "length_between lo hi xs name = Inr u \<longleftrightarrow>
     lo \<le> length xs \<and> (case hi of None \<Rightarrow> True | Some n \<Rightarrow> length xs \<le> n)"
  by (auto simp: length_between_def split: option.splits)

lemma opt_length_between_Ok [simp]:
  "opt_length_between lo hi v name = Inr u \<longleftrightarrow>
     (case v of None \<Rightarrow> True | Some xs \<Rightarrow>
        lo \<le> length xs \<and> (case hi of None \<Rightarrow> True | Some n \<Rightarrow> length xs \<le> n))"
  by (auto simp: opt_length_between_def split: option.splits)

lemma has_pattern_Ok [simp]: "has_pattern r s name = Inr u \<longleftrightarrow> fullmatch r s"
  by (simp add: has_pattern_def)

lemma reject_explicit_null_Ok:
  "reject_explicit_null known nulls ms = Inr u \<longleftrightarrow>
     (\<forall>(k, v) \<in> set ms. v = JNull \<longrightarrow> k \<in> set known \<longrightarrow> k \<in> set nulls)"
proof (cases "find (\<lambda>(k, v). v = JNull \<and> k \<in> set known \<and> k \<notin> set nulls) ms")
  case None
  then have "\<forall>(k, v) \<in> set ms. v = JNull \<longrightarrow> k \<in> set known \<longrightarrow> k \<in> set nulls"
    unfolding find_None_iff by auto
  with None show ?thesis by (simp add: reject_explicit_null_def)
next
  case (Some p)
  then have "p \<in> set ms" "snd p = JNull \<and> fst p \<in> set known \<and> fst p \<notin> set nulls"
    by (auto simp: find_Some_iff case_prod_unfold)
  with Some show ?thesis
    by (auto simp: reject_explicit_null_def case_prod_unfold intro!: bexI [of _ p])
qed

text \<open>Decoding what was encoded.\<close>

lemma dec_str_JStr [simp, wire_simps]: "dec_str (JStr s) = Inr s"
  by (simp add: dec_str_def)

lemma dec_int_JInt [simp, wire_simps]: "dec_int (JInt i) = Inr i"
  by (simp add: dec_int_def)

lemma dec_bool_JBool [simp, wire_simps]: "dec_bool (JBool b) = Inr b"
  by (simp add: dec_bool_def)

lemma dec_items_map:
  "(\<And>x. x \<in> set xs \<Longrightarrow> dec (enc x) = Inr x) \<Longrightarrow> dec_items dec i (map enc xs) = Inr xs"
  by (induction xs arbitrary: i) auto

lemma dec_strs_enc [simp, wire_simps]: "dec_tuple dec_str (enc_strs ss) = Inr ss"
  by (simp add: dec_tuple_def enc_strs_def dec_items_map)

lemma enc_strs_not_null [simp]: "enc_strs ss \<noteq> JNull" "JNull \<noteq> enc_strs ss"
  by (simp_all add: enc_strs_def)

lemma map_of_wire [simp]: "map_of (wire k j) = [k \<mapsto> j]"
  by (simp add: wire_def)

lemma map_of_wire_opt [simp]: "map_of (wire_opt k enc v) k' = (if k = k' then map_option enc v else None)"
  by (cases v) (auto simp: wire_opt_def)

lemma set_wire [simp]: "set (wire k j) = {(k, j)}"
  by (simp add: wire_def)

lemma set_wire_opt: "set (wire_opt k enc v) = (case v of None \<Rightarrow> {} | Some x \<Rightarrow> {(k, enc x)})"
  by (cases v) (simp_all add: wire_opt_def)

lemma fst_wire_opt: "fst ` set (wire_opt k enc v) \<subseteq> {k}"
  by (cases v) (simp_all add: wire_opt_def)

lemma extras_append [simp, wire_simps]: "extras known (a @ b) = extras known a @ extras known b"
  by (simp add: extras_def)

lemma extras_wire [simp, wire_simps]: "k \<in> set known \<Longrightarrow> extras known (wire k j) = []"
  by (simp add: extras_def wire_def)

lemma extras_wire_opt [simp, wire_simps]: "k \<in> set known \<Longrightarrow> extras known (wire_opt k enc v) = []"
  by (cases v) (simp_all add: extras_def wire_opt_def)

lemma extras_idem [simp]: "extras known (extras known ms) = extras known ms"
  by (simp add: extras_def)

text \<open>The extra members of a decoded object: none of the declared names, no repeated name.\<close>

definition extra_ok :: "string list \<Rightarrow> members \<Rightarrow> bool" where
  "extra_ok known ms = (distinct (map fst ms) \<and> set (map fst ms) \<inter> set known = {}
     \<and> list_all (\<lambda>(k, v). clean v) ms)"

lemma extra_ok_extras: "extra_ok known ms \<Longrightarrow> extras known ms = ms"
  by (auto simp: extra_ok_def extras_def filter_id_conv)

lemma extra_ok_lookup [simp]: "extra_ok known ms \<Longrightarrow> k \<in> set known \<Longrightarrow> map_of ms k = None"
  by (auto simp: extra_ok_def map_of_eq_None_iff)

lemma extra_ok_of_clean: "clean (JObj ms) \<Longrightarrow> extra_ok known (extras known ms)"
proof -
  assume a: "clean (JObj ms)"
  have "distinct (map fst (filter p ms))" for p
    using a by (simp add: distinct_map inj_on_def)
  with a show ?thesis
    by (auto simp: extra_ok_def extras_def list_all_iff)
qed

text \<open>An encoded object passes \<open>reject_explicit_null\<close>: no declared member is null.\<close>

definition no_null :: "string list \<Rightarrow> members \<Rightarrow> bool" where
  "no_null known ms = list_all (\<lambda>(k, v). k \<in> set known \<longrightarrow> v \<noteq> JNull) ms"

lemma no_null_Nil [simp]: "no_null known []"
  by (simp add: no_null_def)

lemma no_null_append [simp]: "no_null known (a @ b) \<longleftrightarrow> no_null known a \<and> no_null known b"
  by (simp add: no_null_def)

lemma no_null_wire [simp]: "no_null known (wire k j) \<longleftrightarrow> (k \<in> set known \<longrightarrow> j \<noteq> JNull)"
  by (simp add: no_null_def wire_def)

lemma no_null_wire_opt [simp]: "(\<And>x. enc x \<noteq> JNull) \<Longrightarrow> no_null known (wire_opt k enc v)"
  by (cases v) (simp_all add: no_null_def wire_opt_def)

lemma no_null_extra [simp]: "extra_ok known ms \<Longrightarrow> no_null known ms"
  by (auto simp: extra_ok_def no_null_def list_all_iff)

lemma reject_explicit_null_no_null: "no_null known ms \<Longrightarrow> reject_explicit_null known nulls ms = Inr ()"
  by (auto simp: reject_explicit_null_Ok no_null_def list_all_iff)

lemma open_members_wire: "no_null known ms \<Longrightarrow> aep_members False known nulls (JObj ms) = Inr ms"
  by (simp add: aep_members_def reject_explicit_null_no_null)

lemma forbid_members_wire:
  "no_null known ms \<Longrightarrow> extras known ms = [] \<Longrightarrow> aep_members True known nulls (JObj ms) = Inr ms"
  by (auto simp: aep_members_def reject_explicit_null_no_null extras_def filter_empty_conv list_ex_iff)

lemma field_Some: "map_of ms k = Some j \<Longrightarrow> field k dec ms = at_loc (Name k) (dec j)"
  by (simp add: field_def)

lemma opt_field_Some: "map_of ms k = Some j \<Longrightarrow> opt_field k dec ms = rbind (at_loc (Name k) (dec j)) (\<lambda>v. Inr (Some v))"
  by (simp add: opt_field_def)

lemma opt_field_None: "map_of ms k = None \<Longrightarrow> opt_field k dec ms = Inr None"
  by (simp add: opt_field_def)

lemma opt_field_option:
  "map_of ms k = map_option enc v \<Longrightarrow> (\<And>x. v = Some x \<Longrightarrow> dec (enc x) = Inr x) \<Longrightarrow> opt_field k dec ms = Inr v"
  by (cases v) (simp_all add: opt_field_def)

lemma case_option_Inr [simp]: "(case v of None \<Rightarrow> Inr None | Some x \<Rightarrow> Inr (Some x)) = Inr v"
  by (cases v) simp_all

lemma opt_field_present [simp]:
  "map_of ms k = None \<Longrightarrow> (\<And>x. v = Some x \<Longrightarrow> dec (enc x) = Inr x) \<Longrightarrow>
     opt_field k dec (wire_opt k enc v @ ms) = Inr v"
  by (cases v) (simp_all add: opt_field_def map_add_def)

lemma opt_field_only [simp]:
  "(\<And>x. v = Some x \<Longrightarrow> dec (enc x) = Inr x) \<Longrightarrow> opt_field k dec (wire_opt k enc v) = Inr v"
  by (cases v) (simp_all add: opt_field_def)

lemma opt_field_skip_wire_opt [simp]:
  "k \<noteq> k' \<Longrightarrow> opt_field k dec (wire_opt k' enc v @ ms) = opt_field k dec ms"
  by (simp add: opt_field_def map_add_def split: option.splits)

lemma opt_field_skip_wire [simp]: "k \<noteq> k' \<Longrightarrow> opt_field k dec (wire k' j @ ms) = opt_field k dec ms"
  by (simp add: opt_field_def map_add_def split: option.splits)

lemma opt_field_extra [simp]: "extra_ok known ex \<Longrightarrow> k \<in> set known \<Longrightarrow> opt_field k dec ex = Inr None"
  by (simp add: opt_field_def extra_ok_lookup)

lemma field_skip_wire_opt [simp]: "k \<noteq> k' \<Longrightarrow> field k dec (wire_opt k' enc v @ ms) = field k dec ms"
  by (simp add: field_def map_add_def split: option.splits)

lemma field_skip_wire [simp]: "k \<noteq> k' \<Longrightarrow> field k dec (wire k' j @ ms) = field k dec ms"
  by (simp add: field_def map_add_def split: option.splits)

lemma field_present [simp]:
  "field k dec (wire k j @ ms) = at_loc (Name k) (dec j)"
  "field k dec (wire k j) = at_loc (Name k) (dec j)"
  by (simp_all add: field_def map_add_def split: option.splits)

lemma dec_tuple_map:
  "(\<And>x. x \<in> set xs \<Longrightarrow> dec (enc x) = Inr x) \<Longrightarrow> dec_tuple dec (JArr (map enc xs)) = Inr xs"
  by (simp add: dec_tuple_def dec_items_map)

lemma dec_enum_JStr [simp]: "enum_of val ms (val x) = Some x \<Longrightarrow> dec_enum val ms (JStr (val x)) = Inr x"
  by (simp add: dec_enum_def)

lemma dec_literal_JStr [simp]: "s \<in> set vals \<Longrightarrow> dec_literal vals (JStr s) = Inr s"
  by (simp add: dec_literal_def)

text \<open>An encoded object repeats no member, so the strict reader accepts what was printed.\<close>

definition tidy :: "string list \<Rightarrow> string list \<Rightarrow> members \<Rightarrow> bool" where
  "tidy known used ms = (distinct (map fst ms) \<and> (\<forall>k \<in> fst ` set ms. k \<in> set used \<or> k \<notin> set known)
     \<and> list_all (\<lambda>(k, v). clean v) ms)"

lemma tidy_clean: "tidy known used ms \<Longrightarrow> clean (JObj ms)"
  by (simp add: tidy_def)

lemma tidy_extra: "extra_ok known ex \<Longrightarrow> tidy known [] ex"
  by (auto simp: tidy_def extra_ok_def)

lemma tidy_Nil: "tidy known [] []"
  by (simp add: tidy_def)

lemma tidy_wire:
  "tidy known used ms \<Longrightarrow> k \<in> set known \<Longrightarrow> k \<notin> set used \<Longrightarrow> clean j \<Longrightarrow> tidy known (k # used) (wire k j @ ms)"
  by (auto simp: tidy_def wire_def)

lemma tidy_wire_opt:
  "tidy known used ms \<Longrightarrow> k \<in> set known \<Longrightarrow> k \<notin> set used \<Longrightarrow> (\<And>x. v = Some x \<Longrightarrow> clean (enc x)) \<Longrightarrow>
     tidy known (k # used) (wire_opt k enc v @ ms)"
  by (cases v) (auto simp: tidy_def wire_opt_def)

lemma tidy_last:
  "k \<in> set known \<Longrightarrow> clean j \<Longrightarrow> tidy known [k] (wire k j)"
  "k \<in> set known \<Longrightarrow> (\<And>x. v = Some x \<Longrightarrow> clean (enc x)) \<Longrightarrow> tidy known [k] (wire_opt k enc v)"
  by (cases v; auto simp: tidy_def wire_def wire_opt_def)+

lemmas tidy_rules = tidy_wire tidy_wire_opt tidy_extra

lemma clean_enc_strs [simp]: "clean (enc_strs ss)"
  by (simp add: enc_strs_def list_all_iff)

end
