(* ===== verification/Model_Inspect.thy ===== *)
theory Model_Inspect
  imports Model_Base
begin

text \<open>
  The classes of \<^verbatim>\<open>core/models.py\<close> that make up an Inspect document, from \<open>Authentication\<close> to
  \<open>InspectDocument\<close>: one record per class, its checks, its decoder and its encoder.
\<close>

section \<open>Authentication, Bindings, InspectClaims\<close>

record authentication = auth_methods :: "string list"

definition check_authentication :: "authentication \<Rightarrow> authentication result" where
  "check_authentication a = checks
     [length_between 1 (Some 16) (auth_methods a) ''methods'',
      in_validator (require_identifiers (auth_methods a) ''methods'' True)] a"

definition authentication_of_json :: "json \<Rightarrow> authentication result" where
  "authentication_of_json j = rbind (forbid_members [''methods''] j) (\<lambda>ms.
     rbind (field ''methods'' dec_strs ms) (\<lambda>methods.
     check_authentication \<lparr>auth_methods = methods\<rparr>))"

definition authentication_to_wire :: "authentication \<Rightarrow> json" where
  "authentication_to_wire a = JObj (wire ''methods'' (enc_strs (auth_methods a)))"

record bindings =
  bindings_supported :: "string list"
  bindings_extra :: members

definition validate_bindings :: "bindings \<Rightarrow> unit result" where
  "validate_bindings b =
     rbind (require_identifiers (bindings_supported b) ''supported'' False) (\<lambda>_.
     require (''http'' \<in> set (bindings_supported b)) (Value_Error ''supported must advertise http''))"

definition check_bindings :: "bindings \<Rightarrow> bindings result" where
  "check_bindings b = checks
     [length_between 1 None (bindings_supported b) ''supported'', in_validator (validate_bindings b)] b"

definition bindings_of_json :: "json \<Rightarrow> bindings result" where
  "bindings_of_json j = rbind (open_members [''supported''] j) (\<lambda>ms.
     rbind (field ''supported'' dec_strs ms) (\<lambda>supported.
     check_bindings \<lparr>bindings_supported = supported, bindings_extra = extras [''supported''] ms\<rparr>))"

definition bindings_to_wire :: "bindings \<Rightarrow> json" where
  "bindings_to_wire b = JObj (wire ''supported'' (enc_strs (bindings_supported b)) @ bindings_extra b)"

record inspect_claims =
  claims_required :: "string list option"
  claims_preferred :: "string list option"
  claims_optional :: "string list option"
  claims_extra :: members

definition validate_claim_names :: "inspect_claims \<Rightarrow> unit result" where
  "validate_claim_names c =
     require (list_all (\<lambda>values. case values of
         None \<Rightarrow> True | Some vs \<Rightarrow> list_all (fullmatch CLAIM_NAME_PATTERN) vs)
       [claims_required c, claims_preferred c, claims_optional c])
     (Value_Error ''claim names use the registered claim-name syntax'')"

definition check_inspect_claims :: "inspect_claims \<Rightarrow> inspect_claims result" where
  "check_inspect_claims c = checks [in_validator (validate_claim_names c)] c"

abbreviation inspect_claims_fields :: "string list" where
  "inspect_claims_fields \<equiv> [''required'', ''preferred'', ''optional'']"

definition inspect_claims_of_json :: "json \<Rightarrow> inspect_claims result" where
  "inspect_claims_of_json j = rbind (open_members inspect_claims_fields j) (\<lambda>ms.
     rbind (opt_field ''required'' dec_strs ms) (\<lambda>r.
     rbind (opt_field ''preferred'' dec_strs ms) (\<lambda>p.
     rbind (opt_field ''optional'' dec_strs ms) (\<lambda>o'.
     check_inspect_claims \<lparr>claims_required = r, claims_preferred = p, claims_optional = o',
       claims_extra = extras inspect_claims_fields ms\<rparr>))))"

definition inspect_claims_to_wire :: "inspect_claims \<Rightarrow> json" where
  "inspect_claims_to_wire c = JObj (wire_opt ''required'' enc_strs (claims_required c)
     @ wire_opt ''preferred'' enc_strs (claims_preferred c)
     @ wire_opt ''optional'' enc_strs (claims_optional c) @ claims_extra c)"

section \<open>GrantTypeConfig, Commands\<close>

record grant_type_config =
  supports_per_credential_revoke :: "string option"
  config_extra :: members

abbreviation config_fields :: "string list" where
  "config_fields \<equiv> [''supports_per_credential_revoke'']"

definition grant_type_config_of_json :: "json \<Rightarrow> grant_type_config result" where
  "grant_type_config_of_json j = rbind (open_members config_fields j) (\<lambda>ms.
     rbind (opt_field ''supports_per_credential_revoke'' (dec_literal [''true'', ''false'']) ms) (\<lambda>s.
     Ok \<lparr>supports_per_credential_revoke = s, config_extra = extras config_fields ms\<rparr>))"

definition grant_type_config_to_wire :: "grant_type_config \<Rightarrow> members" where
  "grant_type_config_to_wire c =
     wire_opt ''supports_per_credential_revoke'' JStr (supports_per_credential_revoke c) @ config_extra c"

type_synonym grant_type_configs = "(string \<times> grant_type_config) list"

record commands =
  commands_supported :: "string list"
  grant_types :: "string list option"
  grant_types_config :: "grant_type_configs option"
  commands_extra :: members

definition validate_commands :: "commands \<Rightarrow> unit result" where
  "validate_commands c =
     rbind (require_identifiers (commands_supported c) ''supported'' False) (\<lambda>_.
     rbind (require (''inspect'' \<in> set (commands_supported c))
       (Value_Error ''supported must advertise inspect'')) (\<lambda>_.
     rbind (require (''authenticate'' \<notin> set (commands_supported c))
       (Value_Error ''authenticate is an assertion operation, not a command'')) (\<lambda>_.
     let gts = (case grant_types c of None \<Rightarrow> [] | Some g \<Rightarrow> g) in
     rbind (require_identifiers gts ''grant_types'' False) (\<lambda>_.
     rbind (require (\<not> ((''grant'' \<in> set (commands_supported c) \<or> ''revoke'' \<in> set (commands_supported c)) \<and> gts = []))
       (Value_Error ''grant_types is required when grant or revoke is advertised'')) (\<lambda>_.
     case grant_types_config c of
       None \<Rightarrow> Ok ()
     | Some configs \<Rightarrow>
         require (list_all (\<lambda>(g, _). fullmatch IDENTIFIER_PATTERN g \<and> g \<in> set gts) configs)
           (Value_Error ''grant_types_config keys must name advertised grant types''))))))"

definition check_commands :: "commands \<Rightarrow> commands result" where
  "check_commands c = checks
     [length_between 1 None (commands_supported c) ''supported'', in_validator (validate_commands c)] c"

abbreviation commands_fields :: "string list" where
  "commands_fields \<equiv> [''supported'', ''grant_types'', ''grant_types_config'']"

definition dec_configs :: "json \<Rightarrow> grant_type_configs result" where
  "dec_configs j = rbind (dec_obj j) (rmap (\<lambda>(k, v).
     rbind (at_loc (Name k) (grant_type_config_of_json v)) (\<lambda>c. Ok (k, c))))"

definition commands_of_json :: "json \<Rightarrow> commands result" where
  "commands_of_json j = rbind (open_members commands_fields j) (\<lambda>ms.
     rbind (field ''supported'' dec_strs ms) (\<lambda>s.
     rbind (opt_field ''grant_types'' dec_strs ms) (\<lambda>g.
     rbind (opt_field ''grant_types_config'' dec_configs ms) (\<lambda>c.
     check_commands \<lparr>commands_supported = s, grant_types = g, grant_types_config = c,
       commands_extra = extras commands_fields ms\<rparr>))))"

definition enc_configs :: "grant_type_configs \<Rightarrow> json" where
  "enc_configs cs = JObj (map (\<lambda>(k, c). (k, JObj (grant_type_config_to_wire c))) cs)"

definition commands_to_wire :: "commands \<Rightarrow> json" where
  "commands_to_wire c = JObj (wire ''supported'' (enc_strs (commands_supported c))
     @ wire_opt ''grant_types'' enc_strs (grant_types c)
     @ wire_opt ''grant_types_config'' enc_configs (grant_types_config c) @ commands_extra c)"

section \<open>CoreConfiguration, Extensions\<close>

record core_configuration =
  core_algorithms :: "string list"
  core_extra :: members

definition validate_algorithms :: "core_configuration \<Rightarrow> unit result" where
  "validate_algorithms c =
     require (set AEP_SIGNING_ALGORITHMS \<subseteq> set (core_algorithms c))
       (Value_Error ''signing_algorithms must advertise EdDSA and ES256'')"

definition check_core :: "core_configuration \<Rightarrow> core_configuration result" where
  "check_core c = checks
     [length_between 1 None (core_algorithms c) ''signing_algorithms'', in_validator (validate_algorithms c)] c"

definition core_of_json :: "json \<Rightarrow> core_configuration result" where
  "core_of_json j = rbind (open_members [''signing_algorithms''] j) (\<lambda>ms.
     rbind (field ''signing_algorithms'' dec_strs ms) (\<lambda>a.
     check_core \<lparr>core_algorithms = a, core_extra = extras [''signing_algorithms''] ms\<rparr>))"

definition core_to_wire :: "core_configuration \<Rightarrow> json" where
  "core_to_wire c = JObj (wire ''signing_algorithms'' (enc_strs (core_algorithms c)) @ core_extra c)"

record extensions =
  extensions_supported :: "string list option"
  extensions_extra :: members

definition validate_extensions :: "extensions \<Rightarrow> unit result" where
  "validate_extensions e = (case extensions_supported e of
      None \<Rightarrow> Ok ()
    | Some vs \<Rightarrow> require (list_all is_absolute_uri vs)
        (Value_Error ''supported extensions must be absolute URIs''))"

definition check_extensions :: "extensions \<Rightarrow> extensions result" where
  "check_extensions e = checks [in_validator (validate_extensions e)] e"

definition extensions_of_json :: "json \<Rightarrow> extensions result" where
  "extensions_of_json j = rbind (open_members [''supported''] j) (\<lambda>ms.
     rbind (opt_field ''supported'' dec_strs ms) (\<lambda>s.
     check_extensions \<lparr>extensions_supported = s, extensions_extra = extras [''supported''] ms\<rparr>))"

definition extensions_to_wire :: "extensions \<Rightarrow> json" where
  "extensions_to_wire e =
     JObj (wire_opt ''supported'' enc_strs (extensions_supported e) @ extensions_extra e)"

section \<open>OpenApiReference, HttpConfiguration, Identity, ServiceIdentity\<close>

record openapi_path_matching = pm_trailing_slash :: trailing_slash

definition path_matching_of_json :: "json \<Rightarrow> openapi_path_matching result" where
  "path_matching_of_json j = rbind (forbid_members [''trailing_slash''] j) (\<lambda>ms.
     rbind (field ''trailing_slash'' (dec_enum trailing_slash_value all_trailing_slashes) ms) (\<lambda>t.
     Ok \<lparr>pm_trailing_slash = t\<rparr>))"

definition path_matching_to_wire :: "openapi_path_matching \<Rightarrow> json" where
  "path_matching_to_wire p =
     JObj (wire ''trailing_slash'' (JStr (trailing_slash_value (pm_trailing_slash p))))"

record openapi_reference =
  openapi_url :: string
  path_matching :: openapi_path_matching

definition check_openapi_reference :: "openapi_reference \<Rightarrow> openapi_reference result" where
  "check_openapi_reference r = checks
     [length_between 1 None (openapi_url r) ''url'',
      in_validator (require (\<not> list_ex is_space (openapi_url r))
        (Value_Error ''url must be a URI-reference''))] r"

definition openapi_reference_of_json :: "json \<Rightarrow> openapi_reference result" where
  "openapi_reference_of_json j = rbind (forbid_members [''url'', ''path_matching''] j) (\<lambda>ms.
     rbind (field ''url'' dec_str ms) (\<lambda>u.
     rbind (field ''path_matching'' path_matching_of_json ms) (\<lambda>p.
     check_openapi_reference \<lparr>openapi_url = u, path_matching = p\<rparr>)))"

definition openapi_reference_to_wire :: "openapi_reference \<Rightarrow> json" where
  "openapi_reference_to_wire r = JObj (wire ''url'' (JStr (openapi_url r))
     @ wire ''path_matching'' (path_matching_to_wire (path_matching r)))"

record http_configuration =
  endpoint_base :: "string option"
  http_openapi :: "openapi_reference option"
  http_extra :: members

definition validate_endpoint_base :: "http_configuration \<Rightarrow> unit result" where
  "validate_endpoint_base h = (case endpoint_base h of
      None \<Rightarrow> Ok ()
    | Some b \<Rightarrow> require (is_endpoint_path b)
        (Value_Error ''endpoint_base must be an origin-relative absolute path''))"

definition check_http :: "http_configuration \<Rightarrow> http_configuration result" where
  "check_http h = checks [in_validator (validate_endpoint_base h)] h"

abbreviation http_fields :: "string list" where "http_fields \<equiv> [''endpoint_base'', ''openapi'']"

definition http_of_json :: "json \<Rightarrow> http_configuration result" where
  "http_of_json j = rbind (open_members http_fields j) (\<lambda>ms.
     rbind (opt_field ''endpoint_base'' dec_str ms) (\<lambda>b.
     rbind (opt_field ''openapi'' openapi_reference_of_json ms) (\<lambda>r.
     check_http \<lparr>endpoint_base = b, http_openapi = r, http_extra = extras http_fields ms\<rparr>)))"

definition http_to_wire :: "http_configuration \<Rightarrow> json" where
  "http_to_wire h = JObj (wire_opt ''endpoint_base'' JStr (endpoint_base h)
     @ wire_opt ''openapi'' openapi_reference_to_wire (http_openapi h) @ http_extra h)"

record identity =
  identity_methods :: "string list"
  identity_extra :: members

definition check_identity :: "identity \<Rightarrow> identity result" where
  "check_identity i = checks [in_validator (require
     (list_all (fullmatch IDENTITY_METHOD_PATTERN) (identity_methods i))
     (Value_Error ''identity methods use the registered identifier syntax''))] i"

definition identity_of_json :: "json \<Rightarrow> identity result" where
  "identity_of_json j = rbind (open_members [''methods''] j) (\<lambda>ms.
     rbind (field ''methods'' dec_strs ms) (\<lambda>m.
     check_identity \<lparr>identity_methods = m, identity_extra = extras [''methods''] ms\<rparr>))"

definition identity_to_wire :: "identity \<Rightarrow> json" where
  "identity_to_wire i = JObj (wire ''methods'' (enc_strs (identity_methods i)) @ identity_extra i)"

record service_identity =
  service_did :: string
  service_extra :: members

definition check_service_identity :: "service_identity \<Rightarrow> service_identity result" where
  "check_service_identity s = checks [in_validator (require_did (service_did s) ''did'')] s"

definition service_identity_of_json :: "json \<Rightarrow> service_identity result" where
  "service_identity_of_json j = rbind (open_members [''did''] j) (\<lambda>ms.
     rbind (field ''did'' dec_str ms) (\<lambda>d.
     check_service_identity \<lparr>service_did = d, service_extra = extras [''did''] ms\<rparr>))"

definition service_identity_to_wire :: "service_identity \<Rightarrow> json" where
  "service_identity_to_wire s = JObj (wire ''did'' (JStr (service_did s)) @ service_extra s)"

end
