(* ===== verification/Model_Document.thy ===== *)
theory Model_Document
  imports Model_Inspect
begin

text \<open>
  Service Documents and the Inspect document of \<^verbatim>\<open>core/models.py\<close>: \<open>DocumentRepresentation\<close>,
  \<open>ServiceDocument\<close>, the portable document blocks with their work-list bound check, and
  \<open>InspectDocument\<close>.
\<close>

section \<open>Document identifiers, DocumentRepresentation, ServiceDocument\<close>

definition document_ids :: "string list \<Rightarrow> string list result" where
  "document_ids values =
     (if 7 < length values \<or> \<not> distinct values \<or> list_ex (\<lambda>v. \<not> fullmatch DOCUMENT_ID_PATTERN v) values
      then Raise (Value_Error ''expected at most seven unique document IDs of 1 to 32 ASCII characters'')
      else Ok values)"

definition dec_document_ids :: "json \<Rightarrow> string list result" where
  "dec_document_ids j = rbind (dec_strs j) (\<lambda>v. in_validator (document_ids v))"

record document_representation =
  media_type :: string
  rep_url :: string
  rep_extra :: members

definition validate_document_url :: "string \<Rightarrow> unit result" where
  "validate_document_url u =
     rbind (require (\<not> (\<not> isascii u \<or> list_ex (\<lambda>c. ord c \<le> 32 \<or> ord c = 92 \<or> ord c = 127) u))
       (Value_Error ''document URL must be an ASCII URI without controls'')) (\<lambda>_.
     rbind (urlsplit u) (\<lambda>parsed.
     require (\<not> (\<not> truthy (hostname parsed) \<or> username parsed \<noteq> None \<or> password parsed \<noteq> None
         \<or> (scheme parsed \<noteq> ''https'' \<and> \<not> (scheme parsed = ''http'' \<and> is_loopback_host (hostname parsed)))))
       (Value_Error ''document URL requires HTTPS or literal-loopback HTTP'')))"

definition check_representation :: "document_representation \<Rightarrow> document_representation result" where
  "check_representation r = checks
     [has_pattern MEDIA_TYPE_NAME_PATTERN (media_type r) ''media_type'',
      length_between 1 (Some 2048) (rep_url r) ''url'',
      in_validator (validate_document_url (rep_url r))] r"

abbreviation representation_fields :: "string list" where
  "representation_fields \<equiv> [''media_type'', ''url'']"

definition representation_of_json :: "json \<Rightarrow> document_representation result" where
  "representation_of_json j = rbind (open_members representation_fields j) (\<lambda>ms.
     rbind (field ''media_type'' dec_str ms) (\<lambda>m.
     rbind (field ''url'' dec_str ms) (\<lambda>u.
     check_representation \<lparr>media_type = m, rep_url = u, rep_extra = extras representation_fields ms\<rparr>)))"

definition representation_to_wire :: "document_representation \<Rightarrow> json" where
  "representation_to_wire r = JObj (wire ''media_type'' (JStr (media_type r))
     @ wire ''url'' (JStr (rep_url r)) @ rep_extra r)"

record service_document =
  doc_id :: string
  doc_type :: string
  doc_title :: string
  doc_enrollment :: string
  representations :: "document_representation list"
  doc_extra :: members

definition validate_representations :: "service_document \<Rightarrow> unit result" where
  "validate_representations d =
     (let media = map media_type (representations d) in
      require (\<not> (''text/html'' \<notin> set media \<or> \<not> distinct media))
        (Value_Error ''representations require HTML and distinct media types''))"

definition check_service_document :: "service_document \<Rightarrow> service_document result" where
  "check_service_document d = checks
     [has_pattern DOCUMENT_ID_PATTERN (doc_id d) ''id'',
      length_between 1 (Some 64) (doc_type d) ''type'',
      has_pattern DOCUMENT_TYPE_PATTERN (doc_type d) ''type'',
      length_between 1 (Some 256) (doc_title d) ''title'',
      length_between 1 (Some 8) (representations d) ''representations'',
      in_validator (validate_representations d)] d"

abbreviation service_document_fields :: "string list" where
  "service_document_fields \<equiv> [''id'', ''type'', ''title'', ''enrollment'', ''representations'']"

definition service_document_of_json :: "json \<Rightarrow> service_document result" where
  "service_document_of_json j = rbind (open_members service_document_fields j) (\<lambda>ms.
     rbind (field ''id'' dec_str ms) (\<lambda>i.
     rbind (field ''type'' dec_str ms) (\<lambda>t.
     rbind (field ''title'' dec_str ms) (\<lambda>ti.
     rbind (field ''enrollment'' (dec_literal [''required'', ''not-required'']) ms) (\<lambda>e.
     rbind (field ''representations'' (dec_tuple representation_of_json) ms) (\<lambda>r.
     check_service_document \<lparr>doc_id = i, doc_type = t, doc_title = ti, doc_enrollment = e,
       representations = r, doc_extra = extras service_document_fields ms\<rparr>))))))"

definition enc_list :: "('a \<Rightarrow> json) \<Rightarrow> 'a list \<Rightarrow> json" where "enc_list enc xs = JArr (map enc xs)"

definition service_document_to_wire :: "service_document \<Rightarrow> json" where
  "service_document_to_wire d = JObj (wire ''id'' (JStr (doc_id d)) @ wire ''type'' (JStr (doc_type d))
     @ wire ''title'' (JStr (doc_title d)) @ wire ''enrollment'' (JStr (doc_enrollment d))
     @ wire ''representations'' (enc_list representation_to_wire (representations d)) @ doc_extra d)"

section \<open>PortableDocumentBlock\<close>

datatype block = Block
  (blk_type: string) (blk_text: "string option") (blk_title: "string option")
  (blk_blocks: "block list option") (blk_items: "string list option") (blk_extra: "(string \<times> json) list")

text \<open>\<open>ignore_other_block_members\<close>: members that belong to another kind of block are dropped before
  anything else looks at them.\<close>

definition ignored_block_members :: "json option \<Rightarrow> string list" where
  "ignored_block_members kind =
     (if kind = Some (JStr ''paragraph'') then [''title'', ''blocks'', ''items'']
      else if kind = Some (JStr ''section'') then [''text'', ''items'']
      else if kind \<in> {Some (JStr ''bulleted_list''), Some (JStr ''numbered_list'')}
      then [''text'', ''title'', ''blocks''] else [])"

definition ignore_other_block_members :: "members \<Rightarrow> members" where
  "ignore_other_block_members ms =
     filter (\<lambda>(k, _). k \<notin> set (ignored_block_members (map_of ms ''type''))) ms"

definition validate_block :: "block \<Rightarrow> unit result" where
  "validate_block b =
     (if blk_type b = ''paragraph'' \<and> blk_text b = None
      then Raise (Value_Error ''paragraph requires text'')
      else if blk_type b = ''section'' \<and> (blk_title b = None \<or> blk_blocks b = None)
      then Raise (Value_Error ''section requires title and blocks'')
      else if blk_type b \<in> {''bulleted_list'', ''numbered_list''} \<and> blk_items b = None
      then Raise (Value_Error ''list requires items'')
      else Ok ())"

definition check_block :: "block \<Rightarrow> block result" where
  "check_block b = checks
     [opt_length_between 1 (Some 16384) (blk_text b) ''text'',
      opt_length_between 1 (Some 256) (blk_title b) ''title'',
      opt_length_between 1 None (blk_blocks b) ''blocks'',
      opt_length_between 1 (Some 128) (blk_items b) ''items'',
      in_validator (validate_block b)] b"

definition dec_document_text :: "json \<Rightarrow> string result" where
  "dec_document_text j = rbind (dec_str j) (\<lambda>s.
     if s = [] then type_error ''too short'' else if 16384 < length s then type_error ''too long'' else Ok s)"

abbreviation block_fields :: "string list" where
  "block_fields \<equiv> [''type'', ''text'', ''title'', ''blocks'', ''items'']"

lemma opt_field_cong [fundef_cong]:
  assumes "k = k'" "ms = ms'" and "\<And>j. map_of ms' k' = Some j \<Longrightarrow> dec j = dec' j"
  shows "opt_field k dec ms = opt_field k' dec' ms'"
  using assms by (auto simp: opt_field_def split: option.splits)

lemma dec_items_cong:
  "(\<And>x. x \<in> set js \<Longrightarrow> dec x = dec' x) \<Longrightarrow> dec_items dec i js = dec_items dec' i js"
  by (induction js arbitrary: i) auto

lemma dec_tuple_cong [fundef_cong]:
  assumes "j = j'" and "\<And>xs x. j' = JArr xs \<Longrightarrow> x \<in> set xs \<Longrightarrow> dec x = dec' x"
  shows "dec_tuple dec j = dec_tuple dec' j'"
  using assms by (auto simp: dec_tuple_def intro!: dec_items_cong split: json.splits)

lemma map_of_filter_smaller:
  "map_of (filter p ms) k = Some (JArr xs) \<Longrightarrow> x \<in> set xs \<Longrightarrow> size x < size (JObj ms)"
proof -
  assume "map_of (filter p ms) k = Some (JArr xs)" and x: "x \<in> set xs"
  then have m: "(k, JArr xs) \<in> set ms" by (auto dest: map_of_SomeD)
  have "size x < size (JArr xs)"
    using x by (simp add: less_Suc_eq_le size_list_estimation')
  also have "size (JArr xs) \<le> size_list (size_prod (\<lambda>_. 0) size) ms"
    using m by (rule size_list_estimation') simp
  finally show ?thesis by simp
qed

function block_of_json :: "json \<Rightarrow> block result" where
  "block_of_json j = (case j of
     JObj ms0 \<Rightarrow>
       let ms = ignore_other_block_members ms0 in
       rbind (open_members block_fields (JObj ms)) (\<lambda>_.
       rbind (field ''type'' (dec_literal [''paragraph'', ''section'', ''bulleted_list'', ''numbered_list'']) ms) (\<lambda>ty.
       rbind (opt_field ''text'' dec_str ms) (\<lambda>te.
       rbind (opt_field ''title'' dec_str ms) (\<lambda>ti.
       rbind (opt_field ''blocks'' (dec_tuple block_of_json) ms) (\<lambda>bs.
       rbind (opt_field ''items'' (dec_tuple dec_document_text) ms) (\<lambda>it.
       check_block (Block ty te ti bs it (extras block_fields ms))))))))
   | _ \<Rightarrow> type_error ''Input should be an object'')"
  by pat_completeness auto
termination
  by (relation "measure size")
    (auto simp: ignore_other_block_members_def dest!: map_of_filter_smaller simp del: json.size)

declare block_of_json.simps [simp del]

section \<open>PortableServiceDocument\<close>

text \<open>The children that the bound check visits, and the two quantities it bounds.\<close>

definition child_blocks :: "block \<Rightarrow> block list" where
  "child_blocks b = (if blk_type b = ''section'' then (case blk_blocks b of None \<Rightarrow> [] | Some bs \<Rightarrow> bs) else [])"

lemma child_blocks_mem:
  assumes "c \<in> set (child_blocks b)"
  obtains cs where "blk_blocks b = Some cs" "c \<in> set cs" "blk_type b = ''section''"
proof -
  have "blk_type b = ''section''"
    using assms unfolding child_blocks_def by (cases "blk_type b = ''section''") simp_all
  moreover from this obtain cs where "blk_blocks b = Some cs" "c \<in> set cs"
    using assms unfolding child_blocks_def by (cases "blk_blocks b") simp_all
  ultimately show ?thesis using that by blast
qed

lemma child_blocks_smaller: "c \<in> set (child_blocks b) \<Longrightarrow> size c < size b"
proof (elim child_blocks_mem)
  fix cs
  assume a: "blk_blocks b = Some cs" and c: "c \<in> set cs"
  have "size c \<le> size_list size cs" using c by (rule size_list_estimation') simp
  moreover have "size_list size cs < size b"
    using a by (cases b) simp
  ultimately show ?thesis by simp
qed

function block_total :: "block \<Rightarrow> nat" where
  "block_total b = Suc (sum_list (map block_total (child_blocks b)))"
  by pat_completeness auto
termination by (relation "measure size") (auto dest: child_blocks_smaller)

function section_nesting :: "block \<Rightarrow> nat" where
  "section_nesting b =
     (if blk_type b = ''section'' then Suc (foldr max (map section_nesting (child_blocks b)) 0) else 0)"
  by pat_completeness auto
termination by (relation "measure size") (auto dest: child_blocks_smaller)

declare block_total.simps [simp del] section_nesting.simps [simp del]

text \<open>\<open>validate_bounds\<close>: a work list, popped at its end; \<open>count\<close> is the number of blocks popped.\<close>

function bounds_loop :: "(block \<times> nat) list \<Rightarrow> nat \<Rightarrow> bool" where
  "bounds_loop pending count =
     (if pending = [] then True
      else let (b, depth) = last pending; rest = butlast pending; count' = Suc count in
        if 1024 < count' \<or> (blk_type b = ''section'' \<and> 8 \<le> depth) then False
        else bounds_loop
          (if blk_type b = ''section''
           then rest @ map (\<lambda>item. (item, Suc depth)) (case blk_blocks b of None \<Rightarrow> [] | Some bs \<Rightarrow> bs)
           else rest) count')"
  by pat_completeness auto

lemma sum_totals_pop:
  "pending \<noteq> [] \<Longrightarrow> last pending = (b, d) \<Longrightarrow>
     sum_list (map (block_total \<circ> fst) pending)
     = Suc (sum_list (map (block_total \<circ> fst) (butlast pending @ map (\<lambda>c. (c, d')) (child_blocks b))))"
  by (subst append_butlast_last_id [symmetric], assumption)
    (simp add: block_total.simps [of b] comp_def)

termination bounds_loop
proof (relation "measure (\<lambda>(pending, count). sum_list (map (block_total \<circ> fst) pending))")
  fix pending :: "(block \<times> nat) list" and count x b depth rest count'
  assume a: "pending \<noteq> []" "x = last pending" "(b, depth) = x" "rest = butlast pending"
  show "((if blk_type b = ''section''
           then rest @ map (\<lambda>item. (item, Suc depth)) (case blk_blocks b of None \<Rightarrow> [] | Some bs \<Rightarrow> bs)
           else rest, count'), pending, count)
        \<in> measure (\<lambda>(pending, count). sum_list (map (block_total \<circ> fst) pending))"
    using sum_totals_pop [of pending b depth "Suc depth"] a
    by (auto simp: child_blocks_def)
qed simp

declare bounds_loop.simps [simp del]

record portable_document =
  portable_id :: string
  portable_summary :: "block list option"
  portable_content :: "block list"
  portable_extra :: members

definition validate_bounds :: "portable_document \<Rightarrow> unit result" where
  "validate_bounds d = require
     (bounds_loop (map (\<lambda>item. (item, 0))
        ((case portable_summary d of None \<Rightarrow> [] | Some s \<Rightarrow> s) @ portable_content d)) 0)
     (Value_Error ''portable documents allow 1024 blocks and eight nested sections'')"

definition check_portable_document :: "portable_document \<Rightarrow> portable_document result" where
  "check_portable_document d = checks
     [has_pattern DOCUMENT_ID_PATTERN (portable_id d) ''id'',
      opt_length_between 1 None (portable_summary d) ''summary'',
      length_between 1 None (portable_content d) ''content'',
      in_validator (validate_bounds d)] d"

abbreviation portable_fields :: "string list" where
  "portable_fields \<equiv> [''format'', ''version'', ''id'', ''summary'', ''content'']"

definition portable_document_of_json :: "json \<Rightarrow> portable_document result" where
  "portable_document_of_json j = rbind (open_members portable_fields j) (\<lambda>ms.
     rbind (field ''format'' (dec_literal [''aep-service-document'']) ms) (\<lambda>_.
     rbind (field ''version'' (dec_literal [''1.0'']) ms) (\<lambda>_.
     rbind (field ''id'' dec_str ms) (\<lambda>i.
     rbind (opt_field ''summary'' (dec_tuple block_of_json) ms) (\<lambda>s.
     rbind (field ''content'' (dec_tuple block_of_json) ms) (\<lambda>c.
     check_portable_document \<lparr>portable_id = i, portable_summary = s, portable_content = c,
       portable_extra = extras portable_fields ms\<rparr>))))))"

text \<open>\<open>parse_portable_service_document\<close> of \<^verbatim>\<open>core/validation.py\<close>. Its handler catches
  ValueError and RecursionError; the \<open>AepValidationError\<close> of \<open>parse_json_model\<close> is neither and passes through.\<close>

definition parse_portable_service_document :: "body \<Rightarrow> string \<Rightarrow> portable_document result" where
  "parse_portable_service_document data expected_id =
     (let attempt =
        rbind (require (body_size data \<le> MAX_SERVICE_DOCUMENT_BYTES)
          (Value_Error ''document exceeds one mebibyte'')) (\<lambda>_.
        rbind (parse_json_model (body_doc data) portable_document_of_json ''portable document'') (\<lambda>d.
        rbind (require (portable_id d = expected_id)
          (Value_Error ''document ID does not match its descriptor'')) (\<lambda>_.
        Ok d)))
      in case attempt of
           Inl e \<Rightarrow> if is_value_error e \<or> is_recursion_error e
             then Raise (Validation_Error ''Invalid portable document.'' [(''$'', exn_message e)]) else Raise e
         | Inr d \<Rightarrow> Ok d)"

lemma foldr_max_le: "foldr max ns (0::nat) \<le> k \<longleftrightarrow> (\<forall>n \<in> set ns. n \<le> k)"
  by (induction ns) auto

definition pending_total :: "(block \<times> nat) list \<Rightarrow> nat" where
  "pending_total pending = sum_list (map (block_total \<circ> fst) pending)"

definition nesting_ok :: "block \<times> nat \<Rightarrow> bool" where
  "nesting_ok p = (section_nesting (fst p) = 0 \<or> snd p + section_nesting (fst p) \<le> 8)"

lemma nesting_ok_section:
  "blk_type b = ''section'' \<Longrightarrow>
     nesting_ok (b, d) \<longleftrightarrow> d < 8 \<and> (\<forall>c \<in> set (child_blocks b). nesting_ok (c, Suc d))"
proof -
  assume s: "blk_type b = ''section''"
  have "nesting_ok (b, d) \<longleftrightarrow>
      d < 8 \<and> foldr max (map section_nesting (child_blocks b)) 0 \<le> 7 - d"
    by (auto simp: nesting_ok_def section_nesting.simps [of b] s)
  also have "\<dots> \<longleftrightarrow> d < 8 \<and> (\<forall>c \<in> set (child_blocks b). section_nesting c \<le> 7 - d)"
    by (simp add: foldr_max_le)
  also have "\<dots> \<longleftrightarrow> d < 8 \<and> (\<forall>c \<in> set (child_blocks b). nesting_ok (c, Suc d))"
    by (auto simp: nesting_ok_def)
  finally show ?thesis .
qed

lemma bounds_loop_spec:
  "count \<le> 1024 \<Longrightarrow>
     bounds_loop pending count \<longleftrightarrow>
       count + pending_total pending \<le> 1024 \<and> list_all nesting_ok pending"
proof (induction pending count rule: bounds_loop.induct)
  case (1 pending count)
  show ?case
  proof (cases "pending = []")
    case True
    with 1 show ?thesis by (simp add: bounds_loop.simps pending_total_def)
  next
    case False
    obtain b d where l: "last pending = (b, d)" by (cases "last pending")
    let ?next = "butlast pending @ map (\<lambda>c. (c, Suc d)) (child_blocks b)"
    have total: "pending_total pending
        = Suc (pending_total ?next)"
      unfolding pending_total_def by (rule sum_totals_pop [OF False l])
    have nest: "list_all nesting_ok pending \<longleftrightarrow>
        (blk_type b = ''section'' \<longrightarrow> d < 8) \<and> list_all nesting_ok ?next"
    proof -
      have "list_all nesting_ok pending \<longleftrightarrow> list_all nesting_ok (butlast pending @ [last pending])"
        using False by simp
      also have "\<dots> \<longleftrightarrow> list_all nesting_ok (butlast pending) \<and> nesting_ok (b, d)"
        by (simp add: l)
      also have "nesting_ok (b, d) \<longleftrightarrow> (blk_type b = ''section'' \<longrightarrow> d < 8)
          \<and> list_all nesting_ok (map (\<lambda>c. (c, Suc d)) (child_blocks b))"
      proof (cases "blk_type b = ''section''")
        case True
        then show ?thesis using nesting_ok_section [of b d] by (simp add: list_all_iff)
      next
        case False
        then have "child_blocks b = []" "section_nesting b = 0"
          unfolding child_blocks_def section_nesting.simps [of b] by simp_all
        with False show ?thesis by (simp add: nesting_ok_def)
      qed
      finally show ?thesis by auto
    qed
    have step: "bounds_loop pending count =
        (if 1024 < Suc count \<or> blk_type b = ''section'' \<and> 8 \<le> d then False
         else bounds_loop ?next (Suc count))"
      using False l by (simp add: bounds_loop.simps [of pending count] child_blocks_def)
    show ?thesis
    proof (cases "1024 < Suc count \<or> blk_type b = ''section'' \<and> 8 \<le> d")
      case True
      with step total nest show ?thesis by auto
    next
      case ok: False
      have "bounds_loop ?next (Suc count) \<longleftrightarrow>
          Suc count + pending_total ?next \<le> 1024 \<and> list_all nesting_ok ?next"
        using "1.IH" [OF False l [symmetric]] ok by (auto simp: child_blocks_def)
      with step total nest ok show ?thesis by auto
    qed
  qed
qed

text \<open>C21 The work list of the portable document check visits every block once: it accepts exactly the
  documents with at most 1024 blocks, summary and content and nested ones together, whose sections
  are nested at most eight deep. It ends on every document.\<close>

theorem validate_bounds_iff:
  "validate_bounds d = Inr () \<longleftrightarrow>
     (let tops = (case portable_summary d of None \<Rightarrow> [] | Some s \<Rightarrow> s) @ portable_content d in
      sum_list (map block_total tops) \<le> 1024 \<and> list_all (\<lambda>b. section_nesting b \<le> 8) tops)"
  by (simp add: validate_bounds_def bounds_loop_spec pending_total_def comp_def list.pred_map
      nesting_ok_def Let_def) (auto simp: list_all_iff)

end
