(* ===== verification/Inspect_Document.thy ===== *)
theory Inspect_Document
  imports Model_Document
begin

text \<open>
  \<open>InspectDocument\<close> of \<^verbatim>\<open>core/models.py\<close> with its cross-field validator, and the round trip of
  every class of an Inspect document: decoding what was encoded repeats the checks and gives the
  same value back.
\<close>

record inspect_document =
  aep_version :: string
  inspect_authentication :: "authentication option"
  inspect_bindings :: bindings
  inspect_claims_of :: "inspect_claims option"
  inspect_commands :: commands
  inspect_core :: core_configuration
  inspect_extensions :: "extensions option"
  inspect_http :: http_configuration
  inspect_identity :: identity
  inspect_service :: service_identity
  service_documents :: "service_document list option"
  inspect_extra :: members

definition major_version :: "string \<Rightarrow> string" where
  "major_version v = fst (partition_at CHR ''.'' v)"

definition advertises_service_documents :: "extensions option \<Rightarrow> bool" where
  "advertises_service_documents e = (case e of
      None \<Rightarrow> False
    | Some x \<Rightarrow> AEP_SERVICE_DOCUMENTS_EXTENSION \<in>
        set (case extensions_supported x of None \<Rightarrow> [] | Some s \<Rightarrow> s))"

definition validate_document :: "inspect_document \<Rightarrow> unit result" where
  "validate_document d =
     rbind (case service_documents d of
         None \<Rightarrow> Ok ()
       | Some docs \<Rightarrow> rbind (document_ids (map doc_id docs)) (\<lambda>_.
           require (advertises_service_documents (inspect_extensions d))
             (Value_Error ''Service Documents extension must be advertised''))) (\<lambda>_.
     rbind (require (fullmatch VERSION_PATTERN (aep_version d))
       (Value_Error ''aep_version must use major.minor syntax'')) (\<lambda>_.
     rbind (require (major_version (aep_version d) = major_version AEP_VERSION)
       (Value_Error (''unsupported AEP major version: '' @ aep_version d))) (\<lambda>_.
     let authenticated = filter (\<lambda>c. c \<in> set (commands_supported (inspect_commands d)))
       [''enroll'', ''grant'', ''revoke'', ''status''] in
     require (\<not> (authenticated \<noteq> [] \<and> identity_methods (inspect_identity d) = []))
       (Value_Error ''identity.methods is required for authenticated commands''))))"

definition check_inspect_document :: "inspect_document \<Rightarrow> inspect_document result" where
  "check_inspect_document d = checks
     [opt_length_between 1 (Some 7) (service_documents d) ''service_documents'',
      in_validator (validate_document d)] d"

abbreviation inspect_fields :: "string list" where
  "inspect_fields \<equiv> [''aep_version'', ''authentication'', ''bindings'', ''claims'', ''commands'', ''core'',
     ''extensions'', ''http'', ''identity'', ''service'', ''service_documents'']"

definition inspect_document_of_json :: "json \<Rightarrow> inspect_document result" where
  "inspect_document_of_json j = rbind (open_members inspect_fields j) (\<lambda>ms.
     rbind (field ''aep_version'' dec_str ms) (\<lambda>v.
     rbind (opt_field ''authentication'' authentication_of_json ms) (\<lambda>a.
     rbind (field ''bindings'' bindings_of_json ms) (\<lambda>b.
     rbind (opt_field ''claims'' inspect_claims_of_json ms) (\<lambda>cl.
     rbind (field ''commands'' commands_of_json ms) (\<lambda>co.
     rbind (field ''core'' core_of_json ms) (\<lambda>cr.
     rbind (opt_field ''extensions'' extensions_of_json ms) (\<lambda>e.
     rbind (field ''http'' http_of_json ms) (\<lambda>h.
     rbind (field ''identity'' identity_of_json ms) (\<lambda>i.
     rbind (field ''service'' service_identity_of_json ms) (\<lambda>s.
     rbind (opt_field ''service_documents'' (dec_tuple service_document_of_json) ms) (\<lambda>sd.
     check_inspect_document \<lparr>aep_version = v, inspect_authentication = a, inspect_bindings = b,
       inspect_claims_of = cl, inspect_commands = co, inspect_core = cr, inspect_extensions = e,
       inspect_http = h, inspect_identity = i, inspect_service = s, service_documents = sd,
       inspect_extra = extras inspect_fields ms\<rparr>))))))))))))"

definition inspect_document_to_wire :: "inspect_document \<Rightarrow> json" where
  "inspect_document_to_wire d = JObj (wire ''aep_version'' (JStr (aep_version d))
     @ wire_opt ''authentication'' authentication_to_wire (inspect_authentication d)
     @ wire ''bindings'' (bindings_to_wire (inspect_bindings d))
     @ wire_opt ''claims'' inspect_claims_to_wire (inspect_claims_of d)
     @ wire ''commands'' (commands_to_wire (inspect_commands d))
     @ wire ''core'' (core_to_wire (inspect_core d))
     @ wire_opt ''extensions'' extensions_to_wire (inspect_extensions d)
     @ wire ''http'' (http_to_wire (inspect_http d))
     @ wire ''identity'' (identity_to_wire (inspect_identity d))
     @ wire ''service'' (service_identity_to_wire (inspect_service d))
     @ wire_opt ''service_documents'' (enc_list service_document_to_wire) (service_documents d)
     @ inspect_extra d)"

section \<open>Round trips\<close>

text \<open>Well-formed values: what the decoders and the constructors produce. Only the extra members and
  the literals need a condition; the checks cover the rest.\<close>

lemmas of_json_to_wire = rbind_Ok_iff open_members_wire forbid_members_wire extra_ok_extras

lemma authentication_wire: "authentication_of_json (authentication_to_wire a) = check_authentication a"
  by (cases a) (simp add: authentication_of_json_def authentication_to_wire_def forbid_members_wire)

lemma bindings_wire:
  "extra_ok [''supported''] (bindings_extra b) \<Longrightarrow> bindings_of_json (bindings_to_wire b) = check_bindings b"
  by (cases b) (simp add: bindings_of_json_def bindings_to_wire_def open_members_wire extra_ok_extras)

lemma inspect_claims_wire:
  "extra_ok inspect_claims_fields (claims_extra c) \<Longrightarrow>
     inspect_claims_of_json (inspect_claims_to_wire c) = check_inspect_claims c"
  by (cases c) (simp add: inspect_claims_of_json_def inspect_claims_to_wire_def open_members_wire extra_ok_extras)

definition config_ok :: "grant_type_config \<Rightarrow> bool" where
  "config_ok c = (supports_per_credential_revoke c \<in> {None, Some ''true'', Some ''false''}
     \<and> extra_ok config_fields (config_extra c))"

lemma grant_type_config_wire:
  assumes "config_ok c"
  shows "grant_type_config_of_json (JObj (grant_type_config_to_wire c)) = Inr c"
proof -
  have ex: "extra_ok config_fields (config_extra c)"
    and s: "supports_per_credential_revoke c = Some s \<Longrightarrow> s \<in> {''true'', ''false''}" for s
    using assms by (auto simp: config_ok_def)
  have "opt_field ''supports_per_credential_revoke'' (dec_literal [''true'', ''false''])
      (grant_type_config_to_wire c) = Inr (supports_per_credential_revoke c)"
    unfolding grant_type_config_to_wire_def
    by (rule opt_field_present) (use ex s in \<open>auto simp: extra_ok_lookup [of config_fields]\<close>)
  with ex show ?thesis
    by (simp add: grant_type_config_of_json_def grant_type_config_to_wire_def
        open_members_wire extra_ok_extras)
qed

lemma configs_wire: "list_all (\<lambda>(k, c). config_ok c) cs \<Longrightarrow> dec_configs (enc_configs cs) = Inr cs"
  unfolding dec_configs_def enc_configs_def dec_obj_def
  by (induction cs) (auto simp: grant_type_config_wire)

lemma enc_configs_not_null [simp]: "enc_configs cs \<noteq> JNull"
  by (simp add: enc_configs_def)

definition commands_ok :: "commands \<Rightarrow> bool" where
  "commands_ok c = (extra_ok commands_fields (commands_extra c)
     \<and> (case grant_types_config c of None \<Rightarrow> True | Some cs \<Rightarrow> dict_ok cs \<and> list_all (\<lambda>(k, x). config_ok x) cs)
     \<and> check_commands c = Inr c)"

lemma commands_wire:
  assumes "commands_ok c" shows "commands_of_json (commands_to_wire c) = Inr c"
proof -
  have ex: "extra_ok commands_fields (commands_extra c)"
    and cs: "\<And>cs. grant_types_config c = Some cs \<Longrightarrow> list_all (\<lambda>(k, x). config_ok x) cs"
    and ch: "check_commands c = Inr c"
    using assms by (auto simp: commands_ok_def)
  show ?thesis using ex cs ch
    by (cases c) (simp add: commands_of_json_def commands_to_wire_def open_members_wire
        extra_ok_extras extra_ok_lookup [of commands_fields] configs_wire)
qed

lemma core_wire:
  "extra_ok [''signing_algorithms''] (core_extra c) \<Longrightarrow> core_of_json (core_to_wire c) = check_core c"
  by (cases c) (simp add: core_of_json_def core_to_wire_def open_members_wire extra_ok_extras)

lemma extensions_wire:
  "extra_ok [''supported''] (extensions_extra e) \<Longrightarrow>
     extensions_of_json (extensions_to_wire e) = check_extensions e"
  by (cases e) (simp add: extensions_of_json_def extensions_to_wire_def open_members_wire extra_ok_extras
      extra_ok_lookup [of "[''supported'']"])

text \<open>A value that the class validated.\<close>

definition option_all :: "('a \<Rightarrow> bool) \<Rightarrow> 'a option \<Rightarrow> bool" where
  "option_all p v = (case v of None \<Rightarrow> True | Some x \<Rightarrow> p x)"

lemma option_all_Some: "option_all p v \<Longrightarrow> v = Some x \<Longrightarrow> p x"
  by (simp add: option_all_def)

lemma path_matching_wire [simp]: "path_matching_of_json (path_matching_to_wire p) = Inr p"
  by (cases p) (simp add: path_matching_of_json_def path_matching_to_wire_def forbid_members_wire)

lemma path_matching_not_null [simp]: "path_matching_to_wire p \<noteq> JNull"
  by (simp add: path_matching_to_wire_def)

lemma openapi_reference_wire:
  "openapi_reference_of_json (openapi_reference_to_wire r) = check_openapi_reference r"
  by (cases r) (simp add: openapi_reference_of_json_def openapi_reference_to_wire_def forbid_members_wire)

lemma openapi_reference_not_null [simp]: "openapi_reference_to_wire r \<noteq> JNull"
  by (simp add: openapi_reference_to_wire_def)

definition http_ok :: "http_configuration \<Rightarrow> bool" where
  "http_ok h = (extra_ok http_fields (http_extra h)
     \<and> option_all (\<lambda>r. check_openapi_reference r = Inr r) (http_openapi h)
     \<and> check_http h = Inr h)"

lemma http_wire:
  assumes "http_ok h" shows "http_of_json (http_to_wire h) = Inr h"
proof -
  have "openapi_reference_of_json (openapi_reference_to_wire r) = Inr r" if "http_openapi h = Some r" for r
    using assms that by (simp add: http_ok_def option_all_def openapi_reference_wire)
  with assms show ?thesis
    by (cases h) (simp add: http_ok_def http_of_json_def http_to_wire_def open_members_wire
        extra_ok_extras extra_ok_lookup [of http_fields])
qed

lemma identity_wire:
  "extra_ok [''methods''] (identity_extra i) \<Longrightarrow> identity_of_json (identity_to_wire i) = check_identity i"
  by (cases i) (simp add: identity_of_json_def identity_to_wire_def open_members_wire extra_ok_extras)

lemma service_identity_wire:
  "extra_ok [''did''] (service_extra s) \<Longrightarrow>
     service_identity_of_json (service_identity_to_wire s) = check_service_identity s"
  by (cases s) (simp add: service_identity_of_json_def service_identity_to_wire_def
      open_members_wire extra_ok_extras)

lemma representation_wire:
  "extra_ok representation_fields (rep_extra r) \<Longrightarrow>
     representation_of_json (representation_to_wire r) = check_representation r"
  by (cases r) (simp add: representation_of_json_def representation_to_wire_def
      open_members_wire extra_ok_extras)

definition service_document_ok :: "service_document \<Rightarrow> bool" where
  "service_document_ok d = (extra_ok service_document_fields (doc_extra d)
     \<and> doc_enrollment d \<in> {''required'', ''not-required''}
     \<and> list_all (\<lambda>r. extra_ok representation_fields (rep_extra r) \<and> check_representation r = Inr r)
         (representations d)
     \<and> check_service_document d = Inr d)"

lemma representations_wire:
  "list_all (\<lambda>r. extra_ok representation_fields (rep_extra r) \<and> check_representation r = Inr r) rs \<Longrightarrow>
     dec_tuple representation_of_json (enc_list representation_to_wire rs) = Inr rs"
  unfolding enc_list_def by (rule dec_tuple_map) (simp add: list_all_iff representation_wire)

lemma enc_list_not_null [simp]: "enc_list enc xs \<noteq> JNull"
  by (simp add: enc_list_def)

lemma service_document_wire:
  "service_document_ok d \<Longrightarrow> service_document_of_json (service_document_to_wire d) = Inr d"
  by (cases d) (simp add: service_document_ok_def service_document_of_json_def service_document_to_wire_def
      open_members_wire extra_ok_extras representations_wire)

lemma service_documents_wire:
  "list_all service_document_ok ds \<Longrightarrow>
     dec_tuple service_document_of_json (enc_list service_document_to_wire ds) = Inr ds"
  unfolding enc_list_def by (rule dec_tuple_map) (simp add: list_all_iff service_document_wire)

definition parts_ok :: "inspect_document \<Rightarrow> bool" where
  "parts_ok d = (
     option_all (\<lambda>a. check_authentication a = Inr a) (inspect_authentication d)
     \<and> extra_ok [''supported''] (bindings_extra (inspect_bindings d))
     \<and> check_bindings (inspect_bindings d) = Inr (inspect_bindings d)
     \<and> option_all (\<lambda>c. extra_ok inspect_claims_fields (claims_extra c) \<and> check_inspect_claims c = Inr c)
         (inspect_claims_of d)
     \<and> commands_ok (inspect_commands d)
     \<and> extra_ok [''signing_algorithms''] (core_extra (inspect_core d))
     \<and> check_core (inspect_core d) = Inr (inspect_core d)
     \<and> option_all (\<lambda>e. extra_ok [''supported''] (extensions_extra e) \<and> check_extensions e = Inr e)
         (inspect_extensions d)
     \<and> http_ok (inspect_http d)
     \<and> extra_ok [''methods''] (identity_extra (inspect_identity d))
     \<and> check_identity (inspect_identity d) = Inr (inspect_identity d)
     \<and> extra_ok [''did''] (service_extra (inspect_service d))
     \<and> check_service_identity (inspect_service d) = Inr (inspect_service d)
     \<and> option_all (list_all service_document_ok) (service_documents d)
     \<and> extra_ok inspect_fields (inspect_extra d))"

definition inspect_document_ok :: "inspect_document \<Rightarrow> bool" where
  "inspect_document_ok d = (parts_ok d \<and> check_inspect_document d = Inr d)"

lemma to_wire_not_null [simp]:
  "authentication_to_wire a \<noteq> JNull" "bindings_to_wire b \<noteq> JNull" "inspect_claims_to_wire c \<noteq> JNull"
  "commands_to_wire co \<noteq> JNull" "core_to_wire cr \<noteq> JNull" "extensions_to_wire e \<noteq> JNull"
  "http_to_wire h \<noteq> JNull" "identity_to_wire i \<noteq> JNull" "service_identity_to_wire s \<noteq> JNull"
  by (simp_all add: authentication_to_wire_def bindings_to_wire_def inspect_claims_to_wire_def
      commands_to_wire_def core_to_wire_def extensions_to_wire_def http_to_wire_def
      identity_to_wire_def service_identity_to_wire_def)

lemma inspect_document_wire:
  assumes "inspect_document_ok d"
  shows "inspect_document_of_json (inspect_document_to_wire d) = Inr d"
proof -
  have p: "parts_ok d" and ch: "check_inspect_document d = Inr d"
    using assms by (simp_all add: inspect_document_ok_def)
  have "authentication_of_json (authentication_to_wire a) = Inr a"
    if "inspect_authentication d = Some a" for a
    using p that by (simp add: parts_ok_def option_all_def authentication_wire)
  moreover have "inspect_claims_of_json (inspect_claims_to_wire c) = Inr c"
    if "inspect_claims_of d = Some c" for c
    using p that by (simp add: parts_ok_def option_all_def inspect_claims_wire)
  moreover have "extensions_of_json (extensions_to_wire e) = Inr e"
    if "inspect_extensions d = Some e" for e
    using p that by (simp add: parts_ok_def option_all_def extensions_wire)
  moreover have "dec_tuple service_document_of_json (enc_list service_document_to_wire ds) = Inr ds"
    if "service_documents d = Some ds" for ds
    using p that by (simp add: parts_ok_def option_all_def service_documents_wire)
  ultimately show ?thesis using p ch unfolding parts_ok_def
    by (cases d) (simp add: inspect_document_of_json_def inspect_document_to_wire_def
        open_members_wire extra_ok_extras extra_ok_lookup [of inspect_fields]
        bindings_wire commands_wire core_wire http_wire identity_wire service_identity_wire)
qed

section \<open>The strict parser\<close>

lemma clean_authentication [simp]: "clean (authentication_to_wire a)"
  unfolding authentication_to_wire_def
  by (rule tidy_clean, rule tidy_last [where known = "[''methods'']"]; simp)

lemma clean_bindings:
  "extra_ok [''supported''] (bindings_extra b) \<Longrightarrow> clean (bindings_to_wire b)"
  unfolding bindings_to_wire_def
  by (rule tidy_clean [where known = "[''supported'']"], (rule tidy_rules)+, simp_all)

lemma clean_inspect_claims:
  "extra_ok inspect_claims_fields (claims_extra c) \<Longrightarrow> clean (inspect_claims_to_wire c)"
  unfolding inspect_claims_to_wire_def
  by (rule tidy_clean [where known = inspect_claims_fields], (rule tidy_rules)+, simp_all)

lemma clean_configs:
  "list_all (\<lambda>(k, c). config_ok c) cs \<Longrightarrow> distinct (map fst cs) \<Longrightarrow> clean (enc_configs cs)"
proof -
  have "clean (JObj (grant_type_config_to_wire c))" if "config_ok c" for c
    unfolding grant_type_config_to_wire_def
    by (rule tidy_clean [where known = config_fields], (rule tidy_rules)+)
      (use that in \<open>simp_all add: config_ok_def\<close>)
  then show "list_all (\<lambda>(k, c). config_ok c) cs \<Longrightarrow> distinct (map fst cs) \<Longrightarrow> clean (enc_configs cs)"
    by (auto simp: enc_configs_def list_all_iff case_prod_unfold comp_def)
qed

lemma clean_commands:
  assumes "commands_ok c"
  shows "clean (commands_to_wire c)"
  unfolding commands_to_wire_def
  by (rule tidy_clean [where known = commands_fields], (rule tidy_rules)+)
    (use assms in \<open>auto simp: commands_ok_def dict_ok_def intro!: clean_configs\<close>)

lemma clean_core:
  "extra_ok [''signing_algorithms''] (core_extra c) \<Longrightarrow> clean (core_to_wire c)"
  unfolding core_to_wire_def
  by (rule tidy_clean [where known = "[''signing_algorithms'']"], (rule tidy_rules)+, simp_all)

lemma clean_extensions:
  "extra_ok [''supported''] (extensions_extra e) \<Longrightarrow> clean (extensions_to_wire e)"
  unfolding extensions_to_wire_def
  by (rule tidy_clean [where known = "[''supported'']"], (rule tidy_rules)+, simp_all)

lemma clean_openapi_reference [simp]: "clean (openapi_reference_to_wire r)"
  by (simp add: openapi_reference_to_wire_def path_matching_to_wire_def wire_def)

lemma clean_http: "http_ok h \<Longrightarrow> clean (http_to_wire h)"
  unfolding http_to_wire_def
  by (rule tidy_clean [where known = http_fields], (rule tidy_rules)+) (simp_all add: http_ok_def)

lemma clean_identity:
  "extra_ok [''methods''] (identity_extra i) \<Longrightarrow> clean (identity_to_wire i)"
  unfolding identity_to_wire_def
  by (rule tidy_clean [where known = "[''methods'']"], (rule tidy_rules)+, simp_all)

lemma clean_service_identity:
  "extra_ok [''did''] (service_extra s) \<Longrightarrow> clean (service_identity_to_wire s)"
  unfolding service_identity_to_wire_def
  by (rule tidy_clean [where known = "[''did'']"], (rule tidy_rules)+, simp_all)

lemma clean_representation:
  "extra_ok representation_fields (rep_extra r) \<Longrightarrow> clean (representation_to_wire r)"
  unfolding representation_to_wire_def
  by (rule tidy_clean [where known = representation_fields], (rule tidy_rules)+, simp_all)

lemma clean_service_document: "service_document_ok d \<Longrightarrow> clean (service_document_to_wire d)"
  unfolding service_document_to_wire_def
  by (rule tidy_clean [where known = service_document_fields], (rule tidy_rules)+)
    (auto simp: service_document_ok_def enc_list_def list_all_iff intro!: clean_representation)

lemma clean_inspect_document: "inspect_document_ok d \<Longrightarrow> clean (inspect_document_to_wire d)"
  unfolding inspect_document_to_wire_def
  by (rule tidy_clean [where known = inspect_fields], (rule tidy_rules)+)
    (auto simp: inspect_document_ok_def parts_ok_def option_all_def enc_list_def list_all_iff
      intro!: clean_bindings clean_inspect_claims clean_commands clean_core clean_extensions clean_http
        clean_identity clean_service_identity clean_service_document)

text \<open>C16 The Inspect document a program serialises is read back unchanged by the strict parser, whatever
  valid value it is, extra members included.\<close>

theorem inspect_document_round_trip:
  assumes "inspect_document_ok d"
  shows "parse_json_model (Inr (inspect_document_to_wire d)) inspect_document_of_json t = Inr d"
  by (rule parse_json_model_clean) (rule clean_inspect_document [OF assms], rule inspect_document_wire [OF assms])

text \<open>A minimal document, to instantiate properties with.\<close>

definition minimal_inspect :: "string \<Rightarrow> inspect_document" where
  "minimal_inspect did = \<lparr>aep_version = ''1.0'', inspect_authentication = None,
     inspect_bindings = \<lparr>bindings_supported = [''http''], bindings_extra = []\<rparr>,
     inspect_claims_of = None,
     inspect_commands = \<lparr>commands_supported = [''enroll'', ''inspect'', ''status''], grant_types = None,
       grant_types_config = None, commands_extra = []\<rparr>,
     inspect_core = \<lparr>core_algorithms = [''EdDSA'', ''ES256''], core_extra = []\<rparr>,
     inspect_extensions = None,
     inspect_http = \<lparr>endpoint_base = Some ''/aep/'', http_openapi = None, http_extra = []\<rparr>,
     inspect_identity = \<lparr>identity_methods = [''did:web''], identity_extra = []\<rparr>,
     inspect_service = \<lparr>service_did = did, service_extra = []\<rparr>,
     service_documents = None, inspect_extra = []\<rparr>"

lemma minimal_inspect_ok: "inspect_document_ok (minimal_inspect ''did:web:a.example'')"
  by code_simp

theorem inspect_document_round_trip_witness:
  "parse_json_model (Inr (inspect_document_to_wire (minimal_inspect ''did:web:a.example'')))
     inspect_document_of_json ''Inspect document'' = Inr (minimal_inspect ''did:web:a.example'')"
  by (rule inspect_document_round_trip [OF minimal_inspect_ok])

end
