(* ===== verification/Model_Enroll.thy ===== *)
theory Model_Enroll
  imports Inspect_Document
begin

text \<open>
  The command bodies of \<^verbatim>\<open>core/models.py\<close>: claims, enrollment and lifecycle messages, grant and
  revoke requests, assertion claims and problem details.
\<close>

section \<open>ContactAddressPrimary, ClaimValues\<close>

record contact_address =
  ca_city :: "string option"
  ca_country :: string
  ca_first_name :: string
  ca_last_name :: string
  ca_line1 :: string
  ca_line2 :: "string option"
  ca_line3 :: "string option"
  ca_postcode :: "string option"
  ca_region :: "string option"
  ca_extra :: members

definition validate_address :: "contact_address \<Rightarrow> unit result" where
  "validate_address a =
     rbind (require (ca_country a \<noteq> []) (Value_Error ''country must not be empty'')) (\<lambda>_.
     rbind (require (ca_first_name a \<noteq> []) (Value_Error ''first_name must not be empty'')) (\<lambda>_.
     rbind (require (ca_last_name a \<noteq> []) (Value_Error ''last_name must not be empty'')) (\<lambda>_.
     rbind (require (ca_line1 a \<noteq> []) (Value_Error ''line1 must not be empty'')) (\<lambda>_.
     rbind (require (ca_city a \<noteq> Some []) (Value_Error ''city must not be empty'')) (\<lambda>_.
     rbind (require (fullmatch COUNTRY_PATTERN (ca_country a))
       (Value_Error ''country must contain two uppercase ASCII letters'')) (\<lambda>_.
     require (\<not> dict_has ''postal_code'' (ca_extra a))
       (Value_Error ''use postcode instead of postal_code'')))))))"

definition check_address :: "contact_address \<Rightarrow> contact_address result" where
  "check_address a = checks [in_validator (validate_address a)] a"

abbreviation address_fields :: "string list" where
  "address_fields \<equiv> [''city'', ''country'', ''first_name'', ''last_name'', ''line1'', ''line2'', ''line3'',
     ''postcode'', ''region'']"

definition address_of_json :: "json \<Rightarrow> contact_address result" where
  "address_of_json j = rbind (open_members address_fields j) (\<lambda>ms.
     rbind (opt_field ''city'' dec_str ms) (\<lambda>ci.
     rbind (field ''country'' dec_str ms) (\<lambda>co.
     rbind (field ''first_name'' dec_str ms) (\<lambda>f.
     rbind (field ''last_name'' dec_str ms) (\<lambda>l.
     rbind (field ''line1'' dec_str ms) (\<lambda>l1.
     rbind (opt_field ''line2'' dec_str ms) (\<lambda>l2.
     rbind (opt_field ''line3'' dec_str ms) (\<lambda>l3.
     rbind (opt_field ''postcode'' dec_str ms) (\<lambda>p.
     rbind (opt_field ''region'' dec_str ms) (\<lambda>r.
     check_address \<lparr>ca_city = ci, ca_country = co, ca_first_name = f, ca_last_name = l, ca_line1 = l1,
       ca_line2 = l2, ca_line3 = l3, ca_postcode = p, ca_region = r,
       ca_extra = extras address_fields ms\<rparr>))))))))))"

definition address_to_wire :: "contact_address \<Rightarrow> json" where
  "address_to_wire a = JObj (wire_opt ''city'' JStr (ca_city a) @ wire ''country'' (JStr (ca_country a))
     @ wire ''first_name'' (JStr (ca_first_name a)) @ wire ''last_name'' (JStr (ca_last_name a))
     @ wire ''line1'' (JStr (ca_line1 a)) @ wire_opt ''line2'' JStr (ca_line2 a)
     @ wire_opt ''line3'' JStr (ca_line3 a) @ wire_opt ''postcode'' JStr (ca_postcode a)
     @ wire_opt ''region'' JStr (ca_region a) @ ca_extra a)"

record claim_values =
  cv_address :: "contact_address option"
  cv_email :: "string option"
  cv_mobile :: "string option"
  cv_birthdate :: "string option"
  cv_first_name :: "string option"
  cv_last_name :: "string option"
  cv_username :: "string option"
  cv_extra :: members

definition validate_claims :: "claim_values \<Rightarrow> unit result" where
  "validate_claims c =
     rbind (require (Some [] \<notin> set [cv_first_name c, cv_last_name c, cv_username c])
       (Value_Error ''registered person claims must not be empty'')) (\<lambda>_.
     rbind (require (case cv_email c of None \<Rightarrow> True | Some e \<Rightarrow> is_mailbox e)
       (Value_Error ''contact.email must be an RFC 5321 Mailbox'')) (\<lambda>_.
     rbind (require (case cv_mobile c of None \<Rightarrow> True | Some m \<Rightarrow> fullmatch E164_PATTERN m)
       (Value_Error ''contact.mobile must use E.164 form'')) (\<lambda>_.
     require (case cv_birthdate c of None \<Rightarrow> True | Some b \<Rightarrow> is_ok (parse_full_date b))
       (Value_Error ''person.birthdate must be an RFC 3339 full-date''))))"

definition check_claim_values :: "claim_values \<Rightarrow> claim_values result" where
  "check_claim_values c = checks [in_validator (validate_claims c)] c"

abbreviation claim_fields :: "string list" where
  "claim_fields \<equiv> [''contact.address.primary'', ''contact.email'', ''contact.mobile'', ''person.birthdate'',
     ''person.first_name'', ''person.last_name'', ''person.username'']"

definition claim_values_of_json :: "json \<Rightarrow> claim_values result" where
  "claim_values_of_json j = rbind (open_members claim_fields j) (\<lambda>ms.
     rbind (opt_field ''contact.address.primary'' address_of_json ms) (\<lambda>a.
     rbind (opt_field ''contact.email'' dec_str ms) (\<lambda>e.
     rbind (opt_field ''contact.mobile'' dec_str ms) (\<lambda>m.
     rbind (opt_field ''person.birthdate'' dec_str ms) (\<lambda>b.
     rbind (opt_field ''person.first_name'' dec_str ms) (\<lambda>f.
     rbind (opt_field ''person.last_name'' dec_str ms) (\<lambda>l.
     rbind (opt_field ''person.username'' dec_str ms) (\<lambda>u.
     check_claim_values \<lparr>cv_address = a, cv_email = e, cv_mobile = m, cv_birthdate = b,
       cv_first_name = f, cv_last_name = l, cv_username = u, cv_extra = extras claim_fields ms\<rparr>))))))))"

text \<open>\<open>ClaimValues.to_wire()\<close> as a dictionary.\<close>

definition claim_values_to_wire :: "claim_values \<Rightarrow> members" where
  "claim_values_to_wire c = wire_opt ''contact.address.primary'' address_to_wire (cv_address c)
     @ wire_opt ''contact.email'' JStr (cv_email c) @ wire_opt ''contact.mobile'' JStr (cv_mobile c)
     @ wire_opt ''person.birthdate'' JStr (cv_birthdate c)
     @ wire_opt ''person.first_name'' JStr (cv_first_name c)
     @ wire_opt ''person.last_name'' JStr (cv_last_name c)
     @ wire_opt ''person.username'' JStr (cv_username c) @ cv_extra c"

section \<open>EnrollRequest and the lifecycle responses\<close>

record enroll_request =
  er_agent_did :: string
  er_claims :: "claim_values option"
  er_idempotency_key :: "string option"
  er_acknowledged :: "string list option"
  er_extra :: members

definition check_enroll_request :: "enroll_request \<Rightarrow> enroll_request result" where
  "check_enroll_request r = checks
     [length_between 1 None (er_agent_did r) ''agent_did'',
      opt_length_between 1 None (er_idempotency_key r) ''idempotency_key''] r"

abbreviation enroll_fields :: "string list" where
  "enroll_fields \<equiv> [''agent_did'', ''claims'', ''idempotency_key'', ''acknowledged_document_ids'']"

definition enroll_request_of_json :: "json \<Rightarrow> enroll_request result" where
  "enroll_request_of_json j = rbind (open_members enroll_fields j) (\<lambda>ms.
     rbind (field ''agent_did'' dec_str ms) (\<lambda>a.
     rbind (opt_field ''claims'' claim_values_of_json ms) (\<lambda>c.
     rbind (opt_field ''idempotency_key'' dec_str ms) (\<lambda>k.
     rbind (opt_field ''acknowledged_document_ids'' dec_document_ids ms) (\<lambda>d.
     check_enroll_request \<lparr>er_agent_did = a, er_claims = c, er_idempotency_key = k,
       er_acknowledged = d, er_extra = extras enroll_fields ms\<rparr>)))))"

definition claims_json :: "claim_values \<Rightarrow> json" where
  "claims_json c = JObj (claim_values_to_wire c)"

definition enroll_request_to_wire :: "enroll_request \<Rightarrow> members" where
  "enroll_request_to_wire r = wire ''agent_did'' (JStr (er_agent_did r))
     @ wire_opt ''claims'' claims_json (er_claims r)
     @ wire_opt ''idempotency_key'' JStr (er_idempotency_key r)
     @ wire_opt ''acknowledged_document_ids'' enc_strs (er_acknowledged r) @ er_extra r"

record lifecycle_response =
  lr_status :: agent_status
  lr_owner_action :: "string option"
  lr_verification :: "string list option"
  lr_requirements :: "string list option"
  lr_extra :: members

definition pending_ok :: "string list option \<Rightarrow> bool" where
  "pending_ok v = (case v of None \<Rightarrow> True | Some vs \<Rightarrow> vs \<noteq> [] \<and> [] \<notin> set vs \<and> distinct vs)"

definition validate_pending_values :: "('b) lifecycle_response_scheme \<Rightarrow> unit result" where
  "validate_pending_values r =
     rbind (require (pending_ok (lr_verification r))
       (Value_Error ''verification_pending must contain unique non-empty values'')) (\<lambda>_.
     require (pending_ok (lr_requirements r))
       (Value_Error ''requirements_pending must contain unique non-empty values''))"

record enroll_response = lifecycle_response +
  er_document_ids :: "string list option"

record status_response = lifecycle_response +
  sr_since :: "string option"

abbreviation lifecycle_fields :: "string list" where
  "lifecycle_fields \<equiv> [''status'', ''owner_action_required'', ''verification_pending'', ''requirements_pending'']"

definition check_enroll_response :: "enroll_response \<Rightarrow> enroll_response result" where
  "check_enroll_response r = checks
     [in_validator (rbind (case er_document_ids r of None \<Rightarrow> Ok [] | Some v \<Rightarrow> document_ids v) (\<lambda>_. Ok ())),
      in_validator (validate_pending_values r)] r"

definition enroll_response_of_json :: "json \<Rightarrow> enroll_response result" where
  "enroll_response_of_json j =
     rbind (open_members (lifecycle_fields @ [''acknowledged_document_ids'']) j) (\<lambda>ms.
     rbind (field ''status'' (dec_enum agent_status_value all_agent_statuses) ms) (\<lambda>s.
     rbind (opt_field ''owner_action_required'' (dec_literal [''true'', ''false'']) ms) (\<lambda>ow.
     rbind (opt_field ''verification_pending'' dec_strs ms) (\<lambda>v.
     rbind (opt_field ''requirements_pending'' dec_strs ms) (\<lambda>r.
     rbind (opt_field ''acknowledged_document_ids'' dec_document_ids ms) (\<lambda>d.
     check_enroll_response \<lparr>lr_status = s, lr_owner_action = ow, lr_verification = v, lr_requirements = r,
       lr_extra = extras (lifecycle_fields @ [''acknowledged_document_ids'']) ms,
       er_document_ids = d\<rparr>))))))"

definition check_status_response :: "status_response \<Rightarrow> status_response result" where
  "check_status_response r = checks
     [in_validator (validate_pending_values r),
      in_validator (case sr_since r of None \<Rightarrow> Ok () | Some t \<Rightarrow> require_datetime t ''since'')] r"

definition status_response_of_json :: "json \<Rightarrow> status_response result" where
  "status_response_of_json j =
     rbind (open_members (lifecycle_fields @ [''since'']) j) (\<lambda>ms.
     rbind (field ''status'' (dec_enum agent_status_value all_agent_statuses) ms) (\<lambda>s.
     rbind (opt_field ''owner_action_required'' (dec_literal [''true'', ''false'']) ms) (\<lambda>ow.
     rbind (opt_field ''verification_pending'' dec_strs ms) (\<lambda>v.
     rbind (opt_field ''requirements_pending'' dec_strs ms) (\<lambda>r.
     rbind (opt_field ''since'' dec_str ms) (\<lambda>t.
     check_status_response \<lparr>lr_status = s, lr_owner_action = ow, lr_verification = v, lr_requirements = r,
       lr_extra = extras (lifecycle_fields @ [''since'']) ms, sr_since = t\<rparr>))))))"

text \<open>\<open>model_dump(by_alias=True, exclude_none=True)\<close>; \<open>to_wire\<close> of a lifecycle response also leaves out
  \<open>owner_action_required\<close> when it is false.\<close>

definition lifecycle_dump :: "('b) lifecycle_response_scheme \<Rightarrow> members" where
  "lifecycle_dump r = wire ''status'' (JStr (agent_status_value (lr_status r)))
     @ wire_opt ''owner_action_required'' JStr (lr_owner_action r)
     @ wire_opt ''verification_pending'' enc_strs (lr_verification r)
     @ wire_opt ''requirements_pending'' enc_strs (lr_requirements r)"

definition drop_false_owner_action :: "members \<Rightarrow> members" where
  "drop_false_owner_action ms =
     (if map_of ms ''owner_action_required'' = Some (JStr ''false'')
      then dict_pop ''owner_action_required'' ms else ms)"

definition enroll_response_dump :: "enroll_response \<Rightarrow> json" where
  "enroll_response_dump r = JObj (lifecycle_dump r
     @ wire_opt ''acknowledged_document_ids'' enc_strs (er_document_ids r) @ lr_extra r)"

definition enroll_response_to_wire :: "enroll_response \<Rightarrow> json" where
  "enroll_response_to_wire r = JObj (drop_false_owner_action (lifecycle_dump r
     @ wire_opt ''acknowledged_document_ids'' enc_strs (er_document_ids r) @ lr_extra r))"

definition status_response_to_wire :: "status_response \<Rightarrow> json" where
  "status_response_to_wire r = JObj (drop_false_owner_action (lifecycle_dump r
     @ wire_opt ''since'' JStr (sr_since r) @ lr_extra r))"

section \<open>Grant and Revoke\<close>

record grant_request =
  gr_grant_type :: string
  gr_scopes :: "string list option"
  gr_extra :: members

definition check_grant_request :: "grant_request \<Rightarrow> grant_request result" where
  "check_grant_request r = checks [length_between 1 None (gr_grant_type r) ''grant_type''] r"

definition grant_request_of_json :: "json \<Rightarrow> grant_request result" where
  "grant_request_of_json j = rbind (open_members [''grant_type'', ''requested_scopes''] j) (\<lambda>ms.
     rbind (field ''grant_type'' dec_str ms) (\<lambda>g.
     rbind (opt_field ''requested_scopes'' dec_strs ms) (\<lambda>s.
     check_grant_request \<lparr>gr_grant_type = g, gr_scopes = s,
       gr_extra = extras [''grant_type'', ''requested_scopes''] ms\<rparr>)))"

definition grant_request_to_wire :: "grant_request \<Rightarrow> json" where
  "grant_request_to_wire r = JObj (wire ''grant_type'' (JStr (gr_grant_type r))
     @ wire_opt ''requested_scopes'' enc_strs (gr_scopes r) @ gr_extra r)"

record revoke_request =
  rr_grant_type :: "string option"
  rr_credential_id :: "string option"
  rr_all :: "string option"
  rr_extra :: members

definition validate_selector :: "revoke_request \<Rightarrow> unit result" where
  "validate_selector r =
     (let valid = (rr_grant_type r \<noteq> None \<and> rr_all r = None
                     \<and> (rr_credential_id r = None \<or> rr_credential_id r \<noteq> Some []))
                  \<or> (rr_all r = Some ''true'' \<and> rr_grant_type r = None \<and> rr_credential_id r = None)
      in require (\<not> (\<not> valid \<or> (rr_credential_id r \<noteq> None \<and> rr_grant_type r = None)))
           (Value_Error ''expected grant_type, grant_type with credential_id, or all_grant_types''))"

definition check_revoke_request :: "revoke_request \<Rightarrow> revoke_request result" where
  "check_revoke_request r = checks
     [opt_length_between 1 None (rr_grant_type r) ''grant_type'',
      opt_length_between 1 None (rr_credential_id r) ''credential_id'',
      in_validator (validate_selector r)] r"

abbreviation revoke_fields :: "string list" where
  "revoke_fields \<equiv> [''grant_type'', ''credential_id'', ''all_grant_types'']"

definition revoke_request_of_json :: "json \<Rightarrow> revoke_request result" where
  "revoke_request_of_json j = rbind (open_members revoke_fields j) (\<lambda>ms.
     rbind (opt_field ''grant_type'' dec_str ms) (\<lambda>g.
     rbind (opt_field ''credential_id'' dec_str ms) (\<lambda>c.
     rbind (opt_field ''all_grant_types'' (dec_literal [''true'']) ms) (\<lambda>a.
     check_revoke_request \<lparr>rr_grant_type = g, rr_credential_id = c, rr_all = a,
       rr_extra = extras revoke_fields ms\<rparr>))))"

definition revoke_request_to_wire :: "revoke_request \<Rightarrow> json" where
  "revoke_request_to_wire r = JObj (wire_opt ''grant_type'' JStr (rr_grant_type r)
     @ wire_opt ''credential_id'' JStr (rr_credential_id r)
     @ wire_opt ''all_grant_types'' JStr (rr_all r) @ rr_extra r)"

text \<open>\<open>RevokeResponse\<close> is closed and has no members.\<close>

datatype revoke_response = Revoke_Response

definition revoke_response_of_json :: "json \<Rightarrow> revoke_response result" where
  "revoke_response_of_json j = rbind (forbid_members [] j) (\<lambda>_. Ok Revoke_Response)"

definition revoke_response_dump :: "revoke_response \<Rightarrow> json" where
  "revoke_response_dump r = JObj []"

section \<open>ClientAssertionClaims\<close>

record assertion_claims =
  aud :: string
  exp_at :: int
  iat :: int
  iss :: string
  jti :: string
  op :: assertion_operation
  resource :: "string option"
  sub :: string
  assertion_extra :: members

text \<open>\<open>allow\<close> is \<open>allow_insecure_loopback\<close> of the validation context.\<close>

definition validate_assertion :: "bool \<Rightarrow> assertion_claims \<Rightarrow> unit result" where
  "validate_assertion allow c =
     rbind (require (iss c = sub c) (Value_Error ''sub must identify the Agent DID from iss'')) (\<lambda>_.
     rbind (require (\<not> (exp_at c \<le> iat c \<or> 300 < exp_at c - iat c))
       (Value_Error ''assertion lifetime must be between 1 and 300 seconds'')) (\<lambda>_.
     rbind (if op c = Op_Authenticate
            then require (resource c \<noteq> None) (Value_Error ''authenticate requires resource'')
            else require (resource c = None) (Value_Error ''resource is only valid for authenticate'')) (\<lambda>_.
     case resource c of
       None \<Rightarrow> Ok ()
     | Some r \<Rightarrow> require_resource_uri r ''resource'' allow)))"

definition check_assertion_claims :: "bool \<Rightarrow> assertion_claims \<Rightarrow> assertion_claims result" where
  "check_assertion_claims allow c = checks
     [length_between 1 None (aud c) ''aud'', length_between 1 None (iss c) ''iss'',
      length_between 1 None (jti c) ''jti'', length_between 1 None (sub c) ''sub'',
      in_validator (validate_assertion allow c)] c"

abbreviation assertion_fields :: "string list" where
  "assertion_fields \<equiv> [''aud'', ''exp'', ''iat'', ''iss'', ''jti'', ''op'', ''resource'', ''sub'']"

definition assertion_claims_of_json :: "bool \<Rightarrow> json \<Rightarrow> assertion_claims result" where
  "assertion_claims_of_json allow j = rbind (open_members assertion_fields j) (\<lambda>ms.
     rbind (field ''aud'' dec_str ms) (\<lambda>a.
     rbind (field ''exp'' dec_int ms) (\<lambda>e.
     rbind (field ''iat'' dec_int ms) (\<lambda>i.
     rbind (field ''iss'' dec_str ms) (\<lambda>is.
     rbind (field ''jti'' dec_str ms) (\<lambda>jt.
     rbind (field ''op'' (dec_enum operation_value all_operations) ms) (\<lambda>ope.
     rbind (opt_field ''resource'' dec_str ms) (\<lambda>r.
     rbind (field ''sub'' dec_str ms) (\<lambda>s.
     check_assertion_claims allow \<lparr>aud = a, exp_at = e, iat = i, iss = is, jti = jt, op = ope,
       resource = r, sub = s, assertion_extra = extras assertion_fields ms\<rparr>)))))))))"

definition assertion_claims_to_wire :: "assertion_claims \<Rightarrow> json" where
  "assertion_claims_to_wire c = JObj (wire ''aud'' (JStr (aud c)) @ wire ''exp'' (JInt (exp_at c))
     @ wire ''iat'' (JInt (iat c)) @ wire ''iss'' (JStr (iss c)) @ wire ''jti'' (JStr (jti c))
     @ wire ''op'' (JStr (operation_value (op c))) @ wire_opt ''resource'' JStr (resource c)
     @ wire ''sub'' (JStr (sub c)) @ assertion_extra c)"

section \<open>ProblemDetails\<close>

record problem_details =
  problem_type :: string
  problem_title :: string
  problem_status :: int
  problem_code :: string
  problem_detail :: "string option"
  problem_instance :: "string option"
  problem_owner_action :: "string option"
  problem_verification :: "string list option"
  problem_requirements :: "string list option"
  problem_document_ids :: "string list option"
  problem_extra :: members

definition validate_problem :: "problem_details \<Rightarrow> unit result" where
  "validate_problem p =
     (let documents_pending = ''service_documents'' \<in> set (case problem_requirements p of None \<Rightarrow> [] | Some r \<Rightarrow> r);
          ids = problem_document_ids p in
      rbind (require (\<not> ((ids \<noteq> None \<or> documents_pending)
          \<and> (ids = None \<or> ids = Some [] \<or> \<not> documents_pending
             \<or> problem_code p \<noteq> ''requirements_unmet'' \<or> problem_status p \<noteq> 422)))
        (Value_Error ''document requirements need IDs, service_documents and HTTP 422 requirements_unmet'')) (\<lambda>_.
      rbind (require (fullmatch ERROR_CODE_PATTERN (problem_code p))
        (Value_Error ''code must use the registered AEP error-code syntax'')) (\<lambda>_.
      rbind (require (problem_type p = ''urn:aep:error:'' @ problem_code p)
        (Value_Error ''type must be the AEP error URN matching code'')) (\<lambda>_.
      rbind (require (pending_ok (problem_verification p))
        (Value_Error ''verification_pending must contain unique non-empty values'')) (\<lambda>_.
      rbind (require (pending_ok (problem_requirements p))
        (Value_Error ''requirements_pending must contain unique non-empty values'')) (\<lambda>_.
      require (\<not> (problem_code p = ''not_recognized''
          \<and> (problem_owner_action p \<noteq> None \<or> problem_verification p \<noteq> None \<or> problem_requirements p \<noteq> None)))
        (Value_Error ''not_recognized must not disclose pending metadata'')))))))"

definition check_problem_details :: "problem_details \<Rightarrow> problem_details result" where
  "check_problem_details p = checks
     [length_between 1 None (problem_type p) ''type'', length_between 1 None (problem_title p) ''title'',
      length_between 1 None (problem_code p) ''code'',
      in_validator (rbind (case problem_document_ids p of None \<Rightarrow> Ok [] | Some v \<Rightarrow> document_ids v) (\<lambda>_. Ok ())),
      in_validator (validate_problem p)] p"

abbreviation problem_fields :: "string list" where
  "problem_fields \<equiv> [''type'', ''title'', ''status'', ''code'', ''detail'', ''instance'',
     ''owner_action_required'', ''verification_pending'', ''requirements_pending'', ''required_document_ids'']"

definition problem_details_of_json :: "json \<Rightarrow> problem_details result" where
  "problem_details_of_json j = rbind (open_members problem_fields j) (\<lambda>ms.
     rbind (field ''type'' dec_str ms) (\<lambda>ty.
     rbind (field ''title'' dec_str ms) (\<lambda>ti.
     rbind (field ''status'' dec_int ms) (\<lambda>st.
     rbind (field ''code'' dec_str ms) (\<lambda>co.
     rbind (opt_field ''detail'' dec_str ms) (\<lambda>de.
     rbind (opt_field ''instance'' dec_str ms) (\<lambda>ins.
     rbind (opt_field ''owner_action_required'' (dec_literal [''true'']) ms) (\<lambda>ow.
     rbind (opt_field ''verification_pending'' dec_strs ms) (\<lambda>ve.
     rbind (opt_field ''requirements_pending'' dec_strs ms) (\<lambda>re.
     rbind (opt_field ''required_document_ids'' dec_document_ids ms) (\<lambda>di.
     check_problem_details \<lparr>problem_type = ty, problem_title = ti, problem_status = st, problem_code = co,
       problem_detail = de, problem_instance = ins, problem_owner_action = ow, problem_verification = ve,
       problem_requirements = re, problem_document_ids = di, problem_extra = extras problem_fields ms\<rparr>)))))))))))"

definition problem_details_to_wire :: "problem_details \<Rightarrow> json" where
  "problem_details_to_wire p = JObj (wire ''type'' (JStr (problem_type p)) @ wire ''title'' (JStr (problem_title p))
     @ wire ''status'' (JInt (problem_status p)) @ wire ''code'' (JStr (problem_code p))
     @ wire_opt ''detail'' JStr (problem_detail p) @ wire_opt ''instance'' JStr (problem_instance p)
     @ wire_opt ''owner_action_required'' JStr (problem_owner_action p)
     @ wire_opt ''verification_pending'' enc_strs (problem_verification p)
     @ wire_opt ''requirements_pending'' enc_strs (problem_requirements p)
     @ wire_opt ''required_document_ids'' enc_strs (problem_document_ids p) @ problem_extra p)"

end
