(* ===== verification/Model_Credential.thy ===== *)
theory Model_Credential
  imports Model_Enroll
begin

text \<open>
  The credential responses of \<^verbatim>\<open>core/models.py\<close> and the small models after them. A response class
  that inherits from \<open>CredentialResponse\<close> extends its record; the parent's validator runs first.
\<close>

section \<open>CredentialResponse\<close>

text \<open>
  \<open>scopes\<close> is the only nullable member. After \<open>normalize_scopes\<close> the attribute is a tuple; whether the
  member was given (\<open>model_fields_set\<close>) decides if \<open>to_wire\<close> prints it.
\<close>

record credential_response =
  credential_id :: string
  expires_at :: string
  scopes :: "string list"
  scopes_given :: bool
  credential_extra :: members

abbreviation credential_fields :: "string list" where
  "credential_fields \<equiv> [''credential_id'', ''expires_at'', ''scopes'']"

definition nullable_members :: "string list \<Rightarrow> json \<Rightarrow> members result" where
  "nullable_members known = aep_members False known [''scopes'']"

definition scopes_field :: "members \<Rightarrow> (string list \<times> bool) result" where
  "scopes_field ms = (case map_of ms ''scopes'' of
      None \<Rightarrow> Ok ([], False)
    | Some JNull \<Rightarrow> Ok ([], True)
    | Some j \<Rightarrow> rbind (at_loc (Name ''scopes'') (dec_strs j)) (\<lambda>s. Ok (s, True)))"

definition check_credential :: "'b credential_response_scheme \<Rightarrow> unit result list" where
  "check_credential c =
     [length_between 1 None (credential_id c) ''credential_id'',
      in_validator (require_datetime (expires_at c) ''expires_at'')]"

definition wire_scopes :: "'b credential_response_scheme \<Rightarrow> members" where
  "wire_scopes c = (if scopes_given c then wire ''scopes'' (enc_strs (scopes c)) else [])"

definition credential_to_wire :: "'b credential_response_scheme \<Rightarrow> members" where
  "credential_to_wire c = wire ''credential_id'' (JStr (credential_id c))
     @ wire ''expires_at'' (JStr (expires_at c)) @ wire_scopes c"

text \<open>A value that a constructor or decoder can have produced.\<close>

definition credential_ok :: "string list \<Rightarrow> 'b credential_response_scheme \<Rightarrow> bool" where
  "credential_ok known c = (extra_ok known (credential_extra c) \<and> (scopes_given c \<or> scopes c = []))"

section \<open>OAuthBearerGrantResponse\<close>

record oauth_bearer_response = credential_response +
  access_token :: string
  token_format :: "string option"
  token_type :: string

abbreviation bearer_fields :: "string list" where
  "bearer_fields \<equiv> credential_fields @ [''access_token'', ''token_format'', ''token_type'']"

definition check_oauth_bearer :: "oauth_bearer_response \<Rightarrow> oauth_bearer_response result" where
  "check_oauth_bearer c = checks
     (length_between 1 None (access_token c) ''access_token'' # check_credential c) c"

definition oauth_bearer_of_json :: "json \<Rightarrow> oauth_bearer_response result" where
  "oauth_bearer_of_json j = rbind (nullable_members bearer_fields j) (\<lambda>ms.
     rbind (field ''credential_id'' dec_str ms) (\<lambda>i.
     rbind (field ''expires_at'' dec_str ms) (\<lambda>e.
     rbind (scopes_field ms) (\<lambda>(s, given).
     rbind (field ''access_token'' dec_str ms) (\<lambda>t.
     rbind (opt_field ''token_format'' (dec_literal [''opaque'', ''jwt'']) ms) (\<lambda>f.
     rbind (field ''token_type'' (dec_literal [''Bearer'']) ms) (\<lambda>ty.
     check_oauth_bearer \<lparr>credential_id = i, expires_at = e, scopes = s, scopes_given = given,
       credential_extra = extras bearer_fields ms, access_token = t, token_format = f,
       token_type = ty\<rparr>)))))))"

definition oauth_bearer_to_wire :: "oauth_bearer_response \<Rightarrow> json" where
  "oauth_bearer_to_wire c = JObj (credential_to_wire c @ wire ''access_token'' (JStr (access_token c))
     @ wire_opt ''token_format'' JStr (token_format c) @ wire ''token_type'' (JStr (token_type c))
     @ credential_extra c)"

section \<open>ApiKeyGrantResponse\<close>

record api_key_response = credential_response +
  api_key :: string
  api_key_header :: string

abbreviation api_key_fields :: "string list" where
  "api_key_fields \<equiv> credential_fields @ [''api_key'', ''header'']"

definition api_key_char :: "char \<Rightarrow> bool" where
  "api_key_char c = (\<not> (ord c < 33 \<or> ord c > 126 \<or> ord c \<in> {34, 44, 59, 92}))"

definition validate_api_key :: "api_key_response \<Rightarrow> unit result" where
  "validate_api_key c =
     rbind (require (list_all api_key_char (api_key c))
       (Value_Error ''api_key must be an unambiguous HTTP field value'')) (\<lambda>_.
     require (fullmatch HTTP_FIELD_NAME_PATTERN (api_key_header c))
       (Value_Error ''header must be an HTTP field name''))"

definition check_api_key :: "api_key_response \<Rightarrow> api_key_response result" where
  "check_api_key c = checks
     (length_between 1 None (api_key c) ''api_key''
      # length_between 1 None (api_key_header c) ''header''
      # check_credential c @ [in_validator (validate_api_key c)]) c"

definition api_key_of_json :: "json \<Rightarrow> api_key_response result" where
  "api_key_of_json j = rbind (nullable_members api_key_fields j) (\<lambda>ms.
     rbind (field ''credential_id'' dec_str ms) (\<lambda>i.
     rbind (field ''expires_at'' dec_str ms) (\<lambda>e.
     rbind (scopes_field ms) (\<lambda>(s, given).
     rbind (field ''api_key'' dec_str ms) (\<lambda>k.
     rbind (field ''header'' dec_str ms) (\<lambda>h.
     check_api_key \<lparr>credential_id = i, expires_at = e, scopes = s, scopes_given = given,
       credential_extra = extras api_key_fields ms, api_key = k, api_key_header = h\<rparr>))))))"

definition api_key_to_wire :: "api_key_response \<Rightarrow> json" where
  "api_key_to_wire c = JObj (credential_to_wire c @ wire ''api_key'' (JStr (api_key c))
     @ wire ''header'' (JStr (api_key_header c)) @ credential_extra c)"

section \<open>BasicGrantResponse\<close>

record basic_response = credential_response +
  basic_password :: string
  basic_realm :: "string option"
  basic_username :: string

abbreviation basic_fields :: "string list" where
  "basic_fields \<equiv> credential_fields @ [''password'', ''realm'', ''username'']"

definition validate_basic :: "basic_response \<Rightarrow> unit result" where
  "validate_basic c =
     rbind (require (\<not> (CHR '':'' \<in> set (basic_username c) \<or> contains_control_character (basic_username c)))
       (Value_Error ''username must not contain a colon or control character'')) (\<lambda>_.
     require (\<not> contains_control_character (basic_password c))
       (Value_Error ''password must not contain control characters''))"

definition check_basic :: "basic_response \<Rightarrow> basic_response result" where
  "check_basic c = checks
     (length_between 1 None (basic_password c) ''password''
      # opt_length_between 1 None (basic_realm c) ''realm''
      # length_between 1 None (basic_username c) ''username''
      # check_credential c @ [in_validator (validate_basic c)]) c"

definition basic_of_json :: "json \<Rightarrow> basic_response result" where
  "basic_of_json j = rbind (nullable_members basic_fields j) (\<lambda>ms.
     rbind (field ''credential_id'' dec_str ms) (\<lambda>i.
     rbind (field ''expires_at'' dec_str ms) (\<lambda>e.
     rbind (scopes_field ms) (\<lambda>(s, given).
     rbind (field ''password'' dec_str ms) (\<lambda>p.
     rbind (opt_field ''realm'' dec_str ms) (\<lambda>r.
     rbind (field ''username'' dec_str ms) (\<lambda>u.
     check_basic \<lparr>credential_id = i, expires_at = e, scopes = s, scopes_given = given,
       credential_extra = extras basic_fields ms, basic_password = p, basic_realm = r,
       basic_username = u\<rparr>)))))))"

definition basic_to_wire :: "basic_response \<Rightarrow> json" where
  "basic_to_wire c = JObj (credential_to_wire c @ wire ''password'' (JStr (basic_password c))
     @ wire_opt ''realm'' JStr (basic_realm c) @ wire ''username'' (JStr (basic_username c))
     @ credential_extra c)"

section \<open>ProtectedResourceAuthorization, IdempotencyMetadata, OpenApiAepSecurityScheme\<close>

record authorization =
  auth_carrier :: carrier
  auth_scheme_of :: auth_scheme
  credentials :: string

definition check_authorization :: "authorization \<Rightarrow> authorization result" where
  "check_authorization a = checks [length_between 1 None (credentials a) ''credentials''] a"

definition all_carriers :: "carrier list" where "all_carriers = [Carrier_Standard, Carrier_Dedicated]"
definition all_schemes :: "auth_scheme list" where "all_schemes = [Scheme_AEP, Scheme_Bearer, Scheme_Basic]"

definition authorization_of_json :: "json \<Rightarrow> authorization result" where
  "authorization_of_json j = rbind (forbid_members [''carrier'', ''scheme'', ''credentials''] j) (\<lambda>ms.
     rbind (field ''carrier'' (dec_enum carrier_value all_carriers) ms) (\<lambda>c.
     rbind (field ''scheme'' (dec_enum scheme_value all_schemes) ms) (\<lambda>s.
     rbind (field ''credentials'' dec_str ms) (\<lambda>v.
     check_authorization \<lparr>auth_carrier = c, auth_scheme_of = s, credentials = v\<rparr>))))"

record idempotency_metadata =
  im_key :: string
  im_agent_did :: "string option"
  im_first_hash :: "string option"
  im_second_hash :: "string option"
  im_extra :: members

definition validate_hashes :: "idempotency_metadata \<Rightarrow> unit result" where
  "validate_hashes m =
     require (list_all (\<lambda>v. case v of None \<Rightarrow> True | Some h \<Rightarrow> fullmatch BODY_HASH_PATTERN h)
         [im_first_hash m, im_second_hash m])
       (Value_Error ''body hashes must use lowercase sha256 form'')"

definition check_idempotency_metadata :: "idempotency_metadata \<Rightarrow> idempotency_metadata result" where
  "check_idempotency_metadata m = checks
     [length_between 1 None (im_key m) ''idempotency_key'',
      opt_length_between 1 None (im_agent_did m) ''agent_did'',
      in_validator (validate_hashes m)] m"

abbreviation metadata_fields :: "string list" where
  "metadata_fields \<equiv> [''idempotency_key'', ''agent_did'', ''first_body_hash'', ''second_body_hash'']"

definition idempotency_metadata_of_json :: "json \<Rightarrow> idempotency_metadata result" where
  "idempotency_metadata_of_json j = rbind (open_members metadata_fields j) (\<lambda>ms.
     rbind (field ''idempotency_key'' dec_str ms) (\<lambda>k.
     rbind (opt_field ''agent_did'' dec_str ms) (\<lambda>a.
     rbind (opt_field ''first_body_hash'' dec_str ms) (\<lambda>f.
     rbind (opt_field ''second_body_hash'' dec_str ms) (\<lambda>s.
     check_idempotency_metadata \<lparr>im_key = k, im_agent_did = a, im_first_hash = f, im_second_hash = s,
       im_extra = extras metadata_fields ms\<rparr>)))))"

record openapi_security_scheme =
  authentication_method :: string
  security_extra :: members

definition check_security_scheme :: "openapi_security_scheme \<Rightarrow> openapi_security_scheme result" where
  "check_security_scheme s = checks
     [in_validator (require (fullmatch IDENTIFIER_PATTERN (authentication_method s))
       (Value_Error ''authentication method uses the registered identifier syntax''))] s"

definition security_scheme_of_json :: "json \<Rightarrow> openapi_security_scheme result" where
  "security_scheme_of_json j = rbind (open_members [''x-aep-authentication-method''] j) (\<lambda>ms.
     rbind (field ''x-aep-authentication-method'' dec_str ms) (\<lambda>m.
     check_security_scheme \<lparr>authentication_method = m,
       security_extra = extras [''x-aep-authentication-method''] ms\<rparr>))"

section \<open>Facts\<close>

lemma pydantic_nullable_members [simp, pydantic_intros]: "pydantic (nullable_members known j)"
  by (simp add: nullable_members_def)

lemma nullable_members_wire: "no_null known ms \<Longrightarrow> nullable_members known (JObj ms) = Inr ms"
  by (simp add: nullable_members_def aep_members_def reject_explicit_null_no_null)

lemma no_null_wire_scopes [simp]: "no_null known (wire_scopes c)"
  by (simp add: wire_scopes_def)

lemma extras_wire_scopes [simp]: "''scopes'' \<in> set known \<Longrightarrow> extras known (wire_scopes c) = []"
  by (simp add: wire_scopes_def extras_def)

lemma skip_wire_scopes [simp]:
  "k \<noteq> ''scopes'' \<Longrightarrow> field k dec (wire_scopes c @ ms) = field k dec ms"
  "k \<noteq> ''scopes'' \<Longrightarrow> opt_field k dec (wire_scopes c @ ms) = opt_field k dec ms"
  by (simp_all add: wire_scopes_def)

lemma scopes_field_skip [simp]:
  "k \<noteq> ''scopes'' \<Longrightarrow> scopes_field (wire k j @ ms) = scopes_field ms"
  "k \<noteq> ''scopes'' \<Longrightarrow> scopes_field (wire_opt k enc v @ ms) = scopes_field ms"
  by (simp_all add: scopes_field_def map_add_def split: option.splits)

lemma scopes_field_wire:
  assumes "scopes_given c \<or> scopes c = []" and "map_of ms ''scopes'' = None"
  shows "scopes_field (wire_scopes c @ ms) = Inr (scopes c, scopes_given c)"
  using assms
  by (auto simp: wire_scopes_def scopes_field_def map_add_def enc_strs_def dec_tuple_def dec_items_map
      split: json.splits)

lemma oauth_bearer_wire:
  assumes "credential_ok bearer_fields c" and "token_type c = ''Bearer''"
    and "\<And>f. token_format c = Some f \<Longrightarrow> f \<in> {''opaque'', ''jwt''}"
  shows "oauth_bearer_of_json (oauth_bearer_to_wire c) = check_oauth_bearer c"
  using assms unfolding credential_ok_def
  by (cases c) (simp add: oauth_bearer_of_json_def oauth_bearer_to_wire_def credential_to_wire_def
      nullable_members_wire extra_ok_extras extra_ok_lookup [of bearer_fields] scopes_field_wire)

lemma api_key_wire:
  assumes "credential_ok api_key_fields c"
  shows "api_key_of_json (api_key_to_wire c) = check_api_key c"
  using assms unfolding credential_ok_def
  by (cases c) (simp add: api_key_of_json_def api_key_to_wire_def credential_to_wire_def
      nullable_members_wire extra_ok_extras extra_ok_lookup [of api_key_fields] scopes_field_wire)

lemma basic_wire:
  assumes "credential_ok basic_fields c"
  shows "basic_of_json (basic_to_wire c) = check_basic c"
  using assms unfolding credential_ok_def
  by (cases c) (simp add: basic_of_json_def basic_to_wire_def credential_to_wire_def
      nullable_members_wire extra_ok_extras extra_ok_lookup [of basic_fields] scopes_field_wire)

end
