(* ===== verification/Core_Http.thy ===== *)
theory Core_Http
  imports Model_Credential
begin

text \<open>
  \<^verbatim>\<open>core/http.py\<close>: the request and response values, media types, command paths, and the two
  authorization carriers with their parser and printer.
\<close>

section \<open>Messages\<close>

record http_request =
  rq_method :: string
  rq_url :: string
  rq_headers :: "(string, string) dict"
  rq_body :: "body option"

record http_response =
  rs_status :: int
  rs_headers :: "(string, string) dict"
  rs_body :: body

section \<open>Media types\<close>

abbreviation blanks :: regex where "blanks \<equiv> Many (Cls (singles [CHR '' '', CHR 0x09]))"
abbreviation token :: regex where "token \<equiv> Plus (Cls token_chars)"

definition is_blank :: "char \<Rightarrow> bool" where
  "is_blank c = (c \<in> {CHR '' '', CHR 0x09})"

definition QUOTED_STRING :: regex where
  "QUOTED_STRING = Cat [Cls [(34, 34)],
     Many (Alt (Cls [(9, 9), (32, 33), (35, 91), (93, 126), (128, 255)])
               (Seq (Cls [(92, 92)]) (Cls [(9, 9), (32, 126), (128, 255)]))),
     Cls [(34, 34)]]"

definition MEDIA_TYPE_PATTERN :: regex where
  "MEDIA_TYPE_PATTERN = Cat [blanks, token, Lit ''/'', token, blanks,
     Many (Cat [Lit '';'', blanks, token, blanks, Lit ''='', blanks, Alt token QUOTED_STRING, blanks])]"

definition is_token_char :: "char \<Rightarrow> bool" where
  "is_token_char c = in_cls token_chars c"

text \<open>The groups \<open>type\<close> and \<open>subtype\<close>: token characters exclude the blank and the slash.\<close>

definition media_type_groups :: "string \<Rightarrow> string \<times> string" where
  "media_type_groups v = (let s = dropWhile is_blank v; t = takeWhile is_token_char s
     in (t, takeWhile is_token_char (tl (drop (length t) s))))"

definition media_type_essence :: "string \<Rightarrow> string" where
  "media_type_essence v =
     (if \<not> fullmatch MEDIA_TYPE_PATTERN v then []
      else case media_type_groups v of (t, s) \<Rightarrow> lower (t @ ''/'' @ s))"

section \<open>Command paths\<close>

definition normalize_endpoint_base :: "string \<Rightarrow> string result" where
  "normalize_endpoint_base base =
     rbind (require (is_endpoint_path base)
       (Value_Error ''AEP endpoint_base must be an origin-relative absolute path'')) (\<lambda>_.
     Ok (if ends_with base ''/'' then base else base @ ''/''))"

definition command_path :: "command \<Rightarrow> string \<Rightarrow> string result" where
  "command_path c base =
     rbind (require (c \<noteq> Cmd_Inspect)
       (Value_Error ''Inspect does not have a command endpoint path'')) (\<lambda>_.
     rbind (normalize_endpoint_base base) (\<lambda>b. Ok (b @ command_value c)))"

definition or_default :: "string option \<Rightarrow> string \<Rightarrow> string" where
  "or_default v d = (case v of None \<Rightarrow> d | Some s \<Rightarrow> if s = [] then d else s)"

definition command_path_from_inspect :: "inspect_document \<Rightarrow> command \<Rightarrow> string result" where
  "command_path_from_inspect document c =
     command_path c (or_default (endpoint_base (inspect_http document)) DEFAULT_HTTP_ENDPOINT_BASE)"

section \<open>Authorization\<close>

definition CREDENTIALS_PATTERN :: regex where
  "CREDENTIALS_PATTERN = Plus (Cls [(33, 126)])"

definition NoCase :: "string \<Rightarrow> regex" where
  "NoCase s = Cat (map (\<lambda>c. Cls (singles [lower_char c, upper_char c])) s)"

definition AUTHORIZATION_PATTERN :: regex where
  "AUTHORIZATION_PATTERN = Cat [AnyOf [NoCase ''AEP'', NoCase ''Bearer'', NoCase ''Basic''],
     Plus (Cls (singles [CHR '' '', CHR 0x09])), CREDENTIALS_PATTERN, blanks]"

definition render_authorization :: "authorization \<Rightarrow> (string \<times> string) result" where
  "render_authorization a =
     rbind (require (credentials a \<noteq> [])
       (Authorization_Error ''Authorization credentials must not be empty.'' ''invalid_request'')) (\<lambda>_.
     rbind (require (fullmatch CREDENTIALS_PATTERN (credentials a))
       (Authorization_Error ''Authorization credentials must not contain whitespace or control characters.''
          ''invalid_request'')) (\<lambda>_.
     Ok (carrier_value (auth_carrier a), scheme_value (auth_scheme_of a) @ '' '' @ credentials a)))"

text \<open>\<open>match.group(1)\<close> and \<open>match.group(2)\<close>: credentials hold no blank.\<close>

definition authorization_groups :: "string \<Rightarrow> string \<times> string" where
  "authorization_groups v =
     (takeWhile (\<lambda>c. \<not> is_blank c) v,
      takeWhile (\<lambda>c. \<not> is_blank c) (dropWhile is_blank (dropWhile (\<lambda>c. \<not> is_blank c) v)))"

definition scheme_of_name :: "string \<Rightarrow> auth_scheme option" where
  "scheme_of_name n = map_of (map (\<lambda>s. (lower (scheme_value s), s)) all_schemes) (lower n)"

definition parse_authorization :: "string \<Rightarrow> carrier \<Rightarrow> authorization result" where
  "parse_authorization v c =
     rbind (require (\<not> (c = Carrier_Dedicated \<and> CHR '','' \<in> set v))
       (Authorization_Error ''The dedicated authorization field is ambiguous.'' ''not_recognized'')) (\<lambda>_.
     rbind (require (fullmatch AUTHORIZATION_PATTERN v)
       (Authorization_Error ''The authorization presentation was not recognized.'' ''not_recognized'')) (\<lambda>_.
     case authorization_groups v of (name, value) \<Rightarrow>
       (case scheme_of_name name of
          None \<Rightarrow> Raise (Key_Error name)
        | Some s \<Rightarrow> check_authorization
            \<lparr>auth_carrier = c, auth_scheme_of = s, credentials = value\<rparr>)))"

definition authorization_header_name :: "carrier \<Rightarrow> string" where
  "authorization_header_name c =
     (if c = Carrier_Dedicated then AEP_AUTHORIZATION_HEADER else ''Authorization'')"

section \<open>Facts\<close>

lemma is_blank_iff: "in_cls (singles [CHR '' '', CHR 0x09]) c \<longleftrightarrow> is_blank c"
  by (auto simp: is_blank_def)

lemma matches_blanks: "matches blanks s \<longleftrightarrow> list_all is_blank s"
  unfolding matches_Many_Cls by (simp add: is_blank_iff [abs_def] list_all_iff)

lemma matches_credentials:
  "fullmatch CREDENTIALS_PATTERN s \<longleftrightarrow> s \<noteq> [] \<and> list_all (in_range 33 126) s"
  by (simp add: CREDENTIALS_PATTERN_def fullmatch_matches matches_Plus_Cls in_cls_def [abs_def])

lemma visible_not_blank: "in_range 33 126 c \<Longrightarrow> \<not> is_blank c"
  by (auto simp: is_blank_def in_range_def)

text \<open>What the pattern says of a value, as a decomposition.\<close>

definition scheme_words :: "regex" where
  "scheme_words = AnyOf [NoCase ''AEP'', NoCase ''Bearer'', NoCase ''Basic'']"

lemma authorization_pattern_iff:
  "fullmatch AUTHORIZATION_PATTERN v \<longleftrightarrow>
     (\<exists>w sp cr tr. v = w @ sp @ cr @ tr \<and> fullmatch scheme_words w
        \<and> sp \<noteq> [] \<and> list_all is_blank sp \<and> fullmatch CREDENTIALS_PATTERN cr \<and> list_all is_blank tr)"
  unfolding AUTHORIZATION_PATTERN_def scheme_words_def [symmetric] fullmatch_matches Cat.simps
    matches_Seq matches_Plus_Cls matches_blanks is_blank_iff [abs_def]
  by (intro iffI; elim exE conjE; simp; blast)

lemma lower_char_eq:
  assumes "is_alpha c"
  shows "lower_char d = lower_char c \<longleftrightarrow> d = lower_char c \<or> d = upper_char c"
proof -
  have "ord c < 256" "ord d < 256" by (simp_all add: ord_lt_256)
  with assms show ?thesis
    unfolding ord_inject [symmetric] lower_char_def upper_char_def is_alpha_def is_upper_def is_lower_def in_range_def
    by (auto simp: of_char_of split: if_splits)
qed

lemma matches_NoCase:
  assumes "list_all is_alpha s"
  shows "matches (NoCase s) w \<longleftrightarrow> lower w = lower s"
  using assms
proof (induction s arbitrary: w)
  case Nil
  show ?case by (simp add: NoCase_def lower_def)
next
  case (Cons c s)
  have one: "matches (Cls (singles [lower_char c, upper_char c])) x \<longleftrightarrow> (\<exists>d. x = [d] \<and> lower_char d = lower_char c)" for x
    using Cons.prems lower_char_eq [of c] unfolding matches_Cls in_singles by auto
  show ?case
  proof (cases s)
    case Nil
    then show ?thesis using one [of w] by (auto simp: NoCase_def lower_def)
  next
    case (Cons c' s')
    then have "NoCase (c # s) = Seq (Cls (singles [lower_char c, upper_char c])) (NoCase s)"
      by (simp add: NoCase_def)
    note eq = this
    have "matches (NoCase (c # s)) w \<longleftrightarrow> (\<exists>d v. w = d # v \<and> lower_char d = lower_char c \<and> lower v = lower s)"
      using Cons.IH Cons.prems unfolding eq matches_Seq one
      by simp (metis append_Cons append_Nil)
    then show ?thesis by (cases w) (auto simp: lower_def)
  qed
qed

lemma scheme_words_iff:
  "fullmatch scheme_words w \<longleftrightarrow> lower w \<in> {''aep'', ''bearer'', ''basic''}"
proof -
  have "list_all is_alpha ''AEP''" "list_all is_alpha ''Bearer''" "list_all is_alpha ''Basic''"
    "lower ''AEP'' = ''aep''" "lower ''Bearer'' = ''bearer''" "lower ''Basic'' = ''basic''"
    by code_simp+
  note facts = this
  show ?thesis
    unfolding scheme_words_def fullmatch_matches AnyOf.simps matches_Alt
      matches_NoCase [OF facts(1)] matches_NoCase [OF facts(2)] matches_NoCase [OF facts(3)]
    using facts(4-6) by simp
qed

lemma all_schemes_lower:
  "scheme_of_name n = (if lower n = ''aep'' then Some Scheme_AEP else if lower n = ''bearer'' then Some Scheme_Bearer
     else if lower n = ''basic'' then Some Scheme_Basic else None)"
proof -
  have "lower ''AEP'' = ''aep''" "lower ''Bearer'' = ''bearer''" "lower ''Basic'' = ''basic''"
    by code_simp+
  then show ?thesis by (simp add: scheme_of_name_def all_schemes_def)
qed

lemma lower_not_blank: "lower w \<in> {''aep'', ''bearer'', ''basic''} \<Longrightarrow> list_all (\<lambda>c. \<not> is_blank c) w"
proof -
  assume a: "lower w \<in> {''aep'', ''bearer'', ''basic''}"
  have b: "lower_char c = c" if "is_blank c" for c
    using that by (auto simp: is_blank_def lower_char_def is_upper_def in_range_def)
  have "\<forall>c \<in> set (lower w). \<not> is_blank c"
    using a by (auto simp: is_blank_def)
  with b show ?thesis
    by (fastforce simp: list_all_iff lower_def)
qed

lemma authorization_groups_unique:
  assumes "list_all (\<lambda>c. \<not> is_blank c) w" "sp \<noteq> []" "list_all is_blank sp"
    "cr \<noteq> []" "list_all (in_range 33 126) cr" "list_all is_blank tr"
  shows "authorization_groups (w @ sp @ cr @ tr) = (w, cr)"
proof -
  have nb: "list_all (\<lambda>c. \<not> is_blank c) cr"
    using assms(5) visible_not_blank by (auto simp: list_all_iff)
  obtain s sp' where sp: "sp = s # sp'" using assms(2) by (cases sp) auto
  obtain k cr' where cr: "cr = k # cr'" using assms(4) by (cases cr) auto
  have "dropWhile (\<lambda>c. \<not> is_blank c) (w @ sp @ cr @ tr) = sp @ cr @ tr"
    "takeWhile (\<lambda>c. \<not> is_blank c) (w @ sp @ cr @ tr) = w"
    using assms(1,3) by (simp_all add: sp list_all_iff)
  moreover have "dropWhile is_blank (sp @ cr @ tr) = cr @ tr"
    using assms(3) nb by (simp add: cr list_all_iff)
  moreover have "takeWhile (\<lambda>c. \<not> is_blank c) (cr @ tr) = cr"
    using nb assms(6) by (cases tr) (auto simp: list_all_iff)
  ultimately show ?thesis by (simp add: authorization_groups_def)
qed

lemma scheme_name_iff: "scheme_of_name w = Some s \<longleftrightarrow> lower w = lower (scheme_value s)"
proof -
  have "lower (scheme_value Scheme_AEP) = ''aep''" "lower (scheme_value Scheme_Bearer) = ''bearer''"
    "lower (scheme_value Scheme_Basic) = ''basic''"
    by code_simp+
  then show ?thesis by (cases s) (auto simp: all_schemes_lower)
qed

definition presentation :: "string \<Rightarrow> string \<Rightarrow> string \<Rightarrow> string \<Rightarrow> string \<Rightarrow> bool" where
  "presentation v w sp cr tr = (v = w @ sp @ cr @ tr \<and> lower w \<in> {''aep'', ''bearer'', ''basic''}
     \<and> sp \<noteq> [] \<and> list_all is_blank sp \<and> cr \<noteq> [] \<and> list_all (in_range 33 126) cr \<and> list_all is_blank tr)"

lemma authorization_pattern_presentation:
  "fullmatch AUTHORIZATION_PATTERN v \<longleftrightarrow> (\<exists>w sp cr tr. presentation v w sp cr tr)"
  unfolding authorization_pattern_iff scheme_words_iff matches_credentials presentation_def conj_assoc ..

lemma authorization_groups_presentation:
  "presentation v w sp cr tr \<Longrightarrow> authorization_groups v = (w, cr)"
  using authorization_groups_unique [of w sp cr tr] lower_not_blank [of w]
  by (simp add: presentation_def)

lemma lower_scheme_value: "lower (scheme_value s) \<in> {''aep'', ''bearer'', ''basic''}"
  using scheme_name_iff [of "scheme_value s" s] by (simp add: all_schemes_lower split: if_splits)

lemma parse_presentation:
  assumes "presentation v w sp cr tr" and "lower w = lower (scheme_value s)"
    and "c = Carrier_Dedicated \<longrightarrow> CHR '','' \<notin> set v"
  shows "parse_authorization v c = Inr \<lparr>auth_carrier = c, auth_scheme_of = s, credentials = cr\<rparr>"
proof -
  have "fullmatch AUTHORIZATION_PATTERN v"
    using assms(1) authorization_pattern_presentation by blast
  moreover have "scheme_of_name w = Some s" using assms(2) scheme_name_iff by simp
  moreover have "cr \<noteq> []" using assms(1) by (simp add: presentation_def)
  ultimately show ?thesis
    using assms(3) authorization_groups_presentation [OF assms(1)]
    by (cases cr) (auto simp: parse_authorization_def check_authorization_def length_between_def)
qed

lemma parse_authorization_presentation:
  assumes "parse_authorization v c = Inr a"
  obtains w sp tr where "presentation v w sp (credentials a) tr"
    and "lower w = lower (scheme_value (auth_scheme_of a))" and "auth_carrier a = c"
    and "c = Carrier_Dedicated \<longrightarrow> CHR '','' \<notin> set v"
proof -
  from assms have comma: "c = Carrier_Dedicated \<longrightarrow> CHR '','' \<notin> set v"
    and "fullmatch AUTHORIZATION_PATTERN v"
    by (auto simp: parse_authorization_def rbind_Ok_iff)
  then obtain w sp cr tr where p: "presentation v w sp cr tr"
    using authorization_pattern_presentation by blast
  then obtain s where "lower w = lower (scheme_value s)"
    using scheme_name_iff all_schemes_lower unfolding presentation_def by fastforce
  from parse_presentation [OF p this comma] this p comma assms show thesis
    by (intro that [of w sp tr]) auto
qed

lemma schemes_injective: "lower (scheme_value s) = lower (scheme_value t) \<longleftrightarrow> s = t"
  using scheme_name_iff [of "scheme_value s" s] scheme_name_iff [of "scheme_value s" t] by auto

lemma render_authorization_Ok:
  "render_authorization a = Inr r \<longleftrightarrow> credentials a \<noteq> [] \<and> list_all (in_range 33 126) (credentials a)
     \<and> r = (carrier_value (auth_carrier a), scheme_value (auth_scheme_of a) @ '' '' @ credentials a)"
  by (auto simp: render_authorization_def rbind_Ok_iff matches_credentials)

lemma parse_render:
  assumes "render_authorization a = Inr (h, v)"
    and "auth_carrier a = Carrier_Dedicated \<longrightarrow> CHR '','' \<notin> set (credentials a)"
  shows "parse_authorization v (auth_carrier a) = Inr a"
proof -
  have v: "v = scheme_value (auth_scheme_of a) @ '' '' @ credentials a @ []"
    using assms(1) by (simp add: render_authorization_Ok)
  have "presentation v (scheme_value (auth_scheme_of a)) '' '' (credentials a) []"
    using assms(1) lower_scheme_value v
    by (simp add: presentation_def render_authorization_Ok is_blank_def)
  moreover have "CHR '','' \<notin> set (scheme_value (auth_scheme_of a))"
    by (cases "auth_scheme_of a") simp_all
  ultimately show ?thesis
    using assms(2) v by (subst parse_presentation) auto
qed

lemma is_endpoint_path_append:
  assumes "is_endpoint_path b" and "ends_with b ''/''" and "CHR ''/'' \<notin> set w" and "CHR ''?'' \<notin> set w"
    and "CHR ''#'' \<notin> set w" and "w \<notin> {''.'', ''..''}" and "w \<noteq> []"
  shows "is_endpoint_path (b @ w)"
proof -
  obtain a where b: "b = a @ ''/''"
    using assms(2) unfolding ends_with_def starts_with_iff by (metis rev.simps rev_append rev_rev_ident append.simps)
  have "split_on CHR ''/'' (b @ w) = split_on CHR ''/'' a @ [w]"
    using assms(3) split_on_append_gen [of "CHR ''/''" a w] by (simp add: b split_on_no_sep)
  moreover have "split_on CHR ''/'' b = split_on CHR ''/'' a @ [[]]"
    using split_on_append_gen [of "CHR ''/''" a "[]"] by (simp add: b)
  moreover have "starts_with (b @ w) ''/''" "\<not> starts_with (b @ w) ''//''"
    using assms(1,3,7) b by (cases a; cases "tl a"; cases w; auto simp: is_endpoint_path_def split: if_splits)+
  ultimately show ?thesis
    using assms by (auto simp: is_endpoint_path_def split: if_splits)
qed

lemma normalize_endpoint_base_Ok:
  "normalize_endpoint_base base = Inr b \<longleftrightarrow>
     is_endpoint_path base \<and> b = (if ends_with base ''/'' then base else base @ ''/'')"
  by (auto simp: normalize_endpoint_base_def rbind_Ok_iff)

lemma ends_with_append [simp]: "ends_with (a @ b) b"
  by (simp add: ends_with_def)

lemma is_endpoint_path_slash:
  assumes "is_endpoint_path b" and "\<not> ends_with b ''/''" shows "is_endpoint_path (b @ ''/'')"
proof -
  have "split_on CHR ''/'' (b @ ''/'') = split_on CHR ''/'' b @ [[]]"
    using split_on_append_gen [of "CHR ''/''" b "[]"] by simp
  moreover have "\<not> starts_with (b @ ''/'') ''//''"
    using assms by (cases b; cases "tl b") (auto simp: is_endpoint_path_def ends_with_def split: if_splits)
  ultimately show ?thesis
    using assms by (auto simp: is_endpoint_path_def starts_with_iff split: if_splits)
qed

lemma normalize_endpoint_base_path:
  assumes "normalize_endpoint_base base = Inr b"
  shows "is_endpoint_path b \<and> ends_with b ''/''"
  using assms is_endpoint_path_slash [of base]
  by (cases "ends_with base ''/''") (auto simp: normalize_endpoint_base_Ok)

text \<open>C18 \<open>parse_authorization\<close> accepts exactly the field values that are one scheme name in any case,
  at least one blank, one credential of visible US-ASCII and trailing blanks, and a dedicated field
  never with a comma; the result carries the carrier asked for, the scheme and that credential.\<close>

theorem parse_authorization_iff:
  "parse_authorization v c = Inr a \<longleftrightarrow>
     auth_carrier a = c \<and> \<not> (c = Carrier_Dedicated \<and> CHR '','' \<in> set v) \<and>
     (\<exists>w sp tr. v = w @ sp @ credentials a @ tr \<and> lower w = lower (scheme_value (auth_scheme_of a))
        \<and> sp \<noteq> [] \<and> list_all is_blank sp \<and> credentials a \<noteq> []
        \<and> list_all (in_range 33 126) (credentials a) \<and> list_all is_blank tr)" (is "_ \<longleftrightarrow> ?R")
proof
  assume "parse_authorization v c = Inr a"
  then show ?R
    by (elim parse_authorization_presentation) (auto simp: presentation_def)
next
  assume r: ?R
  then obtain w sp tr where "presentation v w sp (credentials a) tr"
    "lower w = lower (scheme_value (auth_scheme_of a))"
    using lower_scheme_value [of "auth_scheme_of a"] by (auto simp: presentation_def)
  from parse_presentation [OF this, of c] r show "parse_authorization v c = Inr a"
    by (cases a) auto
qed

text \<open>Parsing what \<open>render_authorization\<close> printed gives the authorization back. In the dedicated
  field this needs a credential without a comma, which the parser refuses and the printer does not.\<close>

theorem authorization_round_trip:
  assumes "render_authorization a = Inr (h, v)"
    and "auth_carrier a = Carrier_Dedicated \<longrightarrow> CHR '','' \<notin> set (credentials a)"
  shows "parse_authorization v (auth_carrier a) = Inr a \<and> h = authorization_header_name (auth_carrier a)"
proof
  show "parse_authorization v (auth_carrier a) = Inr a" by (rule parse_render [OF assms])
  show "h = authorization_header_name (auth_carrier a)"
    using assms(1) by (cases "auth_carrier a")
      (simp_all add: render_authorization_Ok authorization_header_name_def AEP_AUTHORIZATION_HEADER_def)
qed

theorem authorization_round_trip_witness:
  "parse_authorization ''AEP abc'' Carrier_Standard
     = Inr \<lparr>auth_carrier = Carrier_Standard, auth_scheme_of = Scheme_AEP, credentials = ''abc''\<rparr>
   \<and> authorization_header_name Carrier_Standard = ''Authorization''"
proof -
  let ?a = "\<lparr>auth_carrier = Carrier_Standard, auth_scheme_of = Scheme_AEP, credentials = ''abc''\<rparr>"
  have "render_authorization ?a = Inr (''Authorization'', ''AEP abc'')"
    by (simp add: render_authorization_Ok in_range_def)
  from authorization_round_trip [OF this] show ?thesis by simp
qed

text \<open>A command path is an origin-relative absolute path without query, fragment or dot segments,
  and it is the normalized base followed by the command name, separated by exactly one slash.\<close>

theorem command_path_safe:
  assumes "command_path c base = Inr p"
  shows "is_endpoint_path p \<and> c \<noteq> Cmd_Inspect
    \<and> (if ends_with base ''/'' then p = base @ command_value c else p = base @ ''/'' @ command_value c)"
proof -
  from assms obtain b where b: "normalize_endpoint_base base = Inr b" "p = b @ command_value c"
    and c: "c \<noteq> Cmd_Inspect"
    by (auto simp: command_path_def rbind_Ok_iff)
  from normalize_endpoint_base_path [OF b(1)] have "is_endpoint_path p"
    unfolding b(2) by (intro is_endpoint_path_append) (cases c; simp)+
  with b c show ?thesis by (auto simp: normalize_endpoint_base_Ok)
qed

theorem command_path_safe_witness:
  "is_endpoint_path ''/aep/enroll'' \<and> Cmd_Enroll \<noteq> Cmd_Inspect
    \<and> (if ends_with ''/aep'' ''/'' then ''/aep/enroll'' = ''/aep'' @ command_value Cmd_Enroll
       else ''/aep/enroll'' = ''/aep'' @ ''/'' @ command_value Cmd_Enroll)"
proof -
  have "command_path Cmd_Enroll ''/aep'' = Inr ''/aep/enroll''"
    by (simp add: command_path_def normalize_endpoint_base_def is_endpoint_path_def ends_with_def)
  from command_path_safe [OF this] show ?thesis .
qed

end
