(* ===== verification/Open_Api.thy ===== *)
theory Open_Api
  imports Core_Http "HOL-Library.Product_Lexorder"
begin

text \<open>
  \<^verbatim>\<open>core/openapi.py\<close> and \<^verbatim>\<open>core/claims.py\<close>: the effective security of an OpenAPI operation, path
  template matching, the OpenAPI URL, and which claims a party can supply.
\<close>

section \<open>claims.py\<close>

record claim_support =
  can_satisfy_required :: bool
  supported_optional :: "string list"
  supported_preferred :: "string list"
  unsupported_required :: "string list"

definition or_empty :: "'a list option \<Rightarrow> 'a list" where
  "or_empty v = (case v of None \<Rightarrow> [] | Some xs \<Rightarrow> xs)"

definition requested_names ::
    "(inspect_claims \<Rightarrow> string list option) \<Rightarrow> inspect_claims option \<Rightarrow> string list" where
  "requested_names f requested = (case requested of None \<Rightarrow> [] | Some c \<Rightarrow> or_empty (f c))"

definition evaluate_claim_support :: "inspect_claims option \<Rightarrow> string list \<Rightarrow> claim_support" where
  "evaluate_claim_support requested supported =
     (let unsupported = filter (\<lambda>n. n \<notin> set supported) (requested_names claims_required requested)
      in \<lparr>can_satisfy_required = (unsupported = []),
          supported_optional = filter (\<lambda>n. n \<in> set supported) (requested_names claims_optional requested),
          supported_preferred = filter (\<lambda>n. n \<in> set supported) (requested_names claims_preferred requested),
          unsupported_required = unsupported\<rparr>)"

definition missing_required_claim_names :: "string list \<Rightarrow> claim_values option \<Rightarrow> string list" where
  "missing_required_claim_names required values =
     (let supplied = (case values of None \<Rightarrow> [] | Some v \<Rightarrow> claim_values_to_wire v)
      in filter (\<lambda>n. \<not> dict_has n supplied) required)"

section \<open>Security requirements\<close>

text \<open>A requirement object maps scheme names to scopes; only the names matter here.\<close>

type_synonym requirement = "(string, string list) dict"

datatype disposition =
  Public | Optional_Anonymous | Required | Alternatives | All_Required | Fallback_Live_Challenge

record security_resolution =
  resolved_disposition :: disposition
  satisfiable :: "string list list"

definition effective_security :: "requirement list option \<Rightarrow> requirement list option \<Rightarrow> requirement list" where
  "effective_security root_security operation =
     (case operation of Some r \<Rightarrow> r | None \<Rightarrow> (case root_security of Some r \<Rightarrow> r | None \<Rightarrow> []))"

definition resolve_openapi_security ::
    "requirement list option \<Rightarrow> requirement list option \<Rightarrow> string list \<Rightarrow> security_resolution" where
  "resolve_openapi_security root_security operation supported =
     (let effective = effective_security root_security operation
      in if effective = [] then \<lparr>resolved_disposition = Public, satisfiable = []\<rparr>
         else let requirements = map (map fst) effective in
           if list_ex (\<lambda>r. r = []) requirements
           then \<lparr>resolved_disposition = Optional_Anonymous, satisfiable = []\<rparr>
           else let sat = filter (\<lambda>r. set r \<subseteq> set supported) requirements in
             if sat = [] then \<lparr>resolved_disposition = Fallback_Live_Challenge, satisfiable = []\<rparr>
             else if 1 < length requirements
             then \<lparr>resolved_disposition = Alternatives, satisfiable = sat\<rparr>
             else \<lparr>resolved_disposition = (if 1 < length (hd sat) then All_Required else Required),
                   satisfiable = sat\<rparr>)"

section \<open>Path templates\<close>

definition segments :: "string \<Rightarrow> trailing_slash \<Rightarrow> string list" where
  "segments path mode =
     (let normalized = (if mode = Slash_Equivalent \<and> path \<noteq> ''/'' \<and> ends_with path ''/''
                        then butlast path else path)
      in split_on CHR ''/'' (remove_prefix normalized ''/''))"

text \<open>The scan of \<open>\{[^{}]+\}\<close> over a template segment: literal characters and path expressions.\<close>

datatype piece = Literal char | Expression

definition is_brace :: "char \<Rightarrow> bool" where
  "is_brace c = (c = CHR ''{'' \<or> c = CHR ''}'')"

text \<open>The rest after an expression that starts here, if one does.\<close>

definition after_expression :: "string \<Rightarrow> string option" where
  "after_expression s =
     (case s of
        [] \<Rightarrow> None
      | c # cs \<Rightarrow>
          let body = takeWhile (\<lambda>x. \<not> is_brace x) cs; rest = dropWhile (\<lambda>x. \<not> is_brace x) cs
          in if c = CHR ''{'' \<and> body \<noteq> [] \<and> rest \<noteq> [] \<and> hd rest = CHR ''}'' then Some (tl rest) else None)"

lemma after_expression_shorter: "after_expression (c # cs) = Some rest \<Longrightarrow> length rest < Suc (length cs)"
proof -
  assume "after_expression (c # cs) = Some rest"
  then have "rest = tl (dropWhile (\<lambda>x. \<not> is_brace x) cs)"
    by (auto simp: after_expression_def Let_def split: if_splits)
  then have "length rest \<le> length (dropWhile (\<lambda>x. \<not> is_brace x) cs)" by simp
  also have "\<dots> \<le> length cs" by (rule length_dropWhile_le)
  finally show ?thesis by simp
qed

function pieces :: "string \<Rightarrow> piece list" where
  "pieces [] = []"
| "pieces (c # cs) = (case after_expression (c # cs) of
      Some rest \<Rightarrow> Expression # pieces rest
    | None \<Rightarrow> Literal c # pieces cs)"
  by pat_completeness auto
termination
  by (relation "measure length") (auto dest: after_expression_shorter)

definition path_char :: regex where
  "path_char = Cls [(0, 34), (36, 46), (48, 62), (64, 255)]"

fun piece_regex :: "piece \<Rightarrow> regex" where
  "piece_regex (Literal c) = Cls [(ord c, ord c)]"
| "piece_regex Expression = Plus path_char"

definition literals :: "piece list \<Rightarrow> string" where
  "literals ps = concat (map (\<lambda>p. case p of Literal c \<Rightarrow> [c] | Expression \<Rightarrow> []) ps)"

text \<open>Whether the segment matched, and whether the template had an expression.\<close>

definition match_segment :: "string \<Rightarrow> string \<Rightarrow> bool \<times> bool" where
  "match_segment template v =
     (let ps = pieces template in
      if list_ex is_brace (literals ps) then (False, False)
      else if Expression \<notin> set ps then (template = v, False)
      else (fullmatch (Cat (map piece_regex ps)) v, True))"

fun score_segments :: "string list \<Rightarrow> string list \<Rightarrow> nat list option" where
  "score_segments [] _ = Some []"
| "score_segments (t # ts) [] = None"
| "score_segments (t # ts) (v # vs) =
     (case match_segment t v of (matched, templated) \<Rightarrow>
        if \<not> matched then None
        else map_option (Cons (if templated then 0 else 1)) (score_segments ts vs))"

definition template_match ::
    "trailing_slash \<Rightarrow> string list \<Rightarrow> string \<Rightarrow> (nat list \<times> string) option" where
  "template_match mode request template =
     (let ts = segments template mode in
      if length ts \<noteq> length request then None
      else map_option (\<lambda>score. (score, template)) (score_segments ts request))"

record path_match =
  match_method :: string
  match_template :: string

definition match_openapi_path ::
    "string list \<Rightarrow> string \<Rightarrow> string \<Rightarrow> trailing_slash \<Rightarrow> path_match result" where
  "match_openapi_path templates method path mode =
     rbind (require (method \<noteq> [] \<and> path \<noteq> [] \<and> CHR ''?'' \<notin> set path \<and> CHR ''#'' \<notin> set path)
       (Value_Error ''Invalid OpenAPI operation target'')) (\<lambda>_.
     let request = segments path mode;
         matches = List.map_filter (template_match mode request) templates
     in rbind (require (matches \<noteq> []) (Value_Error ''OpenAPI operation is not documented'')) (\<lambda>_.
     let sorted_matches = rev (sort matches)
     in rbind (require (\<not> (1 < length sorted_matches
            \<and> fst (sorted_matches ! 0) = fst (sorted_matches ! 1)))
          (Value_Error ''Ambiguous OpenAPI path templates'')) (\<lambda>_.
     Ok \<lparr>match_method = upper method, match_template = snd (sorted_matches ! 0)\<rparr>)))"

section \<open>The OpenAPI URL\<close>

definition allowed_scheme :: "split_result \<Rightarrow> bool \<Rightarrow> bool" where
  "allowed_scheme r allow_insecure_loopback =
     (scheme r = ''https'' \<or> allow_insecure_loopback \<and> scheme r = ''http'' \<and> is_loopback_host (hostname r))"

definition plain_url :: "split_result \<Rightarrow> bool" where
  "plain_url r = (truthy (hostname r) \<and> \<not> truthy (username r) \<and> \<not> truthy (password r) \<and> fragment r = [])"

definition resolve_openapi_url :: "string \<Rightarrow> string \<Rightarrow> bool \<Rightarrow> string result" where
  "resolve_openapi_url final_inspect_url reference allow_insecure_loopback =
     rbind (urlsplit final_inspect_url) (\<lambda>inspect.
     rbind (require (allowed_scheme inspect allow_insecure_loopback \<and> plain_url inspect)
       (Value_Error ''Invalid final AEP Inspect URL'')) (\<lambda>_.
     rbind (rbind (urljoin final_inspect_url reference) urlsplit) (\<lambda>resolved.
     rbind (require (\<not> (scheme inspect = ''https'' \<and> scheme resolved \<noteq> ''https''))
       (Value_Error ''Invalid AEP OpenAPI URL'')) (\<lambda>_.
     rbind (require (allowed_scheme resolved allow_insecure_loopback \<and> plain_url resolved)
       (Value_Error ''Invalid AEP OpenAPI URL'')) (\<lambda>_.
     Ok (geturl resolved))))))"

section \<open>Facts\<close>

text \<open>C20 Security resolution. The security of the operation, also an empty one, replaces the root's. No requirement
  makes the operation public, an empty requirement object makes it anonymous. Otherwise the requirements reported as
  satisfiable are those whose every scheme is supported, whole and in their order, and the disposition tells a single
  scheme, a single object of several schemes and several objects apart, or that none is satisfiable.\<close>

theorem resolve_openapi_security_spec:
  "let eff = (case operation of Some rs \<Rightarrow> rs | None \<Rightarrow> (case root_security of Some rs \<Rightarrow> rs | None \<Rightarrow> []));
       usable = filter (\<lambda>r. fst ` set r \<subseteq> set supported) eff;
       res = resolve_openapi_security root_security operation supported
   in (resolved_disposition res = Public \<longleftrightarrow> eff = [])
    \<and> (resolved_disposition res = Optional_Anonymous \<longleftrightarrow> [] \<in> set eff)
    \<and> (resolved_disposition res = Required \<longleftrightarrow> (\<exists>name scopes. eff = [[(name, scopes)]] \<and> name \<in> set supported))
    \<and> (resolved_disposition res = All_Required \<longleftrightarrow>
         (\<exists>r. eff = [r] \<and> 2 \<le> length r \<and> fst ` set r \<subseteq> set supported))
    \<and> (resolved_disposition res = Alternatives \<longleftrightarrow> 2 \<le> length eff \<and> [] \<notin> set eff \<and> usable \<noteq> [])
    \<and> (resolved_disposition res = Fallback_Live_Challenge \<longleftrightarrow> eff \<noteq> [] \<and> [] \<notin> set eff \<and> usable = [])
    \<and> satisfiable res = (if [] \<in> set eff then [] else map (map fst) usable)"
proof -
  define eff where "eff = (case operation of Some rs \<Rightarrow> rs | None \<Rightarrow> (case root_security of Some rs \<Rightarrow> rs | None \<Rightarrow> []))"
  define usable where "usable = filter (\<lambda>r. fst ` set r \<subseteq> set supported) eff"
  have anon: "list_ex (\<lambda>r. r = []) (map (map fst) eff) \<longleftrightarrow> [] \<in> set eff"
    by (auto simp: list_ex_iff)
  have sat: "filter (\<lambda>r. set r \<subseteq> set supported) (map (map fst) eff) = map (map fst) usable"
    by (simp add: usable_def filter_map comp_def)
  have res: "resolve_openapi_security root_security operation supported =
     (if eff = [] then \<lparr>resolved_disposition = Public, satisfiable = []\<rparr>
      else if [] \<in> set eff then \<lparr>resolved_disposition = Optional_Anonymous, satisfiable = []\<rparr>
      else if usable = [] then \<lparr>resolved_disposition = Fallback_Live_Challenge, satisfiable = []\<rparr>
      else if 1 < length eff then \<lparr>resolved_disposition = Alternatives, satisfiable = map (map fst) usable\<rparr>
      else \<lparr>resolved_disposition = (if 1 < length (hd usable) then All_Required else Required),
            satisfiable = map (map fst) usable\<rparr>)"
    unfolding resolve_openapi_security_def Let_def effective_security_def eff_def [symmetric] anon sat
    by (cases usable) simp_all
  show ?thesis
  proof (cases "2 \<le> length eff")
    case True
    then have "eff \<noteq> []" "eff \<noteq> [r]" for r by auto
    with True show ?thesis
      unfolding Let_def eff_def [symmetric] usable_def [symmetric] res by auto
  next
    case False
    then consider "eff = []" | r where "eff = [r]" by (cases eff) (auto simp: Suc_le_eq)
    then show ?thesis
    proof cases
      case 1
      then show ?thesis
        unfolding Let_def eff_def [symmetric] usable_def [symmetric] res by (simp add: usable_def)
    next
      case (2 r)
      have "(\<exists>name scopes. r = [(name, scopes)] \<and> name \<in> set supported) \<longleftrightarrow> length r = 1 \<and> fst ` set r \<subseteq> set supported"
        by (auto simp: length_Suc_conv)
      moreover have "r \<noteq> [] \<longleftrightarrow> length r = 1 \<or> 2 \<le> length r" by (cases r) (auto simp: Suc_le_eq)
      moreover have "usable = (if fst ` set r \<subseteq> set supported then [r] else [])" by (simp add: usable_def 2)
      ultimately show ?thesis
        unfolding Let_def eff_def [symmetric] usable_def [symmetric] res by (auto simp: 2)
    qed
  qed
qed

definition piece_instance :: "piece \<Rightarrow> string \<Rightarrow> bool" where
  "piece_instance p w = (case p of
      Literal c \<Rightarrow> w = [c]
    | Expression \<Rightarrow> w \<noteq> [] \<and> CHR ''/'' \<notin> set w \<and> CHR ''?'' \<notin> set w \<and> CHR ''#'' \<notin> set w)"

lemma in_path_char: "in_cls [(0, 34), (36, 46), (48, 62), (64, 255)] c \<longleftrightarrow>
    c \<noteq> CHR ''/'' \<and> c \<noteq> CHR ''?'' \<and> c \<noteq> CHR ''#''"
proof -
  have "ord c \<le> 255" using ord_lt_256 [of c] by linarith
  then show ?thesis unfolding ord_inject [symmetric] by (auto simp: in_cls_def in_range_def)
qed

lemma piece_regex_iff: "matches (piece_regex p) w \<longleftrightarrow> piece_instance p w"
  by (cases p) (auto simp: piece_instance_def matches_Cls path_char_def matches_Plus_Cls list_all_iff in_path_char)

lemma pieces_regex_iff:
  "matches (Cat (map piece_regex ps)) v \<longleftrightarrow> (\<exists>ws. list_all2 piece_instance ps ws \<and> v = concat ws)"
proof (induction ps arbitrary: v)
  case (Cons p ps)
  show ?case
  proof (cases ps)
    case Nil
    then show ?thesis by (auto simp: piece_regex_iff list_all2_Cons1)
  next
    case (Cons q qs)
    have "matches (Cat (map piece_regex (p # ps))) v \<longleftrightarrow>
        (\<exists>a b. v = a @ b \<and> piece_instance p a \<and> matches (Cat (map piece_regex ps)) b)"
      using Cons by (simp add: matches_Seq piece_regex_iff)
    also have "\<dots> \<longleftrightarrow> (\<exists>a ws. piece_instance p a \<and> list_all2 piece_instance ps ws \<and> v = a @ concat ws)"
      unfolding Cons.IH by blast
    also have "\<dots> \<longleftrightarrow> (\<exists>ws. list_all2 piece_instance (p # ps) ws \<and> v = concat ws)"
      unfolding list_all2_Cons1 by (metis concat.simps(2))
    finally show ?thesis .
  qed
qed simp

lemma sorted_best:
  assumes "xs = rev (sort ms)" and "ms \<noteq> []"
    and "\<not> (1 < length xs \<and> fst (xs ! 0) = fst (xs ! 1))" and "(s, t) \<in> set ms"
  shows "(s, t) = xs ! 0 \<or> s < fst (xs ! 0 :: nat list \<times> string)"
proof -
  have "(s, t) \<in> set xs" using assms(1,4) by simp
  then obtain i where i: "i < length xs" "xs ! i = (s, t)" by (auto simp: in_set_conv_nth)
  have desc: "xs ! j \<le> xs ! k" if "k \<le> j" "j < length xs" for j k
    using that unfolding assms(1) by (simp add: rev_nth sorted_nth_mono)
  show ?thesis
  proof (cases i)
    case 0 with i show ?thesis by simp
  next
    case (Suc i')
    then have "1 < length xs" using i by simp
    have "fst (xs ! i) \<le> fst (xs ! 1)" "fst (xs ! 1) \<le> fst (xs ! 0)"
      using desc [of 1 i] desc [of 0 1] Suc i unfolding less_eq_prod_def by auto
    moreover have "fst (xs ! 1) \<noteq> fst (xs ! 0)" using assms(3) \<open>1 < length xs\<close> by metis
    ultimately have "fst (xs ! i) < fst (xs ! 0)" by (metis order.strict_trans1 order.not_eq_order_implies_strict)
    then show ?thesis using i(2) by simp
  qed
qed

text \<open>C19 A matched template is one of the document's templates, it matches the path, and every other
  template that matches scores strictly lower: literal segments win from left to right and a tie is
  refused instead of resolved by order.\<close>

theorem match_openapi_path_best:
  assumes "match_openapi_path templates method path mode = Inr m"
  shows "\<exists>score. match_template m \<in> set templates \<and> match_method m = upper method
    \<and> template_match mode (segments path mode) (match_template m) = Some (score, match_template m)
    \<and> (\<forall>t \<in> set templates. \<forall>s. template_match mode (segments path mode) t = Some (s, t)
          \<longrightarrow> t = match_template m \<or> s < score)"
proof -
  let ?ms = "List.map_filter (template_match mode (segments path mode)) templates"
  let ?xs = "rev (sort ?ms)"
  from assms have ne: "?ms \<noteq> []" and u: "\<not> (1 < length ?xs \<and> fst (?xs ! 0) = fst (?xs ! 1))"
    and m: "m = \<lparr>match_method = upper method, match_template = snd (?xs ! 0)\<rparr>"
    unfolding match_openapi_path_def rbind_Ok_iff require_Ok_iff Let_def by auto
  have mem: "p \<in> set ?ms \<longleftrightarrow> (\<exists>t \<in> set templates. template_match mode (segments path mode) t = Some p)" for p
    by (force simp: List.map_filter_def image_iff)
  have own: "template_match mode r t = Some (s, t') \<Longrightarrow> t' = t" for r t s t'
    by (auto simp: template_match_def Let_def split: if_splits)
  obtain score best where best: "?xs ! 0 = (score, best)" by (cases "?xs ! 0")
  have "?xs ! 0 \<in> set ?xs" using ne by (intro nth_mem) auto
  then have "(score, best) \<in> set ?ms" unfolding best by simp
  then obtain t where "t \<in> set templates" "template_match mode (segments path mode) t = Some (score, best)"
    unfolding mem by blast
  with own have "best \<in> set templates"
    "template_match mode (segments path mode) best = Some (score, best)"
    by blast+
  moreover have "t = best \<or> s < score"
    if "t \<in> set templates" "template_match mode (segments path mode) t = Some (s, t)" for t s
  proof -
    have "(s, t) \<in> set ?ms" unfolding mem using that by blast
    from sorted_best [OF refl ne u this] show ?thesis unfolding best by auto
  qed
  ultimately show ?thesis unfolding m best by auto
qed

theorem match_openapi_path_best_witness:
  "\<exists>score. ''/a/{x}'' \<in> set [''/{x}/b'', ''/a/{x}''] \<and> ''GET'' = upper ''get''
    \<and> template_match Slash_Strict (segments ''/a/b'' Slash_Strict) ''/a/{x}'' = Some (score, ''/a/{x}'')
    \<and> (\<forall>t \<in> set [''/{x}/b'', ''/a/{x}'']. \<forall>s.
          template_match Slash_Strict (segments ''/a/b'' Slash_Strict) t = Some (s, t)
          \<longrightarrow> t = ''/a/{x}'' \<or> s < score)"
proof -
  have "match_openapi_path [''/{x}/b'', ''/a/{x}''] ''get'' ''/a/b'' Slash_Strict
      = Inr \<lparr>match_method = ''GET'', match_template = ''/a/{x}''\<rparr>"
    by code_simp
  from match_openapi_path_best [OF this] show ?thesis by simp
qed

text \<open>A template segment with expressions matches a path segment exactly when the segment is the
  template with each expression replaced by a nonempty text free of slash, question mark and hash.\<close>

theorem match_segment_spec:
  "match_segment template v = (True, True) \<longleftrightarrow>
     \<not> list_ex is_brace (literals (pieces template)) \<and> Expression \<in> set (pieces template)
     \<and> (\<exists>ws. list_all2 piece_instance (pieces template) ws \<and> v = concat ws)"
  by (simp add: match_segment_def Let_def fullmatch_matches pieces_regex_iff)

end
