(* ===== verification/Assertions.thy ===== *)
theory Assertions
  imports Model_Enroll
begin

text \<open>
  \<^verbatim>\<open>core/assertions.py\<close>: signing and verifying client assertions, and reading a JWT without
  verifying it. The PyJWT functions are arguments: \<open>jwt_encode\<close> prints a token, \<open>jwt_header\<close> is
  \<open>get_unverified_header\<close> and \<open>jwt_decode\<close> is \<open>decode\<close> with the options of the source (signature and
  required claims). Each returns or raises any exception: PyJWT documents \<open>PyJWTError\<close>, but a key of the wrong
  type gives TypeError and a deeply nested part RecursionError. These functions are all that
  looks into a token, so its type is a variable. \<open>loads\<close> is \<open>json.loads\<close> after the UTF-8 decoding, without the
  hooks: it reads a document, or raises ValueError, or RecursionError when the document is nested too deep.
  Where a hook would refuse one part of a document and another part is nested too deep, the RecursionError is
  taken. \<open>json.dumps\<close> does not run out of stack on what PyJWT has parsed with the same limit.
  \<open>time\<close> is the system clock in seconds.
\<close>

section \<open>Options\<close>

record verify_options =
  vo_algorithms :: "signing_algorithm list"
  vo_audience :: "string option"
  vo_issuer :: "string option"
  vo_subject :: "string option"
  vo_operation :: "assertion_operation option"
  vo_expected_resource :: "string option"
  vo_current_time :: "int option"
  vo_clock_tolerance_seconds :: int
  vo_allow_insecure_loopback :: bool

definition default_options :: verify_options where
  "default_options = \<lparr>vo_algorithms = [EdDSA, ES256], vo_audience = None, vo_issuer = None, vo_subject = None,
     vo_operation = None, vo_expected_resource = None, vo_current_time = None, vo_clock_tolerance_seconds = 0,
     vo_allow_insecure_loopback = False\<rparr>"

definition check_verify_options :: "verify_options \<Rightarrow> verify_options result" where
  "check_verify_options options =
     rbind (require (0 \<le> vo_clock_tolerance_seconds options)
       (Value_Error ''clock_tolerance_seconds must not be negative'')) (\<lambda>_. Ok options)"

section \<open>Signing\<close>

text \<open>\<open>json.dumps(value, allow_nan=False)\<close> raises ValueError on NaN and the infinities.\<close>

fun has_constant :: "json \<Rightarrow> bool" where
  "has_constant (JConst _) = True"
| "has_constant (JArr vs) = list_ex has_constant vs"
| "has_constant (JObj ms) = list_ex (\<lambda>(k, v). has_constant v) ms"
| "has_constant _ = False"

definition require_key_binding :: "string \<Rightarrow> assertion_claims \<Rightarrow> unit result" where
  "require_key_binding key_id claims =
     require (\<not> (fst (partition_at CHR ''#'' key_id) \<noteq> iss claims \<or> iss claims \<noteq> sub claims))
       (Assertion_Error ''AEP client assertion kid, iss, and sub must identify one Agent DID.'')"

definition strict_claims :: "bool \<Rightarrow> json \<Rightarrow> assertion_claims result" where
  "strict_claims allow j =
     rbind (require (\<not> has_constant j) (Value_Error ''Out of range float values are not JSON compliant'')) (\<lambda>_.
     assertion_claims_of_json allow j)"


section \<open>Verifying\<close>

definition invalid_nbf :: "members \<Rightarrow> int \<Rightarrow> bool" where
  "invalid_nbf payload latest =
     (case map_of payload ''nbf'' of
        None \<Rightarrow> False
      | Some (JInt n) \<Rightarrow> latest < n
      | Some (JFloat r) \<Rightarrow> rat_of_int latest < r
      | Some _ \<Rightarrow> True)"

definition wanted_differs :: "'a option \<Rightarrow> 'a \<Rightarrow> bool" where
  "wanted_differs wanted actual = (case wanted of None \<Rightarrow> False | Some w \<Rightarrow> w \<noteq> actual)"

definition check_expected :: "verify_options \<Rightarrow> assertion_claims \<Rightarrow> unit result" where
  "check_expected options claims =
     rbind (require (\<not> wanted_differs (vo_audience options) (aud claims))
       (Assertion_Error ''AEP client assertion audience does not match.'')) (\<lambda>_.
     rbind (require (\<not> wanted_differs (vo_issuer options) (iss claims))
       (Assertion_Error ''AEP client assertion issuer does not match.'')) (\<lambda>_.
     rbind (require (\<not> wanted_differs (vo_subject options) (sub claims))
       (Assertion_Error ''AEP client assertion subject does not match.'')) (\<lambda>_.
     require (\<not> wanted_differs (vo_operation options) (op claims))
       (Assertion_Error ''AEP client assertion operation does not match.''))))"

definition resource_matches :: "bool \<Rightarrow> string option \<Rightarrow> string \<Rightarrow> bool result" where
  "resource_matches allow claimed wanted =
     (case claimed of
        None \<Rightarrow> Ok False
      | Some r \<Rightarrow>
          rbind (normalize_resource_uri r allow) (\<lambda>a.
          rbind (normalize_resource_uri wanted allow) (\<lambda>b. Ok (a = b))))"

definition check_resource :: "verify_options \<Rightarrow> assertion_claims \<Rightarrow> unit result" where
  "check_resource options claims =
     (case vo_expected_resource options of
        None \<Rightarrow> Ok ()
      | Some wanted \<Rightarrow>
          rbind (reraise_value_error
              (resource_matches (vo_allow_insecure_loopback options) (resource claims) wanted)
              (Assertion_Error ''AEP client assertion resource is invalid.'')) (\<lambda>matched.
          require matched (Assertion_Error ''AEP client assertion resource does not match.'')))"

definition header_string :: "members \<Rightarrow> string \<Rightarrow> string option" where
  "header_string header k = (case map_of header k of Some (JStr s) \<Rightarrow> Some s | _ \<Rightarrow> None)"

text \<open>\<open>except (jwt.PyJWTError, ValueError) as error: raise E\<close>\<close>

definition reraise_jwt_error :: "'a result \<Rightarrow> exn \<Rightarrow> 'a result" where
  "reraise_jwt_error m e' =
     (case m of Inl e \<Rightarrow> if is_pyjwt_error e \<or> is_value_error e then Inl e' else Inl e | Inr a \<Rightarrow> Inr a)"

definition verify_client_assertion ::
    "('token \<Rightarrow> members result) \<Rightarrow> ('token \<Rightarrow> 'key \<Rightarrow> string list \<Rightarrow> members result) \<Rightarrow> int
      \<Rightarrow> 'token \<Rightarrow> 'key \<Rightarrow> verify_options \<Rightarrow> assertion_claims result" where
  "verify_client_assertion jwt_header jwt_decode time assertion key options =
     (let invalid = Assertion_Error ''Invalid AEP client assertion.'';
          allowed = map algorithm_value (vo_algorithms options) in
      rbind (reraise_jwt_error (jwt_header assertion) invalid) (\<lambda>header.
      rbind (require (\<not> has_constant (JObj header)) invalid) (\<lambda>_.
      case (header_string header ''typ'', header_string header ''kid'') of
        (Some typ, Some kid) \<Rightarrow>
          rbind (require (typ = ''JWT'') (Assertion_Error ''Invalid AEP client assertion JOSE header.'')) (\<lambda>_.
          rbind (require (case header_string header ''alg'' of None \<Rightarrow> False | Some a \<Rightarrow> a \<in> set allowed)
            (Assertion_Error ''AEP client assertion signing algorithm is not allowed.'')) (\<lambda>_.
          rbind (reraise_jwt_error (jwt_decode assertion key allowed) invalid) (\<lambda>payload.
          rbind (reraise_jwt_error
            (strict_claims (vo_allow_insecure_loopback options) (JObj payload)) invalid) (\<lambda>claims.
          rbind (require_key_binding kid claims) (\<lambda>_.
          let now = (case vo_current_time options of Some t \<Rightarrow> t | None \<Rightarrow> time);
              tolerance = vo_clock_tolerance_seconds options in
          rbind (require (\<not> invalid_nbf payload (now + tolerance))
            (Assertion_Error ''AEP client assertion is not yet valid or has an invalid nbf.'')) (\<lambda>_.
          rbind (require (\<not> (now + tolerance < iat claims \<or> exp_at claims \<le> now - tolerance))
            (Assertion_Error ''AEP client assertion is outside its valid time window.'')) (\<lambda>_.
          rbind (check_expected options claims) (\<lambda>_.
          rbind (check_resource options claims) (\<lambda>_.
          Ok claims)))))))))
      | _ \<Rightarrow> Raise (Assertion_Error ''Invalid AEP client assertion JOSE header.''))))"

section \<open>Reading without verifying\<close>

definition sextet :: "char \<Rightarrow> nat option" where
  "sextet c =
     (if is_upper c then Some (ord c - 65)
      else if is_lower c then Some (ord c - 71)
      else if is_digit c then Some (ord c + 4)
      else if c = CHR ''-'' then Some 62
      else if c = CHR ''_'' then Some 63
      else None)"

text \<open>\<open>b64decode\<close> of the value with its padding restored.\<close>

fun base64url_bytes :: "string \<Rightarrow> string option" where
  "base64url_bytes [] = Some []"
| "base64url_bytes [a] = None"
| "base64url_bytes [a, b] =
     (case (sextet a, sextet b) of
        (Some x, Some y) \<Rightarrow> Some [char_of (x * 4 + y div 16)] | _ \<Rightarrow> None)"
| "base64url_bytes [a, b, c] =
     (case (sextet a, sextet b, sextet c) of
        (Some x, Some y, Some z) \<Rightarrow>
          Some [char_of (x * 4 + y div 16), char_of (y mod 16 * 16 + z div 4)]
      | _ \<Rightarrow> None)"
| "base64url_bytes (a # b # c # d # s) =
     (case (sextet a, sextet b, sextet c, sextet d, base64url_bytes s) of
        (Some x, Some y, Some z, Some w, Some rest) \<Rightarrow>
          Some (char_of (x * 4 + y div 16) # char_of (y mod 16 * 16 + z div 4)
            # char_of (z mod 4 * 64 + w) # rest)
      | _ \<Rightarrow> None)"

definition decode_part :: "(string \<Rightarrow> json result) \<Rightarrow> string \<Rightarrow> members result" where
  "decode_part loads v =
     (case base64url_bytes v of
        None \<Rightarrow> Raise (Value_Error ''Incorrect padding'')
      | Some bytes \<Rightarrow>
          rbind (json_loads (loads bytes)) (\<lambda>parsed.
          case parsed of
            JObj ms \<Rightarrow> Ok ms
          | _ \<Rightarrow> Raise (Value_Error ''JWT part must be an object'')))"

definition BASE64URL_PATTERN :: regex where
  "BASE64URL_PATTERN = Plus (Cls (alnum @ singles ''_-''))"

definition decode_jwt_unverified ::
    "(string \<Rightarrow> json result) \<Rightarrow> string \<Rightarrow> (members \<times> members) result" where
  "decode_jwt_unverified loads assertion =
     (let parts = split_on CHR ''.'' assertion; invalid = Assertion_Error ''Invalid JWT.'' in
      rbind (require (\<not> (length parts \<noteq> 3 \<or> list_ex (\<lambda>p. \<not> fullmatch BASE64URL_PATTERN p) parts)) invalid) (\<lambda>_.
      rbind (reraise_value_error (decode_part loads (parts ! 0)) invalid) (\<lambda>header.
      rbind (reraise_value_error (decode_part loads (parts ! 1)) invalid) (\<lambda>payload.
      Ok (header, payload)))))"

section \<open>Facts\<close>

lemma validator_body_urlsplit [simp]: "validator_body (urlsplit u)"
  by (auto simp: validator_body_def urlsplit_def Let_def split: prod.splits if_splits)

lemma validator_body_require_resource_uri [simp]: "validator_body (require_resource_uri v name allow)"
  unfolding require_resource_uri_def by (rule validator_body_rbind) (simp_all add: Let_def)

lemma validator_body_validate_assertion [simp]: "validator_body (validate_assertion allow c)"
  unfolding validate_assertion_def
  by (intro validator_body_rbind) (simp_all split: option.splits)

lemma validator_body_port [simp]: "validator_body (port r)"
  by (auto simp: validator_body_def port_def Let_def split: if_splits)

lemma validator_body_normalize [simp]: "validator_body (normalize_resource_uri v allow)"
  unfolding normalize_resource_uri_def Let_def
  by (intro validator_body_rbind) simp_all

lemma pydantic_check_assertion_claims [pydantic_intros]: "pydantic (check_assertion_claims allow c)"
  unfolding check_assertion_claims_def
  by (rule pydantic_checks) (simp add: pydantic_in_validator)

lemma pydantic_assertion_claims_of_json: "pydantic (assertion_claims_of_json allow j)"
  unfolding assertion_claims_of_json_def by (intro pydantic_intros)




lemma check_assertion_claims_Ok:
  "check_assertion_claims allow c = Inr d \<longleftrightarrow> d = c \<and> aud c \<noteq> [] \<and> iss c \<noteq> [] \<and> jti c \<noteq> [] \<and> sub c \<noteq> []
     \<and> iss c = sub c \<and> iat c < exp_at c \<and> exp_at c - iat c \<le> 300
     \<and> (op c = Op_Authenticate \<longleftrightarrow> resource c \<noteq> None)
     \<and> (case resource c of None \<Rightarrow> True | Some r \<Rightarrow> require_resource_uri r ''resource'' allow = Inr ())"
  unfolding check_assertion_claims_def checks_Ok validate_assertion_def
  by (auto simp: Suc_le_eq rbind_Ok_iff split: option.splits if_splits)

lemma assertion_claims_of_json_Ok:
  "assertion_claims_of_json allow j = Inr c \<Longrightarrow> check_assertion_claims allow c = Inr c"
  by (auto simp: assertion_claims_of_json_def rbind_Ok_iff check_assertion_claims_def)


definition effective_time :: "verify_options \<Rightarrow> int \<Rightarrow> int" where
  "effective_time options time = (case vo_current_time options of Some t \<Rightarrow> t | None \<Rightarrow> time)"

lemma reraise_jwt_error_Ok: "reraise_jwt_error m e = Inr a \<longleftrightarrow> m = Inr a"
  by (cases m) (auto simp: reraise_jwt_error_def)

lemma verify_client_assertion_Ok:
  "verify_client_assertion jwt_header jwt_decode time assertion key options = Inr claims \<longleftrightarrow>
     (\<exists>header kid alg payload. jwt_header assertion = Inr header \<and> \<not> has_constant (JObj header)
        \<and> header_string header ''typ'' = Some ''JWT'' \<and> header_string header ''kid'' = Some kid
        \<and> header_string header ''alg'' = Some alg \<and> alg \<in> algorithm_value ` set (vo_algorithms options)
        \<and> jwt_decode assertion key (map algorithm_value (vo_algorithms options)) = Inr payload
        \<and> strict_claims (vo_allow_insecure_loopback options) (JObj payload) = Inr claims
        \<and> require_key_binding kid claims = Inr ()
        \<and> \<not> invalid_nbf payload (effective_time options time + vo_clock_tolerance_seconds options)
        \<and> iat claims \<le> effective_time options time + vo_clock_tolerance_seconds options
        \<and> effective_time options time - vo_clock_tolerance_seconds options < exp_at claims
        \<and> check_expected options claims = Inr () \<and> check_resource options claims = Inr ())"
proof (cases "jwt_header assertion")
  case (Inl e)
  then show ?thesis by (simp add: verify_client_assertion_def Let_def reraise_jwt_error_def)
next
  case (Inr header)
  show ?thesis
    unfolding verify_client_assertion_def Let_def effective_time_def [symmetric]
    by (cases "header_string header ''typ''"; cases "header_string header ''kid''"; cases "header_string header ''alg''")
      (auto simp del: has_constant.simps simp: Inr rbind_Ok_iff reraise_jwt_error_Ok not_less not_le)
qed

definition assertion_error :: "'a result \<Rightarrow> bool" where
  "assertion_error m = (\<forall>e. m = Inl e \<longrightarrow> is_assertion_error e)"

lemma assertion_error_simps [simp]:
  "assertion_error (Inr v)" "assertion_error (Inl (Assertion_Error msg))"
  "assertion_error (require b (Assertion_Error msg))"
  by (auto simp: assertion_error_def)

lemma assertion_error_rbind:
  "assertion_error m \<Longrightarrow> (\<And>a. assertion_error (f a)) \<Longrightarrow> assertion_error (rbind m f)"
  by (cases m) (auto simp: assertion_error_def)

lemma value_error_pydantic: "pydantic m \<Longrightarrow> value_error m"
  by (auto simp: pydantic_def value_error_def)

lemma value_error_validator: "validator_body m \<Longrightarrow> value_error m"
  by (auto simp: validator_body_def value_error_def)

lemma assertion_error_reraise: "value_error m \<Longrightarrow> assertion_error (reraise_value_error m (Assertion_Error msg))"
  by (cases m) (auto simp: value_error_def assertion_error_def reraise_value_error_def)

lemma value_error_strict_claims: "value_error (strict_claims allow j)"
  unfolding strict_claims_def
  by (rule value_error_rbind) (simp_all add: value_error_pydantic pydantic_assertion_claims_of_json)

lemma value_error_resource_matches: "value_error (resource_matches allow claimed wanted)"
  unfolding resource_matches_def
  by (auto intro!: value_error_validator validator_body_rbind split: option.split)

lemma assertion_error_reraise_jwt:
  "value_error m \<Longrightarrow> assertion_error (reraise_jwt_error m (Assertion_Error msg))"
  by (cases m) (auto simp: value_error_def assertion_error_def reraise_jwt_error_def)

lemma reraise_jwt_error_Inr [simp]: "reraise_jwt_error (Inr a) e = Inr a"
  by (simp add: reraise_jwt_error_def)

text \<open>What follows the two calls of PyJWT raises \<open>AepAssertionError\<close> only.\<close>

lemma assertion_error_after_jwt:
  assumes "jwt_header assertion = Inr header"
    and "jwt_decode assertion key (map algorithm_value (vo_algorithms options)) = Inr payload"
  shows "assertion_error (verify_client_assertion jwt_header jwt_decode time assertion key options)"
  unfolding verify_client_assertion_def Let_def check_resource_def check_expected_def require_key_binding_def assms
    reraise_jwt_error_Inr rbind_simps
  by (auto split: option.split prod.split
      intro!: assertion_error_rbind assertion_error_reraise assertion_error_reraise_jwt value_error_strict_claims
        value_error_resource_matches)

text \<open>C24 Verification raises \<open>AepAssertionError\<close>, whatever the token, the key, the header and the payload hold,
  or an exception of PyJWT that is neither a \<open>PyJWTError\<close> nor a ValueError: from reading the header, or from
  checking the signature, and then only for a header of type JWT with an allowed algorithm.\<close>

theorem verify_client_assertion_errors:
  assumes "verify_client_assertion jwt_header jwt_decode time assertion key options = Inl e"
  shows "(\<exists>msg. e = Assertion_Error msg)
    \<or> (\<not> is_pyjwt_error e \<and> \<not> is_value_error e \<and> (jwt_header assertion = Inl e
        \<or> (\<exists>header alg. jwt_header assertion = Inr header \<and> map_of header ''typ'' = Some (JStr ''JWT'')
            \<and> map_of header ''alg'' = Some (JStr alg) \<and> alg \<in> algorithm_value ` set (vo_algorithms options)
            \<and> jwt_decode assertion key (map algorithm_value (vo_algorithms options)) = Inl e)))"
proof -
  have hs: "map_of header k = Some (JStr x)" if "header_string header k = Some x" for header k x
    using that by (auto simp: header_string_def split: option.splits json.splits)
  show ?thesis
  proof (cases "jwt_header assertion")
    case (Inl x)
    with assms show ?thesis
      by (auto simp: verify_client_assertion_def Let_def reraise_jwt_error_def split: if_splits)
  next
    case (Inr header)
    note read = this
    show ?thesis
    proof (cases "jwt_decode assertion key (map algorithm_value (vo_algorithms options))")
      case (Inl x)
      with assms read show ?thesis
        by (auto simp: verify_client_assertion_def Let_def rbind_Raise_iff reraise_jwt_error_def
            simp del: has_constant.simps dest!: hs split: if_splits option.splits)
    next
      case (Inr payload)
      have "assertion_error (verify_client_assertion jwt_header jwt_decode time assertion key options)"
        by (rule assertion_error_after_jwt [where header = header and payload = payload]) (fact read Inr)+
      with assms show ?thesis by (cases e) (auto simp: assertion_error_def)
    qed
  qed
qed

text \<open>C1 An accepted assertion has a JOSE header of type JWT with an allowed algorithm and a key ID
  whose DID is both issuer and subject; PyJWT accepted its signature; its lifetime is 1 to 300 seconds
  and contains the current time within the tolerance; it is past its not-before time; audience, issuer,
  subject, operation and normalized resource are the expected ones; and it names a resource exactly
  for the authenticate operation.\<close>

theorem verify_client_assertion_sound:
  assumes "verify_client_assertion jwt_header jwt_decode time assertion key options = Inr claims"
  shows "\<exists>header kid alg payload. jwt_header assertion = Inr header
     \<and> map_of header ''typ'' = Some (JStr ''JWT'') \<and> map_of header ''kid'' = Some (JStr kid)
     \<and> map_of header ''alg'' = Some (JStr alg) \<and> alg \<in> algorithm_value ` set (vo_algorithms options)
     \<and> jwt_decode assertion key (map algorithm_value (vo_algorithms options)) = Inr payload
     \<and> assertion_claims_of_json (vo_allow_insecure_loopback options) (JObj payload) = Inr claims
     \<and> fst (partition_at CHR ''#'' kid) = sub claims \<and> iss claims = sub claims
     \<and> iat claims < exp_at claims \<and> exp_at claims \<le> iat claims + 300
     \<and> iat claims \<le> effective_time options time + vo_clock_tolerance_seconds options
     \<and> effective_time options time - vo_clock_tolerance_seconds options < exp_at claims
     \<and> (\<forall>v. map_of payload ''nbf'' = Some v \<longrightarrow>
          (\<exists>n. v = JInt n \<and> n \<le> effective_time options time + vo_clock_tolerance_seconds options)
          \<or> (\<exists>r. v = JFloat r \<and> r \<le> of_int (effective_time options time + vo_clock_tolerance_seconds options)))
     \<and> vo_audience options \<in> {None, Some (aud claims)} \<and> vo_issuer options \<in> {None, Some (iss claims)}
     \<and> vo_subject options \<in> {None, Some (sub claims)} \<and> vo_operation options \<in> {None, Some (op claims)}
     \<and> (op claims = Op_Authenticate \<longleftrightarrow> resource claims \<noteq> None)
     \<and> (\<forall>w. vo_expected_resource options = Some w \<longrightarrow> (\<exists>r n. resource claims = Some r
          \<and> normalize_resource_uri r (vo_allow_insecure_loopback options) = Inr n
          \<and> normalize_resource_uri w (vo_allow_insecure_loopback options) = Inr n))"
proof -
  from assms obtain header kid alg payload where v: "jwt_header assertion = Inr header"
    "header_string header ''typ'' = Some ''JWT''" "header_string header ''kid'' = Some kid"
    "header_string header ''alg'' = Some alg" "alg \<in> algorithm_value ` set (vo_algorithms options)"
    "jwt_decode assertion key (map algorithm_value (vo_algorithms options)) = Inr payload"
    and s: "strict_claims (vo_allow_insecure_loopback options) (JObj payload) = Inr claims"
    and b: "require_key_binding kid claims = Inr ()"
    and n: "\<not> invalid_nbf payload (effective_time options time + vo_clock_tolerance_seconds options)"
    and w: "iat claims \<le> effective_time options time + vo_clock_tolerance_seconds options"
      "effective_time options time - vo_clock_tolerance_seconds options < exp_at claims"
    and e: "check_expected options claims = Inr ()" and r: "check_resource options claims = Inr ()"
    unfolding verify_client_assertion_Ok by blast
  have hs: "map_of header k = Some (JStr x)" if "header_string header k = Some x" for k x
    using that by (auto simp: header_string_def split: option.splits json.splits)
  from s have d: "assertion_claims_of_json (vo_allow_insecure_loopback options) (JObj payload) = Inr claims"
    by (auto simp: strict_claims_def rbind_Ok_iff)
  note c = assertion_claims_of_json_Ok [OF d, unfolded check_assertion_claims_Ok]
  have "fst (partition_at CHR ''#'' kid) = sub claims" using b by (simp add: require_key_binding_def)
  moreover have "\<forall>v. map_of payload ''nbf'' = Some v \<longrightarrow>
      (\<exists>n. v = JInt n \<and> n \<le> effective_time options time + vo_clock_tolerance_seconds options)
      \<or> (\<exists>r. v = JFloat r \<and> r \<le> of_int (effective_time options time + vo_clock_tolerance_seconds options))"
    using n by (auto simp: invalid_nbf_def not_less split: json.splits)
  moreover have "vo_audience options \<in> {None, Some (aud claims)}" "vo_issuer options \<in> {None, Some (iss claims)}"
    "vo_subject options \<in> {None, Some (sub claims)}" "vo_operation options \<in> {None, Some (op claims)}"
    using e by (auto simp: check_expected_def wanted_differs_def rbind_Ok_iff split: option.splits)
  moreover have "\<forall>w. vo_expected_resource options = Some w \<longrightarrow> (\<exists>r n. resource claims = Some r
          \<and> normalize_resource_uri r (vo_allow_insecure_loopback options) = Inr n
          \<and> normalize_resource_uri w (vo_allow_insecure_loopback options) = Inr n)"
    using r by (auto simp: check_resource_def resource_matches_def rbind_Ok_iff split: option.splits)
  ultimately show ?thesis using v hs d w c by (intro exI conjI) (assumption | auto)+
qed

definition example_assertion :: assertion_claims where
  "example_assertion = \<lparr>aud = ''did:web:s.example'', exp_at = 160, iat = 100, iss = ''did:web:a.example'',
     jti = ''j1'', op = Op_Enroll, resource = None, sub = ''did:web:a.example'', assertion_extra = []\<rparr>"

text \<open>The claims that \<open>decode\<close> is asked to require; it refuses a payload in which one is absent or null, and
  \<open>sub\<close> and \<open>jti\<close> that are not strings.\<close>

definition required_claims :: "string list" where
  "required_claims = [''aud'', ''exp'', ''iat'', ''iss'', ''jti'', ''op'', ''sub'']"

definition has_required :: "members \<Rightarrow> bool" where
  "has_required ms = (list_all (\<lambda>k. map_of ms k \<noteq> None \<and> map_of ms k \<noteq> Some JNull) required_claims
     \<and> header_string ms ''sub'' \<noteq> None \<and> header_string ms ''jti'' \<noteq> None)"

text \<open>An instance of the PyJWT functions for a symmetric key: a token is the tuple of what it was made from.
  \<open>encode\<close> refuses a payload that is not an object, the header starts with \<open>typ\<close> and \<open>alg\<close> and is updated with the
  given members, and \<open>decode\<close> checks algorithm, key and required claims.\<close>

type_synonym tuple_token = "json \<times> string \<times> string \<times> members"


definition tuple_header :: "tuple_token \<Rightarrow> members result" where
  "tuple_header t = (case t of (p, k, a, h) \<Rightarrow> Ok (dict_update [(''typ'', JStr ''JWT''), (''alg'', JStr a)] h))"

definition tuple_decode :: "tuple_token \<Rightarrow> string \<Rightarrow> string list \<Rightarrow> members result" where
  "tuple_decode t vk algs = (case t of (p, k, a, h) \<Rightarrow>
     if vk = [] then Raise (Type_Error ''Expecting a PEM-formatted key.'')
     else if a \<notin> set algs then Raise (Pyjwt_Error ''The specified alg value is not allowed'')
     else if vk \<noteq> k then Raise (Pyjwt_Error ''Signature verification failed'')
     else case p of
       JObj ms \<Rightarrow> if has_required ms then Ok ms else Raise (Pyjwt_Error ''Token is missing a required claim'')
     | _ \<Rightarrow> Raise (Pyjwt_Error ''Invalid payload string''))"

definition example_token :: "string \<Rightarrow> tuple_token" where
  "example_token k = (assertion_claims_to_wire example_assertion, k, ''EdDSA'',
     [(''kid'', JStr ''did:web:a.example''), (''typ'', JStr ''JWT'')])"

definition example_options :: verify_options where
  "example_options = default_options\<lparr>vo_audience := Some ''did:web:s.example'', vo_current_time := Some 120\<rparr>"





theorem verify_client_assertion_sound_witness:
  "vo_audience example_options \<in> {None, Some (aud example_assertion)}
     \<and> iss example_assertion = sub example_assertion"
proof -
  have "verify_client_assertion tuple_header tuple_decode 0 (example_token ''secret'') ''secret'' example_options
     = Inr example_assertion"
    by code_simp
  from verify_client_assertion_sound [OF this] show ?thesis by blast
qed

text \<open>With an empty key the instance raises TypeError, which is not translated.\<close>

theorem verify_client_assertion_errors_witness:
  "\<exists>header. tuple_header (example_token ''secret'') = Inr header \<and> map_of header ''typ'' = Some (JStr ''JWT'')
     \<and> tuple_decode (example_token ''secret'') [] [''EdDSA'', ''ES256''] = Inl (Type_Error ''Expecting a PEM-formatted key.'')"
proof -
  have run: "verify_client_assertion tuple_header tuple_decode 0 (example_token ''secret'') [] example_options
     = Inl (Type_Error ''Expecting a PEM-formatted key.'')"
    by code_simp
  have algs: "map algorithm_value (vo_algorithms example_options) = [''EdDSA'', ''ES256'']"
    "tuple_header (example_token ''secret'') \<noteq> Inl (Type_Error ''Expecting a PEM-formatted key.'')"
    by code_simp+
  from verify_client_assertion_errors [OF run] algs show ?thesis by auto
qed

lemma decode_part_Ok:
  "decode_part loads v = Inr ms \<longleftrightarrow> (\<exists>x. base64url_bytes v = Some x \<and> loads x = Inr (JObj ms) \<and> clean (JObj ms))"
proof
  assume "decode_part loads v = Inr ms"
  then obtain x j where x: "base64url_bytes v = Some x" "loads x = Inr j" "clean j"
    and j: "(case j of JObj ms \<Rightarrow> Ok ms | _ \<Rightarrow> Raise (Value_Error ''JWT part must be an object'')) = Inr ms"
    by (auto simp: decode_part_def rbind_Ok_iff json_loads_Ok split: option.splits)
  from j have "j = JObj ms" by (cases j) auto
  with x show "\<exists>x. base64url_bytes v = Some x \<and> loads x = Inr (JObj ms) \<and> clean (JObj ms)" by auto
next
  assume "\<exists>x. base64url_bytes v = Some x \<and> loads x = Inr (JObj ms) \<and> clean (JObj ms)"
  then obtain x where x: "base64url_bytes v = Some x" "loads x = Inr (JObj ms)" "clean (JObj ms)" by blast
  then have "json_loads (loads x) = Inr (JObj ms)" by (simp add: json_loads_Ok)
  with x show "decode_part loads v = Inr ms" by (simp add: decode_part_def)
qed

lemma decode_part_Raise:
  assumes "decode_part loads v = Inl e" and "\<not> is_value_error e"
  shows "\<exists>x. base64url_bytes v = Some x \<and> loads x = Inl e"
proof (cases "base64url_bytes v")
  case (Some x)
  have "value_error (case j of JObj ms \<Rightarrow> Ok ms | _ \<Rightarrow> Raise (Value_Error ''JWT part must be an object''))" for j
    by (cases j) simp_all
  then have read: "value_error (rbind (json_loads (Inr d)) (\<lambda>j. case j of JObj ms \<Rightarrow> Ok ms
      | _ \<Rightarrow> Raise (Value_Error ''JWT part must be an object'')))" for d
    unfolding json_loads_def by (auto intro!: value_error_rbind value_error_load_hooks)
  show ?thesis
  proof (cases "loads x")
    case (Inl e')
    with Some assms(1) show ?thesis by (simp add: decode_part_def json_loads_def)
  next
    case (Inr d)
    with Some assms show ?thesis using value_error_Raise [OF read [of d]] by (simp add: decode_part_def)
  qed
qed (use assms in \<open>auto simp: decode_part_def\<close>)

definition base64url_char :: "char \<Rightarrow> bool" where
  "base64url_char c = (is_alpha c \<or> is_digit c \<or> c = CHR ''-'' \<or> c = CHR ''_'')"

lemma in_base64url: "in_cls (alnum @ singles ''_-'') = base64url_char"
  unfolding fun_eq_iff ord_inject [symmetric] base64url_char_def
  by (auto simp: in_cls_def alnum_def rng_def singles_def is_alpha_def is_upper_def is_lower_def is_digit_def in_range_def)

lemma base64url_part: "fullmatch BASE64URL_PATTERN p \<longleftrightarrow> p \<noteq> [] \<and> list_all base64url_char p"
  by (simp add: BASE64URL_PATTERN_def fullmatch_matches matches_Plus_Cls in_base64url)

lemma no_dot: "list_all base64url_char p \<Longrightarrow> CHR ''.'' \<notin> set p"
  by (auto simp: list_all_iff base64url_char_def is_alpha_def is_upper_def is_lower_def is_digit_def in_range_def)

text \<open>The three parts.\<close>

lemma three_parts:
  "split_on CHR ''.'' s = [a, b, c] \<and> list_all (fullmatch BASE64URL_PATTERN) [a, b, c]
     \<longleftrightarrow> s = a @ ''.'' @ b @ ''.'' @ c \<and> list_all (\<lambda>p. p \<noteq> [] \<and> list_all base64url_char p) [a, b, c]"
proof -
  have "split_on CHR ''.'' (a @ ''.'' @ b @ ''.'' @ c) = [a, b, c]"
    if "list_all (\<lambda>p. list_all base64url_char p) [a, b, c]"
    using that split_on_append [OF no_dot, of a "b @ ''.'' @ c"] split_on_append [OF no_dot, of b c]
    by (simp add: split_on_no_sep [OF no_dot])
  moreover have "s = a @ ''.'' @ b @ ''.'' @ c" if "split_on CHR ''.'' s = [a, b, c]"
    using join_split_on [of "CHR ''.''" s] that by simp
  ultimately show ?thesis by (auto simp: base64url_part)
qed

text \<open>C25 \<open>decode_jwt_unverified\<close> accepts exactly three parts of the base64url alphabet of which the first two are
  JSON objects, in UTF-8, without repeated members or NaN, and returns these two. It raises \<open>AepAssertionError\<close>, or
  what \<open>json.loads\<close> raises on one of the two parts other than ValueError.\<close>

theorem decode_jwt_unverified_spec:
  "(decode_jwt_unverified loads assertion = Inr (header, payload) \<longleftrightarrow>
      (\<exists>a b c x y. assertion = a @ ''.'' @ b @ ''.'' @ c
        \<and> list_all (\<lambda>p. p \<noteq> [] \<and> list_all base64url_char p) [a, b, c]
        \<and> base64url_bytes a = Some x \<and> loads x = Inr (JObj header) \<and> clean (JObj header)
        \<and> base64url_bytes b = Some y \<and> loads y = Inr (JObj payload) \<and> clean (JObj payload)))
   \<and> (decode_jwt_unverified loads assertion = Inl e \<longrightarrow>
      (\<exists>msg. e = Assertion_Error msg)
      \<or> (\<not> is_value_error e \<and> (\<exists>a b c x. assertion = a @ ''.'' @ b @ ''.'' @ c \<and> loads x = Inl e
            \<and> (base64url_bytes a = Some x \<or> base64url_bytes b = Some x))))"
proof (cases "\<exists>a b c. split_on CHR ''.'' assertion = [a, b, c] \<and> list_all (fullmatch BASE64URL_PATTERN) [a, b, c]")
  case False
  have "\<not> (length (split_on CHR ''.'' assertion) = 3
      \<and> list_all (fullmatch BASE64URL_PATTERN) (split_on CHR ''.'' assertion))"
    using False by (auto simp: numeral_3_eq_3 length_Suc_conv)
  then have "decode_jwt_unverified loads assertion = Inl (Assertion_Error ''Invalid JWT.'')"
    by (auto simp: decode_jwt_unverified_def Let_def require_def list_all_iff list_ex_iff)
  with False show ?thesis unfolding three_parts by auto
next
  case True
  then obtain a b c where ps: "split_on CHR ''.'' assertion = [a, b, c]"
    and good: "list_all (fullmatch BASE64URL_PATTERN) [a, b, c]" by blast
  from three_parts [of assertion a b c] ps good
  have parts: "assertion = a @ ''.'' @ b @ ''.'' @ c" "list_all (\<lambda>p. p \<noteq> [] \<and> list_all base64url_char p) [a, b, c]"
    by blast+
  have only: "a' = a \<and> b' = b" if "assertion = a' @ ''.'' @ b' @ ''.'' @ c'"
    "list_all (\<lambda>p. p \<noteq> [] \<and> list_all base64url_char p) [a', b', c']" for a' b' c'
    using three_parts [of assertion a' b' c'] that ps by simp
  have run: "decode_jwt_unverified loads assertion = rbind (reraise_value_error (decode_part loads a) (Assertion_Error ''Invalid JWT.''))
      (\<lambda>header. rbind (reraise_value_error (decode_part loads b) (Assertion_Error ''Invalid JWT.''))
      (\<lambda>payload. Inr (header, payload)))"
    using good by (simp add: decode_jwt_unverified_def Let_def ps)
  have "decode_jwt_unverified loads assertion = Inr (header, payload)
      \<longleftrightarrow> decode_part loads a = Inr header \<and> decode_part loads b = Inr payload"
    by (simp add: run rbind_Ok_iff)
  moreover have "(\<exists>msg. e = Assertion_Error msg) \<or> \<not> is_value_error e \<and> (decode_part loads a = Inl e \<or> decode_part loads b = Inl e)"
    if "decode_jwt_unverified loads assertion = Inl e"
    using that by (auto simp: run rbind_Raise_iff reraise_value_error_def split: sum.splits if_splits)
  moreover have "(\<exists>a' b' c' x y. assertion = a' @ ''.'' @ b' @ ''.'' @ c'
        \<and> list_all (\<lambda>p. p \<noteq> [] \<and> list_all base64url_char p) [a', b', c']
        \<and> base64url_bytes a' = Some x \<and> loads x = Inr (JObj header) \<and> clean (JObj header)
        \<and> base64url_bytes b' = Some y \<and> loads y = Inr (JObj payload) \<and> clean (JObj payload))
      \<longleftrightarrow> decode_part loads a = Inr header \<and> decode_part loads b = Inr payload" (is "?l \<longleftrightarrow> ?r")
  proof
    assume ?l
    then obtain a' b' c' x y where p: "assertion = a' @ ''.'' @ b' @ ''.'' @ c'"
        "list_all (\<lambda>p. p \<noteq> [] \<and> list_all base64url_char p) [a', b', c']"
      and x: "base64url_bytes a' = Some x" "loads x = Inr (JObj header)" "clean (JObj header)"
      and y: "base64url_bytes b' = Some y" "loads y = Inr (JObj payload)" "clean (JObj payload)" by blast
    show ?r using only [OF p] x y unfolding decode_part_Ok by blast
  next
    assume ?r
    then show ?l unfolding decode_part_Ok using parts by blast
  qed
  moreover have "\<exists>a' b' c' x. assertion = a' @ ''.'' @ b' @ ''.'' @ c' \<and> loads x = Inl e
      \<and> (base64url_bytes a' = Some x \<or> base64url_bytes b' = Some x)"
    if "\<not> is_value_error e" "decode_part loads a = Inl e \<or> decode_part loads b = Inl e"
    using that decode_part_Raise parts(1) by blast
  ultimately show ?thesis by blast
qed

text \<open>A header nested too deep.\<close>

theorem decode_jwt_unverified_spec_witness:
  "decode_jwt_unverified (\<lambda>b. if b = ''h'' then Raise (Recursion_Error ''maximum recursion depth exceeded'') else Ok (JObj []))
     ''aA.cA.c2ln'' = Inl (Recursion_Error ''maximum recursion depth exceeded'')
   \<and> (\<exists>a b c. ''aA.cA.c2ln'' = a @ ''.'' @ b @ ''.'' @ c
       \<and> (base64url_bytes a = Some ''h'' \<or> base64url_bytes b = Some ''h''))"
proof -
  let ?loads = "\<lambda>b. if b = ''h'' then Raise (Recursion_Error ''maximum recursion depth exceeded'') else Ok (JObj [])"
  have run: "decode_jwt_unverified ?loads ''aA.cA.c2ln'' = Inl (Recursion_Error ''maximum recursion depth exceeded'')"
    by code_simp
  obtain a b c x where "''aA.cA.c2ln'' = a @ ''.'' @ b @ ''.'' @ c"
    and x: "?loads x = Inl (Recursion_Error ''maximum recursion depth exceeded'')"
    and "base64url_bytes a = Some x \<or> base64url_bytes b = Some x"
    using decode_jwt_unverified_spec [THEN conjunct2, THEN mp, OF run] by auto
  moreover have "x = ''h''" using x by (simp split: if_splits)
  ultimately show ?thesis using run by blast
qed

end
