(* ===== verification/Did_Web.thy ===== *)
theory Did_Web
  imports Core_Http
begin

text \<open>
  \<^verbatim>\<open>core/did_web.py\<close> and \<^verbatim>\<open>core/inspect.py\<close>: did:web identifiers, the URL of their document, the
  public key a document holds, and the binding of a Service DID to the origin of its Inspect
  document.
\<close>

section \<open>did\_web.py\<close>

fun invalid_percent_encoding :: "string \<Rightarrow> bool" where
  "invalid_percent_encoding (c # a # b # s) =
     ((c = CHR ''%'' \<and> \<not> (is_hex a \<and> is_hex b)) \<or> invalid_percent_encoding (a # b # s))"
| "invalid_percent_encoding s = (CHR ''%'' \<in> set s)"

definition visible_ascii :: "string \<Rightarrow> bool" where
  "visible_ascii s = (s \<noteq> [] \<and> list_all (in_range 33 126) s)"

definition is_loopback_netloc :: "string \<Rightarrow> bool result" where
  "is_loopback_netloc host =
     rbind (urlsplit (''//'' @ host)) (\<lambda>r. Ok (is_loopback_host (hostname r)))"

definition bad_path_part :: "string \<Rightarrow> bool" where
  "bad_path_part part = (let decoded = unquote part in
     part = [] \<or> decoded \<in> {''.'', ''..''}
     \<or> list_ex (\<lambda>v. v \<in> set decoded) [CHR ''/'', CHR 0x5C, CHR ''?'', CHR ''#''])"

definition did_web_parts :: "string \<Rightarrow> (string \<times> string list) result" where
  "did_web_parts did =
     (let invalid = Value_Error (''Invalid did:web identifier: '' @ did) in
      rbind (require (starts_with did ''did:web:'') (Value_Error (''Unsupported DID method: '' @ did))) (\<lambda>_.
      let encoded_parts = split_on CHR '':'' (drop (length ''did:web:'') did) in
      rbind (require (isascii did \<and> hd encoded_parts \<noteq> []
          \<and> \<not> list_ex invalid_percent_encoding encoded_parts) invalid) (\<lambda>_.
      let host = unquote (hd encoded_parts) in
      rbind (require (isascii host \<and> visible_ascii host) invalid) (\<lambda>_.
      rbind (urlsplit (''//'' @ host)) (\<lambda>parsed.
      rbind (reraise_value_error (port parsed) invalid) (\<lambda>_.
      rbind (require (truthy (hostname parsed) \<and> \<not> truthy (username parsed) \<and> \<not> truthy (password parsed)
          \<and> url_path parsed = [] \<and> query parsed = [] \<and> fragment parsed = []) invalid) (\<lambda>_.
      rbind (require (\<not> list_ex bad_path_part (tl encoded_parts)) invalid) (\<lambda>_.
      Ok (host, tl encoded_parts)))))))))"

definition did_path :: "string list \<Rightarrow> string" where
  "did_path parts = (if parts = [] then ''/.well-known/did.json''
     else ''/'' @ join ''/'' parts @ ''/did.json'')"

definition did_web_document_url :: "string \<Rightarrow> bool \<Rightarrow> string result" where
  "did_web_document_url did allow_insecure_loopback =
     rbind (did_web_parts did) (\<lambda>(host, parts).
     rbind (if allow_insecure_loopback then is_loopback_netloc host else Ok False) (\<lambda>insecure.
     Ok ((if insecure then ''http'' else ''https'') @ ''://'' @ host @ did_path parts)))"

text \<open>The loop over \<open>verificationMethod\<close>: the first method of that id which has an object there.\<close>

definition method_jwk :: "string \<Rightarrow> json \<Rightarrow> members option" where
  "method_jwk key_id m = (case m of
      JObj method \<Rightarrow>
        if map_of method ''id'' \<noteq> Some (JStr key_id) then None
        else (case map_of method ''publicKeyJwk'' of Some (JObj jwk) \<Rightarrow> Some jwk | _ \<Rightarrow> None)
    | _ \<Rightarrow> None)"

fun find_public_jwk :: "string \<Rightarrow> json list \<Rightarrow> members option" where
  "find_public_jwk key_id [] = None"
| "find_public_jwk key_id (m # ms) =
     (case method_jwk key_id m of Some jwk \<Rightarrow> Some jwk | None \<Rightarrow> find_public_jwk key_id ms)"

definition select_did_web_public_jwk :: "members \<Rightarrow> string \<Rightarrow> string \<Rightarrow> members result" where
  "select_did_web_public_jwk document did key_id =
     rbind (require (map_of document ''id'' = Some (JStr did))
       (Value_Error ''AEP did:web document ID does not identify the assertion issuer'')) (\<lambda>_.
     rbind (require (fst (partition_at CHR ''#'' key_id) = did)
       (Value_Error ''AEP did:web key ID does not identify the assertion issuer'')) (\<lambda>_.
     case map_of document ''verificationMethod'' of
       Some (JArr methods) \<Rightarrow>
         (case find_public_jwk key_id methods of
            Some jwk \<Rightarrow> Ok jwk
          | None \<Rightarrow> Raise (Value_Error (''No public JWK found for '' @ key_id)))
     | _ \<Rightarrow> Raise (Value_Error (''No public JWK found for '' @ key_id))))"

section \<open>inspect.py\<close>

definition is_version_compatible :: "string \<Rightarrow> string \<Rightarrow> bool" where
  "is_version_compatible received supported =
     (if \<not> fullmatch VERSION_PATTERN received \<or> \<not> fullmatch VERSION_PATTERN supported then False
      else fst (partition_at CHR ''.'' received) = fst (partition_at CHR ''.'' supported))"

definition split_origin :: "split_result \<Rightarrow> string result" where
  "split_origin parsed =
     (case hostname parsed of
        None \<Rightarrow> Raise (Value_Error ''URL must contain a host'')
      | Some h \<Rightarrow>
          if h = [] then Raise (Value_Error ''URL must contain a host'')
          else rbind (port parsed) (\<lambda>p.
            let effective_port = (case p of Some n \<Rightarrow> n | None \<Rightarrow> if scheme parsed = ''https'' then 443 else 80)
            in Ok (lower (scheme parsed) @ ''://'' @ lower h @ '':'' @ show_int effective_port)))"

definition inspect_origin :: "string \<Rightarrow> bool \<Rightarrow> string result" where
  "inspect_origin v allow_insecure_loopback = rbind (urlsplit v) (\<lambda>parsed.
     let insecure_loopback = (allow_insecure_loopback \<and> scheme parsed = ''http''
           \<and> is_loopback_host (hostname parsed)) in
     rbind (require (\<not> ((scheme parsed \<noteq> ''https'' \<and> \<not> insecure_loopback) \<or> \<not> truthy (hostname parsed)
          \<or> truthy (username parsed) \<or> truthy (password parsed)))
       (Value_Error ''AEP Inspect URL must be an absolute HTTPS URL'')) (\<lambda>_.
     split_origin parsed))"

definition did_web_origin :: "string \<Rightarrow> bool \<Rightarrow> string result" where
  "did_web_origin did allow_insecure_loopback =
     rbind (reraise_value_error (did_web_parts did) (Value_Error ''Invalid did:web Service identity''))
       (\<lambda>(host, _).
     rbind (if allow_insecure_loopback then is_loopback_netloc host else Ok False) (\<lambda>insecure.
     rbind (urlsplit ((if insecure then ''http'' else ''https'') @ ''://'' @ host)) split_origin))"

definition same_origin :: "string \<Rightarrow> string \<Rightarrow> bool result" where
  "same_origin first second =
     rbind (rbind (urlsplit first) split_origin) (\<lambda>a.
     rbind (rbind (urlsplit second) split_origin) (\<lambda>b. Ok (a = b)))"

definition require_service_origin_binding :: "inspect_document \<Rightarrow> string \<Rightarrow> bool \<Rightarrow> unit result" where
  "require_service_origin_binding document final_inspect_url allow_insecure_loopback =
     rbind (inspect_origin final_inspect_url allow_insecure_loopback) (\<lambda>origin.
     rbind (did_web_origin (service_did (inspect_service document)) allow_insecure_loopback) (\<lambda>did_origin.
     require (origin = did_origin)
       (Value_Error ''AEP Service DID does not match the final Inspect response origin'')))"

section \<open>Facts\<close>

lemma good_path_part:
  assumes "\<not> bad_path_part p"
  shows "p \<noteq> [] \<and> CHR ''/'' \<notin> set p \<and> CHR ''?'' \<notin> set p \<and> CHR ''#'' \<notin> set p"
proof -
  have "c \<notin> set p" if "c \<in> set ''/?#''" for c
  proof -
    have "\<not> is_hex c" "c \<noteq> CHR ''%''" using that by (auto simp: is_hex_def is_digit_def in_range_def)
    then show ?thesis using unquote_keeps [of c p] assms that by (auto simp: bad_path_part_def Let_def)
  qed
  then show ?thesis using assms by (auto simp: bad_path_part_def Let_def)
qed

lemma did_web_parts_Ok:
  assumes "did_web_parts did = Inr (host, parts)"
  shows "\<exists>r p. urlsplit (''//'' @ host) = Inr r \<and> port r = Inr p \<and> truthy (hostname r)
    \<and> \<not> truthy (username r) \<and> \<not> truthy (password r) \<and> url_path r = [] \<and> query r = [] \<and> fragment r = []
    \<and> host \<noteq> [] \<and> list_all (in_range 33 126) host \<and> starts_with did ''did:web:''
    \<and> split_on CHR '':'' (drop (length ''did:web:'') did) = hd (split_on CHR '':'' (drop (length ''did:web:'') did)) # parts
    \<and> host = unquote (hd (split_on CHR '':'' (drop (length ''did:web:'') did)))
    \<and> list_all (\<lambda>p. \<not> bad_path_part p) parts"
proof -
  let ?ps = "split_on CHR '':'' (drop (length ''did:web:'') did)"
  obtain q qs where q: "?ps = q # qs" by (cases ?ps) auto
  from assms obtain r p where "starts_with did ''did:web:''" "isascii (unquote q) \<and> visible_ascii (unquote q)"
    "urlsplit (''//'' @ unquote q) = Inr r" "port r = Inr p"
    "truthy (hostname r) \<and> \<not> truthy (username r) \<and> \<not> truthy (password r)
          \<and> url_path r = [] \<and> query r = [] \<and> fragment r = []"
    "\<not> list_ex bad_path_part qs" "host = unquote q \<and> parts = qs"
    unfolding did_web_parts_def Let_def rbind_Ok_iff require_Ok_iff reraise_value_error_Ok q list.sel
      sum.inject prod.inject by blast
  then show ?thesis
    using q by (intro exI [of _ r] exI [of _ p]) (simp add: visible_ascii_def list_all_iff list_ex_iff)
qed

lemma did_path_ok:
  assumes "list_all (\<lambda>p. \<not> bad_path_part p) parts" and "list_all (in_range 33 126) (concat parts)"
  shows "starts_with (did_path parts) ''/'' \<and> CHR ''?'' \<notin> set (did_path parts)
    \<and> CHR ''#'' \<notin> set (did_path parts) \<and> list_all (in_range 33 126) (did_path parts)"
proof -
  have "list_all (in_range 33 126) ''/.well-known/did.json''" "list_all (in_range 33 126) ''/did.json''"
    "in_range 33 126 CHR ''/''"
    by code_simp+
  moreover have "set (join ''/'' parts) \<subseteq> (\<Union>p \<in> set parts. set p) \<union> {CHR ''/''}"
    using set_join [of "''/''" parts] by simp
  moreover have "\<And>p. p \<in> set parts \<Longrightarrow> CHR ''?'' \<notin> set p \<and> CHR ''#'' \<notin> set p"
    using assms(1) good_path_part by (auto simp: list_all_iff)
  ultimately show ?thesis using assms(2) unfolding did_path_def list_all_iff set_concat
    by auto
qed

lemma split_origin_Ok:
  assumes "split_origin r = Inr o'"
  shows "\<exists>h n. hostname r = Some h \<and> h \<noteq> [] \<and> effective_port r n \<and> 0 \<le> n
     \<and> o' = lower (scheme r) @ ''://'' @ lower h @ '':'' @ show_nat (nat n)"
proof -
  from assms obtain h p where h: "hostname r = Some h" "h \<noteq> []" and p: "port r = Inr p"
    and o: "o' = lower (scheme r) @ ''://'' @ lower h @ '':''
        @ show_int (case p of Some n \<Rightarrow> n | None \<Rightarrow> if scheme r = ''https'' then 443 else 80)"
    by (auto simp: split_origin_def rbind_Ok_iff Let_def split: option.splits if_splits)
  let ?n = "case p of Some n \<Rightarrow> n | None \<Rightarrow> if scheme r = ''https'' then 443 else 80"
  have "0 \<le> ?n" using port_nonneg p by (auto split: option.split)
  then show ?thesis using h p o
    by (intro exI [of _ h] exI [of _ ?n]) (auto simp: effective_port_def show_int_def)
qed

lemma origin_text_inject:
  assumes "s \<in> {''http'', ''https''}" "t \<in> {''http'', ''https''}"
    and "s @ ''://'' @ h @ '':'' @ show_nat m = t @ ''://'' @ k @ '':'' @ show_nat n"
  shows "s = t \<and> h = k \<and> m = n"
proof -
  have st: "s = t" using assms by auto
  have "CHR '':'' \<notin> set (show_nat j)" for j
    using show_nat_digits [of j] by (auto simp: list_all_iff is_digit_def in_range_def)
  then have "h = k \<and> show_nat m = show_nat n"
    using assms(3) st last_separator [of "CHR '':''" "show_nat m" "show_nat n" h k] by simp
  with st show ?thesis by simp
qed

lemma inspect_origin_Ok:
  assumes "inspect_origin u allow = Inr o'"
  shows "\<exists>r. urlsplit u = Inr r \<and> split_origin r = Inr o' \<and> \<not> truthy (username r) \<and> \<not> truthy (password r)
    \<and> (scheme r = ''https'' \<or> scheme r = ''http'' \<and> allow \<and> is_loopback_host (hostname r))"
  using assms by (auto simp: inspect_origin_def rbind_Ok_iff Let_def)

lemma did_web_origin_Ok:
  assumes "did_web_origin did allow = Inr o'"
  shows "\<exists>host parts s r. did_web_parts did = Inr (host, parts) \<and> s \<in> {''http'', ''https''}
    \<and> (s = ''http'' \<longrightarrow> allow \<and> is_loopback_netloc host = Inr True)
    \<and> urlsplit (s @ ''://'' @ host) = Inr r \<and> split_origin r = Inr o'"
proof -
  from assms obtain host parts i r where h: "did_web_parts did = Inr (host, parts)"
    and i: "(if allow then is_loopback_netloc host else Ok False) = Inr i"
    and r: "urlsplit ((if i then ''http'' else ''https'') @ ''://'' @ host) = Inr r" "split_origin r = Inr o'"
    by (auto simp: did_web_origin_def rbind_Ok_iff)
  show ?thesis
    using h i r by (intro exI [of _ host] exI [of _ parts] exI [of _ "if i then ''http'' else ''https''"] exI [of _ r])
      (auto split: if_splits)
qed


text \<open>C22 For a DID of visible US-ASCII whose decoded host holds no query or fragment delimiter, the
  document URL reads back as exactly the validated parts: that host as its authority, the path of the
  identifier, no query, no fragment, and https unless an insecure loopback host was allowed.\<close>

theorem did_web_url_structure:
  assumes "did_web_parts did = Inr (host, parts)" and "list_all (in_range 33 126) did"
    and "CHR ''?'' \<notin> set host" and "CHR ''#'' \<notin> set host"
  shows "\<exists>u r. did_web_document_url did allow = Inr u \<and> urlsplit u = Inr r \<and> netloc r = host
    \<and> url_path r = did_path parts \<and> query r = [] \<and> fragment r = []
    \<and> (scheme r = ''https'' \<or> scheme r = ''http'' \<and> allow \<and> is_loopback_netloc host = Inr True)"
proof -
  from assms(1) obtain r where r: "urlsplit (''//'' @ host) = Inr r" "url_path r = []"
    and vis: "list_all (in_range 33 126) host" 
    and sp: "split_on CHR '':'' (drop (length ''did:web:'') did) = hd (split_on CHR '':'' (drop (length ''did:web:'') did)) # parts"
    and good: "list_all (\<lambda>p. \<not> bad_path_part p) parts"
    using did_web_parts_Ok [OF assms(1)] by blast
  have n: "netloc_ok host" "list_all (\<lambda>c. \<not> netloc_end c) host"
    using urlsplit_bare_netloc [OF r(1) vis r(2) assms(3,4)] by auto
  have "set p \<subseteq> set did" if "p \<in> set parts" for p
  proof -
    have "p \<in> set (split_on CHR '':'' (drop (length ''did:web:'') did))"
      using that by (subst sp) simp
    from split_on_set [OF this] set_drop_subset show ?thesis by fast
  qed
  then have "list_all (in_range 33 126) (concat parts)"
    using assms(2) by (auto simp: list_all_iff)
  note path = did_path_ok [OF good this]
  define insecure where "insecure \<longleftrightarrow> allow \<and> is_loopback_host (hostname r)"
  define s where "s = (if insecure then ''http'' else ''https'')"
  let ?u = "s @ '':'' @ ''//'' @ host @ did_path parts"
  have "list_all (in_range 33 126) ''http''" "list_all (in_range 33 126) ''https''" "list_all (in_range 33 126) ''://''"
    by code_simp+
  then have "list_all (in_range 33 126) ?u"
    using vis path by (simp add: s_def)
  moreover have "take_scheme ?u = (s, ''//'' @ host @ did_path parts)"
    by (rule take_scheme_http) (simp add: s_def)
  ultimately have "urlsplit ?u = Inr \<lparr>scheme = s, netloc = host, url_path = did_path parts, query = [], fragment = []\<rparr>"
    using n path by (intro urlsplit_parts) (simp_all add: sanitize_visible)
  moreover have "did_web_document_url did allow = Inr ?u"
    using assms(1) r(1) by (simp add: did_web_document_url_def is_loopback_netloc_def s_def insecure_def)
  moreover have "is_loopback_netloc host = Inr (is_loopback_host (hostname r))"
    using r(1) by (simp add: is_loopback_netloc_def)
  ultimately show ?thesis by (auto simp: s_def insecure_def)
qed


theorem did_web_url_structure_witness:
  "\<exists>u r. did_web_document_url ''did:web:a.example:agents'' True = Inr u \<and> urlsplit u = Inr r
    \<and> netloc r = ''a.example'' \<and> url_path r = did_path [''agents''] \<and> query r = [] \<and> fragment r = []
    \<and> (scheme r = ''https'' \<or> scheme r = ''http'' \<and> True \<and> is_loopback_netloc ''a.example'' = Inr True)"
proof -
  have "did_web_parts ''did:web:a.example:agents'' = Inr (''a.example'', [''agents''])"
    "list_all (in_range 33 126) ''did:web:a.example:agents''"
    by code_simp+
  from did_web_url_structure [OF this, of True] show ?thesis by simp
qed









text \<open>The path of an identifier is not held to visible US-ASCII.\<close>

lemma did_web_space_in_path:
  "did_web_document_url ''did:web:example.com:a b'' False = Inr ''https://example.com/a b/did.json''"
  by code_simp

text \<open>C17 When the origin binding holds, the final Inspect URL and the URL of the Service DID's host have
  the same scheme, the same host up to case and the same effective port; the scheme is https except
  for a loopback host in the insecure mode.\<close>

theorem service_origin_binding:
  assumes "require_service_origin_binding document u allow = Inr ()"
  shows "\<exists>host parts r q h k n. did_web_parts (service_did (inspect_service document)) = Inr (host, parts)
    \<and> urlsplit u = Inr r \<and> urlsplit (scheme r @ ''://'' @ host) = Inr q
    \<and> hostname r = Some h \<and> hostname q = Some k \<and> lower h = lower k
    \<and> effective_port r n \<and> effective_port q n
    \<and> (scheme r = ''https'' \<or> scheme r = ''http'' \<and> allow \<and> is_loopback_host (hostname r))"
proof -
  from assms obtain o' where o: "inspect_origin u allow = Inr o'"
    "did_web_origin (service_did (inspect_service document)) allow = Inr o'"
    by (auto simp: require_service_origin_binding_def rbind_Ok_iff)
  from inspect_origin_Ok [OF o(1)] obtain r where r: "urlsplit u = Inr r" "split_origin r = Inr o'"
    "scheme r = ''https'' \<or> scheme r = ''http'' \<and> allow \<and> is_loopback_host (hostname r)" by blast
  from did_web_origin_Ok [OF o(2)] obtain host parts s q
    where d: "did_web_parts (service_did (inspect_service document)) = Inr (host, parts)"
    and s: "s \<in> {''http'', ''https''}" and q: "urlsplit (s @ ''://'' @ host) = Inr q" "split_origin q = Inr o'"
    by blast
  have "list_all (in_range 33 126) host" using did_web_parts_Ok [OF d] by blast
  from urlsplit_scheme [OF s this q(1)] have sq: "scheme q = s" .
  have low: "lower ''http'' = ''http''" "lower ''https'' = ''https''" by code_simp+
  from split_origin_Ok [OF r(2)] obtain h n where h: "hostname r = Some h" "effective_port r n" "0 \<le> n"
    "o' = lower (scheme r) @ ''://'' @ lower h @ '':'' @ show_nat (nat n)" by blast
  from split_origin_Ok [OF q(2)] obtain k m where k: "hostname q = Some k" "effective_port q m" "0 \<le> m"
    "o' = lower (scheme q) @ ''://'' @ lower k @ '':'' @ show_nat (nat m)" by blast
  have "lower (scheme r) = lower (scheme q) \<and> lower h = lower k \<and> nat n = nat m"
    using r(3) s sq low h(4) k(4) by (intro origin_text_inject) auto
  then have "scheme r = s" "lower h = lower k" "n = m"
    using r(3) s sq low h(3) k(3) by auto
  then show ?thesis using d r q h k by blast
qed

theorem service_origin_binding_witness:
  "\<exists>host parts r q h k n. did_web_parts (service_did (inspect_service (minimal_inspect ''did:web:a.example'')))
       = Inr (host, parts)
    \<and> urlsplit ''https://A.example/.well-known/aep'' = Inr r \<and> urlsplit (scheme r @ ''://'' @ host) = Inr q
    \<and> hostname r = Some h \<and> hostname q = Some k \<and> lower h = lower k
    \<and> effective_port r n \<and> effective_port q n
    \<and> (scheme r = ''https'' \<or> scheme r = ''http'' \<and> False \<and> is_loopback_host (hostname r))"
proof -
  have "require_service_origin_binding (minimal_inspect ''did:web:a.example'')
      ''https://A.example/.well-known/aep'' False = Inr ()"
    by code_simp
  from service_origin_binding [OF this] show ?thesis .
qed

lemma find_public_jwk_Some:
  "find_public_jwk k ms = Some jwk \<longleftrightarrow>
     (\<exists>pre m post. ms = pre @ m # post \<and> method_jwk k m = Some jwk \<and> list_all (\<lambda>x. method_jwk k x = None) pre)"
proof (induction ms)
  case (Cons x xs)
  show ?case
  proof (cases "method_jwk k x")
    case None
    have "(\<exists>pre m post. x # xs = pre @ m # post \<and> method_jwk k m = Some jwk
            \<and> list_all (\<lambda>x. method_jwk k x = None) pre)
      \<longleftrightarrow> (\<exists>pre m post. xs = pre @ m # post \<and> method_jwk k m = Some jwk
            \<and> list_all (\<lambda>x. method_jwk k x = None) pre)" (is "?l = ?r")
    proof
      assume ?l
      then obtain pre m post where "x # xs = pre @ m # post" "method_jwk k m = Some jwk"
        "list_all (\<lambda>x. method_jwk k x = None) pre" by blast
      with None show ?r by (cases pre) auto
    next
      assume ?r
      then obtain pre m post where "xs = pre @ m # post" "method_jwk k m = Some jwk"
        "list_all (\<lambda>x. method_jwk k x = None) pre" by blast
      with None show ?l by (intro exI [of _ "x # pre"] exI [of _ m] exI [of _ post]) simp
    qed
    with None Cons.IH show ?thesis by simp
  next
    case (Some j)
    then have "pre = []" if "x # xs = pre @ m # post" "list_all (\<lambda>x. method_jwk k x = None) pre" for pre m post
      using that by (cases pre) auto
    with Some show ?thesis by (auto intro!: exI [of _ "[]"]) fastforce
  qed
qed simp

lemma method_jwk_Some:
  "method_jwk k m = Some jwk \<longleftrightarrow>
     (\<exists>ms. m = JObj ms \<and> map_of ms ''id'' = Some (JStr k) \<and> map_of ms ''publicKeyJwk'' = Some (JObj jwk))"
  by (auto simp: method_jwk_def split: json.splits option.splits)

lemma select_did_web_public_jwk_Ok:
  "select_did_web_public_jwk document did key_id = Inr jwk \<longleftrightarrow>
     map_of document ''id'' = Some (JStr did) \<and> fst (partition_at CHR ''#'' key_id) = did
     \<and> (\<exists>methods. map_of document ''verificationMethod'' = Some (JArr methods) \<and> find_public_jwk key_id methods = Some jwk)"
  by (auto simp: select_did_web_public_jwk_def rbind_Ok_iff split: option.splits json.splits)

lemma select_did_web_public_jwk_Raise:
  "select_did_web_public_jwk document did key_id = Inl e \<Longrightarrow> \<exists>msg. e = Value_Error msg"
  by (auto simp: select_did_web_public_jwk_def rbind_Raise_iff split: option.splits json.splits)

text \<open>C23 The selected key is the \<open>publicKeyJwk\<close> object of the first verification method of the document whose
  \<open>id\<close> is the key ID and which has such an object; the document is that of the issuer, and so is the DID in front
  of the fragment of the key ID. Everything else is refused with a ValueError.\<close>

theorem select_did_web_public_jwk_iff:
  "(select_did_web_public_jwk document did key_id = Inr jwk \<longleftrightarrow>
      map_of document ''id'' = Some (JStr did) \<and> fst (partition_at CHR ''#'' key_id) = did
      \<and> (\<exists>before method later. map_of document ''verificationMethod'' = Some (JArr (before @ JObj method # later))
           \<and> map_of method ''id'' = Some (JStr key_id) \<and> map_of method ''publicKeyJwk'' = Some (JObj jwk)
           \<and> (\<forall>m j. JObj m \<in> set before \<longrightarrow> map_of m ''id'' = Some (JStr key_id) \<longrightarrow>
                map_of m ''publicKeyJwk'' \<noteq> Some (JObj j))))
   \<and> (select_did_web_public_jwk document did key_id = Inl e \<longrightarrow> (\<exists>msg. e = Value_Error msg))"
proof -
  have "list_all (\<lambda>x. method_jwk key_id x = None) before \<longleftrightarrow>
      (\<forall>m j. JObj m \<in> set before \<longrightarrow> map_of m ''id'' = Some (JStr key_id) \<longrightarrow> map_of m ''publicKeyJwk'' \<noteq> Some (JObj j))"
    for before
    unfolding list_all_iff not_Some_eq [symmetric] method_jwk_Some by blast
  then show ?thesis
    using select_did_web_public_jwk_Raise [of document did key_id e]
    unfolding select_did_web_public_jwk_Ok find_public_jwk_Some method_jwk_Some by auto
qed

definition two_keys :: members where
  "two_keys = [(''id'', JStr ''did:web:a.example''),
     (''verificationMethod'', JArr [
       JObj [(''id'', JStr ''did:web:a.example#old''), (''publicKeyJwk'', JObj [(''kty'', JStr ''EC'')])],
       JObj [(''id'', JStr ''did:web:a.example#new''), (''publicKeyJwk'', JObj [(''kty'', JStr ''OKP'')])]])]"

theorem select_did_web_public_jwk_iff_witness:
  "select_did_web_public_jwk two_keys ''did:web:a.example'' ''did:web:a.example#new'' = Inr [(''kty'', JStr ''OKP'')]"
proof -
  have "fst (partition_at CHR ''#'' ''did:web:a.example#new'') = ''did:web:a.example''" by code_simp
  then show ?thesis
    unfolding select_did_web_public_jwk_iff [THEN conjunct1]
    by (intro conjI exI [of _ "[JObj [(''id'', JStr ''did:web:a.example#old''), (''publicKeyJwk'', JObj [(''kty'', JStr ''EC'')])]]"]
        exI [of _ "[(''id'', JStr ''did:web:a.example#new''), (''publicKeyJwk'', JObj [(''kty'', JStr ''OKP'')])]"] exI [of _ "[]"])
      (simp_all add: two_keys_def)
qed

end
