(* ===== verification/Service_Types.thy ===== *)
theory Service_Types
  imports Open_Api Assertions Did_Web
begin

text \<open>
  \<^verbatim>\<open>service/types.py\<close>: the values a Service exchanges with its collaborators, and the effect type of
  its operations. An \<open>async\<close> function without an interleaving in between is a function from the state
  to a result and the state after it; the state survives an exception. \<open>'w\<close> is the state of the
  collaborators that the source receives as objects (clock, policy, verifier, handlers). The combinators
  work for any type of exceptions \<open>'e\<close>; the Service and the Platform raise \<^typ>\<open>exn\<close>.
\<close>

section \<open>Effects\<close>

named_theorems prog_simps \<open>running effectful programs\<close>

type_synonym ('e, 's, 'a) eprog = "'s \<Rightarrow> ('e + 'a) \<times> 's"

type_synonym ('s, 'a) prog = "(exn, 's, 'a) eprog"

definition sret :: "'a \<Rightarrow> ('e, 's, 'a) eprog" where
  "sret a = (\<lambda>s. (Inr a, s))"

definition sraise :: "'e \<Rightarrow> ('e, 's, 'a) eprog" where
  "sraise e = (\<lambda>s. (Inl e, s))"

definition slift :: "'e + 'a \<Rightarrow> ('e, 's, 'a) eprog" where
  "slift m = (\<lambda>s. (m, s))"

definition sbind :: "('e, 's, 'a) eprog \<Rightarrow> ('a \<Rightarrow> ('e, 's, 'b) eprog) \<Rightarrow> ('e, 's, 'b) eprog" where
  "sbind m f = (\<lambda>s. case m s of (Inl e, s') \<Rightarrow> (Inl e, s') | (Inr a, s') \<Rightarrow> f a s')"

definition sget :: "('s \<Rightarrow> 'a) \<Rightarrow> ('e, 's, 'a) eprog" where
  "sget f = (\<lambda>s. (Inr (f s), s))"

definition smodify :: "('s \<Rightarrow> 's) \<Rightarrow> ('e, 's, unit) eprog" where
  "smodify f = (\<lambda>s. (Inr (), f s))"

lemma sbind_simps [prog_simps]:
  "sbind (sret a) f s = f a s"
  "sbind (sraise e) f s = (Inl e, s)"
  "sbind (sget g) p s = p (g s) s"
  "sbind (smodify k) q s = q () (k s)"
  "sbind (slift (Inr a)) f s = f a s"
  "sbind (slift (Inl e)) f s = (Inl e, s)"
  by (simp_all add: sbind_def sret_def sraise_def sget_def smodify_def slift_def)

lemma prog_run [prog_simps]:
  "sret a s = (Inr a, s)" "sraise e s = (Inl e, s)" "slift m s = (m, s)"
  "sget f s = (Inr (f s), s)" "smodify k s = (Inr (), k s)"
  by (simp_all add: sret_def sraise_def sget_def smodify_def slift_def)

lemma sbind_Ok:
  "sbind m f s = (Inr b, t) \<longleftrightarrow> (\<exists>a s'. m s = (Inr a, s') \<and> f a s' = (Inr b, t))"
  by (auto simp: sbind_def split: prod.splits sum.splits)

lemma sbind_run: "m s = (Inr a, s') \<Longrightarrow> sbind m f s = f a s'"
  by (simp add: sbind_def)

lemma sbind_raise: "m s = (Inl e, s') \<Longrightarrow> sbind m f s = (Inl e, s')"
  by (simp add: sbind_def)

text \<open>A relation between the states before and after that every run of a program keeps.\<close>

definition keeps :: "('s \<Rightarrow> 's \<Rightarrow> bool) \<Rightarrow> ('e, 's, 'a) eprog \<Rightarrow> bool" where
  "keeps R m = (\<forall>s. R s (snd (m s)))"

lemma keeps_basic [simp, intro]:
  "reflp R \<Longrightarrow> keeps R (sret a)" "reflp R \<Longrightarrow> keeps R (sraise e)"
  "reflp R \<Longrightarrow> keeps R (slift m)" "reflp R \<Longrightarrow> keeps R (sget f)"
  by (auto simp: keeps_def sret_def sraise_def slift_def sget_def reflp_def)

lemma keeps_bind [intro]:
  assumes "transp R" and "keeps R m" and "\<And>a. keeps R (f a)"
  shows "keeps R (sbind m f)"
  unfolding keeps_def
proof
  fix s
  show "R s (snd (sbind m f s))"
  proof (cases "m s")
    case (Pair r s')
    then have "R s s'" using assms(2) by (metis keeps_def snd_conv)
    moreover have "R s' (snd (f a s'))" for a using assms(3) by (simp add: keeps_def)
    ultimately show ?thesis
      using Pair assms(1) by (cases r) (auto simp: sbind_def transp_def)
  qed
qed

section \<open>Results and contexts\<close>

record 'b service_result =
  res_status :: int
  res_body :: "'b option"
  res_content_type :: string
  res_headers :: "(string, string) dict"
  res_problem :: "problem_details option"

definition service_ok :: "'b \<Rightarrow> 'b service_result" where
  "service_ok b = \<lparr>res_status = 200, res_body = Some b, res_content_type = AEP_MEDIA_TYPE,
     res_headers = [], res_problem = None\<rparr>"

record command_options =
  client_assertion :: string
  opt_idempotency_key :: "string option"

record verification_context =
  vc_algorithms :: "signing_algorithm list"
  vc_allow :: bool
  vc_tolerance :: int
  vc_current_time :: datetime
  vc_idempotency_key :: "string option"
  vc_operation :: assertion_operation
  vc_resource :: "string option"
  vc_service_did :: string

record replay_record =
  rp_expires_at :: int
  rp_jwt_id :: string
  rp_subject :: string

section \<open>Enrollment\<close>

record enrollment_record =
  en_agent_did :: string
  en_claims :: "claim_values option"
  en_created_at :: datetime
  en_id :: string
  en_owner_action :: bool
  en_requirements :: "string list"
  en_since :: datetime
  en_status :: agent_status
  en_updated_at :: datetime
  en_verification :: "string list"
  en_acknowledged :: "string list"
  en_required_documents :: "string list"

text \<open>\<open>__post_init__\<close>, run by the constructor and by \<open>replace\<close>.\<close>

definition check_enrollment_record :: "enrollment_record \<Rightarrow> enrollment_record result" where
  "check_enrollment_record r =
     rbind (require (en_agent_did r \<noteq> [] \<and> en_id r \<noteq> [])
       (Value_Error ''AEP enrollment record requires Agent and enrollment identifiers'')) (\<lambda>_.
     rbind (require (aware (en_created_at r) \<and> aware (en_since r) \<and> aware (en_updated_at r))
       (Value_Error ''AEP enrollment timestamps must contain UTC offsets'')) (\<lambda>_.
     Ok r))"

record enrollment_decision =
  dc_status :: decision_status
  dc_owner_action :: "bool option"
  dc_requirements :: "string list option"
  dc_verification :: "string list option"
  dc_update_existing :: bool

definition default_decision :: enrollment_decision where
  "default_decision = \<lparr>dc_status = Decision_Active, dc_owner_action = None, dc_requirements = None,
     dc_verification = None, dc_update_existing = True\<rparr>"

section \<open>Idempotency\<close>

record idempotency_input =
  ii_agent_did :: string
  ii_command :: string
  ii_key :: string
  ii_hash :: string

record stored_response =
  st_body :: body
  st_content_type :: string
  st_created_at :: datetime
  st_headers :: "(string, string) dict"
  st_status :: int

definition check_stored_response :: "stored_response \<Rightarrow> stored_response result" where
  "check_stored_response r =
     rbind (require (aware (st_created_at r))
       (Value_Error ''AEP stored response timestamp must contain a UTC offset'')) (\<lambda>_. Ok r)"

datatype idempotency_state = Idem_Conflict | Idem_Created | Idem_Replayed

record idempotency_result =
  ir_response :: "stored_response option"
  ir_state :: idempotency_state

section \<open>Grant types and credentials\<close>

record grant_context =
  gc_agent_did :: string
  gc_enrollment :: enrollment_record
  gc_grant_type :: string
  gc_current_time :: datetime

text \<open>\<open>RevokeContext\<close> has the same members as \<open>GrantContext\<close>.\<close>

type_synonym revoke_context = grant_context

type_synonym headers = "(string, string list) dict"

record authentication_input =
  ci_headers :: headers
  ci_method :: string
  ci_current_time :: datetime
  ci_url :: string

datatype authentication_kind = Kind_AEP_JWT | Kind_Session_Credential

record principal =
  pr_agent_did :: string
  pr_kind :: authentication_kind
  pr_method :: string
  pr_credential_id :: "string option"
  pr_grant_type :: "string option"
  pr_scopes :: "string list"

datatype built_in_credential =
    Api_Key_Credential api_key_response
  | Basic_Credential basic_response
  | Bearer_Credential oauth_bearer_response

fun built_in_id :: "built_in_credential \<Rightarrow> string" where
  "built_in_id (Api_Key_Credential c) = credential_id c"
| "built_in_id (Basic_Credential c) = credential_id c"
| "built_in_id (Bearer_Credential c) = credential_id c"

fun built_in_expires_at :: "built_in_credential \<Rightarrow> string" where
  "built_in_expires_at (Api_Key_Credential c) = expires_at c"
| "built_in_expires_at (Basic_Credential c) = expires_at c"
| "built_in_expires_at (Bearer_Credential c) = expires_at c"

fun built_in_scopes :: "built_in_credential \<Rightarrow> string list" where
  "built_in_scopes (Api_Key_Credential c) = scopes c"
| "built_in_scopes (Basic_Credential c) = scopes c"
| "built_in_scopes (Bearer_Credential c) = scopes c"

fun built_in_to_wire :: "built_in_credential \<Rightarrow> json" where
  "built_in_to_wire (Api_Key_Credential c) = api_key_to_wire c"
| "built_in_to_wire (Basic_Credential c) = basic_to_wire c"
| "built_in_to_wire (Bearer_Credential c) = oauth_bearer_to_wire c"

record credential_record =
  cr_agent_did :: string
  cr_created_at :: datetime
  cr_credential :: built_in_credential
  cr_credential_id :: string
  cr_expires_at :: datetime
  cr_grant_type :: string

definition check_credential_record :: "credential_record \<Rightarrow> credential_record result" where
  "check_credential_record r =
     rbind (require (aware (cr_created_at r) \<and> aware (cr_expires_at r))
       (Value_Error ''AEP credential record timestamps must contain UTC offsets'')) (\<lambda>_. Ok r)"

record credential_match =
  cm_agent_did :: string
  cm_credential_id :: string
  cm_expires_at :: datetime
  cm_grant_type :: string
  cm_scopes :: "string list"

definition check_credential_match :: "credential_match \<Rightarrow> credential_match result" where
  "check_credential_match m =
     rbind (require (aware (cm_expires_at m))
       (Value_Error ''AEP credential match expiration must contain a UTC offset'')) (\<lambda>_. Ok m)"

text \<open>The protocols \<open>ServiceCredentialStore\<close>, \<open>CredentialAuthenticator\<close> and \<open>GrantTypeHandler\<close> as
  records of operations.\<close>

record 'w credential_store =
  authenticate_credential :: "string \<Rightarrow> authentication_input \<Rightarrow> ('w, credential_match option) prog"
  has_credential_presentation :: "string \<Rightarrow> authentication_input \<Rightarrow> ('w, bool) prog"
  revoke_credential :: "string \<Rightarrow> string \<Rightarrow> string \<Rightarrow> datetime \<Rightarrow> ('w, unit) prog"
  revoke_grant_type :: "string \<Rightarrow> string \<Rightarrow> datetime \<Rightarrow> ('w, unit) prog"
  save_credential :: "credential_record \<Rightarrow> ('w, unit) prog"

record 'w authenticator =
  au_authenticate :: "authentication_input \<Rightarrow> ('w, principal option) prog"
  au_has_presentation :: "authentication_input \<Rightarrow> ('w, bool) prog"

record 'w grant_definition =
  gd_grant_type :: string
  gd_grant :: "grant_request \<Rightarrow> grant_context \<Rightarrow> ('w, body) prog"
  gd_revoke :: "revoke_request \<Rightarrow> revoke_context \<Rightarrow> ('w, unit) prog"
  gd_config :: grant_type_config
  gd_authenticator :: "'w authenticator option"

section \<open>Protected resources and options\<close>

datatype header_value = One_Value string | Values "string list"

record resource_request =
  prr_headers :: "(string \<times> header_value) list"
  prr_method :: string
  prr_url :: string

record resource_result =
  pa_authenticated :: bool
  pa_principal :: "principal option"
  pa_response :: "unit service_result option"

record claim_limits =
  maximum_encoded_bytes :: int
  maximum_member_count :: int
  maximum_object_depth :: int
  maximum_string_length :: int

definition default_claim_limits :: claim_limits where
  "default_claim_limits = \<lparr>maximum_encoded_bytes = 65536, maximum_member_count = 128,
     maximum_object_depth = 8, maximum_string_length = 4096\<rparr>"

text \<open>\<open>ServiceOptions\<close> without its collaborators; durations in microseconds.\<close>

record 'w service_options =
  so_service_did :: string
  so_identity_methods :: "string list"
  so_authentication_methods :: "string list"
  so_allow_insecure_loopback :: bool
  so_claim_limits :: claim_limits
  so_claims :: "inspect_claims option"
  so_clock_tolerance :: int
  so_endpoint_base :: string
  so_extensions :: "string list"
  so_grant_types :: "'w grant_definition list"
  so_inspect_url :: "string option"
  so_maximum_lifetime :: int
  so_openapi :: "openapi_reference option"
  so_service_documents :: "service_document list option"
  so_signing_algorithms :: "signing_algorithm list"

text \<open>The collaborators: clock, identifier provider, enrollment policy and assertion verifier.\<close>

record 'w collaborators =
  co_clock :: "('w, datetime) prog"
  co_identifier :: "('w, string) prog"
  co_policy :: "enroll_request \<Rightarrow> datetime \<Rightarrow> ('w, enrollment_decision) prog"
  co_verify :: "string \<Rightarrow> verification_context \<Rightarrow> ('w, assertion_claims) prog"

end
