(* ===== verification/Service_Stores.thy ===== *)
theory Service_Stores
  imports Service_Types
begin

text \<open>
  \<^verbatim>\<open>service/stores.py\<close>: the in-memory stores when one call runs at a time. \<open>Store_Calls\<close> has
  the calls that interleave. A factory or operation passed to a store is a
  program on the state of the whole Service; \<open>get\<close> and \<open>put\<close> give the store's own dictionary in it.
\<close>

section \<open>MemoryReplayStore\<close>

type_synonym replay_state = "(string \<times> string, int) dict"

definition replay_consume :: "replay_record \<Rightarrow> int \<Rightarrow> (replay_state, bool) prog" where
  "replay_consume record now st =
     (let key = (rp_subject record, rp_jwt_id record);
          records = dict_keep (\<lambda>(_, expiry). now < expiry) st in
      if rp_expires_at record \<le> now \<or> rp_subject record = [] \<or> rp_jwt_id record = []
      then (Inl (Value_Error ''AEP replay store received an invalid record''), records)
      else if dict_has key records then (Inr False, records)
      else (Inr True, dict_set key (rp_expires_at record) records))"

section \<open>MemoryEnrollmentStore\<close>

type_synonym enrollment_state = "(string, enrollment_record) dict"

definition enrollment_find :: "string \<Rightarrow> enrollment_state \<Rightarrow> enrollment_record option" where
  "enrollment_find agent_did st = map_of st agent_did"

definition enrollment_save :: "enrollment_record \<Rightarrow> enrollment_state \<Rightarrow> enrollment_state" where
  "enrollment_save record st = dict_set (en_agent_did record) record st"

definition find_or_create ::
    "('s \<Rightarrow> enrollment_state) \<Rightarrow> ((enrollment_state \<Rightarrow> enrollment_state) \<Rightarrow> 's \<Rightarrow> 's)
      \<Rightarrow> string \<Rightarrow> ('s, enrollment_record) prog \<Rightarrow> ('s, enrollment_record \<times> bool) prog" where
  "find_or_create get upd agent_did factory s =
     (case enrollment_find agent_did (get s) of
        Some existing \<Rightarrow> (Inr (existing, False), s)
      | None \<Rightarrow>
          sbind factory (\<lambda>created.
          sbind (slift (require (en_agent_did created = agent_did)
            (Value_Error ''enrollment factory returned a mismatched Agent DID''))) (\<lambda>_.
          sbind (smodify (upd (dict_set agent_did created))) (\<lambda>_.
          sret (created, True)))) s)"

section \<open>MemoryIdempotencyStore\<close>

type_synonym idempotency_store = "(string \<times> string, idempotency_input \<times> stored_response) dict"

definition one_hour :: int where "one_hour = seconds 3600"

definition prune_idempotency :: "datetime \<Rightarrow> idempotency_store \<Rightarrow> idempotency_store" where
  "prune_idempotency now st =
     dict_keep (\<lambda>(_, (_, response)). instant now - one_hour \<le> instant (st_created_at response)) st"

definition idempotency_execute ::
    "('s \<Rightarrow> idempotency_store) \<Rightarrow> ((idempotency_store \<Rightarrow> idempotency_store) \<Rightarrow> 's \<Rightarrow> 's)
      \<Rightarrow> ('s, datetime) prog \<Rightarrow> idempotency_input \<Rightarrow> ('s, stored_response) prog
      \<Rightarrow> ('s, idempotency_result) prog" where
  "idempotency_execute get upd clock input compute =
     (let key = (ii_agent_did input, ii_key input) in
      sbind (slift (require (ii_agent_did input \<noteq> [] \<and> ii_command input \<noteq> [] \<and> ii_key input \<noteq> []
          \<and> ii_hash input \<noteq> [])
        (Value_Error ''AEP idempotency store received invalid input''))) (\<lambda>_.
      sbind clock (\<lambda>now.
      sbind (slift (require (aware now)
        (Value_Error ''AEP idempotency clock must return an offset-aware datetime''))) (\<lambda>_.
      sbind (smodify (upd (prune_idempotency now))) (\<lambda>_.
      sbind (sget (\<lambda>s. map_of (get s) key)) (\<lambda>existing.
      case existing of
        Some (previous, response) \<Rightarrow>
          if ii_command previous \<noteq> ii_command input \<or> ii_hash previous \<noteq> ii_hash input
          then sret \<lparr>ir_response = None, ir_state = Idem_Conflict\<rparr>
          else sret \<lparr>ir_response = Some response, ir_state = Idem_Replayed\<rparr>
      | None \<Rightarrow>
          sbind compute (\<lambda>response.
          sbind (smodify (upd (dict_set key (input, response)))) (\<lambda>_.
          sret \<lparr>ir_response = Some response, ir_state = Idem_Created\<rparr>))))))))"

section \<open>StaticEnrollmentPolicy\<close>

definition static_policy :: "enrollment_decision option \<Rightarrow> enroll_request \<Rightarrow> datetime
    \<Rightarrow> ('w, enrollment_decision) prog" where
  "static_policy decision request current_time =
     sret (case decision of None \<Rightarrow> default_decision | Some d \<Rightarrow> d)"

section \<open>The replay contract\<close>

definition replay_key :: "replay_record \<Rightarrow> string \<times> string" where
  "replay_key r = (rp_subject r, rp_jwt_id r)"

text \<open>A sequence of calls with the times they are made at, and the answers.\<close>

fun run_calls :: "('r \<Rightarrow> int \<Rightarrow> 's \<Rightarrow> 'a \<times> 's) \<Rightarrow> ('r \<times> int) list \<Rightarrow> 's \<Rightarrow> 'a list" where
  "run_calls f [] st = []"
| "run_calls f ((r, now) # calls) st = (case f r now st of (a, st') \<Rightarrow> a # run_calls f calls st')"

locale replay_guard =
  fixes consume :: "replay_record \<Rightarrow> int \<Rightarrow> 's \<Rightarrow> bool result \<times> 's"
    and recorded :: "'s \<Rightarrow> string \<times> string \<Rightarrow> int option"
    and ok :: "'s \<Rightarrow> bool"
  assumes ok_consume: "ok st \<Longrightarrow> ok (snd (consume r now st))"
    and accepts: "ok st \<Longrightarrow> consume r now st = (Inr True, st') \<Longrightarrow>
      recorded st' (replay_key r) = Some (rp_expires_at r)"
    and refuses: "ok st \<Longrightarrow> recorded st (replay_key r) = Some e \<Longrightarrow> now < e \<Longrightarrow>
      fst (consume r now st) \<noteq> Inr True"
    and remembers: "ok st \<Longrightarrow> recorded st k = Some e \<Longrightarrow> now < e \<Longrightarrow>
      recorded (snd (consume r now st)) k = Some e"
begin

lemma refused_while_recorded:
  assumes "ok st" and "recorded st (replay_key r) = Some e"
    and "\<forall>(_, t) \<in> set calls. t < e"
    and "i < length calls" and "replay_key (fst (calls ! i)) = replay_key r"
  shows "run_calls consume calls st ! i \<noteq> Inr True"
  using assms
proof (induction calls arbitrary: st i)
  case (Cons c calls)
  obtain q now where c: "c = (q, now)" by (cases c)
  obtain a st' where step: "consume q now st = (a, st')" by (cases "consume q now st")
  have "now < e" using Cons.prems(3) c by auto
  show ?case
  proof (cases i)
    case 0
    then show ?thesis
      using refuses [OF Cons.prems(1), of q e now] Cons.prems(2,5) \<open>now < e\<close> step c by simp
  next
    case (Suc j)
    have "ok st'" using ok_consume [OF Cons.prems(1), of q now] step by simp
    moreover have "recorded st' (replay_key r) = Some e"
      using remembers [OF Cons.prems(1,2) \<open>now < e\<close>, of q] step by simp
    ultimately have "run_calls consume calls st' ! j \<noteq> Inr True"
      using Cons.prems Suc by (intro Cons.IH) auto
    then show ?thesis using Suc step c by simp
  qed
qed simp

text \<open>Of two accepted calls with one key, the later comes at or after the expiry of the earlier, when
  the times do not pass that expiry in between.\<close>

lemma accepted_once:
  assumes "ok st" and "i < j" and "j < length calls"
    and "replay_key (fst (calls ! i)) = replay_key (fst (calls ! j))"
    and "\<forall>k. i < k \<longrightarrow> k \<le> j \<longrightarrow> snd (calls ! k) < rp_expires_at (fst (calls ! i))"
    and "run_calls consume calls st ! i = Inr True"
  shows "run_calls consume calls st ! j \<noteq> Inr True"
  using assms
proof (induction calls arbitrary: st i j)
  case (Cons c calls)
  obtain q now where c: "c = (q, now)" by (cases c)
  obtain a st' where step: "consume q now st = (a, st')" by (cases "consume q now st")
  have ok': "ok st'" using ok_consume [OF Cons.prems(1), of q now] step by simp
  obtain j' where j: "j = Suc j'" using Cons.prems(2) by (cases j) auto
  show ?case
  proof (cases i)
    case 0
    then have "a = Inr True" using Cons.prems(6) c step by simp
    then have rec: "recorded st' (replay_key q) = Some (rp_expires_at q)"
      using accepts [OF Cons.prems(1)] step by simp
    have "\<forall>(_, t) \<in> set (take (Suc j') calls). t < rp_expires_at q"
    proof safe
      fix x t assume "(x, t) \<in> set (take (Suc j') calls)"
      then obtain k where "k \<le> j'" "k < length calls" "calls ! k = (x, t)"
        by (auto simp: in_set_conv_nth less_Suc_eq_le)
      then show "t < rp_expires_at q" using Cons.prems(5) 0 c j by (auto dest: spec [of _ "Suc k"])
    qed
    moreover have "j' < length (take (Suc j') calls)" using Cons.prems(3) j by simp
    moreover have "replay_key (fst (take (Suc j') calls ! j')) = replay_key q"
      using Cons.prems(4) 0 c j by simp
    ultimately have "run_calls consume (take (Suc j') calls) st' ! j' \<noteq> Inr True"
      using refused_while_recorded [OF ok' rec] by blast
    moreover have "run_calls f (take n cs) s = take n (run_calls f cs s)" for f :: "replay_record \<Rightarrow> int \<Rightarrow> 's \<Rightarrow> bool result \<times> 's" and n cs s
      by (induction cs arbitrary: n s) (auto simp: take_Cons split: prod.splits nat.splits)
    ultimately show ?thesis using j c step by simp
  next
    case (Suc i')
    have "run_calls consume calls st' ! j' \<noteq> Inr True"
    proof (rule Cons.IH [OF ok', of i'])
      show "\<forall>k>i'. k \<le> j' \<longrightarrow> snd (calls ! k) < rp_expires_at (fst (calls ! i'))"
        using Cons.prems(5) Suc j by (auto dest: spec [of _ "Suc _"])
    qed (use Cons.prems Suc j c step in auto)
    then show ?thesis using j c step by simp
  qed
qed simp

end

text \<open>\<open>MemoryReplayStore\<close> keeps the contract.\<close>

interpretation memory_replay: replay_guard replay_consume map_of dict_ok
proof
  fix st :: replay_state and r now st' k e
  assume ok: "dict_ok st"
  show "dict_ok (snd (replay_consume r now st))"
    using ok by (auto simp: replay_consume_def Let_def)
  show "replay_consume r now st = (Inr True, st') \<Longrightarrow> map_of st' (replay_key r) = Some (rp_expires_at r)"
    by (auto simp: replay_consume_def Let_def replay_key_def split: if_splits)
  have kept: "map_of (dict_keep (\<lambda>(_, expiry). now < expiry) st) k = Some e"
    if "map_of st k = Some e" "now < e" for k e
    using map_of_dict_keep [OF ok] that by simp
  show "fst (replay_consume r now st) \<noteq> Inr True" if "map_of st (replay_key r) = Some e" "now < e"
    using kept [OF that] by (simp add: replay_consume_def Let_def replay_key_def dict_has_lookup)
  show "map_of (snd (replay_consume r now st)) k = Some e" if "map_of st k = Some e" "now < e"
    using kept [OF that] by (auto simp: replay_consume_def Let_def dict_has_lookup)
qed

text \<open>C3 Two presentations of one assertion to the replay store: when the first is accepted, no later one
  with that subject and JWT ID is, whatever calls come in between, as long as the clock of the calls
  after it stays before the recorded expiry.\<close>

theorem replay_accepted_once:
  assumes "dict_ok st" and "i < j" and "j < length calls"
    and "replay_key (fst (calls ! i)) = replay_key (fst (calls ! j))"
    and "\<And>k. i < k \<Longrightarrow> k \<le> j \<Longrightarrow> snd (calls ! k) < rp_expires_at (fst (calls ! i))"
    and "run_calls replay_consume calls st ! i = Inr True"
  shows "run_calls replay_consume calls st ! j \<noteq> Inr True"
  using memory_replay.accepted_once [OF assms(1-4) _ assms(6)] assms(5) by blast

theorem replay_accepted_once_witness:
  "(let r = \<lparr>rp_expires_at = 100, rp_jwt_id = ''j'', rp_subject = ''s''\<rparr>; calls = [(r, 5), (r, 7)] in
    run_calls replay_consume calls [] ! 0 = Inr True \<and> run_calls replay_consume calls [] ! 1 \<noteq> Inr True)"
proof -
  define r where "r = \<lparr>rp_expires_at = 100, rp_jwt_id = ''j'', rp_subject = ''s''\<rparr>"
  have first: "run_calls replay_consume [(r, 5), (r, 7)] [] ! 0 = Inr True"
    unfolding r_def by code_simp
  have "run_calls replay_consume [(r, 5), (r, 7)] [] ! 1 \<noteq> Inr True"
  proof (rule replay_accepted_once [where i = 0])
    show "snd ([(r, 5), (r, 7)] ! k) < rp_expires_at (fst ([(r, 5), (r, 7)] ! 0))"
      if "0 < k" "k \<le> 1" for k :: nat
    proof -
      from that have "k = 1" by simp
      then show ?thesis by (simp add: r_def)
    qed
  qed (use first in \<open>simp_all add: dict_ok_def\<close>)
  with first show ?thesis by (simp add: r_def Let_def)
qed

end
