(* ===== verification/Encoding.thy ===== *)
theory Encoding
  imports Prelude
begin

text \<open>
  The encodings of Python's standard library that the credential code uses: UTF-8 and base64. Bytes
  are \<open>char\<close>s. \<open>utf8_decode\<close> gives code points, because a decoded text may hold any of them.
\<close>

section \<open>UTF-8\<close>

definition utf8_char :: "char \<Rightarrow> string" where
  "utf8_char c = (if ord c < 128 then [c]
     else [char_of (192 + ord c div 64), char_of (128 + ord c mod 64)])"

definition utf8_encode :: "string \<Rightarrow> string" where
  "utf8_encode s = concat (map utf8_char s)"

definition continuation :: "char \<Rightarrow> bool" where
  "continuation c = in_range 128 191 c"

text \<open>\<open>decode("utf-8")\<close>: overlong forms, surrogates and values above 10FFFF are refused.\<close>

fun utf8_decode :: "string \<Rightarrow> nat list option" where
  "utf8_decode [] = Some []"
| "utf8_decode (a # s) =
     (if ord a < 128 then map_option ((#) (ord a)) (utf8_decode s)
      else case s of [] \<Rightarrow> None | b # s1 \<Rightarrow>
        if in_range 194 223 a then
          if continuation b
          then map_option ((#) (ord a mod 32 * 64 + ord b mod 64)) (utf8_decode s1) else None
        else case s1 of [] \<Rightarrow> None | c # s2 \<Rightarrow>
          if in_range 224 239 a then
            if continuation b \<and> continuation c \<and> (ord a = 224 \<longrightarrow> 160 \<le> ord b) \<and> (ord a = 237 \<longrightarrow> ord b < 160)
            then map_option ((#) (ord a mod 16 * 4096 + ord b mod 64 * 64 + ord c mod 64)) (utf8_decode s2)
            else None
          else case s2 of [] \<Rightarrow> None | d # s3 \<Rightarrow>
            if in_range 240 244 a \<and> continuation b \<and> continuation c \<and> continuation d
               \<and> (ord a = 240 \<longrightarrow> 144 \<le> ord b) \<and> (ord a = 244 \<longrightarrow> ord b < 144)
            then map_option ((#) (ord a mod 8 * 262144 + ord b mod 64 * 4096 + ord c mod 64 * 64 + ord d mod 64))
                   (utf8_decode s3)
            else None)"

lemma utf8_decode_char: "utf8_decode (utf8_char c @ s) = map_option ((#) (ord c)) (utf8_decode s)"
proof (cases "ord c < 128")
  case True
  then show ?thesis by (simp add: utf8_char_def)
next
  case False
  have b: "ord c < 256" by (rule ord_lt_256)
  let ?a = "char_of (192 + ord c div 64) :: char" and ?b = "char_of (128 + ord c mod 64) :: char"
  have "ord c div 64 < 4" using b by (simp add: less_mult_imp_div_less)
  then have a: "ord ?a = 192 + ord c div 64" by (simp add: of_char_of)
  have b': "ord ?b = 128 + ord c mod 64" by (simp add: of_char_of)
  have "2 \<le> ord c div 64" "ord c div 64 \<le> 3" using False \<open>ord c div 64 < 4\<close> by (simp_all, linarith?)
  moreover have "(192 + ord c div 64) mod 32 * 64 + (128 + ord c mod 64) mod 64 = ord c"
  proof -
    have "(192 + ord c div 64) mod 32 = ord c div 64"
      using \<open>ord c div 64 \<le> 3\<close> by (simp add: mod_add_eq [symmetric])
    moreover have "(128 + ord c mod 64) mod 64 = ord c mod 64" by (simp add: mod_add_eq [symmetric])
    ultimately show ?thesis by simp
  qed
  ultimately show ?thesis
    using False a b' by (simp add: utf8_char_def in_range_def continuation_def less_Suc_eq_le [symmetric])
qed

lemma utf8_round_trip: "utf8_decode (utf8_encode s) = Some (map of_char s)"
  unfolding utf8_encode_def by (induction s) (simp_all add: utf8_decode_char)

section \<open>Base64\<close>

definition b64_digit :: "nat \<Rightarrow> char" where
  "b64_digit n =
     (if n < 26 then char_of (n + 65) else if n < 52 then char_of (n + 71)
      else if n < 62 then char_of (n - 4) else if n = 62 then CHR ''+'' else CHR ''/'')"

definition b64_value :: "char \<Rightarrow> nat option" where
  "b64_value c =
     (if is_upper c then Some (ord c - 65)
      else if is_lower c then Some (ord c - 71)
      else if is_digit c then Some (ord c + 4)
      else if c = CHR ''+'' then Some 62
      else if c = CHR ''/'' then Some 63
      else None)"

text \<open>\<open>base64.b64encode\<close>\<close>

fun b64_encode :: "string \<Rightarrow> string" where
  "b64_encode [] = []"
| "b64_encode [a] = [b64_digit (ord a div 4), b64_digit (ord a mod 4 * 16), CHR ''='', CHR ''='']"
| "b64_encode [a, b] = [b64_digit (ord a div 4), b64_digit (ord a mod 4 * 16 + ord b div 16),
     b64_digit (ord b mod 16 * 4), CHR ''='']"
| "b64_encode (a # b # c # s) = [b64_digit (ord a div 4), b64_digit (ord a mod 4 * 16 + ord b div 16),
     b64_digit (ord b mod 16 * 4 + ord c div 64), b64_digit (ord c mod 64)] @ b64_encode s"

text \<open>\<open>binascii.a2b_base64(..., strict_mode=True)\<close>: the position in a group of four, the bits left from
  the last digit, whether padding has begun, and the number of padding characters.\<close>

fun a2b_strict :: "nat \<Rightarrow> nat \<Rightarrow> bool \<Rightarrow> nat \<Rightarrow> string \<Rightarrow> string option" where
  "a2b_strict quad left padded pads [] = (if quad = 0 then Some [] else None)"
| "a2b_strict quad left padded pads (c # s) =
     (if c = CHR ''='' then
        if 2 \<le> quad then
          if 4 \<le> quad + Suc pads then if s = [] then Some [] else None
          else a2b_strict quad left True (Suc pads) s
        else a2b_strict quad left True pads s
      else case b64_value c of
        None \<Rightarrow> None
      | Some v \<Rightarrow>
          if padded then None
          else if quad = 0 then a2b_strict 1 v padded 0 s
          else if quad = 1 then map_option ((#) (char_of (left * 4 + v div 16))) (a2b_strict 2 (v mod 16) padded 0 s)
          else if quad = 2 then map_option ((#) (char_of (left * 16 + v div 4))) (a2b_strict 3 (v mod 4) padded 0 s)
          else map_option ((#) (char_of (left * 64 + v))) (a2b_strict 0 0 padded 0 s))"

text \<open>\<open>base64.b64decode(value, validate=True)\<close> of a text\<close>

definition b64_decode :: "string \<Rightarrow> string option" where
  "b64_decode s = (if \<not> isascii s \<or> starts_with s ''='' then None else a2b_strict 0 0 False 0 s)"

lemma b64_digit_cases:
  assumes "(n :: nat) < 64"
  obtains "n < 26" | "26 \<le> n" "n < 52" | "52 \<le> n" "n < 62" | "n = 62" | "n = 63"
  using assms by linarith

lemma b64_value_digit: "n < 64 \<Longrightarrow> b64_value (b64_digit n) = Some n"
  by (erule b64_digit_cases)
    (auto simp: b64_digit_def b64_value_def is_upper_def is_lower_def is_digit_def in_range_def of_char_of)

lemma b64_digit_plain: "n < 64 \<Longrightarrow> b64_digit n \<noteq> CHR ''=''"
proof
  assume n: "n < 64" "b64_digit n = CHR ''=''"
  from b64_value_digit [OF n(1)] have "b64_value CHR ''='' = Some n" using n(2) by simp
  then show False by (simp add: b64_value_def is_upper_def is_lower_def is_digit_def in_range_def)
qed

lemma b64_digit_ascii: "n < 64 \<Longrightarrow> is_ascii_char (b64_digit n)"
  by (erule b64_digit_cases) (auto simp: b64_digit_def is_ascii_char_def of_char_of)

lemma a2b_strict_digit:
  assumes "n < 64"
  shows "a2b_strict 0 l False p (b64_digit n # s) = a2b_strict 1 n False 0 s"
    and "a2b_strict 1 l False p (b64_digit n # s)
           = map_option ((#) (char_of (l * 4 + n div 16))) (a2b_strict 2 (n mod 16) False 0 s)"
    and "a2b_strict 2 l False p (b64_digit n # s)
           = map_option ((#) (char_of (l * 16 + n div 4))) (a2b_strict 3 (n mod 4) False 0 s)"
    and "a2b_strict 3 l False p (b64_digit n # s)
           = map_option ((#) (char_of (l * 64 + n))) (a2b_strict 0 0 False 0 s)"
  using assms by (simp_all add: b64_digit_plain b64_value_digit)

lemma pack_div: "(y :: nat) < k \<Longrightarrow> (x * k + y) div k = x"
  by (metis add.commute div_mult_self1 div_less add_0 mult.commute not_less_zero)

lemma pack_mod: "(y :: nat) < k \<Longrightarrow> (x * k + y) mod k = y"
  by simp

lemma pack_less: "x < m \<Longrightarrow> (y :: nat) < k \<Longrightarrow> x * k + y < m * k"
proof -
  assume "x < m" and y: "y < k"
  then have "Suc x * k \<le> m * k" by (intro mult_le_mono1) simp
  with y show ?thesis by simp
qed

lemma b64_bounds:
  "ord a div 4 < 64" "ord a mod 4 * 16 + ord b div 16 < 64" "ord b mod 16 * 4 + ord c div 64 < 64"
  "ord c mod 64 < 64" "ord a mod 4 * 16 < 64" "ord b mod 16 * 4 < 64"
proof -
  have d: "ord a div 4 < 64" "ord b div 16 < 16" "ord c div 64 < 4"
    using ord_lt_256 [of a] ord_lt_256 [of b] ord_lt_256 [of c] by (simp_all add: less_mult_imp_div_less)
  show "ord a div 4 < 64" by (rule d)
  show "ord a mod 4 * 16 + ord b div 16 < 64"
    using pack_less [of "ord a mod 4" 4 "ord b div 16" 16] d by simp
  show "ord b mod 16 * 4 + ord c div 64 < 64"
    using pack_less [of "ord b mod 16" 16 "ord c div 64" 4] d by simp
qed simp_all

lemma b64_bytes:
  "char_of (ord a div 4 * 4 + (ord a mod 4 * 16 + ord b div 16) div 16) = a"
  "char_of ((ord a mod 4 * 16 + ord b div 16) mod 16 * 16 + (ord b mod 16 * 4 + ord c div 64) div 4) = b"
  "char_of ((ord b mod 16 * 4 + ord c div 64) mod 4 * 64 + ord c mod 64) = c"
  "char_of (ord a div 4 * 4 + (ord a mod 4 * 16) div 16) = a"
  "char_of ((ord a mod 4 * 16 + ord b div 16) mod 16 * 16 + (ord b mod 16 * 4) div 4) = b"
proof -
  have d: "ord b div 16 < 16" "ord c div 64 < 4"
    using ord_lt_256 [of b] ord_lt_256 [of c] by (simp_all add: less_mult_imp_div_less)
  show "char_of (ord a div 4 * 4 + (ord a mod 4 * 16 + ord b div 16) div 16) = a"
    "char_of (ord a div 4 * 4 + (ord a mod 4 * 16) div 16) = a"
    using d by (simp_all only: pack_div nonzero_mult_div_cancel_right) simp_all
  show "char_of ((ord a mod 4 * 16 + ord b div 16) mod 16 * 16 + (ord b mod 16 * 4 + ord c div 64) div 4) = b"
    "char_of ((ord a mod 4 * 16 + ord b div 16) mod 16 * 16 + (ord b mod 16 * 4) div 4) = b"
    "char_of ((ord b mod 16 * 4 + ord c div 64) mod 4 * 64 + ord c mod 64) = c"
    using d by (simp_all only: pack_div pack_mod nonzero_mult_div_cancel_right) simp_all
qed

lemma a2b_strict_end:
  "a2b_strict 2 x False 0 ''=='' = Some []" "a2b_strict 3 x False 0 ''='' = Some []"
  by simp_all

lemma a2b_encode: "a2b_strict 0 l False p (b64_encode s) = Some s"
proof (induction s arbitrary: l p rule: b64_encode.induct)
  case (4 a b c s)
  then show ?case
    by (simp only: b64_encode.simps append.simps a2b_strict_digit b64_bounds b64_bytes option.map)
qed (simp_all only: b64_encode.simps a2b_strict_digit b64_bounds b64_bytes a2b_strict_end option.map
    a2b_strict.simps(1) if_True simp_thms)

lemma b64_encode_ascii: "isascii (b64_encode s)"
  unfolding isascii_def
  by (induction s rule: b64_encode.induct)
    (simp_all add: b64_digit_ascii b64_bounds, simp_all add: is_ascii_char_def)

lemma b64_encode_first: "\<not> starts_with (b64_encode s) ''=''"
proof -
  have "b64_digit (ord a div 4) \<noteq> CHR ''=''" for a by (rule b64_digit_plain, rule b64_bounds)
  then show ?thesis by (induction s rule: b64_encode.induct) auto
qed

lemma b64_round_trip: "b64_decode (b64_encode s) = Some s"
  by (simp add: b64_decode_def b64_encode_ascii b64_encode_first a2b_encode)

lemma b64_encode_Nil [simp]: "b64_encode s = [] \<longleftrightarrow> s = []"
  by (cases s rule: b64_encode.cases) simp_all

lemma utf8_encode_Nil [simp]: "utf8_encode s = [] \<longleftrightarrow> s = []"
  by (cases s) (simp_all add: utf8_encode_def utf8_char_def)

lemma b64_encode_visible: "list_all (in_range 33 126) (b64_encode s)"
proof -
  have "in_range 33 126 (b64_digit n)" if "n < 64" for n
    using that by (elim b64_digit_cases) (auto simp: b64_digit_def in_range_def of_char_of)
  then show ?thesis
    by (induction s rule: b64_encode.induct) (simp_all add: b64_bounds, simp_all add: in_range_def)
qed

end
