(* ===== verification/Credentials.thy ===== *)
theory Credentials
  imports Service_Types Encoding
begin

text \<open>
  \<^verbatim>\<open>service/credentials.py\<close>: the built-in grant types over a credential store, and the in-memory store.
  The digests of \<open>hashlib\<close> are the parameter \<open>digests\<close>; the bytes of \<open>secrets.token_bytes\<close> come from
  the sequence in the store's state.
\<close>

section \<open>Helpers\<close>

record digests =
  scrypt :: "string \<Rightarrow> string \<Rightarrow> string"
  sha256 :: "string \<Rightarrow> string"

definition require_aware_time :: "datetime \<Rightarrow> string \<Rightarrow> unit result" where
  "require_aware_time v label = require (aware v)
     (Value_Error (''AEP credential '' @ label @ '' time must contain a UTC offset''))"

text \<open>Python orders two naive or two aware values and refuses a mixture.\<close>

definition later :: "datetime \<Rightarrow> datetime \<Rightarrow> bool result" where
  "later a b = (if aware a = aware b then Ok (instant b < instant a)
     else Raise (Type_Error ''can't compare offset-naive and offset-aware datetimes''))"

definition parse_expiry :: "string \<Rightarrow> datetime result" where
  "parse_expiry v = parse_rfc3339 v"

fun credential_secret :: "built_in_credential \<Rightarrow> string" where
  "credential_secret (Api_Key_Credential c) = api_key c"
| "credential_secret (Bearer_Credential c) = access_token c"
| "credential_secret (Basic_Credential c) =
     b64_encode (utf8_encode (basic_username c @ '':'' @ basic_password c))"

definition credential_digest :: "digests \<Rightarrow> string \<Rightarrow> string \<Rightarrow> bool \<Rightarrow> string" where
  "credential_digest h v salt hard =
     (if hard then scrypt h (utf8_encode v) salt else sha256 h (salt @ utf8_encode v))"

text \<open>\<open>model_validate\<close> of the credential's wire form, by the class that belongs to the grant type.\<close>

definition validate_built_in_credential :: "string \<Rightarrow> built_in_credential \<Rightarrow> built_in_credential result" where
  "validate_built_in_credential grant_type credential =
     (let wrong = Value_Error ''AEP credential issuer returned the wrong built-in credential type'' in
      case credential of
        Api_Key_Credential c \<Rightarrow> if grant_type = AEP_GRANT_TYPE_API_KEY
          then rbind (api_key_of_json (api_key_to_wire c)) (\<lambda>v. Ok (Api_Key_Credential v)) else Raise wrong
      | Basic_Credential c \<Rightarrow> if grant_type = AEP_GRANT_TYPE_BASIC
          then rbind (basic_of_json (basic_to_wire c)) (\<lambda>v. Ok (Basic_Credential v)) else Raise wrong
      | Bearer_Credential c \<Rightarrow> if grant_type = AEP_GRANT_TYPE_OAUTH_BEARER
          then rbind (oauth_bearer_of_json (oauth_bearer_to_wire c)) (\<lambda>v. Ok (Bearer_Credential v))
          else Raise wrong)"

fun configured_header_names :: "string list \<Rightarrow> json list \<Rightarrow> string list result" where
  "configured_header_names names [] = Ok names"
| "configured_header_names names (item # items) =
     (case item of
        JStr s \<Rightarrow>
          if fullmatch HTTP_FIELD_NAME_PATTERN s then
            if lower s \<in> set names
            then Raise (Value_Error ''AEP API-key header_names configuration contains a duplicate field name'')
            else configured_header_names (names @ [lower s]) items
          else Raise (Value_Error ''AEP API-key header_names configuration contains an invalid HTTP field name'')
      | _ \<Rightarrow> Raise (Value_Error ''AEP API-key header_names configuration contains an invalid HTTP field name''))"

definition configured_api_key_headers :: "grant_type_config \<Rightarrow> string list option result" where
  "configured_api_key_headers config =
     (case map_of (grant_type_config_to_wire config) ''header_names'' of
        None \<Rightarrow> Ok None
      | Some JNull \<Rightarrow> Ok None
      | Some (JArr items) \<Rightarrow> rbind (configured_header_names [] items) (\<lambda>names. Ok (Some names))
      | Some _ \<Rightarrow> Raise (Value_Error ''AEP API-key header_names configuration is invalid''))"

definition validate_issued_credential_config :: "built_in_credential \<Rightarrow> grant_type_config \<Rightarrow> unit result" where
  "validate_issued_credential_config credential config =
     (case credential of
        Api_Key_Credential c \<Rightarrow>
          rbind (configured_api_key_headers config) (\<lambda>header_names.
          require (case header_names of None \<Rightarrow> True | Some names \<Rightarrow> lower (api_key_header c) \<in> set names)
            (Value_Error ''AEP issued API-key header is not advertised by the Service''))
      | _ \<Rightarrow> Ok ())"

definition require_encodable_basic :: "built_in_credential \<Rightarrow> unit result" where
  "require_encodable_basic credential =
     (case credential of
        Basic_Credential c \<Rightarrow> require (isascii (basic_username c) \<and> isascii (basic_password c))
          (Value_Error ''AEP issued Basic credentials must be encodable as US-ASCII'')
      | _ \<Rightarrow> Ok ())"

section \<open>The stored credential grant type\<close>

record 'w stored_options =
  sto_config :: grant_type_config
  sto_issue :: "grant_request \<Rightarrow> grant_context \<Rightarrow> ('w, built_in_credential) prog"
  sto_store :: "'w credential_store"

definition body_of_text :: "json \<Rightarrow> string \<Rightarrow> body" where
  "body_of_text j text = \<lparr>body_size = length (utf8_encode text), body_doc = Inr j\<rparr>"

text \<open>\<open>_StoredCredentialHandler\<close>\<close>

definition handler_grant :: "(rat \<Rightarrow> string) \<Rightarrow> string \<Rightarrow> grant_type_config \<Rightarrow> 'w stored_options
    \<Rightarrow> grant_request \<Rightarrow> grant_context \<Rightarrow> ('w, body) prog" where
  "handler_grant float_repr grant_type config options request context =
     sbind (slift (require_aware_time (gc_current_time context) ''issuance'')) (\<lambda>_.
     sbind (sto_issue options request context) (\<lambda>credential.
     sbind (slift (validate_built_in_credential grant_type credential)) (\<lambda>parsed.
     sbind (slift (validate_issued_credential_config parsed config)) (\<lambda>_.
     sbind (slift (require_encodable_basic parsed)) (\<lambda>_.
     sbind (slift (parse_expiry (built_in_expires_at parsed))) (\<lambda>expiry.
     sbind (slift (rbind (later expiry (gc_current_time context)) (\<lambda>after.
       require after (Value_Error ''AEP issued credential must expire after issuance'')))) (\<lambda>_.
     sbind (slift (check_credential_record
       \<lparr>cr_agent_did = gc_agent_did context, cr_created_at = gc_current_time context,
        cr_credential = parsed, cr_credential_id = built_in_id parsed, cr_expires_at = expiry,
        cr_grant_type = grant_type\<rparr>)) (\<lambda>record.
     sbind (save_credential (sto_store options) record) (\<lambda>_.
     sret (body_of_text (built_in_to_wire parsed) (dumps_compact float_repr (built_in_to_wire parsed))))))))))))"

definition handler_revoke :: "string \<Rightarrow> 'w stored_options \<Rightarrow> revoke_request \<Rightarrow> revoke_context
    \<Rightarrow> ('w, unit) prog" where
  "handler_revoke grant_type options request context =
     (case rr_credential_id request of
        Some credential \<Rightarrow> revoke_credential (sto_store options) (gc_agent_did context) grant_type
          credential (gc_current_time context)
      | None \<Rightarrow> revoke_grant_type (sto_store options) (gc_agent_did context) grant_type
          (gc_current_time context))"

definition handler_authenticate :: "string \<Rightarrow> 'w stored_options \<Rightarrow> authentication_input
    \<Rightarrow> ('w, principal option) prog" where
  "handler_authenticate grant_type options request =
     sbind (authenticate_credential (sto_store options) grant_type request) (\<lambda>found.
     case found of
       None \<Rightarrow> sret None
     | Some m \<Rightarrow>
         let invalid = Value_Error ''AEP credential store returned an invalid match'' in
         sbind (slift (require (cm_agent_did m \<noteq> [] \<and> cm_credential_id m \<noteq> []) invalid)) (\<lambda>_.
         sbind (slift (rbind (later (cm_expires_at m) (ci_current_time request)) (\<lambda>after.
           require after invalid))) (\<lambda>_.
         sbind (slift (require (cm_grant_type m = grant_type) invalid)) (\<lambda>_.
         sret (Some \<lparr>pr_agent_did = cm_agent_did m, pr_kind = Kind_Session_Credential,
           pr_method = grant_type, pr_credential_id = Some (cm_credential_id m),
           pr_grant_type = Some grant_type, pr_scopes = cm_scopes m\<rparr>)))))"

definition handler_has_presentation :: "string \<Rightarrow> 'w stored_options \<Rightarrow> authentication_input
    \<Rightarrow> ('w, bool) prog" where
  "handler_has_presentation grant_type options request =
     has_credential_presentation (sto_store options) grant_type request"

definition stored_credential_grant_type :: "(rat \<Rightarrow> string) \<Rightarrow> string \<Rightarrow> 'w stored_options
    \<Rightarrow> 'w grant_definition result" where
  "stored_credential_grant_type float_repr grant_type options =
     rbind (grant_type_config_of_json (JObj (dict_set ''supports_per_credential_revoke'' (JStr ''true'')
       (grant_type_config_to_wire (sto_config options))))) (\<lambda>config.
     rbind (if grant_type = AEP_GRANT_TYPE_API_KEY
       then rbind (configured_api_key_headers config) (\<lambda>_. Ok ()) else Ok ()) (\<lambda>_.
     Ok \<lparr>gd_grant_type = grant_type,
       gd_grant = handler_grant float_repr grant_type config options,
       gd_revoke = handler_revoke grant_type options,
       gd_config = config,
       gd_authenticator = Some \<lparr>au_authenticate = handler_authenticate grant_type options,
         au_has_presentation = handler_has_presentation grant_type options\<rparr>\<rparr>))"

definition stored_oauth_bearer_grant_type :: "(rat \<Rightarrow> string) \<Rightarrow> 'w stored_options \<Rightarrow> 'w grant_definition result" where
  "stored_oauth_bearer_grant_type fr options = stored_credential_grant_type fr AEP_GRANT_TYPE_OAUTH_BEARER options"

definition stored_api_key_grant_type :: "(rat \<Rightarrow> string) \<Rightarrow> 'w stored_options \<Rightarrow> 'w grant_definition result" where
  "stored_api_key_grant_type fr options = stored_credential_grant_type fr AEP_GRANT_TYPE_API_KEY options"

definition stored_basic_grant_type :: "(rat \<Rightarrow> string) \<Rightarrow> 'w stored_options \<Rightarrow> 'w grant_definition result" where
  "stored_basic_grant_type fr options = stored_credential_grant_type fr AEP_GRANT_TYPE_BASIC options"

section \<open>MemoryServiceCredentialStore\<close>

record memory_record =
  mr_agent_did :: string
  mr_credential_id :: string
  mr_expires_at :: datetime
  mr_grant_type :: string
  mr_header :: string
  mr_scopes :: "string list"
  mr_salt :: string
  mr_username :: string
  mr_verifier :: string
  mr_revoked_at :: "datetime option"

record memory_credentials =
  mc_records :: "(string, memory_record) dict"
  mc_tokens :: "nat \<Rightarrow> string"
  mc_drawn :: nat

definition token_bytes :: "(memory_credentials, string) prog" where
  "token_bytes st = (Inr (mc_tokens st (mc_drawn st)), st\<lparr>mc_drawn := Suc (mc_drawn st)\<rparr>)"

fun is_basic :: "built_in_credential \<Rightarrow> bool" where
  "is_basic (Basic_Credential _) = True"
| "is_basic _ = False"

definition credential_header :: "built_in_credential \<Rightarrow> string" where
  "credential_header credential =
     (case credential of Api_Key_Credential c \<Rightarrow> lower (api_key_header c) | _ \<Rightarrow> ''authorization'')"

definition credential_username :: "built_in_credential \<Rightarrow> string" where
  "credential_username credential =
     (case credential of Basic_Credential c \<Rightarrow> basic_username c | _ \<Rightarrow> [])"

definition memory_credential_record :: "digests \<Rightarrow> credential_record \<Rightarrow> (memory_credentials, memory_record) prog" where
  "memory_credential_record h record =
     sbind (slift (require_aware_time (cr_created_at record) ''issuance'')) (\<lambda>_.
     sbind (slift (require_aware_time (cr_expires_at record) ''expiration'')) (\<lambda>_.
     sbind (slift (require (cr_agent_did record \<noteq> [] \<and> cr_credential_id record \<noteq> []
          \<and> instant (cr_created_at record) < instant (cr_expires_at record) \<and> cr_grant_type record \<noteq> [])
        (Value_Error ''AEP credential store received an invalid record''))) (\<lambda>_.
     sbind (slift (validate_built_in_credential (cr_grant_type record) (cr_credential record))) (\<lambda>credential.
     let mismatch = Value_Error ''AEP credential record metadata does not match its credential'' in
     sbind (slift (require (built_in_id credential = cr_credential_id record) mismatch)) (\<lambda>_.
     sbind (slift (rbind (parse_expiry (built_in_expires_at credential)) (\<lambda>t.
       require (instant t = instant (cr_expires_at record)) mismatch))) (\<lambda>_.
     sbind token_bytes (\<lambda>salt.
     sret \<lparr>mr_agent_did = cr_agent_did record, mr_credential_id = cr_credential_id record,
       mr_expires_at = cr_expires_at record, mr_grant_type = cr_grant_type record,
       mr_header = credential_header credential, mr_scopes = built_in_scopes credential,
       mr_salt = salt, mr_username = credential_username credential,
       mr_verifier = credential_digest h (credential_secret credential) salt (is_basic credential),
       mr_revoked_at = None\<rparr>)))))))"

text \<open>The comparison of a stored record with a secret, as \<open>save_credential\<close> and
  \<open>authenticate_credential\<close> make it.\<close>

definition same_secret :: "digests \<Rightarrow> memory_record \<Rightarrow> string \<Rightarrow> bool \<Rightarrow> bool" where
  "same_secret h record v hard = (mr_verifier record = credential_digest h v (mr_salt record) hard)"

definition memory_save :: "digests \<Rightarrow> credential_record \<Rightarrow> (memory_credentials, unit) prog" where
  "memory_save h record =
     sbind (memory_credential_record h record) (\<lambda>stored.
     sbind (sget mc_records) (\<lambda>records.
     sbind (slift (require (\<not> dict_has (cr_credential_id record) records)
       (Value_Error ''AEP credential identifier has already been issued''))) (\<lambda>_.
     sbind (slift (require (\<not> list_ex (\<lambda>(_, existing). mr_grant_type existing = mr_grant_type stored
           \<and> mr_header existing = mr_header stored \<and> mr_username existing = mr_username stored
           \<and> same_secret h existing (credential_secret (cr_credential record))
               (mr_grant_type stored = AEP_GRANT_TYPE_BASIC)) records)
       (Value_Error ''AEP credential secret has already been issued''))) (\<lambda>_.
     smodify (mc_records_update (dict_set (cr_credential_id record) stored))))))"

definition presentations_in :: "auth_scheme \<Rightarrow> carrier \<Rightarrow> string list \<Rightarrow> string list result" where
  "presentations_in expected carrier vs =
     rbind (rmap (\<lambda>v. case parse_authorization v carrier of
         Inl (Authorization_Error _ _) \<Rightarrow> Ok []
       | Inl e \<Rightarrow> Raise e
       | Inr parsed \<Rightarrow> Ok (if auth_scheme_of parsed = expected then [credentials parsed] else [])) vs)
     (\<lambda>found. Ok (concat found))"

definition header_values :: "string \<Rightarrow> headers \<Rightarrow> string list" where
  "header_values name hs = (case map_of hs name of None \<Rightarrow> [] | Some vs \<Rightarrow> vs)"

text \<open>The API-key field names are a set: only the number of presentations and a single one matter.\<close>

definition credential_presentations :: "string \<Rightarrow> headers \<Rightarrow> memory_record list
    \<Rightarrow> (string \<times> string) list result" where
  "credential_presentations grant_type hs records =
     (if grant_type = AEP_GRANT_TYPE_API_KEY then
        let names = remdups (map mr_header (filter (\<lambda>r. mr_grant_type r = grant_type) records)) in
        Ok (concat (map (\<lambda>name. map (\<lambda>v. (name, v)) (header_values name hs)) names))
      else
        let expected = (if grant_type = AEP_GRANT_TYPE_BASIC then Scheme_Basic else Scheme_Bearer) in
        rbind (presentations_in expected Carrier_Standard (header_values ''authorization'' hs)) (\<lambda>standard.
        rbind (presentations_in expected Carrier_Dedicated (header_values ''aep-authorization'' hs)) (\<lambda>dedicated.
        Ok (map (\<lambda>v. (''authorization'', v)) (standard @ dedicated)))))"

text \<open>The user name of a Basic presentation, as code points; \<open>None\<close> where decoding fails.\<close>

definition presented_username :: "string \<Rightarrow> nat list option" where
  "presented_username v = (case b64_decode v of
      None \<Rightarrow> None
    | Some bytes \<Rightarrow> map_option (takeWhile (\<lambda>n. n \<noteq> 58)) (utf8_decode bytes))"

fun find_record :: "digests \<Rightarrow> string \<Rightarrow> string \<Rightarrow> nat list \<Rightarrow> string \<Rightarrow> datetime
    \<Rightarrow> memory_record list \<Rightarrow> credential_match option result" where
  "find_record h grant_type header user v now [] = Ok None"
| "find_record h grant_type header user v now (record # records) =
     (if mr_grant_type record = grant_type \<and> mr_header record = header
         \<and> map of_char (mr_username record) = user \<and> mr_revoked_at record = None
      then rbind (later (mr_expires_at record) now) (\<lambda>after.
        if after \<and> same_secret h record v (grant_type = AEP_GRANT_TYPE_BASIC)
        then rbind (check_credential_match \<lparr>cm_agent_did = mr_agent_did record,
            cm_credential_id = mr_credential_id record, cm_expires_at = mr_expires_at record,
            cm_grant_type = mr_grant_type record, cm_scopes = mr_scopes record\<rparr>) (\<lambda>m. Ok (Some m))
        else find_record h grant_type header user v now records)
      else find_record h grant_type header user v now records)"

definition memory_authenticate :: "digests \<Rightarrow> string \<Rightarrow> authentication_input
    \<Rightarrow> (memory_credentials, credential_match option) prog" where
  "memory_authenticate h grant_type request =
     sbind (sget (\<lambda>st. map snd (mc_records st))) (\<lambda>records.
     sbind (slift (credential_presentations grant_type (ci_headers request) records)) (\<lambda>presentations.
     case presentations of
       [(header, v)] \<Rightarrow>
         (case (if grant_type = AEP_GRANT_TYPE_BASIC then presented_username v else Some []) of
            None \<Rightarrow> sret None
          | Some user \<Rightarrow>
              slift (find_record h grant_type header user v (ci_current_time request) records))
     | _ \<Rightarrow> sret None))"

definition memory_has_presentation :: "string \<Rightarrow> authentication_input \<Rightarrow> (memory_credentials, bool) prog" where
  "memory_has_presentation grant_type request =
     sbind (sget (\<lambda>st. map snd (mc_records st))) (\<lambda>records.
     sbind (slift (credential_presentations grant_type (ci_headers request) records)) (\<lambda>presentations.
     sret (presentations \<noteq> [])))"

definition memory_revoke_credential :: "string \<Rightarrow> string \<Rightarrow> string \<Rightarrow> datetime
    \<Rightarrow> (memory_credentials, unit) prog" where
  "memory_revoke_credential agent_did grant_type credential revoked_at =
     sbind (slift (require_aware_time revoked_at ''revocation'')) (\<lambda>_.
     sbind (sget (\<lambda>st. map_of (mc_records st) credential)) (\<lambda>found.
     case found of
       None \<Rightarrow> sret ()
     | Some record \<Rightarrow>
         if mr_agent_did record \<noteq> agent_did \<or> mr_grant_type record \<noteq> grant_type then sret ()
         else smodify (mc_records_update (dict_set credential (record\<lparr>mr_revoked_at := Some revoked_at\<rparr>)))))"

definition memory_revoke_grant_type :: "string \<Rightarrow> string \<Rightarrow> datetime \<Rightarrow> (memory_credentials, unit) prog" where
  "memory_revoke_grant_type agent_did grant_type revoked_at =
     sbind (slift (require_aware_time revoked_at ''revocation'')) (\<lambda>_.
     smodify (mc_records_update (map (\<lambda>(credential, record).
       (credential, if mr_agent_did record = agent_did \<and> mr_grant_type record = grant_type
          then record\<lparr>mr_revoked_at := Some revoked_at\<rparr> else record)))))"

definition memory_store :: "digests \<Rightarrow> memory_credentials credential_store" where
  "memory_store h = \<lparr>authenticate_credential = memory_authenticate h,
     has_credential_presentation = memory_has_presentation,
     revoke_credential = memory_revoke_credential, revoke_grant_type = memory_revoke_grant_type,
     save_credential = memory_save h\<rparr>"

section \<open>Facts\<close>

lemma checks_value: "checks cs v = Inr w \<Longrightarrow> w = v"
  by (induction cs v rule: checks.induct) (auto simp: rbind_Ok_iff)

lemma checks_each: "checks cs v = Inr w \<Longrightarrow> c \<in> set cs \<Longrightarrow> c = Inr ()"
  by (induction cs v rule: checks.induct) (auto simp: rbind_Ok_iff)

lemma nullable_members_kept: "nullable_members known (JObj ms) = Inr ms' \<Longrightarrow> ms' = ms"
  by (auto simp: nullable_members_def aep_members_def rbind_Ok_iff split: if_splits)

lemma field_str: "field k dec_str ms = Inr v \<Longrightarrow> map_of ms k = Some (JStr v)"
  by (auto simp: field_def dec_str_def at_loc_def type_error_def split: option.splits json.splits)

lemma api_key_kept:
  assumes "api_key_of_json (api_key_to_wire d) = Inr d'"
  shows "credential_id d' = credential_id d \<and> expires_at d' = expires_at d
     \<and> api_key d' = api_key d \<and> api_key_header d' = api_key_header d"
  using assms unfolding api_key_of_json_def api_key_to_wire_def credential_to_wire_def check_api_key_def
  by (auto simp: rbind_Ok_iff map_add_def wire_scopes_def dest!: checks_value nullable_members_kept field_str
      split: prod.splits if_splits)

lemma bearer_kept:
  assumes "oauth_bearer_of_json (oauth_bearer_to_wire d) = Inr d'"
  shows "credential_id d' = credential_id d \<and> expires_at d' = expires_at d \<and> access_token d' = access_token d"
  using assms unfolding oauth_bearer_of_json_def oauth_bearer_to_wire_def credential_to_wire_def check_oauth_bearer_def
  by (auto simp: rbind_Ok_iff map_add_def wire_scopes_def dest!: checks_value nullable_members_kept field_str
      split: prod.splits if_splits)

lemma basic_decoded:
  assumes "basic_of_json j = Inr d"
  shows "CHR '':'' \<notin> set (basic_username d)"
proof -
  obtain v where v: "check_basic v = Inr d"
    using assms unfolding basic_of_json_def by (auto simp: rbind_Ok_iff split: prod.splits)
  have "validate_basic v = Inr ()"
    using checks_each [OF v [unfolded check_basic_def], of "in_validator (validate_basic v)"] by simp
  moreover have "d = v" by (rule checks_value [OF v [unfolded check_basic_def]])
  ultimately show ?thesis by (auto simp: validate_basic_def rbind_Ok_iff)
qed

lemma basic_kept:
  assumes "basic_of_json (basic_to_wire d) = Inr d'"
  shows "credential_id d' = credential_id d \<and> expires_at d' = expires_at d
     \<and> basic_username d' = basic_username d \<and> basic_password d' = basic_password d"
  using assms unfolding basic_of_json_def basic_to_wire_def credential_to_wire_def check_basic_def
  by (auto simp: rbind_Ok_iff map_add_def wire_scopes_def dest!: checks_value nullable_members_kept field_str
      split: prod.splits if_splits)

lemma bearer_decoded:
  assumes "oauth_bearer_of_json j = Inr d"
  shows "access_token d \<noteq> []"
proof -
  obtain v where v: "check_oauth_bearer v = Inr d"
    using assms unfolding oauth_bearer_of_json_def by (auto simp: rbind_Ok_iff split: prod.splits)
  have "length_between 1 None (access_token v) ''access_token'' = Inr ()"
    by (rule checks_each [OF v [unfolded check_oauth_bearer_def]]) simp
  moreover have "d = v" by (rule checks_value [OF v [unfolded check_oauth_bearer_def]])
  ultimately show ?thesis by (auto simp: length_between_def)
qed

lemma validated_kept:
  assumes "validate_built_in_credential grant_type c = Inr c'"
  shows "built_in_id c' = built_in_id c" "credential_secret c' = credential_secret c"
    "credential_header c' = credential_header c" "credential_username c' = credential_username c"
    "is_basic c' = is_basic c" "is_basic c' \<longleftrightarrow> grant_type = AEP_GRANT_TYPE_BASIC"
    "built_in_expires_at c' = built_in_expires_at c" "CHR '':'' \<notin> set (credential_username c')"
  using assms unfolding validate_built_in_credential_def Let_def
  by (cases c; auto simp: rbind_Ok_iff credential_header_def credential_username_def
      AEP_GRANT_TYPE_API_KEY_def AEP_GRANT_TYPE_BASIC_def AEP_GRANT_TYPE_OAUTH_BEARER_def
      split: if_splits dest: api_key_kept bearer_kept basic_kept basic_decoded)+

lemma dict_set_new: "k \<notin> set (map fst d) \<Longrightarrow> dict_set k v d = d @ [(k, v)]"
  by (induction k v d rule: dict_set.induct) auto

lemma dict_set_old: "distinct (map fst d) \<Longrightarrow> map_of d k = Some w \<Longrightarrow>
   dict_set k v d = map (\<lambda>(k', v'). (k', if k' = k then v else v')) d"
proof (induction k v d rule: dict_set.induct)
  case (2 k v k' v' d)
  then show ?case
  proof (cases "k = k'")
    case True
    then have "map (\<lambda>(k', v'). (k', if k' = k then v else v')) d = d"
      using 2 by (intro map_idI) (auto simp: image_iff)
    with True show ?thesis by simp
  qed auto
qed simp


lemma memory_credential_record_records:
  "mc_records (snd (memory_credential_record h record st)) = mc_records st"
  unfolding memory_credential_record_def sbind_def slift_def token_bytes_def sret_def Let_def
  by (auto split: prod.splits sum.splits)

lemma memory_credential_record_Ok:
  assumes "memory_credential_record h record st = (Inr r, st')"
  shows "\<exists>c. validate_built_in_credential (cr_grant_type record) (cr_credential record) = Inr c
    \<and> aware (cr_expires_at record) \<and> aware (cr_created_at record)
    \<and> r = \<lparr>mr_agent_did = cr_agent_did record, mr_credential_id = cr_credential_id record,
       mr_expires_at = cr_expires_at record, mr_grant_type = cr_grant_type record,
       mr_header = credential_header c, mr_scopes = built_in_scopes c,
       mr_salt = mc_tokens st (mc_drawn st), mr_username = credential_username c,
       mr_verifier = credential_digest h (credential_secret c) (mc_tokens st (mc_drawn st)) (is_basic c),
       mr_revoked_at = None\<rparr>"
  using assms unfolding memory_credential_record_def Let_def
  by (auto simp: sbind_Ok prog_run token_bytes_def require_aware_time_def)

text \<open>The test that keeps a secret from being issued twice is the test that authenticates it.\<close>

definition answers_to :: "digests \<Rightarrow> memory_record \<Rightarrow> string \<Rightarrow> string \<Rightarrow> string \<Rightarrow> string \<Rightarrow> bool" where
  "answers_to h r grant_type header user v = (mr_grant_type r = grant_type \<and> mr_header r = header
     \<and> mr_username r = user \<and> same_secret h r v (grant_type = AEP_GRANT_TYPE_BASIC))"

lemma memory_save_records:
  assumes "memory_save h record st = (m, st')"
  shows "(case m of
      Inl _ \<Rightarrow> mc_records st' = mc_records st
    | Inr _ \<Rightarrow> \<exists>r. mc_records st' = mc_records st @ [(cr_credential_id record, r)]
        \<and> cr_credential_id record \<notin> fst ` set (mc_records st)
        \<and> mr_credential_id r = cr_credential_id record \<and> mr_agent_did r = cr_agent_did record
        \<and> mr_grant_type r = cr_grant_type record \<and> mr_expires_at r = cr_expires_at record
        \<and> aware (cr_expires_at record) \<and> mr_revoked_at r = None
        \<and> (let c = cr_credential record in
           mr_header r = credential_header c \<and> mr_username r = credential_username c
           \<and> CHR '':'' \<notin> set (credential_username c)
           \<and> (is_basic c \<longleftrightarrow> cr_grant_type record = AEP_GRANT_TYPE_BASIC)
           \<and> answers_to h r (cr_grant_type record) (credential_header c) (credential_username c) (credential_secret c)
           \<and> list_all (\<lambda>(_, e). \<not> answers_to h e (cr_grant_type record) (credential_header c)
                (credential_username c) (credential_secret c)) (mc_records st)))"
proof (cases "memory_credential_record h record st")
  case (Pair a s1)
  have s1: "mc_records s1 = mc_records st"
    using memory_credential_record_records [of h "record" st] Pair by simp
  show ?thesis
  proof (cases a)
    case (Inl e)
    with Pair assms s1 show ?thesis by (auto simp: memory_save_def sbind_def)
  next
    case (Inr r)
    let ?gt = "cr_grant_type record" and ?c = "cr_credential record"
    from memory_credential_record_Ok [OF Pair [unfolded Inr]] obtain c where
      v: "validate_built_in_credential ?gt ?c = Inr c" and aw: "aware (cr_expires_at record)"
      and r: "r = \<lparr>mr_agent_did = cr_agent_did record, mr_credential_id = cr_credential_id record,
       mr_expires_at = cr_expires_at record, mr_grant_type = cr_grant_type record,
       mr_header = credential_header c, mr_scopes = built_in_scopes c,
       mr_salt = mc_tokens st (mc_drawn st), mr_username = credential_username c,
       mr_verifier = credential_digest h (credential_secret c) (mc_tokens st (mc_drawn st)) (is_basic c),
       mr_revoked_at = None\<rparr>"
      by blast
    note kept = validated_kept [OF v]
    have run: "memory_save h record st = (if dict_has (cr_credential_id record) (mc_records st)
        then (Inl (Value_Error ''AEP credential identifier has already been issued''), s1)
        else if list_ex (\<lambda>(_, e). answers_to h e ?gt (credential_header ?c) (credential_username ?c)
            (credential_secret ?c)) (mc_records st)
        then (Inl (Value_Error ''AEP credential secret has already been issued''), s1)
        else (Inr (), mc_records_update (dict_set (cr_credential_id record) r) s1))"
      unfolding memory_save_def
      using Pair Inr s1 kept by (simp add: sbind_run prog_simps require_def answers_to_def r)
    show ?thesis
    proof (cases m)
      case (Inl e)
      with run assms s1 show ?thesis by (auto split: if_splits)
    next
      case m: (Inr u)
      with run assms have new: "\<not> dict_has (cr_credential_id record) (mc_records st)"
        and none: "\<not> list_ex (\<lambda>(_, e). answers_to h e ?gt (credential_header ?c) (credential_username ?c)
            (credential_secret ?c)) (mc_records st)"
        and st': "st' = mc_records_update (dict_set (cr_credential_id record) r) s1"
        by (auto split: if_splits)
      have "mc_records st' = mc_records st @ [(cr_credential_id record, r)]"
        using new by (simp add: st' s1 dict_set_new dict_has_def)
      then show ?thesis
        using m new none kept aw
        by (auto simp: dict_has_def r answers_to_def same_secret_def list_all_iff list_ex_iff Let_def)
    qed
  qed
qed


section \<open>Histories of the store\<close>

datatype credential_op =
    Save_Op credential_record
  | Revoke_Op string string string datetime
  | Revoke_Type_Op string string datetime

fun credential_step :: "digests \<Rightarrow> credential_op \<Rightarrow> memory_credentials \<Rightarrow> memory_credentials" where
  "credential_step h (Save_Op rc) st = snd (memory_save h rc st)"
| "credential_step h (Revoke_Op agent_did grant_type credential t) st =
     snd (memory_revoke_credential agent_did grant_type credential t st)"
| "credential_step h (Revoke_Type_Op agent_did grant_type t) st =
     snd (memory_revoke_grant_type agent_did grant_type t st)"

text \<open>Whether an operation asks to revoke the credential of a record.\<close>

fun revokes_credential :: "credential_op \<Rightarrow> string \<Rightarrow> string \<Rightarrow> string \<Rightarrow> bool" where
  "revokes_credential (Save_Op _) a g i = False"
| "revokes_credential (Revoke_Op agent_did grant_type credential t) a g i =
     (a = agent_did \<and> g = grant_type \<and> i = credential \<and> aware t)"
| "revokes_credential (Revoke_Type_Op agent_did grant_type t) a g i = (a = agent_did \<and> g = grant_type \<and> aware t)"

abbreviation revokes :: "credential_op \<Rightarrow> memory_record \<Rightarrow> bool" where
  "revokes act r \<equiv> revokes_credential act (mr_agent_did r) (mr_grant_type r) (mr_credential_id r)"

definition credentials_ok :: "memory_credentials \<Rightarrow> bool" where
  "credentials_ok st = (dict_ok (mc_records st)
     \<and> list_all (\<lambda>(k, r). mr_credential_id r = k \<and> aware (mr_expires_at r)) (mc_records st))"

text \<open>What one operation does to the entries that are there: it may mark them revoked, nothing else,
  and it adds at most one entry at the end.\<close>

definition marked :: "credential_op \<Rightarrow> memory_record \<Rightarrow> memory_record" where
  "marked act r = (if revokes act r then
     r\<lparr>mr_revoked_at := Some (case act of Revoke_Op _ _ _ t \<Rightarrow> t | Revoke_Type_Op _ _ t \<Rightarrow> t)\<rparr> else r)"

lemma marked_simps [simp]:
  "mr_credential_id (marked act r) = mr_credential_id r" "mr_expires_at (marked act r) = mr_expires_at r"
  "mr_agent_did (marked act r) = mr_agent_did r" "mr_grant_type (marked act r) = mr_grant_type r"
  "mr_scopes (marked act r) = mr_scopes r" "mr_username (marked act r) = mr_username r"
  "mr_header (marked act r) = mr_header r"
  "answers_to h (marked act r) g n u v = answers_to h r g n u v"
  "same_secret h (marked act r) v b = same_secret h r v b"
  by (simp_all add: marked_def answers_to_def same_secret_def)

lemma memory_revoke_run:
  "memory_revoke_credential a g i t st =
     (if \<not> aware t then (Inl (Value_Error ''AEP credential revocation time must contain a UTC offset''), st)
      else case map_of (mc_records st) i of
        None \<Rightarrow> (Inr (), st)
      | Some r \<Rightarrow> if mr_agent_did r \<noteq> a \<or> mr_grant_type r \<noteq> g then (Inr (), st)
          else (Inr (), mc_records_update (dict_set i (r\<lparr>mr_revoked_at := Some t\<rparr>)) st))"
proof (cases "aware t")
  case True
  then have "require_aware_time t ''revocation'' = Inr ()" by (simp add: require_aware_time_def)
  with True show ?thesis
    by (simp add: memory_revoke_credential_def sbind_simps prog_run split: option.split)
next
  case False
  then show ?thesis by (simp add: memory_revoke_credential_def require_aware_time_def require_def prog_simps)
qed

lemma credential_step_records:
  assumes "credentials_ok st"
  shows "\<exists>new. mc_records (credential_step h act st) = map (\<lambda>(k, r). (k, marked act r)) (mc_records st) @ new
    \<and> (new = [] \<or> (\<exists>k r. new = [(k, r)] \<and> mr_credential_id r = k \<and> k \<notin> fst ` set (mc_records st)
         \<and> aware (mr_expires_at r)))"
proof (cases act)
  case (Save_Op rc)
  obtain m st' where run: "memory_save h rc st = (m, st')" by (cases "memory_save h rc st")
  have id: "map (\<lambda>(k, r). (k, marked act r)) (mc_records st) = mc_records st"
    by (intro map_idI) (auto simp: marked_def Save_Op)
  from memory_save_records [OF run] run id show ?thesis
    by (cases m) (auto simp: Save_Op)
next
  case (Revoke_Op a g i t)
  have ids: "mr_credential_id r = k" if "(k, r) \<in> set (mc_records st)" for k r
    using assms that by (auto simp: credentials_ok_def list_all_iff)
  have d: "distinct (map fst (mc_records st))" using assms by (simp add: credentials_ok_def dict_ok_def)
  have "mc_records (credential_step h act st) = map (\<lambda>(k, r). (k, marked act r)) (mc_records st)"
  proof (cases "aware t \<and> (\<exists>r. map_of (mc_records st) i = Some r \<and> mr_agent_did r = a \<and> mr_grant_type r = g)")
    case True
    then obtain r where r: "map_of (mc_records st) i = Some r" "mr_agent_did r = a" "mr_grant_type r = g"
      and t: "aware t" by blast
    have "(k, if k = i then r\<lparr>mr_revoked_at := Some t\<rparr> else q) = (k, marked act q)"
      if m: "(k, q) \<in> set (mc_records st)" for k q
    proof (cases "k = i")
      case True
      then have "q = r" using map_of_is_SomeI [OF d m] r(1) by simp
      with True show ?thesis using ids [OF m] r(2,3) t by (simp add: marked_def Revoke_Op)
    next
      case False
      then show ?thesis using ids [OF m] by (simp add: marked_def Revoke_Op)
    qed
    with r t show ?thesis
      by (auto simp: Revoke_Op memory_revoke_run dict_set_old [OF d r(1)])
  next
    case False
    have "marked act q = q" if "(k, q) \<in> set (mc_records st)" for k q
      using map_of_is_SomeI [OF d that] ids [OF that] False by (cases "k = i") (auto simp: marked_def Revoke_Op)
    then have "map (\<lambda>(k, r). (k, marked act r)) (mc_records st) = mc_records st"
      by (intro map_idI) auto
    with False show ?thesis
      by (auto simp: Revoke_Op memory_revoke_run split: option.split)
  qed
  then show ?thesis by simp
next
  case (Revoke_Type_Op a g t)
  show ?thesis
  proof (cases "aware t")
    case True
    then show ?thesis
      by (intro exI [of _ "[]"]) (simp add: Revoke_Type_Op memory_revoke_grant_type_def prog_simps
          require_aware_time_def marked_def case_prod_unfold)
  next
    case False
    then have "map (\<lambda>(k, r). (k, marked act r)) (mc_records st) = mc_records st"
      by (intro map_idI) (auto simp: marked_def Revoke_Type_Op)
    with False show ?thesis
      by (auto simp: Revoke_Type_Op memory_revoke_grant_type_def prog_simps require_aware_time_def require_def)
  qed
qed

lemma credentials_ok_step:
  assumes "credentials_ok st"
  shows "credentials_ok (credential_step h act st)"
proof -
  let ?old = "map (\<lambda>(k, r). (k, marked act r)) (mc_records st)"
  have old: "dict_ok ?old" "list_all (\<lambda>(k, r). mr_credential_id r = k \<and> aware (mr_expires_at r)) ?old"
    "fst ` set ?old = fst ` set (mc_records st)"
    using assms by (auto simp: credentials_ok_def dict_ok_def list_all_iff comp_def case_prod_unfold image_image)
  from credential_step_records [OF assms, of h act] obtain new where
    st': "mc_records (credential_step h act st) = ?old @ new"
    and new: "new = [] \<or> (\<exists>k r. new = [(k, r)] \<and> mr_credential_id r = k \<and> k \<notin> fst ` set ?old
         \<and> aware (mr_expires_at r))"
    unfolding old(3) by blast
  have "distinct (map fst (?old @ new))"
    using new old(1) unfolding dict_ok_def by (elim disjE exE conjE) (simp_all add: image_image)
  with new old(2) show ?thesis
    unfolding credentials_ok_def st' dict_ok_def by auto
qed

lemma credential_step_lookup:
  assumes "credentials_ok st" and "map_of (mc_records st) k = Some r"
  shows "map_of (mc_records (credential_step h act st)) k = Some (marked act r)"
proof -
  have old: "map_of (map (\<lambda>(k, r). (k, marked act r)) (mc_records st)) k = Some (marked act r)"
    using assms(2) by (simp add: map_of_map)
  from credential_step_records [OF assms(1), of h act] obtain new where
    st': "mc_records (credential_step h act st) = map (\<lambda>(k, r). (k, marked act r)) (mc_records st) @ new"
    and new: "new = [] \<or> (\<exists>k r. new = [(k, r)] \<and> mr_credential_id r = k
       \<and> k \<notin> fst ` set (mc_records st) \<and> aware (mr_expires_at r))"
    by blast
  have "k \<in> fst ` set (mc_records st)" using assms(2) by (force dest: map_of_SomeD)
  with new have "map_of new k = None" by (elim disjE exE conjE) (simp, metis map_of_Cons_code)
  with old show ?thesis unfolding st' by (simp add: map_add_def)
qed

text \<open>Authentication finds a record that answers, is not revoked and has not expired.\<close>

lemma char_of_nat_58: "CHR '':'' = char_of (58 :: nat)"
  by code_simp

lemma presented_username_iff:
  assumes "CHR '':'' \<notin> set u" and "b64_decode v = Some (utf8_encode (u @ '':'' @ p))"
  shows "presented_username v = Some (map of_char u)"
proof -
  have "takeWhile (\<lambda>n. n \<noteq> 58) (map of_char u @ 58 # x) = (map of_char u :: nat list)" for x
  proof (rule takeWhile_append2 [THEN trans])
    show "\<And>n. n \<in> set (map of_char u) \<Longrightarrow> n \<noteq> (58 :: nat)"
    proof -
      fix n :: nat assume "n \<in> set (map of_char u)"
      then obtain c where "c \<in> set u" "n = of_char c" by auto
      with assms(1) show "n \<noteq> 58" by (metis char_of_nat_58 char_of_char)
    qed
  qed simp
  with assms(2) show ?thesis by (simp add: presented_username_def utf8_round_trip)
qed

lemma find_record_Some:
  assumes "find_record h g header user v now rs = Inr (Some m)"
  shows "\<exists>r \<in> set rs. mr_grant_type r = g \<and> mr_header r = header \<and> map of_char (mr_username r) = user
    \<and> mr_revoked_at r = None \<and> instant now < instant (mr_expires_at r)
    \<and> same_secret h r v (g = AEP_GRANT_TYPE_BASIC)
    \<and> m = \<lparr>cm_agent_did = mr_agent_did r, cm_credential_id = mr_credential_id r,
        cm_expires_at = mr_expires_at r, cm_grant_type = g, cm_scopes = mr_scopes r\<rparr>"
  using assms
  by (induction rs) (auto simp: rbind_Ok_iff later_def check_credential_match_def split: if_splits)

lemma find_record_first:
  assumes "\<forall>r \<in> set pre. \<not> (mr_grant_type r = g \<and> mr_header r = header \<and> map of_char (mr_username r) = user
      \<and> same_secret h r v (g = AEP_GRANT_TYPE_BASIC))"
    and "\<forall>r \<in> set pre. aware (mr_expires_at r)" and "aware now" and "aware (mr_expires_at r)"
    and "mr_grant_type r = g" "mr_header r = header" "map of_char (mr_username r) = user"
    and "mr_revoked_at r = None" and "instant now < instant (mr_expires_at r)"
    and "same_secret h r v (g = AEP_GRANT_TYPE_BASIC)"
  shows "find_record h g header user v now (pre @ r # post) =
    Inr (Some \<lparr>cm_agent_did = mr_agent_did r, cm_credential_id = mr_credential_id r,
      cm_expires_at = mr_expires_at r, cm_grant_type = g, cm_scopes = mr_scopes r\<rparr>)"
  using assms by (induction pre) (auto simp: later_def check_credential_match_def)


section \<open>The revocation contract\<close>

text \<open>A store of credentials as its clients see it: each identifier is unknown, live or revoked; no
  operation revives or forgets one, and only a live one answers a request.\<close>

datatype credential_status = Unknown | Live | Revoked

locale revocable_store =
  fixes advance :: "'op \<Rightarrow> 's \<Rightarrow> 's"
    and status_of :: "'s \<Rightarrow> 'id \<Rightarrow> credential_status"
    and answer :: "'s \<Rightarrow> 'q \<Rightarrow> 'id option"
    and valid :: "'s \<Rightarrow> bool"
  assumes valid_advance: "valid s \<Longrightarrow> valid (advance a s)"
    and revoked_stays: "valid s \<Longrightarrow> status_of s i = Revoked \<Longrightarrow> status_of (advance a s) i = Revoked"
    and known_stays: "valid s \<Longrightarrow> status_of s i \<noteq> Unknown \<Longrightarrow> status_of (advance a s) i \<noteq> Unknown"
    and answers_live: "valid s \<Longrightarrow> answer s q = Some i \<Longrightarrow> status_of s i = Live"
begin

lemma valid_history: "valid s \<Longrightarrow> valid (fold advance acts s)"
  by (induction acts arbitrary: s) (simp_all add: valid_advance)

lemma revoked_history:
  "valid s \<Longrightarrow> status_of s i = Revoked \<Longrightarrow> status_of (fold advance acts s) i = Revoked"
  by (induction acts arbitrary: s) (simp_all add: valid_advance revoked_stays)

lemma known_history:
  "valid s \<Longrightarrow> status_of s i \<noteq> Unknown \<Longrightarrow> status_of (fold advance acts s) i \<noteq> Unknown"
  by (induction acts arbitrary: s) (simp_all add: valid_advance known_stays)

lemma revoked_never_answers:
  assumes "valid s" and "status_of s i = Revoked"
  shows "answer (fold advance acts s) q \<noteq> Some i"
  using answers_live [OF valid_history [OF assms(1)]] revoked_history [OF assms] by fastforce

end

definition credential_status :: "memory_credentials \<Rightarrow> string \<Rightarrow> credential_status" where
  "credential_status st i = (case map_of (mc_records st) i of
      None \<Rightarrow> Unknown
    | Some r \<Rightarrow> if mr_revoked_at r = None then Live else Revoked)"

text \<open>The credential that a request authenticates.\<close>

definition authenticated_id :: "digests \<Rightarrow> memory_credentials \<Rightarrow> string \<times> authentication_input \<Rightarrow> string option" where
  "authenticated_id h st q = (case memory_authenticate h (fst q) (snd q) st of
      (Inr (Some m), _) \<Rightarrow> Some (cm_credential_id m) | _ \<Rightarrow> None)"

lemma memory_authenticate_Some:
  assumes "memory_authenticate h g q st = (Inr (Some m), st')"
  shows "st' = st \<and> (\<exists>header v r. credential_presentations g (ci_headers q) (map snd (mc_records st)) = Inr [(header, v)]
    \<and> r \<in> snd ` set (mc_records st) \<and> mr_grant_type r = g \<and> mr_header r = header
    \<and> mr_revoked_at r = None \<and> instant (ci_current_time q) < instant (mr_expires_at r)
    \<and> same_secret h r v (g = AEP_GRANT_TYPE_BASIC)
    \<and> m = \<lparr>cm_agent_did = mr_agent_did r, cm_credential_id = mr_credential_id r,
        cm_expires_at = mr_expires_at r, cm_grant_type = g, cm_scopes = mr_scopes r\<rparr>)"
proof -
  let ?rs = "map snd (mc_records st)"
  have run: "memory_authenticate h g q st = (case credential_presentations g (ci_headers q) ?rs of
      Inl e \<Rightarrow> (Inl e, st)
    | Inr [(header, v)] \<Rightarrow>
        (case (if g = AEP_GRANT_TYPE_BASIC then presented_username v else Some []) of
           None \<Rightarrow> (Inr None, st)
         | Some user \<Rightarrow> (find_record h g header user v (ci_current_time q) ?rs, st))
    | Inr _ \<Rightarrow> (Inr None, st))"
    by (simp add: memory_authenticate_def prog_simps split: sum.split list.split option.split prod.split)
  obtain all where all: "credential_presentations g (ci_headers q) ?rs = Inr all"
    using assms unfolding run by (cases "credential_presentations g (ci_headers q) ?rs") simp_all
  have "all \<noteq> []" using assms unfolding run all by (cases all) simp_all
  moreover have "all \<noteq> a # b # bs" for a b bs using assms unfolding run all by (cases a) auto
  ultimately obtain p where p: "credential_presentations g (ci_headers q) ?rs = Inr [p]"
    using all by (metis neq_Nil_conv)
  obtain header v where hv: "p = (header, v)" by (cases p)
  note ps = p [unfolded hv]
  obtain user where user: "(if g = AEP_GRANT_TYPE_BASIC then presented_username v else Some []) = Some user"
    using assms unfolding run ps
    by (cases "if g = AEP_GRANT_TYPE_BASIC then presented_username v else Some []") simp_all
  have "(find_record h g header user v (ci_current_time q) ?rs, st) = (Inr (Some m), st')"
    using assms unfolding run ps sum.case list.case prod.case user option.case .
  then have f: "find_record h g header user v (ci_current_time q) ?rs = Inr (Some m)" and st': "st' = st"
    by (blast dest: Pair_inject)+
  from find_record_Some [OF f] show ?thesis
  proof
    fix r
    assume "r \<in> set ?rs" and "mr_grant_type r = g \<and> mr_header r = header \<and> map of_char (mr_username r) = user
      \<and> mr_revoked_at r = None \<and> instant (ci_current_time q) < instant (mr_expires_at r)
      \<and> same_secret h r v (g = AEP_GRANT_TYPE_BASIC)
      \<and> m = \<lparr>cm_agent_did = mr_agent_did r, cm_credential_id = mr_credential_id r,
          cm_expires_at = mr_expires_at r, cm_grant_type = g, cm_scopes = mr_scopes r\<rparr>"
    with ps st' show ?thesis by (intro conjI exI [of _ header] exI [of _ v] exI [of _ r]) simp_all
  qed
qed

interpretation memory_store: revocable_store "credential_step h" credential_status "authenticated_id h" credentials_ok
  for h
proof
  fix s :: memory_credentials and a i q
  assume ok: "credentials_ok s"
  show "credentials_ok (credential_step h a s)" by (rule credentials_ok_step [OF ok])
  show "credential_status (credential_step h a s) i = Revoked" if "credential_status s i = Revoked"
    using that credential_step_lookup [OF ok, of i]
    by (fastforce simp: credential_status_def marked_def split: option.splits if_splits)
  show "credential_status (credential_step h a s) i \<noteq> Unknown" if "credential_status s i \<noteq> Unknown"
    using that credential_step_lookup [OF ok, of i]
    by (fastforce simp: credential_status_def split: option.splits if_splits)
  show "credential_status s i = Live" if a: "authenticated_id h s q = Some i"
  proof -
    from a obtain m where "memory_authenticate h (fst q) (snd q) s = (Inr (Some m), s)" "cm_credential_id m = i"
      by (auto simp: authenticated_id_def split: prod.splits sum.splits option.splits dest: memory_authenticate_Some)
    moreover from memory_authenticate_Some [OF this(1)] obtain r where
      r: "r \<in> snd ` set (mc_records s)" "mr_revoked_at r = None"
      and "m = \<lparr>cm_agent_did = mr_agent_did r, cm_credential_id = mr_credential_id r,
        cm_expires_at = mr_expires_at r, cm_grant_type = fst q, cm_scopes = mr_scopes r\<rparr>"
      by blast
    ultimately have i: "mr_credential_id r = i" by simp
    from r(1) i ok have "(i, r) \<in> set (mc_records s)" by (auto simp: credentials_ok_def list_all_iff)
    with ok have "map_of (mc_records s) i = Some r" by (simp add: credentials_ok_def dict_ok_def)
    with r(2) show ?thesis by (simp add: credential_status_def)
  qed
qed


text \<open>C5 Revocation is final: once a credential, or all credentials of a grant type for its agent, are
  revoked, no request ever authenticates as that credential again, whatever is saved or revoked later.\<close>

theorem revoked_never_authenticates:
  assumes "credentials_ok st" and "map_of (mc_records st) i = Some r" and "revokes act r"
    and "memory_authenticate h g q (fold (credential_step h) (act # acts) st) = (Inr (Some m), st')"
  shows "cm_credential_id m \<noteq> i"
proof
  assume i: "cm_credential_id m = i"
  have "credential_status (credential_step h act st) i = Revoked"
    using credential_step_lookup [OF assms(1,2), of h act] assms(3)
    by (simp add: credential_status_def marked_def)
  from memory_store.revoked_never_answers [OF credentials_ok_step [OF assms(1)] this, of h acts "(g, q)"]
  show False using assms(4) i by (simp add: authenticated_id_def)
qed

lemma fold_marked:
  "answers_to h (fold marked acts r) g n u v = answers_to h r g n u v"
  "mr_expires_at (fold marked acts r) = mr_expires_at r"
  by (induction acts arbitrary: r) simp_all

lemma fold_marked_id: "\<forall>act \<in> set acts. \<not> revokes act r \<Longrightarrow> fold marked acts r = r"
  by (induction acts) (simp_all add: marked_def)

lemma history_records:
  "credentials_ok st \<Longrightarrow> \<exists>new. mc_records (fold (credential_step h) acts st)
     = map (\<lambda>(k, r). (k, fold marked acts r)) (mc_records st) @ new"
proof (induction acts arbitrary: st)
  case (Cons act acts)
  from credential_step_records [OF Cons.prems, of h act] obtain new where
    "mc_records (credential_step h act st) = map (\<lambda>(k, r). (k, marked act r)) (mc_records st) @ new"
    by blast
  moreover from Cons.IH [OF credentials_ok_step [OF Cons.prems], of h act] obtain new' where
    "mc_records (fold (credential_step h) acts (credential_step h act st))
       = map (\<lambda>(k, r). (k, fold marked acts r)) (mc_records (credential_step h act st)) @ new'"
    by blast
  ultimately show ?case by (simp add: case_prod_unfold comp_def)
qed simp

text \<open>A request that presents a credential the way its response tells the agent to, and nothing else.\<close>

definition presents :: "built_in_credential \<Rightarrow> headers \<Rightarrow> bool" where
  "presents c hs = (case c of
      Api_Key_Credential k \<Rightarrow> hs = [(lower (api_key_header k), [api_key k])]
    | Bearer_Credential b \<Rightarrow> hs = [(''authorization'', [''Bearer '' @ access_token b])]
        \<and> list_all (in_range 33 126) (access_token b)
    | Basic_Credential b \<Rightarrow> hs = [(''authorization'', [''Basic '' @ credential_secret c])])"

lemma presentations_in_one:
  assumes "s \<noteq> []" and "list_all (in_range 33 126) s"
  shows "presentations_in sch Carrier_Standard [scheme_value sch @ '' '' @ s] = Inr [s]"
proof -
  let ?a = "\<lparr>auth_carrier = Carrier_Standard, auth_scheme_of = sch, credentials = s\<rparr>"
  have "parse_authorization (scheme_value sch @ '' '' @ s) (auth_carrier ?a) = Inr ?a"
    by (rule parse_render [where h = "carrier_value Carrier_Standard"])
      (use assms in \<open>simp_all add: render_authorization_Ok\<close>)
  then show ?thesis by (simp add: presentations_in_def)
qed

lemma presentations_in_none [simp]: "presentations_in sch c [] = Inr []"
  by (simp add: presentations_in_def)

lemma one_header:
  "distinct names \<Longrightarrow> concat (map (\<lambda>name. map (\<lambda>v. (name, v)) (header_values name [(n, [v])])) names)
     = (if n \<in> set names then [(n, v)] else [])"
  by (induction names) (auto simp: header_values_def)

lemma presents_found:
  assumes "presents c hs" and "validate_built_in_credential g c = Inr c'"
    and "\<exists>r \<in> set rs. mr_grant_type r = g \<and> mr_header r = credential_header c"
  shows "credential_presentations g hs rs = Inr [(credential_header c, credential_secret c)]"
proof (cases c)
  case (Api_Key_Credential k)
  then have g: "g = AEP_GRANT_TYPE_API_KEY"
    using assms(2) by (simp add: validate_built_in_credential_def Let_def split: if_splits)
  have "lower (api_key_header k) \<in> set (remdups (map mr_header (filter (\<lambda>r. mr_grant_type r = g) rs)))"
    using assms(3) by (force simp: Api_Key_Credential credential_header_def)
  then show ?thesis
    using assms(1) g one_header [of "remdups (map mr_header (filter (\<lambda>r. mr_grant_type r = g) rs))" "lower (api_key_header k)" "api_key k"]
    by (simp add: credential_presentations_def presents_def Api_Key_Credential credential_header_def Let_def del: set_remdups)
next
  case (Basic_Credential b)
  then have g: "g = AEP_GRANT_TYPE_BASIC"
    using assms(2) by (simp add: validate_built_in_credential_def Let_def split: if_splits)
  have "credential_secret c \<noteq> []" by (simp add: Basic_Credential)
  with presentations_in_one [of "credential_secret c" Scheme_Basic] show ?thesis
    using assms(1) g b64_encode_visible
    by (simp add: credential_presentations_def presents_def Basic_Credential credential_header_def Let_def
        header_values_def AEP_GRANT_TYPE_BASIC_def AEP_GRANT_TYPE_API_KEY_def)
next
  case (Bearer_Credential b)
  then obtain b' where g: "g = AEP_GRANT_TYPE_OAUTH_BEARER"
    and b': "oauth_bearer_of_json (oauth_bearer_to_wire b) = Inr b'"
    using assms(2) by (auto simp: validate_built_in_credential_def Let_def rbind_Ok_iff split: if_splits)
  from bearer_kept [OF b'] bearer_decoded [OF b'] have "access_token b \<noteq> []" by simp
  with presentations_in_one [of "access_token b" Scheme_Bearer] show ?thesis
    using assms(1) g
    by (simp add: credential_presentations_def presents_def Bearer_Credential credential_header_def Let_def
        header_values_def AEP_GRANT_TYPE_BASIC_def AEP_GRANT_TYPE_API_KEY_def AEP_GRANT_TYPE_OAUTH_BEARER_def)
qed


text \<open>What a save that the store accepted means for every later request with that credential.\<close>

lemma saved_credential_authenticates:
  assumes "credentials_ok st" and "memory_save h rc st = (Inr (), st1)"
    and "map_of (mc_records st1) (cr_credential_id rc) = Some r"
    and "list_all (\<lambda>act. \<not> revokes act r) acts"
    and "presents (cr_credential rc) (ci_headers q)"
    and "aware (ci_current_time q)" and "instant (ci_current_time q) < instant (cr_expires_at rc)"
  shows "memory_authenticate h (cr_grant_type rc) q (fold (credential_step h) acts st1)
    = (Inr (Some \<lparr>cm_agent_did = cr_agent_did rc, cm_credential_id = cr_credential_id rc,
         cm_expires_at = cr_expires_at rc, cm_grant_type = cr_grant_type rc, cm_scopes = mr_scopes r\<rparr>),
       fold (credential_step h) acts st1)"
proof -
  let ?c = "cr_credential rc" and ?g = "cr_grant_type rc" and ?st = "fold (credential_step h) acts st1"
  let ?now = "ci_current_time q"
  from memory_save_records [OF assms(2)] obtain r' where
    r': "mc_records st1 = mc_records st @ [(cr_credential_id rc, r')]"
    and new: "cr_credential_id rc \<notin> fst ` set (mc_records st)" by auto
  have "map_of (mc_records st) (cr_credential_id rc) = None" using new by (simp add: map_of_eq_None_iff)
  then have "r' = r" using assms(3) r' by (simp add: map_add_def)
  then have saved: "mc_records st1 = mc_records st @ [(cr_credential_id rc, r)]" using r' by simp
  have r: "mr_credential_id r = cr_credential_id rc" "mr_agent_did r = cr_agent_did rc"
      "mr_grant_type r = ?g" "mr_expires_at r = cr_expires_at rc" "aware (mr_expires_at r)"
      "mr_revoked_at r = None" "mr_header r = credential_header ?c" "mr_username r = credential_username ?c"
    and plain: "CHR '':'' \<notin> set (credential_username ?c)"
    and basic: "is_basic ?c \<longleftrightarrow> ?g = AEP_GRANT_TYPE_BASIC"
    and mine: "answers_to h r ?g (credential_header ?c) (credential_username ?c) (credential_secret ?c)"
    and others: "list_all (\<lambda>(_, e). \<not> answers_to h e ?g (credential_header ?c) (credential_username ?c)
         (credential_secret ?c)) (mc_records st)"
    using memory_save_records [OF assms(2)] saved by (auto simp: Let_def)
  have ok1: "credentials_ok st1"
    using credentials_ok_step [OF assms(1), of h "Save_Op rc"] assms(2) by simp
  obtain new where "mc_records ?st = map (\<lambda>(k, r). (k, fold marked acts r)) (mc_records st1) @ new"
    using history_records [OF ok1] by blast
  then have records: "map snd (mc_records ?st)
      = map (\<lambda>(k, r). fold marked acts r) (mc_records st) @ r # map snd new"
    using fold_marked_id [of acts r] assms(4) by (simp add: saved case_prod_unfold comp_def list_all_iff)
  obtain c' where v: "validate_built_in_credential ?g ?c = Inr c'"
    using assms(2) memory_credential_record_Ok [of h rc st] unfolding memory_save_def sbind_Ok by blast
  have found: "credential_presentations ?g (ci_headers q) (map snd (mc_records ?st))
      = Inr [(credential_header ?c, credential_secret ?c)]"
    using r by (intro presents_found [OF assms(5) v]) (auto simp: records)
  have user: "(if ?g = AEP_GRANT_TYPE_BASIC then presented_username (credential_secret ?c) else Some [])
      = Some (map of_char (credential_username ?c))"
  proof (cases ?c)
    case (Basic_Credential b)
    then show ?thesis using basic plain presented_username_iff [of "basic_username b"]
      by (simp add: credential_username_def b64_round_trip)
  qed (use basic in \<open>simp_all add: credential_username_def\<close>)
  have "find_record h ?g (credential_header ?c) (map of_char (credential_username ?c)) (credential_secret ?c)
      ?now (map snd (mc_records ?st)) = Inr (Some \<lparr>cm_agent_did = mr_agent_did r,
        cm_credential_id = mr_credential_id r, cm_expires_at = mr_expires_at r, cm_grant_type = ?g,
        cm_scopes = mr_scopes r\<rparr>)"
    unfolding records
  proof (rule find_record_first)
    show "\<forall>x \<in> set (map (\<lambda>(k, r). fold marked acts r) (mc_records st)). aware (mr_expires_at x)"
      using assms(1) by (auto simp: credentials_ok_def list_all_iff fold_marked)
    show "\<forall>x \<in> set (map (\<lambda>(k, r). fold marked acts r) (mc_records st)).
        \<not> (mr_grant_type x = ?g \<and> mr_header x = credential_header ?c
          \<and> map of_char (mr_username x) = (map of_char (credential_username ?c) :: nat list)
          \<and> same_secret h x (credential_secret ?c) (?g = AEP_GRANT_TYPE_BASIC))"
    proof
      fix x assume "x \<in> set (map (\<lambda>(k, r). fold marked acts r) (mc_records st))"
      then have "\<not> answers_to h x ?g (credential_header ?c) (credential_username ?c) (credential_secret ?c)"
        using others by (auto simp: list_all_iff fold_marked)
      then show "\<not> (mr_grant_type x = ?g \<and> mr_header x = credential_header ?c
          \<and> map of_char (mr_username x) = (map of_char (credential_username ?c) :: nat list)
          \<and> same_secret h x (credential_secret ?c) (?g = AEP_GRANT_TYPE_BASIC))"
        by (auto simp: answers_to_def inj_map_eq_map inj_of_char)
    qed
  qed (use r mine assms(6,7) in \<open>simp_all add: answers_to_def\<close>)
  then show ?thesis
    unfolding memory_authenticate_def
    using found user r(1,2,4) by (simp only: sbind_simps list.case prod.case option.case prog_run)
qed


lemma handler_grant_Ok:
  assumes "handler_grant fr g config options request context st = (Inr body, st1)"
  shows "\<exists>s c' c e rc. sto_issue options request context st = (Inr c', s)
    \<and> validate_built_in_credential g c' = Inr c \<and> parse_expiry (built_in_expires_at c) = Inr e
    \<and> instant (gc_current_time context) < instant e \<and> aware e
    \<and> rc = \<lparr>cr_agent_did = gc_agent_did context, cr_created_at = gc_current_time context, cr_credential = c,
         cr_credential_id = built_in_id c, cr_expires_at = e, cr_grant_type = g\<rparr>
    \<and> save_credential (sto_store options) rc s = (Inr (), st1)
    \<and> body_doc body = Inr (built_in_to_wire c)"
  using assms unfolding handler_grant_def
  by (auto simp: sbind_Ok prog_run rbind_Ok_iff later_def check_credential_record_def body_of_text_def)

text \<open>C4 An issued credential authenticates its agent until it expires or is revoked: when the handler of
  a built-in grant type returns a response, the credential printed in it is saved, and after any later
  saves and revocations of other credentials a request presenting exactly that credential before its
  expiry yields the principal of that agent, credential and grant type.\<close>

theorem granted_credential_authenticates:
  assumes "handler_grant fr g config options request context st = (Inr body, st1)"
    and "sto_store options = memory_store h"
    and "credentials_ok (snd (sto_issue options request context st))"
    and "gc_agent_did context \<noteq> []"
  shows "\<exists>c e sc. body_doc body = Inr (built_in_to_wire c) \<and> parse_expiry (built_in_expires_at c) = Inr e
    \<and> (\<forall>acts q. list_all (\<lambda>act. \<not> revokes_credential act (gc_agent_did context) g (built_in_id c)) acts
         \<longrightarrow> presents c (ci_headers q) \<longrightarrow> aware (ci_current_time q)
         \<longrightarrow> instant (ci_current_time q) < instant e
         \<longrightarrow> fst (handler_authenticate g options q (fold (credential_step h) acts st1))
           = Inr (Some \<lparr>pr_agent_did = gc_agent_did context, pr_kind = Kind_Session_Credential, pr_method = g,
               pr_credential_id = Some (built_in_id c), pr_grant_type = Some g, pr_scopes = sc\<rparr>))"
proof -
  from handler_grant_Ok [OF assms(1)] obtain s c' c e rc where
    issue: "sto_issue options request context st = (Inr c', s)"
    and e: "parse_expiry (built_in_expires_at c) = Inr e" "aware e"
    and rc: "rc = \<lparr>cr_agent_did = gc_agent_did context, cr_created_at = gc_current_time context, cr_credential = c,
         cr_credential_id = built_in_id c, cr_expires_at = e, cr_grant_type = g\<rparr>"
    and save: "save_credential (sto_store options) rc s = (Inr (), st1)"
    and body: "body_doc body = Inr (built_in_to_wire c)"
    by blast
  have ok: "credentials_ok s" using assms(3) issue by simp
  have save': "memory_save h rc s = (Inr (), st1)" using save assms(2) by (simp add: memory_store_def)
  from memory_save_records [OF save'] obtain r where
    r: "mc_records st1 = mc_records s @ [(cr_credential_id rc, r)]"
    "cr_credential_id rc \<notin> fst ` set (mc_records s)"
    "mr_agent_did r = cr_agent_did rc" "mr_grant_type r = cr_grant_type rc" "mr_credential_id r = cr_credential_id rc"
    by auto
  have lookup: "map_of (mc_records st1) (cr_credential_id rc) = Some r"
    using r(1,2) by (simp add: map_add_def map_of_eq_None_iff [THEN iffD2])
  have id: "built_in_id c \<noteq> []"
  proof -
    from save' [unfolded memory_save_def sbind_Ok] obtain q s' where
      "memory_credential_record h rc s = (Inr q, s')" by blast
    then show ?thesis
      unfolding memory_credential_record_def by (auto simp: sbind_Ok prog_run rc)
  qed
  have "fst (handler_authenticate g options q (fold (credential_step h) acts st1))
      = Inr (Some \<lparr>pr_agent_did = gc_agent_did context, pr_kind = Kind_Session_Credential, pr_method = g,
          pr_credential_id = Some (built_in_id c), pr_grant_type = Some g, pr_scopes = mr_scopes r\<rparr>)"
    if acts: "list_all (\<lambda>act. \<not> revokes_credential act (gc_agent_did context) g (built_in_id c)) acts"
      and q: "presents c (ci_headers q)" "aware (ci_current_time q)" "instant (ci_current_time q) < instant e"
    for acts q
  proof -
    have "memory_authenticate h g q (fold (credential_step h) acts st1)
      = (Inr (Some \<lparr>cm_agent_did = gc_agent_did context, cm_credential_id = built_in_id c, cm_expires_at = e,
           cm_grant_type = g, cm_scopes = mr_scopes r\<rparr>), fold (credential_step h) acts st1)"
      using saved_credential_authenticates [OF ok save' lookup, of acts q] acts q r(3-5) by (simp add: rc)
    then show ?thesis
      using assms(4) id e(2) q
      by (simp add: handler_authenticate_def assms(2) memory_store_def sbind_run prog_simps later_def)
  qed
  with body e(1) show ?thesis by blast
qed

text \<open>C6 A request authenticates only with a credential the store holds: it presents exactly one value,
  whose digest with the record's salt is the record's verifier, under the record's field and grant
  type, and the record is neither revoked nor expired; the store itself is unchanged.\<close>

theorem memory_authenticate_sound:
  assumes "memory_authenticate h g q st = (Inr (Some m), st')"
  shows "st' = st \<and> (\<exists>header v r. credential_presentations g (ci_headers q) (map snd (mc_records st)) = Inr [(header, v)]
    \<and> r \<in> snd ` set (mc_records st) \<and> mr_grant_type r = g \<and> mr_header r = header
    \<and> mr_revoked_at r = None \<and> instant (ci_current_time q) < instant (mr_expires_at r)
    \<and> mr_verifier r = credential_digest h v (mr_salt r) (g = AEP_GRANT_TYPE_BASIC)
    \<and> cm_agent_did m = mr_agent_did r \<and> cm_credential_id m = mr_credential_id r)"
proof -
  from memory_authenticate_Some [OF assms] obtain header v r where
    "st' = st" "credential_presentations g (ci_headers q) (map snd (mc_records st)) = Inr [(header, v)]"
    "r \<in> snd ` set (mc_records st)" "mr_grant_type r = g" "mr_header r = header" "mr_revoked_at r = None"
    "instant (ci_current_time q) < instant (mr_expires_at r)" "same_secret h r v (g = AEP_GRANT_TYPE_BASIC)"
    "cm_agent_did m = mr_agent_did r" "cm_credential_id m = mr_credential_id r"
    by (elim conjE exE) simp
  then show ?thesis unfolding same_secret_def
    by (intro conjI exI [of _ header] exI [of _ v] exI [of _ r])
qed

section \<open>Examples\<close>

definition sample_digests :: digests where
  "sample_digests = \<lparr>scrypt = (\<lambda>v salt. salt @ v), sha256 = (\<lambda>v. v)\<rparr>"

definition sample_time :: "int \<Rightarrow> datetime" where
  "sample_time n = \<lparr>instant = seconds n, utcoffset = Some 0\<rparr>"

definition sample_bearer :: "string \<Rightarrow> built_in_credential" where
  "sample_bearer i = Bearer_Credential \<lparr>credential_id = i, expires_at = ''1970-01-01T01:00:00Z'',
     scopes = [''read''], scopes_given = True, credential_extra = [], access_token = i @ ''-secret'',
     token_format = None, token_type = ''Bearer''\<rparr>"

definition sample_record :: "string \<Rightarrow> credential_record" where
  "sample_record i = \<lparr>cr_agent_did = ''did:web:a.example'', cr_created_at = sample_time 0,
     cr_credential = sample_bearer i, cr_credential_id = i, cr_expires_at = sample_time 3600,
     cr_grant_type = AEP_GRANT_TYPE_OAUTH_BEARER\<rparr>"

definition sample_request :: "string \<Rightarrow> authentication_input" where
  "sample_request i = \<lparr>ci_headers = [(''authorization'', [''Bearer '' @ i @ ''-secret''])],
     ci_method = ''GET'', ci_current_time = sample_time 60, ci_url = ''https://s.example/x''\<rparr>"

definition sample_store :: memory_credentials where
  "sample_store = \<lparr>mc_records = [], mc_tokens = (\<lambda>n. [char_of n]), mc_drawn = 0\<rparr>"

definition sample_revocation :: "string \<Rightarrow> credential_op" where
  "sample_revocation i = Revoke_Op ''did:web:a.example'' AEP_GRANT_TYPE_OAUTH_BEARER i (sample_time 30)"

definition sample_memory :: "string \<Rightarrow> nat \<Rightarrow> memory_record" where
  "sample_memory i n = \<lparr>mr_agent_did = ''did:web:a.example'', mr_credential_id = i,
     mr_expires_at = sample_time 3600, mr_grant_type = AEP_GRANT_TYPE_OAUTH_BEARER,
     mr_header = ''authorization'', mr_scopes = [''read''], mr_salt = [char_of n], mr_username = [],
     mr_verifier = char_of n # i @ ''-secret'', mr_revoked_at = None\<rparr>"

definition stored_sample :: memory_credentials where
  "stored_sample = \<lparr>mc_records = [(''c1'', sample_memory ''c1'' 0), (''c2'', sample_memory ''c2'' 1)],
     mc_tokens = (\<lambda>n. [char_of n]), mc_drawn = 2\<rparr>"

lemmas sample_defs = sample_digests_def sample_time_def sample_bearer_def sample_record_def sample_request_def
  sample_store_def sample_revocation_def sample_memory_def stored_sample_def

lemma sample_valid:
  "validate_built_in_credential AEP_GRANT_TYPE_OAUTH_BEARER (sample_bearer ''c1'') = Inr (sample_bearer ''c1'')"
  "validate_built_in_credential AEP_GRANT_TYPE_OAUTH_BEARER (sample_bearer ''c2'') = Inr (sample_bearer ''c2'')"
  "parse_expiry ''1970-01-01T01:00:00Z'' = Inr (sample_time 3600)"
  by code_simp+

lemma sample_saved:
  "memory_save sample_digests (sample_record ''c1'') sample_store
     = (Inr (), \<lparr>mc_records = [(''c1'', sample_memory ''c1'' 0)], mc_tokens = (\<lambda>n. [char_of n]), mc_drawn = 1\<rparr>)"
proof -
  have "utf8_encode ''c1-secret'' = ''c1-secret''" by code_simp
  moreover have "(AEP_GRANT_TYPE_OAUTH_BEARER = []) = False" by code_simp
  ultimately show ?thesis
    using sample_valid(1,3)
    by (simp add: memory_save_def memory_credential_record_def prog_simps sample_record_def require_aware_time_def
        sbind_def token_bytes_def sample_store_def sample_memory_def credential_header_def credential_username_def
        credential_digest_def sample_digests_def Let_def) (simp add: sample_bearer_def sample_time_def aware_def seconds_def dict_has_def prog_run)
qed

definition sample_options :: "memory_credentials stored_options" where
  "sample_options = \<lparr>sto_config = \<lparr>supports_per_credential_revoke = None, config_extra = []\<rparr>,
     sto_issue = (\<lambda>request context. sret (sample_bearer ''c1'')), sto_store = memory_store sample_digests\<rparr>"

definition sample_context :: grant_context where
  "sample_context = \<lparr>gc_agent_did = ''did:web:a.example'',
     gc_enrollment = \<lparr>en_agent_did = ''did:web:a.example'', en_claims = None, en_created_at = sample_time 0,
       en_id = ''e'', en_owner_action = False, en_requirements = [], en_since = sample_time 0,
       en_status = Agent_Active, en_updated_at = sample_time 0, en_verification = [],
       en_acknowledged = [], en_required_documents = []\<rparr>,
     gc_grant_type = AEP_GRANT_TYPE_OAUTH_BEARER, gc_current_time = sample_time 0\<rparr>"

definition sample_grant_request :: grant_request where
  "sample_grant_request = \<lparr>gr_grant_type = AEP_GRANT_TYPE_OAUTH_BEARER, gr_scopes = None, gr_extra = []\<rparr>"

lemma sample_granted:
  "\<exists>body st1. handler_grant (\<lambda>_. []) AEP_GRANT_TYPE_OAUTH_BEARER (sto_config sample_options) sample_options
     sample_grant_request sample_context sample_store = (Inr body, st1)"
  using sample_saved sample_valid(1,3)
  by (simp add: handler_grant_def sample_options_def sample_context_def memory_store_def prog_simps sbind_def
      check_credential_record_def require_aware_time_def sample_record_def later_def
      validate_issued_credential_config_def require_encodable_basic_def)
    (simp add: sample_bearer_def sample_time_def aware_def seconds_def prog_run)

theorem granted_credential_authenticates_witness:
  "\<exists>body st1 c e. handler_grant (\<lambda>_. []) AEP_GRANT_TYPE_OAUTH_BEARER (sto_config sample_options) sample_options
       sample_grant_request sample_context sample_store = (Inr body, st1)
     \<and> body_doc body = Inr (built_in_to_wire c) \<and> parse_expiry (built_in_expires_at c) = Inr e"
proof -
  obtain body st1 where run: "handler_grant (\<lambda>_. []) AEP_GRANT_TYPE_OAUTH_BEARER (sto_config sample_options)
      sample_options sample_grant_request sample_context sample_store = (Inr body, st1)"
    using sample_granted by blast
  have "credentials_ok (snd (sto_issue sample_options sample_grant_request sample_context sample_store))"
    by (simp add: sample_options_def prog_run sample_store_def credentials_ok_def)
  from granted_credential_authenticates [OF run, of sample_digests, OF _ this]
  show ?thesis using run by (auto simp: sample_options_def sample_context_def)
qed

lemma sample_run:
  "memory_authenticate sample_digests AEP_GRANT_TYPE_OAUTH_BEARER (sample_request ''c2'')
      (fold (credential_step sample_digests) [sample_revocation ''c1''] stored_sample)
    = (Inr (Some \<lparr>cm_agent_did = ''did:web:a.example'', cm_credential_id = ''c2'',
        cm_expires_at = sample_time 3600, cm_grant_type = AEP_GRANT_TYPE_OAUTH_BEARER, cm_scopes = [''read'']\<rparr>),
       fold (credential_step sample_digests) [sample_revocation ''c1''] stored_sample)"
proof -
  let ?st = "fold (credential_step sample_digests) [sample_revocation ''c1''] stored_sample"
  have rs: "map snd (mc_records ?st)
      = [(sample_memory ''c1'' 0)\<lparr>mr_revoked_at := Some (sample_time 30)\<rparr>, sample_memory ''c2'' 1]"
    by (simp add: sample_defs memory_revoke_run aware_def)
  have "credential_presentations AEP_GRANT_TYPE_OAUTH_BEARER (ci_headers (sample_request ''c2'')) (map snd (mc_records ?st))
      = Inr [(credential_header (sample_bearer ''c2''), credential_secret (sample_bearer ''c2''))]"
    by (rule presents_found [OF _ sample_valid(2)], unfold rs)
      (simp_all add: sample_defs presents_def in_range_def credential_header_def)
  moreover have "utf8_encode ''c2-secret'' = ''c2-secret''" by code_simp
  moreover have "AEP_GRANT_TYPE_OAUTH_BEARER \<noteq> AEP_GRANT_TYPE_BASIC" by code_simp
  ultimately show ?thesis
    unfolding memory_authenticate_def
    by (simp only: sbind_simps rs)
      (simp add: sample_defs credential_header_def prog_run aware_def seconds_def later_def same_secret_def
        credential_digest_def check_credential_match_def)
qed

theorem memory_authenticate_sound_witness:
  "\<exists>r. mr_revoked_at r = None \<and> mr_credential_id r = ''c2'' \<and> mr_agent_did r = ''did:web:a.example''
    \<and> r \<in> snd ` set (mc_records (fold (credential_step sample_digests) [sample_revocation ''c1''] stored_sample))"
  using memory_authenticate_sound [OF sample_run] by (elim conjE exE) (metis credential_match.select_convs(1,2))

theorem revoked_never_authenticates_witness:
  "\<exists>m. fst (memory_authenticate sample_digests AEP_GRANT_TYPE_OAUTH_BEARER (sample_request ''c2'')
      (fold (credential_step sample_digests) [sample_revocation ''c1''] stored_sample)) = Inr (Some m)
    \<and> cm_credential_id m \<noteq> ''c1''"
proof -
  let ?st = "fold (credential_step sample_digests) [sample_revocation ''c1''] stored_sample"
  let ?run = "memory_authenticate sample_digests AEP_GRANT_TYPE_OAUTH_BEARER (sample_request ''c2'') ?st"
  obtain m where m: "fst ?run = Inr (Some m)" using sample_run by simp
  then have "?run = (Inr (Some m), snd ?run)" by (simp add: prod_eq_iff)
  moreover have "credentials_ok stored_sample" "map_of (mc_records stored_sample) ''c1'' = Some (sample_memory ''c1'' 0)"
    "revokes (sample_revocation ''c1'') (sample_memory ''c1'' 0)"
    by (simp_all add: sample_defs credentials_ok_def dict_ok_def aware_def)
  ultimately have "cm_credential_id m \<noteq> ''c1''"
    using revoked_never_authenticates [of stored_sample "''c1''" "sample_memory ''c1'' 0" "sample_revocation ''c1''"
        sample_digests AEP_GRANT_TYPE_OAUTH_BEARER "sample_request ''c2''" "[]" m "snd ?run"] by blast
  with m show ?thesis by blast
qed

end
