(* ===== verification/Service_Support.thy ===== *)
theory Service_Support
  imports Service_Stores Credentials
begin

text \<open>
  The functions below the class in \<^verbatim>\<open>service/service.py\<close>: problems, lifecycle results, limits on
  claims, header and URL handling, timestamps.
\<close>

section \<open>Problems\<close>

definition capitalize :: "string \<Rightarrow> string" where
  "capitalize s = (case s of [] \<Rightarrow> [] | c # cs \<Rightarrow> upper_char c # lower cs)"

definition title_of :: "string \<Rightarrow> string" where
  "title_of code = capitalize (replace_sub ''_'' '' '' code)"

definition some_nonempty :: "'a list \<Rightarrow> 'a list option" where
  "some_nonempty xs = (if xs = [] then None else Some xs)"

definition service_problem :: "string \<Rightarrow> string \<Rightarrow> int \<Rightarrow> string list \<Rightarrow> string list \<Rightarrow> bool \<Rightarrow> string list
    \<Rightarrow> 'b service_result result" where
  "service_problem code title status requirements verification owner_action required_ids =
     rbind (check_problem_details \<lparr>problem_type = ''urn:aep:error:'' @ code, problem_title = title,
       problem_status = status, problem_code = code, problem_detail = None, problem_instance = None,
       problem_owner_action = (if owner_action then Some ''true'' else None),
       problem_verification = some_nonempty verification,
       problem_requirements = some_nonempty requirements,
       problem_document_ids = some_nonempty required_ids, problem_extra = []\<rparr>) (\<lambda>p.
     Ok \<lparr>res_status = status, res_body = None, res_content_type = AEP_PROBLEM_MEDIA_TYPE,
       res_headers = (if status = 401
         then [(''WWW-Authenticate'', ''AEP reason='' @ [char_of (34 :: nat)] @ code @ [char_of (34 :: nat)])] else []),
       res_problem = Some p\<rparr>)"

abbreviation plain_problem :: "string \<Rightarrow> string \<Rightarrow> int \<Rightarrow> 'b service_result result" where
  "plain_problem code title status \<equiv> service_problem code title status [] [] False []"

definition document_requirements :: "string list \<Rightarrow> string list \<Rightarrow> 'b service_result result" where
  "document_requirements claims documents =
     service_problem ''requirements_unmet'' ''Requirements unmet'' 422
       (if documents \<noteq> [] then claims @ [''service_documents''] else claims) [] (documents \<noteq> []) documents"

definition validate_enrollment_record :: "enrollment_record \<Rightarrow> string \<Rightarrow> unit result" where
  "validate_enrollment_record r agent_did =
     rbind (check_enrollment_record r) (\<lambda>_.
     require (en_agent_did r = agent_did)
       (Value_Error ''AEP enrollment store returned a mismatched Agent DID''))"

text \<open>\<open>_lifecycle_data\<close>: the members the two lifecycle responses share.\<close>

definition lifecycle_data :: "enrollment_record \<Rightarrow> agent_status \<times> string option \<times> string list option \<times> string list option" where
  "lifecycle_data r = (en_status r, if en_owner_action r then Some ''true'' else None,
     some_nonempty (en_verification r), some_nonempty (en_requirements r))"

definition enrollment_result :: "enrollment_record \<Rightarrow> string \<Rightarrow> string list option
    \<Rightarrow> enroll_response service_result result" where
  "enrollment_result r agent_did declared =
     rbind (validate_enrollment_record r agent_did) (\<lambda>_.
     case lifecycle_data r of (status, owner, verification, requirements) \<Rightarrow>
     rbind (check_enroll_response \<lparr>lr_status = status, lr_owner_action = owner, lr_verification = verification,
       lr_requirements = requirements, lr_extra = [],
       er_document_ids = (if en_status r \<noteq> Agent_Rejected then declared else None)\<rparr>) (\<lambda>b.
     Ok (service_ok b)))"

definition grant_lifecycle_problem :: "enrollment_record \<Rightarrow> 'b service_result result" where
  "grant_lifecycle_problem r =
     (let code = (case en_status r of
          Agent_Pending \<Rightarrow> ''verification_pending''
        | Agent_Suspended \<Rightarrow> ''identity_suspended''
        | Agent_Terminated \<Rightarrow> ''identity_terminated''
        | Agent_Unavailable \<Rightarrow> ''identity_unavailable''
        | _ \<Rightarrow> ''enrollment_failed'')
      in service_problem code (title_of code) (if code \<noteq> ''enrollment_failed'' then 403 else 400)
           (en_requirements r) (en_verification r) (en_owner_action r) [])"

definition validate_enrollment_decision :: "enrollment_decision \<Rightarrow> unit result" where
  "validate_enrollment_decision d =
     rbind (check_enroll_response \<lparr>lr_status = agent_status_of_decision (dc_status d),
       lr_owner_action = (if dc_owner_action d = Some True then Some ''true'' else None),
       lr_verification = (case dc_verification d of None \<Rightarrow> None | Some v \<Rightarrow> some_nonempty v),
       lr_requirements = (case dc_requirements d of None \<Rightarrow> None | Some v \<Rightarrow> some_nonempty v),
       lr_extra = [], er_document_ids = None\<rparr>) (\<lambda>_. Ok ())"

definition accepted_claims :: "claim_values option \<Rightarrow> inspect_claims option \<Rightarrow> claim_values option result" where
  "accepted_claims values advertised =
     (case values of
        None \<Rightarrow> Ok None
      | Some v \<Rightarrow>
          let listed = (\<lambda>names. case names of None \<Rightarrow> [] | Some ns \<Rightarrow> ns);
              names = (case advertised of None \<Rightarrow> [] | Some a \<Rightarrow>
                listed (claims_required a) @ listed (claims_preferred a) @ listed (claims_optional a));
              accepted = filter (\<lambda>(name, _). name \<in> set names) (claim_values_to_wire v)
          in rbind (parse_json_model (Inr (JObj accepted)) claim_values_of_json ''accepted claims'')
               (\<lambda>c. Ok (Some c)))"

section \<open>Limits on claims\<close>

definition valid_idempotency_key :: "string option \<Rightarrow> bool" where
  "valid_idempotency_key v = (case v of None \<Rightarrow> False | Some k \<Rightarrow> strip k \<noteq> [])"

text \<open>A loop over a list that carries the shared counter and stops at the first refusal.\<close>

fun count_all :: "('a \<Rightarrow> int \<Rightarrow> int option) \<Rightarrow> 'a list \<Rightarrow> int \<Rightarrow> int option" where
  "count_all f [] n = Some n"
| "count_all f (x # xs) n = (case f x n of None \<Rightarrow> None | Some n' \<Rightarrow> count_all f xs n')"

lemma count_all_cong [fundef_cong]:
  assumes "xs = ys" and "n = n'" and "\<And>x m. x \<in> set ys \<Longrightarrow> f x m = g x m"
  shows "count_all f xs n = count_all g ys n'"
  unfolding assms(1,2) using assms(3) by (induction ys arbitrary: n') (auto split: option.split)

text \<open>\<open>_within_structure\<close>: \<open>None\<close> where it returns False, otherwise the value of \<open>members[0]\<close>.\<close>

fun within_structure :: "claim_limits \<Rightarrow> int \<Rightarrow> json \<Rightarrow> int \<Rightarrow> int option" where
  "within_structure limits depth (JStr s) n =
     (if int (length s) \<le> maximum_string_length limits then Some n else None)"
| "within_structure limits depth (JObj ms) n =
     (if maximum_object_depth limits < depth then None
      else count_all (\<lambda>(key, v) m.
        if maximum_member_count limits < m + 1 \<or> maximum_string_length limits < int (length key) then None
        else within_structure limits (depth + 1) v (m + 1)) ms n)"
| "within_structure limits depth (JArr vs) n =
     (if depth \<le> maximum_object_depth limits
      then count_all (\<lambda>v m. within_structure limits (depth + 1) v m) vs n else None)"
| "within_structure limits depth _ n = Some n"

definition claims_within_limits :: "(rat \<Rightarrow> string) \<Rightarrow> claim_values option \<Rightarrow> claim_limits \<Rightarrow> bool" where
  "claims_within_limits float_repr claims limits =
     (case claims of
        None \<Rightarrow> True
      | Some c \<Rightarrow> int (length (utf8_encode (dumps_compact float_repr (claims_json c)))) \<le> maximum_encoded_bytes limits
          \<and> within_structure limits 1 (claims_json c) 0 \<noteq> None)"

definition validate_claim_limits :: "claim_limits \<Rightarrow> unit result" where
  "validate_claim_limits limits = require
     (\<not> list_ex (\<lambda>v. v < 1) [maximum_encoded_bytes limits, maximum_member_count limits,
        maximum_object_depth limits, maximum_string_length limits])
     (Value_Error ''AEP Service claim limits must be positive integers'')"

section \<open>Grant types\<close>

fun grant_definitions_from :: "(string, 'w grant_definition) dict \<Rightarrow> 'w grant_definition list
    \<Rightarrow> (string, 'w grant_definition) dict result" where
  "grant_definitions_from acc [] = Ok acc"
| "grant_definitions_from acc (d # ds) =
     (if gd_grant_type d = [] \<or> dict_has (gd_grant_type d) acc
      then Raise (Value_Error ''AEP Grant Type definitions require a unique identifier'')
      else grant_definitions_from (dict_set (gd_grant_type d) d acc) ds)"

definition grant_definitions :: "'w grant_definition list \<Rightarrow> (string, 'w grant_definition) dict result" where
  "grant_definitions ds = grant_definitions_from [] ds"

definition credential_object :: "body \<Rightarrow> members result" where
  "credential_object raw =
     rbind (case reject_duplicate_members (body_doc raw) ''Grant response'' of
         Inl e \<Rightarrow> if is_validation_error e
           then Raise (Value_Error ''AEP Grant response must be valid JSON'') else Raise e
       | Inr j \<Rightarrow> Ok j) (\<lambda>v.
     case v of
       JObj ms \<Rightarrow>
         (case map_of ms ''credential_id'' of
            Some (JStr i) \<Rightarrow> if i = []
              then Raise (Value_Error ''AEP Grant response requires a stable credential_id'') else Ok ms
          | _ \<Rightarrow> Raise (Value_Error ''AEP Grant response requires a stable credential_id''))
     | _ \<Rightarrow> Raise (Value_Error ''AEP Grant response must be a JSON object''))"

section \<open>Headers\<close>

definition normalize_headers :: "(string \<times> header_value) list \<Rightarrow> headers" where
  "normalize_headers source = foldl (\<lambda>acc (name, raw).
     let vs = (case raw of One_Value v \<Rightarrow> [v] | Values xs \<Rightarrow> xs); key = lower name in
     dict_set key ((case map_of acc key of None \<Rightarrow> [] | Some old \<Rightarrow> old) @ vs) acc) [] source"

definition recognized :: "string \<Rightarrow> bool result" where
  "recognized v = (case parse_authorization v Carrier_Standard of
      Inr _ \<Rightarrow> Ok True
    | Inl (Authorization_Error _ _) \<Rightarrow> Ok False
    | Inl e \<Rightarrow> Raise e)"

definition names_aep_scheme :: "string \<Rightarrow> bool" where
  "names_aep_scheme v =
     (lower (hd (split_on (char_of (9 :: nat)) (hd (split_on CHR '' '' v))))
        \<in> set (map (\<lambda>s. lower (scheme_value s)) all_schemes))"

text \<open>\<open>any(...)\<close> and a list comprehension whose condition may raise.\<close>

fun any_result :: "('a \<Rightarrow> bool result) \<Rightarrow> 'a list \<Rightarrow> bool result" where
  "any_result f [] = Ok False"
| "any_result f (x # xs) = rbind (f x) (\<lambda>b. if b then Ok True else any_result f xs)"

fun filter_result :: "('a \<Rightarrow> bool result) \<Rightarrow> 'a list \<Rightarrow> 'a list result" where
  "filter_result f [] = Ok []"
| "filter_result f (x # xs) =
     rbind (f x) (\<lambda>b. rbind (filter_result f xs) (\<lambda>ys. Ok (if b then x # ys else ys)))"

definition select_presentation :: "headers \<Rightarrow> (authorization option \<times> bool) result" where
  "select_presentation hs =
     (let dedicated = header_values ''aep-authorization'' hs;
          standard = header_values ''authorization'' hs in
      if dedicated \<noteq> [] then
        if length dedicated \<noteq> 1 then Ok (None, False)
        else (case parse_authorization (hd dedicated) Carrier_Dedicated of
            Inl (Authorization_Error _ _) \<Rightarrow> Ok (None, False)
          | Inl e \<Rightarrow> Raise e
          | Inr selected \<Rightarrow> rbind (any_result recognized standard) (\<lambda>b.
              if b then Ok (None, False) else Ok (Some selected, True)))
      else
        rbind (any_result (\<lambda>v. if names_aep_scheme v then rbind (recognized v) (\<lambda>b. Ok (\<not> b)) else Ok False)
          standard) (\<lambda>malformed.
        if malformed then Ok (None, False)
        else rbind (filter_result recognized standard) (\<lambda>found.
          if 1 < length found \<or> (found \<noteq> [] \<and> 1 < length standard) then Ok (None, False)
          else if found = [] then Ok (None, True)
          else rbind (parse_authorization (hd found) Carrier_Standard) (\<lambda>a. Ok (Some a, True)))))"

section \<open>URLs, identity methods, durations\<close>

definition absolute_url :: "string option \<Rightarrow> bool \<Rightarrow> string result" where
  "absolute_url v allow_insecure_loopback =
     (case v of
        None \<Rightarrow> Raise (Value_Error ''AEP URL is required'')
      | Some u \<Rightarrow> rbind (urlsplit u) (\<lambda>parsed.
          let loopback = is_loopback_host (hostname parsed) in
          rbind (require (\<not> (\<not> truthy (hostname parsed) \<or> username parsed \<noteq> None \<or> password parsed \<noteq> None
              \<or> fragment parsed \<noteq> []
              \<or> (scheme parsed \<noteq> ''https''
                 \<and> \<not> (allow_insecure_loopback \<and> loopback \<and> scheme parsed = ''http''))))
            (Value_Error ''AEP URL must be absolute HTTPS without credentials or a fragment'')) (\<lambda>_.
          Ok u)))"

definition origin_of :: "string \<Rightarrow> string result" where
  "origin_of v = rbind (urlsplit v) (\<lambda>parsed.
     let host = (case hostname parsed of
         None \<Rightarrow> ''None''
       | Some h \<Rightarrow> if CHR '':'' \<in> set h then ''['' @ h @ '']'' else h)
     in rbind (port parsed) (\<lambda>p.
     Ok (scheme parsed @ ''://'' @ host @ (case p of None \<Rightarrow> [] | Some n \<Rightarrow> CHR '':'' # show_int n))))"

definition identity_method :: "string \<Rightarrow> string" where
  "identity_method v = (case split_max CHR '':'' 2 v of
      [a, b, c] \<Rightarrow> if a = ''did'' \<and> b \<noteq> [] then ''did:'' @ b else []
    | _ \<Rightarrow> [])"

text \<open>A \<open>timedelta\<close> is a number of microseconds.\<close>

definition whole_seconds :: "int \<Rightarrow> int \<Rightarrow> int \<Rightarrow> string \<Rightarrow> int result" where
  "whole_seconds v minimum maximum name =
     rbind (require (v mod 1000000 = 0 \<and> seconds minimum \<le> v \<and> v \<le> seconds maximum)
       (Value_Error (''AEP Service '' @ name @ '' must be whole seconds from '' @ show_int minimum
          @ '' through '' @ show_int maximum))) (\<lambda>_.
     Ok (v div 1000000))"

section \<open>Timestamps\<close>

fun month_and_day :: "int list \<Rightarrow> int \<Rightarrow> int \<Rightarrow> int \<times> int" where
  "month_and_day [] m n = (m, n + 1)"
| "month_and_day (l # ls) m n = (if n < l then (m, n + 1) else month_and_day ls (m + 1) (n - l))"

text \<open>\<open>date.fromordinal\<close>, from days since 1970-01-01: 400-year, 100-year, 4-year and 1-year cycles.\<close>

definition civil_date :: "int \<Rightarrow> int \<times> int \<times> int" where
  "civil_date days =
     (let n = days + 719162;
          n400 = n div 146097; r400 = n mod 146097;
          n100 = min 3 (r400 div 36524); r100 = r400 - n100 * 36524;
          n4 = r100 div 1461; r4 = r100 mod 1461;
          n1 = min 3 (r4 div 365); r1 = r4 - n1 * 365;
          y = n400 * 400 + n100 * 100 + n4 * 4 + n1 + 1
      in case month_and_day (month_lengths y) 1 r1 of (m, d) \<Rightarrow> (y, m, d))"

definition padded :: "nat \<Rightarrow> int \<Rightarrow> string" where
  "padded n k = replicate (n - length (show_nat (nat k))) CHR ''0'' @ show_nat (nat k)"

text \<open>\<open>value.astimezone(UTC).isoformat()\<close> with the offset written Z.\<close>

definition rfc3339 :: "datetime \<Rightarrow> string" where
  "rfc3339 t =
     (let total = instant t div 1000000; us = instant t mod 1000000;
          days = total div 86400; s = total mod 86400 in
      case civil_date days of (y, m, d) \<Rightarrow>
        padded 4 y @ ''-'' @ padded 2 m @ ''-'' @ padded 2 d @ ''T''
        @ padded 2 (s div 3600) @ '':'' @ padded 2 (s mod 3600 div 60) @ '':'' @ padded 2 (s mod 60)
        @ (if us = 0 then [] else ''.'' @ padded 6 us) @ ''Z'')"

end
