(* ===== verification/Service.thy ===== *)
theory Service
  imports Service_Support
begin

text \<open>
  The class \<open>Service\<close> of \<^verbatim>\<open>service/service.py\<close> with its in-memory stores: construction, the four
  commands and the authentication of protected resources. A method is a program on
  \<^verbatim>\<open>service_state\<close>; \<open>'w\<close> is the state of the collaborators. Serialising a model to JSON text and
  parsing the text again is the decoder applied to the wire tree.
\<close>

section \<open>State and construction\<close>

record 'w service_state =
  sv_enrollments :: enrollment_state
  sv_idempotency :: idempotency_store
  sv_replay :: replay_state
  sv_world :: 'w

text \<open>What the standard library computes for the class: the text of a float, \<open>hashlib.sha256\<close> in
  hexadecimal, \<open>json.loads\<close> on bytes.\<close>

record runtime =
  rt_float_repr :: "rat \<Rightarrow> string"
  rt_sha256_hex :: "string \<Rightarrow> string"
  rt_loads :: "string \<Rightarrow> json result"

record 'w service =
  sc_runtime :: runtime
  sc_collaborators :: "'w collaborators"
  sc_allow_insecure_loopback :: bool
  sc_clock_tolerance :: int
  sc_maximum_lifetime :: int
  sc_claim_limits :: claim_limits
  sc_inspect_url :: "string option"
  sc_grant_types :: "(string, 'w grant_definition) dict"
  sc_authentication_methods :: "string list"
  sc_document :: inspect_document

definition require_methods :: "(string, 'w grant_definition) dict \<Rightarrow> string list \<Rightarrow> unit result" where
  "require_methods definitions methods =
     rbind (require (length methods \<le> 16 \<and> distinct methods)
       (Value_Error ''AEP Service authentication methods must be unique and within the limit'')) (\<lambda>_.
     rbind (rmap (\<lambda>m. require (m = AEP_AUTHENTICATION_METHOD_JWT
         \<or> (case map_of definitions m of None \<Rightarrow> False | Some d \<Rightarrow> gd_authenticator d \<noteq> None))
       (Value_Error (''AEP authentication method '' @ [char_of (34 :: nat)] @ m @ [char_of (34 :: nat)]
          @ '' requires a matching authenticator''))) methods)
     (\<lambda>_. Ok ()))"

definition service_document_of :: "string \<Rightarrow> (string, 'w grant_definition) dict \<Rightarrow> string list \<Rightarrow> 'w service_options
    \<Rightarrow> inspect_document result" where
  "service_document_of base definitions methods options =
     (let commands = (if definitions \<noteq> []
            then map command_value [Cmd_Enroll, Cmd_Grant, Cmd_Inspect, Cmd_Revoke, Cmd_Status]
            else map command_value [Cmd_Enroll, Cmd_Inspect, Cmd_Status]);
          configs = map (\<lambda>(name, d). (name, gd_config d))
            (filter (\<lambda>(name, d). grant_type_config_to_wire (gd_config d) \<noteq> []) definitions) in
      rbind (check_bindings \<lparr>bindings_supported = [''http''], bindings_extra = []\<rparr>) (\<lambda>b.
      rbind (check_commands \<lparr>commands_supported = commands, grant_types = some_nonempty (map fst definitions),
        grant_types_config = some_nonempty configs, commands_extra = []\<rparr>) (\<lambda>c.
      rbind (check_core \<lparr>core_algorithms = map algorithm_value (so_signing_algorithms options), core_extra = []\<rparr>) (\<lambda>co.
      rbind (check_http \<lparr>endpoint_base = Some base, http_openapi = so_openapi options, http_extra = []\<rparr>) (\<lambda>h.
      rbind (check_identity \<lparr>identity_methods = so_identity_methods options, identity_extra = []\<rparr>) (\<lambda>i.
      rbind (check_service_identity \<lparr>service_did = so_service_did options, service_extra = []\<rparr>) (\<lambda>s.
      rbind (case some_nonempty (so_extensions options) of
          None \<Rightarrow> Ok None
        | Some e \<Rightarrow> rbind (check_extensions \<lparr>extensions_supported = Some e, extensions_extra = []\<rparr>) (\<lambda>x. Ok (Some x))) (\<lambda>e.
      rbind (case some_nonempty methods of
          None \<Rightarrow> Ok None
        | Some m \<Rightarrow> rbind (check_authentication \<lparr>auth_methods = m\<rparr>) (\<lambda>a. Ok (Some a))) (\<lambda>a.
      check_inspect_document \<lparr>aep_version = AEP_VERSION, inspect_authentication = a, inspect_bindings = b,
        inspect_claims_of = so_claims options, inspect_commands = c, inspect_core = co, inspect_extensions = e,
        inspect_http = h, inspect_identity = i, inspect_service = s,
        service_documents = so_service_documents options, inspect_extra = []\<rparr>)))))))))"

definition make_service :: "runtime \<Rightarrow> 'w collaborators \<Rightarrow> 'w service_options \<Rightarrow> 'w service result" where
  "make_service rt collaborators options =
     rbind (require (so_service_did options \<noteq> []) (Value_Error ''AEP Service DID is required'')) (\<lambda>_.
     rbind (require (so_identity_methods options \<noteq> [] \<and> distinct (so_identity_methods options))
       (Value_Error ''AEP Service requires at least one unique identity method'')) (\<lambda>_.
     rbind (require (distinct (so_signing_algorithms options)
         \<and> set AEP_SIGNING_ALGORITHMS \<subseteq> algorithm_value ` set (so_signing_algorithms options))
       (Value_Error ''AEP Service signing algorithms must uniquely include EdDSA and ES256'')) (\<lambda>_.
     rbind (whole_seconds (so_clock_tolerance options) 0 30 ''clock tolerance'') (\<lambda>tolerance.
     rbind (whole_seconds (so_maximum_lifetime options) 1 300 ''assertion lifetime'') (\<lambda>lifetime.
     rbind (validate_claim_limits (so_claim_limits options)) (\<lambda>_.
     rbind (normalize_endpoint_base (so_endpoint_base options)) (\<lambda>base.
     rbind (case so_inspect_url options of
         None \<Rightarrow> Ok None
       | Some u \<Rightarrow> rbind (absolute_url (Some u) (so_allow_insecure_loopback options)) (\<lambda>v. Ok (Some v))) (\<lambda>inspect.
     rbind (grant_definitions (so_grant_types options)) (\<lambda>definitions.
     rbind (require_methods definitions (so_authentication_methods options)) (\<lambda>_.
     rbind (service_document_of base definitions (so_authentication_methods options) options) (\<lambda>document.
     rbind (case inspect of
         None \<Rightarrow> Ok ()
       | Some u \<Rightarrow> require_service_origin_binding document u (so_allow_insecure_loopback options)) (\<lambda>_.
     Ok \<lparr>sc_runtime = rt, sc_collaborators = collaborators,
       sc_allow_insecure_loopback = so_allow_insecure_loopback options, sc_clock_tolerance = tolerance,
       sc_maximum_lifetime = lifetime, sc_claim_limits = so_claim_limits options, sc_inspect_url = inspect,
       sc_grant_types = definitions, sc_authentication_methods = so_authentication_methods options,
       sc_document = document\<rparr>))))))))))))"

text \<open>The property \<open>inspect_document\<close>.\<close>

definition served_document :: "'w service \<Rightarrow> inspect_document result" where
  "served_document sv = inspect_document_of_json (inspect_document_to_wire (sc_document sv))"

definition initial_state :: "'w \<Rightarrow> 'w service_state" where
  "initial_state w = \<lparr>sv_enrollments = [], sv_idempotency = [], sv_replay = [], sv_world = w\<rparr>"

section \<open>Steps\<close>

definition on_world :: "('w, 'a) prog \<Rightarrow> ('w service_state, 'a) prog" where
  "on_world p s = (case p (sv_world s) of (r, w) \<Rightarrow> (r, s\<lparr>sv_world := w\<rparr>))"

text \<open>\<open>try ... except (AepAssertionError, ValueError): return None\<close>\<close>

definition none_on_refusal :: "('s, 'a) prog \<Rightarrow> ('s, 'a option) prog" where
  "none_on_refusal p s = (case p s of
      (Inr a, s') \<Rightarrow> (Inr (Some a), s')
    | (Inl e, s') \<Rightarrow> if is_assertion_error e \<or> is_value_error e then (Inr None, s') else (Inl e, s'))"

fun for_each :: "('a \<Rightarrow> ('s, unit) prog) \<Rightarrow> 'a list \<Rightarrow> ('s, unit) prog" where
  "for_each f [] = sret ()"
| "for_each f (x # xs) = sbind (f x) (\<lambda>_. for_each f xs)"

definition now_of :: "'w service \<Rightarrow> ('w service_state, datetime) prog" where
  "now_of sv = sbind (on_world (co_clock (sc_collaborators sv))) (\<lambda>v.
     sbind (slift (require (aware v) (Value_Error ''AEP Service clock must return an offset-aware datetime''))) (\<lambda>_.
     sret v))"

definition parse_request :: "body \<Rightarrow> (json \<Rightarrow> 'a result) \<Rightarrow> 'a option result" where
  "parse_request data model = (case parse_json_model (body_doc data) model ''AEP request'' of
      Inr v \<Rightarrow> Ok (Some v)
    | Inl e \<Rightarrow> if is_validation_error e then Ok None else Raise e)"

section \<open>Assertions\<close>

definition valid_assertion :: "'w service \<Rightarrow> members \<Rightarrow> assertion_claims \<Rightarrow> assertion_operation \<Rightarrow> string option
    \<Rightarrow> datetime \<Rightarrow> bool result" where
  "valid_assertion sv header given operation wanted now =
     (let allow = sc_allow_insecure_loopback sv; document = sc_document sv;
          attempt = rbind (assertion_claims_of_json allow (assertion_claims_to_wire given)) (\<lambda>claims.
            rbind (case resource claims of
                None \<Rightarrow> Ok None
              | Some r \<Rightarrow> rbind (normalize_resource_uri r allow) (\<lambda>u. Ok (Some u))) (\<lambda>claimed.
            Ok (claims, claimed)))
      in case attempt of
           Inl e \<Rightarrow> if is_value_error e then Ok False else Raise e
         | Inr (claims, claimed) \<Rightarrow>
             let current = timestamp now in
             Ok (map_of header ''typ'' = Some (JStr ''JWT'')
               \<and> (case map_of header ''kid'' of
                    Some (JStr key_id) \<Rightarrow> fst (partition_at CHR ''#'' key_id) = sub claims | _ \<Rightarrow> False)
               \<and> (case map_of header ''alg'' of
                    Some (JStr a) \<Rightarrow> a \<in> set (core_algorithms (inspect_core document)) | _ \<Rightarrow> False)
               \<and> aud claims = service_did (inspect_service document)
               \<and> iss claims = sub claims
               \<and> op claims = operation
               \<and> claimed = wanted
               \<and> identity_method (sub claims) \<in> set (identity_methods (inspect_identity document))
               \<and> exp_at claims - iat claims \<le> sc_maximum_lifetime sv
               \<and> iat claims \<le> current + sc_clock_tolerance sv
               \<and> current - sc_clock_tolerance sv < exp_at claims))"

definition algorithm_of_name :: "string \<Rightarrow> signing_algorithm result" where
  "algorithm_of_name v = (case enum_of algorithm_value all_algorithms v of
      Some a \<Rightarrow> Ok a | None \<Rightarrow> Raise (Value_Error (v @ '' is not a valid SigningAlgorithm'')))"

definition consume_assertion :: "'w service \<Rightarrow> assertion_claims \<Rightarrow> datetime \<Rightarrow> ('w service_state, bool) prog" where
  "consume_assertion sv claims now s =
     (case replay_consume \<lparr>rp_expires_at = exp_at claims + sc_clock_tolerance sv, rp_jwt_id = jti claims,
         rp_subject = sub claims\<rparr> (timestamp now) (sv_replay s) of
        (r, st) \<Rightarrow> (r, s\<lparr>sv_replay := st\<rparr>))"

definition authenticate_assertion :: "'w service \<Rightarrow> command_options \<Rightarrow> assertion_operation \<Rightarrow> string option
    \<Rightarrow> ('w service_state, assertion_claims option) prog" where
  "authenticate_assertion sv options operation wanted =
     (if client_assertion options = [] then sret None
      else
      sbind (now_of sv) (\<lambda>now.
      sbind (slift (rmap algorithm_of_name (core_algorithms (inspect_core (sc_document sv))))) (\<lambda>algorithms.
      let context = \<lparr>vc_algorithms = algorithms, vc_allow = sc_allow_insecure_loopback sv,
            vc_tolerance = seconds (sc_clock_tolerance sv), vc_current_time = now,
            vc_idempotency_key = opt_idempotency_key options, vc_operation = operation, vc_resource = wanted,
            vc_service_did = service_did (inspect_service (sc_document sv))\<rparr> in
      sbind (none_on_refusal (
        sbind (on_world (co_verify (sc_collaborators sv) (client_assertion options) context)) (\<lambda>claims.
        sbind (slift (decode_jwt_unverified (rt_loads (sc_runtime sv)) (client_assertion options))) (\<lambda>(header, _).
        sret (header, claims))))) (\<lambda>verified.
      case verified of
        None \<Rightarrow> sret None
      | Some (header, claims) \<Rightarrow>
          sbind (slift (valid_assertion sv header claims operation wanted now)) (\<lambda>valid.
          if \<not> valid then sret None
          else sbind (consume_assertion sv claims now) (\<lambda>consumed.
            sret (if consumed then Some claims else None)))))))"

section \<open>Idempotent execution\<close>

definition response_value :: "('b \<Rightarrow> json) \<Rightarrow> 'b service_result \<Rightarrow> json" where
  "response_value enc result = (case res_problem result of
      Some p \<Rightarrow> problem_details_to_wire p
    | None \<Rightarrow> (case res_body result of None \<Rightarrow> JNull | Some b \<Rightarrow> enc b))"

definition idempotent :: "'w service \<Rightarrow> string \<Rightarrow> string \<Rightarrow> string \<Rightarrow> json \<Rightarrow> ('b \<Rightarrow> json) \<Rightarrow> (body \<Rightarrow> 'b result)
    \<Rightarrow> ('w service_state, 'b service_result) prog \<Rightarrow> ('w service_state, 'b service_result) prog" where
  "idempotent sv agent_did command key request enc response_parser operation =
     (let fr = rt_float_repr (sc_runtime sv);
          canonical = utf8_encode (dumps_canonical fr request);
          store = sbind operation (\<lambda>result.
            let v = response_value enc result in
            sbind (now_of sv) (\<lambda>now.
            slift (check_stored_response \<lparr>st_body = body_of_text v (dumps_compact fr v),
              st_content_type = res_content_type result, st_created_at = now,
              st_headers = res_headers result, st_status = res_status result\<rparr>))) in
      sbind (idempotency_execute sv_idempotency sv_idempotency_update (now_of sv)
        \<lparr>ii_agent_did = agent_did, ii_command = command, ii_key = key,
         ii_hash = ''sha256:'' @ rt_sha256_hex (sc_runtime sv) canonical\<rparr> store) (\<lambda>result.
      if ir_state result = Idem_Conflict
      then slift (plain_problem ''idempotency_conflict'' ''Idempotency conflict'' 409)
      else case ir_response result of
        None \<Rightarrow> sraise (Value_Error ''AEP idempotency store omitted its stored response'')
      | Some stored \<Rightarrow>
          if st_content_type stored = AEP_PROBLEM_MEDIA_TYPE then
            sbind (slift (parse_json_model (body_doc (st_body stored)) problem_details_of_json ''Problem response'')) (\<lambda>p.
            sret \<lparr>res_status = st_status stored, res_body = None, res_content_type = st_content_type stored,
              res_headers = st_headers stored, res_problem = Some p\<rparr>)
          else
            sbind (slift (response_parser (st_body stored))) (\<lambda>b.
            sret \<lparr>res_status = st_status stored, res_body = Some b, res_content_type = st_content_type stored,
              res_headers = st_headers stored, res_problem = None\<rparr>)))"

definition model_parser :: "(json \<Rightarrow> 'b result) \<Rightarrow> body \<Rightarrow> 'b result" where
  "model_parser model data = parse_json_model (body_doc data) model ''response''"

definition not_recognized :: "('s, 'b service_result) prog" where
  "not_recognized = slift (plain_problem ''not_recognized'' ''Not recognized'' 401)"

definition invalid_request :: "('s, 'b service_result) prog" where
  "invalid_request = slift (plain_problem ''invalid_request'' ''Invalid request'' 400)"

section \<open>Service Documents and required claims\<close>

definition documents_of :: "'w service \<Rightarrow> service_document list" where
  "documents_of sv = (case service_documents (sc_document sv) of None \<Rightarrow> [] | Some ds \<Rightarrow> ds)"

definition missing_document_ids :: "'w service \<Rightarrow> enrollment_record option \<Rightarrow> string list" where
  "missing_document_ids sv r =
     map doc_id (filter (\<lambda>item. doc_enrollment item = ''required''
       \<and> (case r of None \<Rightarrow> True
          | Some rc \<Rightarrow> doc_id item \<notin> set (en_acknowledged rc) \<or> doc_id item \<in> set (en_required_documents rc)))
       (documents_of sv))"

definition accepted_document_ids :: "'w service \<Rightarrow> string list \<Rightarrow> string list option \<Rightarrow> string list" where
  "accepted_document_ids sv existing declared =
     existing @ filter (\<lambda>i. i \<in> doc_id ` set (documents_of sv) \<and> i \<notin> set existing)
       (case declared of None \<Rightarrow> [] | Some ds \<Rightarrow> ds)"

definition required_claims :: "'w service \<Rightarrow> string list" where
  "required_claims sv = (case inspect_claims_of (sc_document sv) of
      None \<Rightarrow> []
    | Some c \<Rightarrow> (case claims_required c of None \<Rightarrow> [] | Some names \<Rightarrow> names))"

section \<open>Enroll\<close>

text \<open>\<open>_update_enrollment\<close>\<close>

definition merged_claims :: "claim_values option \<Rightarrow> claim_values option \<Rightarrow> claim_values result" where
  "merged_claims existing supplied =
     (let old = (case existing of None \<Rightarrow> [] | Some c \<Rightarrow> claim_values_to_wire c);
          merged = (case supplied of None \<Rightarrow> old | Some c \<Rightarrow> dict_update old (claim_values_to_wire c))
      in parse_json_model (Inr (JObj merged)) claim_values_of_json ''enrollment claims'')"

definition update_enrollment :: "'w service \<Rightarrow> enroll_request \<Rightarrow> enrollment_record
    \<Rightarrow> ('w service_state, enroll_response service_result) prog" where
  "update_enrollment sv request existing =
     sbind (slift (validate_enrollment_record existing (er_agent_did request))) (\<lambda>_.
     sbind (now_of sv) (\<lambda>now.
     sbind (on_world (co_policy (sc_collaborators sv) request now)) (\<lambda>decision.
     sbind (slift (validate_enrollment_decision decision)) (\<lambda>_.
     if dc_status decision = Decision_Rejected
     then slift (plain_problem ''enrollment_failed'' ''Enrollment failed'' 403)
     else if \<not> dc_update_existing decision
     then slift (enrollment_result existing (er_agent_did request) (er_acknowledged request))
     else
     sbind (slift (accepted_claims (er_claims request) (inspect_claims_of (sc_document sv)))) (\<lambda>supplied.
     sbind (slift (merged_claims (en_claims existing) supplied)) (\<lambda>claims.
     let missing = missing_required_claim_names (required_claims sv) (Some claims);
         missing_documents = (if er_acknowledged request = None then missing_document_ids sv (Some existing) else []) in
     if missing \<noteq> [] \<or> missing_documents \<noteq> [] then slift (document_requirements missing missing_documents)
     else
     sbind (slift (check_enrollment_record (existing\<lparr>en_claims := Some claims,
       en_acknowledged := accepted_document_ids sv (en_acknowledged existing) (er_acknowledged request),
       en_required_documents := filter (\<lambda>i. i \<notin> set (case er_acknowledged request of None \<Rightarrow> [] | Some ds \<Rightarrow> ds))
         (en_required_documents existing),
       en_owner_action := (case dc_owner_action decision of None \<Rightarrow> en_owner_action existing | Some b \<Rightarrow> b),
       en_requirements := (case dc_requirements decision of None \<Rightarrow> en_requirements existing | Some r \<Rightarrow> r),
       en_verification := (case dc_verification decision of None \<Rightarrow> en_verification existing | Some v \<Rightarrow> v),
       en_updated_at := now\<rparr>))) (\<lambda>rc.
     sbind (smodify (sv_enrollments_update (enrollment_save rc))) (\<lambda>_.
     slift (enrollment_result rc (er_agent_did request) (er_acknowledged request))))))))))"

definition create_enrollment :: "'w service \<Rightarrow> string \<Rightarrow> enroll_request \<Rightarrow> ('w service_state, enrollment_record) prog" where
  "create_enrollment sv agent_did request =
     sbind (now_of sv) (\<lambda>now.
     sbind (on_world (co_policy (sc_collaborators sv) request now)) (\<lambda>decision.
     sbind (slift (validate_enrollment_decision decision)) (\<lambda>_.
     sbind (on_world (co_identifier (sc_collaborators sv))) (\<lambda>identifier.
     sbind (slift (require (identifier \<noteq> [])
       (Value_Error ''AEP enrollment identifier provider returned an empty identifier''))) (\<lambda>_.
     sbind (slift (accepted_claims (er_claims request) (inspect_claims_of (sc_document sv)))) (\<lambda>claims.
     slift (check_enrollment_record \<lparr>en_agent_did = agent_did, en_claims = claims, en_created_at = now,
       en_id = identifier, en_owner_action = (dc_owner_action decision = Some True),
       en_requirements = (case dc_requirements decision of None \<Rightarrow> [] | Some r \<Rightarrow> r),
       en_since = now, en_status = agent_status_of_decision (dc_status decision), en_updated_at = now,
       en_verification = (case dc_verification decision of None \<Rightarrow> [] | Some v \<Rightarrow> v),
       en_acknowledged = (if dc_status decision = Decision_Rejected then []
         else accepted_document_ids sv [] (er_acknowledged request)),
       en_required_documents = []\<rparr>)))))))"

definition effective_request :: "'w service \<Rightarrow> enroll_request \<Rightarrow> enroll_request result" where
  "effective_request sv request =
     (if \<not> advertises_service_documents (inspect_extensions (sc_document sv))
      then parse_json_model (Inr (JObj (filter (\<lambda>(k, _). k \<noteq> ''acknowledged_document_ids'')
             (enroll_request_to_wire request)))) enroll_request_of_json ''Enroll request''
      else Ok request)"

definition enroll_execute :: "'w service \<Rightarrow> string \<Rightarrow> enroll_request
    \<Rightarrow> ('w service_state, enroll_response service_result) prog" where
  "enroll_execute sv agent_did request =
     sbind (slift (effective_request sv request)) (\<lambda>effective.
     sbind (sget (\<lambda>s. enrollment_find agent_did (sv_enrollments s))) (\<lambda>found.
     case found of
       Some existing \<Rightarrow> update_enrollment sv effective existing
     | None \<Rightarrow>
         let missing = missing_required_claim_names (required_claims sv) (er_claims effective);
             missing_documents = (if er_acknowledged effective = None then missing_document_ids sv None else []) in
         if missing \<noteq> [] \<or> missing_documents \<noteq> [] then slift (document_requirements missing missing_documents)
         else
         sbind (find_or_create sv_enrollments sv_enrollments_update agent_did
           (create_enrollment sv agent_did effective)) (\<lambda>(rc, _).
         slift (enrollment_result rc agent_did (er_acknowledged effective)))))"

definition service_enroll :: "'w service \<Rightarrow> body \<Rightarrow> command_options
    \<Rightarrow> ('w service_state, enroll_response service_result) prog" where
  "service_enroll sv data options =
     sbind (authenticate_assertion sv options Op_Enroll None) (\<lambda>authenticated.
     case authenticated of
       None \<Rightarrow> not_recognized
     | Some claims \<Rightarrow>
         sbind (slift (parse_request data enroll_request_of_json)) (\<lambda>parsed.
         case (parsed, opt_idempotency_key options) of
           (Some request, Some key) \<Rightarrow>
             if er_agent_did request \<noteq> sub claims
                \<or> \<not> claims_within_limits (rt_float_repr (sc_runtime sv)) (er_claims request) (sc_claim_limits sv)
                \<or> \<not> valid_idempotency_key (Some key)
                \<or> (er_idempotency_key request \<noteq> None \<and> er_idempotency_key request \<noteq> Some key)
             then invalid_request
             else idempotent sv (sub claims) (command_value Cmd_Enroll) key (JObj (enroll_request_to_wire request))
               enroll_response_dump (model_parser enroll_response_of_json) (enroll_execute sv (sub claims) request)
         | _ \<Rightarrow> invalid_request))"

section \<open>Status\<close>

definition service_status :: "'w service \<Rightarrow> command_options \<Rightarrow> ('w service_state, status_response service_result) prog" where
  "service_status sv options =
     sbind (authenticate_assertion sv options Op_Status None) (\<lambda>authenticated.
     case authenticated of
       None \<Rightarrow> not_recognized
     | Some claims \<Rightarrow>
         sbind (sget (\<lambda>s. enrollment_find (sub claims) (sv_enrollments s))) (\<lambda>found.
         case found of
           None \<Rightarrow> not_recognized
         | Some r \<Rightarrow>
             sbind (slift (validate_enrollment_record r (sub claims))) (\<lambda>_.
             case lifecycle_data r of (status, owner, verification, requirements) \<Rightarrow>
             sbind (slift (check_status_response \<lparr>lr_status = status, lr_owner_action = owner,
               lr_verification = verification, lr_requirements = requirements, lr_extra = [],
               sr_since = Some (rfc3339 (en_since r))\<rparr>)) (\<lambda>b.
             sret (service_ok b)))))"

section \<open>Grant\<close>

definition grant_execute :: "'w service \<Rightarrow> string \<Rightarrow> grant_request \<Rightarrow> ('w service_state, members service_result) prog" where
  "grant_execute sv agent_did request =
     sbind (sget (\<lambda>s. enrollment_find agent_did (sv_enrollments s))) (\<lambda>found.
     case found of
       None \<Rightarrow> not_recognized
     | Some r \<Rightarrow>
         sbind (slift (validate_enrollment_record r agent_did)) (\<lambda>_.
         case map_of (sc_grant_types sv) (gr_grant_type request) of
           None \<Rightarrow> slift (plain_problem ''unsupported_grant_type'' ''Unsupported grant type'' 400)
         | Some definition \<Rightarrow>
             if en_status r \<noteq> Agent_Active then slift (grant_lifecycle_problem r)
             else
             let missing = missing_required_claim_names (required_claims sv) (en_claims r);
                 missing_documents = missing_document_ids sv (Some r) in
             if missing \<noteq> [] \<or> missing_documents \<noteq> [] then slift (document_requirements missing missing_documents)
             else
             sbind (now_of sv) (\<lambda>now.
             sbind (on_world (gd_grant definition request \<lparr>gc_agent_did = agent_did, gc_enrollment = r,
               gc_grant_type = gr_grant_type request, gc_current_time = now\<rparr>)) (\<lambda>raw.
             sbind (slift (credential_object raw)) (\<lambda>credential.
             sret (service_ok credential))))))"

definition service_grant :: "'w service \<Rightarrow> body \<Rightarrow> command_options \<Rightarrow> ('w service_state, members service_result) prog" where
  "service_grant sv data options =
     sbind (authenticate_assertion sv options Op_Grant None) (\<lambda>authenticated.
     case authenticated of
       None \<Rightarrow> not_recognized
     | Some claims \<Rightarrow>
         sbind (slift (parse_request data grant_request_of_json)) (\<lambda>parsed.
         case (parsed, opt_idempotency_key options) of
           (Some request, Some key) \<Rightarrow>
             if \<not> valid_idempotency_key (Some key) then invalid_request
             else idempotent sv (sub claims) (command_value Cmd_Grant) key (grant_request_to_wire request)
               JObj credential_object (grant_execute sv (sub claims) request)
         | _ \<Rightarrow> invalid_request))"

section \<open>Revoke\<close>

definition revoke_one :: "'w service \<Rightarrow> string \<Rightarrow> revoke_request \<Rightarrow> enrollment_record \<Rightarrow> string
    \<Rightarrow> ('w service_state, unit) prog" where
  "revoke_one sv agent_did request r grant_type =
     (case map_of (sc_grant_types sv) grant_type of
        None \<Rightarrow> sraise (Key_Error grant_type)
      | Some definition \<Rightarrow>
          sbind (now_of sv) (\<lambda>now.
          on_world (gd_revoke definition request \<lparr>gc_agent_did = agent_did, gc_enrollment = r,
            gc_grant_type = grant_type, gc_current_time = now\<rparr>)))"

definition revoke_execute :: "'w service \<Rightarrow> string \<Rightarrow> revoke_request \<Rightarrow> ('w service_state, revoke_response service_result) prog" where
  "revoke_execute sv agent_did request =
     sbind (sget (\<lambda>s. enrollment_find agent_did (sv_enrollments s))) (\<lambda>found.
     case found of
       None \<Rightarrow> not_recognized
     | Some r \<Rightarrow>
         sbind (slift (validate_enrollment_record r agent_did)) (\<lambda>_.
         let names = (if rr_all request = Some ''true'' then sort (map fst (sc_grant_types sv))
               else case rr_grant_type request of None \<Rightarrow> [] | Some g \<Rightarrow> [g]);
             revoke_all = sbind (for_each (revoke_one sv agent_did request r) names) (\<lambda>_.
               sret (service_ok Revoke_Response)) in
         case rr_grant_type request of
           None \<Rightarrow> revoke_all
         | Some g \<Rightarrow>
             (case map_of (sc_grant_types sv) g of
                None \<Rightarrow> slift (plain_problem ''unsupported_grant_type'' ''Unsupported grant type'' 400)
              | Some definition \<Rightarrow>
                  if rr_credential_id request \<noteq> None
                     \<and> supports_per_credential_revoke (gd_config definition) \<noteq> Some ''true''
                  then invalid_request else revoke_all)))"

definition service_revoke :: "'w service \<Rightarrow> body \<Rightarrow> command_options \<Rightarrow> ('w service_state, revoke_response service_result) prog" where
  "service_revoke sv data options =
     sbind (authenticate_assertion sv options Op_Revoke None) (\<lambda>authenticated.
     case authenticated of
       None \<Rightarrow> not_recognized
     | Some claims \<Rightarrow>
         sbind (slift (parse_request data revoke_request_of_json)) (\<lambda>parsed.
         case (parsed, opt_idempotency_key options) of
           (Some request, Some key) \<Rightarrow>
             if \<not> valid_idempotency_key (Some key) then invalid_request
             else idempotent sv (sub claims) (command_value Cmd_Revoke) key (revoke_request_to_wire request)
               revoke_response_dump (model_parser revoke_response_of_json) (revoke_execute sv (sub claims) request)
         | _ \<Rightarrow> invalid_request))"

section \<open>Protected resources\<close>

definition active_agent :: "'w service \<Rightarrow> string \<Rightarrow> ('w service_state, bool) prog" where
  "active_agent sv agent_did =
     sbind (sget (\<lambda>s. enrollment_find agent_did (sv_enrollments s))) (\<lambda>found.
     case found of
       None \<Rightarrow> sret False
     | Some r \<Rightarrow> sbind (slift (validate_enrollment_record r agent_did)) (\<lambda>_. sret (en_status r = Agent_Active)))"

definition protected_problem :: "'w service \<Rightarrow> string \<Rightarrow> string \<Rightarrow> resource_result result" where
  "protected_problem sv code target =
     (let q = [char_of (34 :: nat)] in
      rbind (case sc_inspect_url sv of
          Some u \<Rightarrow> Ok u
        | None \<Rightarrow> rbind (origin_of target) (\<lambda>o'. Ok (o' @ ''/.well-known/aep''))) (\<lambda>inspect.
      rbind (plain_problem code (title_of code) 401) (\<lambda>result.
      Ok \<lparr>pa_authenticated = False, pa_principal = None, pa_response = Some (result\<lparr>res_headers :=
        [(''WWW-Authenticate'', ''AEP service_did='' @ q @ service_did (inspect_service (sc_document sv)) @ q
          @ '',inspect='' @ q @ inspect @ q @ '',reason='' @ q @ code @ q)]\<rparr>)\<rparr>)))"

definition authenticated_as :: "principal \<Rightarrow> resource_result" where
  "authenticated_as p = \<lparr>pa_authenticated = True, pa_principal = Some p, pa_response = None\<rparr>"

text \<open>The loop over the configured methods; \<open>presented\<close> tells whether a credential was seen.\<close>

fun try_methods :: "'w service \<Rightarrow> authentication_input \<Rightarrow> string \<Rightarrow> bool \<Rightarrow> string list
    \<Rightarrow> ('w service_state, resource_result) prog" where
  "try_methods sv input target presented [] =
     slift (protected_problem sv (if presented then ''not_recognized'' else ''authentication_required'') target)"
| "try_methods sv input target presented (m # ms) =
     (if m = AEP_AUTHENTICATION_METHOD_JWT then try_methods sv input target presented ms
      else case map_of (sc_grant_types sv) m of
        None \<Rightarrow> sraise (Key_Error m)
      | Some definition \<Rightarrow>
          (case gd_authenticator definition of
             None \<Rightarrow> sraise (Type_Error ''authenticator is None'')
           | Some authenticator \<Rightarrow>
               sbind (if presented then sret True else on_world (au_has_presentation authenticator input)) (\<lambda>presented'.
               sbind (on_world (au_authenticate authenticator input)) (\<lambda>found.
               case found of
                 None \<Rightarrow> try_methods sv input target presented' ms
               | Some p \<Rightarrow>
                   sbind (slift (require (pr_agent_did p \<noteq> [] \<and> pr_kind p = Kind_Session_Credential
                       \<and> pr_method p = m \<and> pr_grant_type p = Some m)
                     (Value_Error ''AEP credential authenticator returned an invalid principal''))) (\<lambda>_.
                   sbind (active_agent sv (pr_agent_did p)) (\<lambda>active.
                   if active then sret (authenticated_as p)
                   else slift (protected_problem sv ''not_recognized'' target)))))))"

definition authenticate_protected_resource :: "'w service \<Rightarrow> resource_request
    \<Rightarrow> ('w service_state, resource_result) prog" where
  "authenticate_protected_resource sv request =
     sbind (slift (rbind (absolute_url (Some (prr_url request)) (sc_allow_insecure_loopback sv)) (\<lambda>u.
       normalize_resource_uri u (sc_allow_insecure_loopback sv)))) (\<lambda>target.
     let hs = normalize_headers (prr_headers request); methods = sc_authentication_methods sv in
     sbind (slift (select_presentation hs)) (\<lambda>(presentation, unambiguous).
     if \<not> unambiguous then slift (protected_problem sv ''not_recognized'' target)
     else case presentation of
       Some a \<Rightarrow>
         if auth_scheme_of a = Scheme_AEP then
           if AEP_AUTHENTICATION_METHOD_JWT \<notin> set methods
           then slift (protected_problem sv ''unsupported_authentication_method'' target)
           else
           sbind (authenticate_assertion sv \<lparr>client_assertion = credentials a, opt_idempotency_key = None\<rparr>
             Op_Authenticate (Some target)) (\<lambda>authenticated.
           case authenticated of
             None \<Rightarrow> slift (protected_problem sv ''not_recognized'' target)
           | Some claims \<Rightarrow>
               sbind (active_agent sv (sub claims)) (\<lambda>active.
               if active then sret (authenticated_as \<lparr>pr_agent_did = sub claims, pr_kind = Kind_AEP_JWT,
                 pr_method = AEP_AUTHENTICATION_METHOD_JWT, pr_credential_id = None, pr_grant_type = None,
                 pr_scopes = []\<rparr>)
               else slift (protected_problem sv ''not_recognized'' target)))
         else
           let m = (if auth_scheme_of a = Scheme_Basic then AEP_GRANT_TYPE_BASIC else AEP_GRANT_TYPE_OAUTH_BEARER) in
           if m \<notin> set methods then slift (protected_problem sv ''unsupported_authentication_method'' target)
           else sbind (now_of sv) (\<lambda>now.
             try_methods sv \<lparr>ci_headers = hs, ci_method = prr_method request, ci_current_time = now,
               ci_url = target\<rparr> target True methods)
     | None \<Rightarrow> sbind (now_of sv) (\<lambda>now.
         try_methods sv \<lparr>ci_headers = hs, ci_method = prr_method request, ci_current_time = now,
           ci_url = target\<rparr> target False methods)))"

end
