(* ===== verification/Service_Sample.thy ===== *)
theory Service_Sample
  imports Service
begin

text \<open>
  A concrete Service for the instances of the theorems: a clock that moves one second per reading, an
  identifier provider, a policy that accepts everyone and a verifier that takes the JWT ID of an assertion
  from its text. The hash is the identity, so that different requests have different hashes.
\<close>

definition plain_time :: "int \<Rightarrow> datetime" where
  "plain_time n = \<lparr>instant = seconds n, utcoffset = Some 0\<rparr>"

definition plain_claims :: "string \<Rightarrow> verification_context \<Rightarrow> assertion_claims" where
  "plain_claims jwt_id context = \<lparr>aud = vc_service_did context, exp_at = 1200, iat = 1000,
     iss = ''did:web:agent.example'', jti = jwt_id, op = vc_operation context, resource = vc_resource context,
     sub = ''did:web:agent.example'', assertion_extra = []\<rparr>"

definition plain_collaborators :: "int collaborators" where
  "plain_collaborators = \<lparr>co_clock = (\<lambda>w. (Inr (plain_time w), w + 1)), co_identifier = sret ''enrollment-1'',
     co_policy = static_policy None, co_verify = (\<lambda>token context w. (Inr (plain_claims token context), w))\<rparr>"

definition plain_runtime :: runtime where
  "plain_runtime = \<lparr>rt_float_repr = (\<lambda>_. []), rt_sha256_hex = (\<lambda>s. s),
     rt_loads = (\<lambda>b. if b = ''h'' then Ok (JObj [(''alg'', JStr ''EdDSA''), (''typ'', JStr ''JWT''),
       (''kid'', JStr ''did:web:agent.example#key'')]) else if b = ''p'' then Ok (JObj []) else Raise (Value_Error ''not JSON''))\<rparr>"

definition plain_options :: "int service_options" where
  "plain_options = \<lparr>so_service_did = ''did:web:service.example'', so_identity_methods = [''did:web''],
     so_authentication_methods = [AEP_AUTHENTICATION_METHOD_JWT], so_allow_insecure_loopback = False,
     so_claim_limits = default_claim_limits,
     so_claims = Some \<lparr>claims_required = Some [''contact.email''], claims_preferred = None, claims_optional = None,
       claims_extra = []\<rparr>,
     so_clock_tolerance = seconds 5, so_endpoint_base = ''/aep'', so_extensions = [], so_grant_types = [],
     so_inspect_url = None, so_maximum_lifetime = seconds 300, so_openapi = None, so_service_documents = None,
     so_signing_algorithms = [EdDSA, ES256]\<rparr>"

text \<open>Assertions are told apart by their signature part.\<close>

definition plain_assertion :: "string \<Rightarrow> string" where
  "plain_assertion x = ''aA.cA.'' @ x"

definition plain_command :: "string \<Rightarrow> string \<Rightarrow> command_options" where
  "plain_command x key = \<lparr>client_assertion = plain_assertion x, opt_idempotency_key = Some key\<rparr>"

definition plain_enroll_body :: "string \<Rightarrow> body" where
  "plain_enroll_body mail = \<lparr>body_size = 64, body_doc = Inr (JObj [(''agent_did'', JStr ''did:web:agent.example''),
     (''claims'', JObj [(''contact.email'', JStr mail)])])\<rparr>"

definition plain_access :: "string \<Rightarrow> resource_request" where
  "plain_access x = \<lparr>prr_headers = [(''Authorization'', One_Value (''AEP '' @ plain_assertion x))],
     prr_method = ''GET'', prr_url = ''https://service.example/data''\<rparr>"

text \<open>The Service these options make.\<close>

definition plain_document :: inspect_document where
  "plain_document = \<lparr>aep_version = ''1.0'', inspect_authentication = Some \<lparr>auth_methods = [''aep-jwt'']\<rparr>,
     inspect_bindings = \<lparr>bindings_supported = [''http''], bindings_extra = []\<rparr>,
     inspect_claims_of = Some \<lparr>claims_required = Some [''contact.email''], claims_preferred = None,
       claims_optional = None, claims_extra = []\<rparr>,
     inspect_commands = \<lparr>commands_supported = [''enroll'', ''inspect'', ''status''], grant_types = None,
       grant_types_config = None, commands_extra = []\<rparr>,
     inspect_core = \<lparr>core_algorithms = [''EdDSA'', ''ES256''], core_extra = []\<rparr>, inspect_extensions = None,
     inspect_http = \<lparr>endpoint_base = Some ''/aep/'', http_openapi = None, http_extra = []\<rparr>,
     inspect_identity = \<lparr>identity_methods = [''did:web''], identity_extra = []\<rparr>,
     inspect_service = \<lparr>service_did = ''did:web:service.example'', service_extra = []\<rparr>,
     service_documents = None, inspect_extra = []\<rparr>"

definition plain_service :: "int service" where
  "plain_service = \<lparr>sc_runtime = plain_runtime, sc_collaborators = plain_collaborators,
     sc_allow_insecure_loopback = False, sc_clock_tolerance = 5, sc_maximum_lifetime = 300,
     sc_claim_limits = default_claim_limits, sc_inspect_url = None, sc_grant_types = [],
     sc_authentication_methods = [''aep-jwt''], sc_document = plain_document\<rparr>"

lemma plain_document_made:
  "service_document_of ''/aep/'' [] [AEP_AUTHENTICATION_METHOD_JWT] plain_options = Inr plain_document"
  by code_simp

lemma plain_made: "make_service plain_runtime plain_collaborators plain_options = Inr plain_service"
proof -
  have "normalize_endpoint_base (so_endpoint_base plain_options) = Inr ''/aep/''"
    "whole_seconds (so_clock_tolerance plain_options) 0 30 ''clock tolerance'' = Inr 5"
    "whole_seconds (so_maximum_lifetime plain_options) 1 300 ''assertion lifetime'' = Inr 300"
    "validate_claim_limits (so_claim_limits plain_options) = Inr ()"
    "require_methods ([] :: (string, int grant_definition) dict) (so_authentication_methods plain_options) = Inr ()"
    "so_service_did plain_options \<noteq> [] \<and> so_identity_methods plain_options \<noteq> []
      \<and> distinct (so_identity_methods plain_options) \<and> distinct (so_signing_algorithms plain_options)
      \<and> set AEP_SIGNING_ALGORITHMS \<subseteq> algorithm_value ` set (so_signing_algorithms plain_options)"
    by code_simp+
  moreover have "so_inspect_url plain_options = None" "so_grant_types plain_options = []"
    "so_authentication_methods plain_options = [AEP_AUTHENTICATION_METHOD_JWT]"
    "so_claim_limits plain_options = default_claim_limits" "so_allow_insecure_loopback plain_options = False"
    by (simp_all add: plain_options_def)
  ultimately show ?thesis
    using plain_document_made
    by (simp add: make_service_def grant_definitions_def plain_service_def require_def AEP_AUTHENTICATION_METHOD_JWT_def)
qed

text \<open>An enrollment and the state it leaves.\<close>

definition plain_record :: enrollment_record where
  "plain_record = \<lparr>en_agent_did = ''did:web:agent.example'',
     en_claims = Some \<lparr>cv_address = None, cv_email = Some ''a@b.example'', cv_mobile = None, cv_birthdate = None,
       cv_first_name = None, cv_last_name = None, cv_username = None, cv_extra = []\<rparr>,
     en_created_at = plain_time 1002, en_id = ''enrollment-1'', en_owner_action = False, en_requirements = [],
     en_since = plain_time 1002, en_status = Agent_Active, en_updated_at = plain_time 1002,
     en_verification = [], en_acknowledged = [], en_required_documents = []\<rparr>"

definition plain_enrolled :: "int service_state" where
  "plain_enrolled = snd (service_enroll plain_service (plain_enroll_body ''a@b.example'')
     (plain_command ''a'' ''k'') (initial_state 1000))"

lemma plain_enroll_run:
  "(case service_enroll plain_service (plain_enroll_body ''a@b.example'') (plain_command ''a'' ''k'')
      (initial_state 1000) of (r, s) \<Rightarrow> is_ok r \<and> sv_world s = 1004
    \<and> sv_enrollments s = [(''did:web:agent.example'', plain_record)]
    \<and> sv_replay s = [((''did:web:agent.example'', ''aA.cA.a''), 1205)])"
  by code_simp

lemma plain_enrolled_stores:
  "sv_enrollments plain_enrolled = [(''did:web:agent.example'', plain_record)]" "sv_world plain_enrolled = 1004"
  "sv_replay plain_enrolled = [((''did:web:agent.example'', ''aA.cA.a''), 1205)]"
  using plain_enroll_run by (simp_all add: plain_enrolled_def case_prod_beta)

text \<open>A Service with one active enrollment.\<close>

definition plain_state :: "int service_state" where
  "plain_state = \<lparr>sv_enrollments = [(''did:web:agent.example'', plain_record)], sv_idempotency = [],
     sv_replay = [], sv_world = 1004\<rparr>"

text \<open>An agent with an active enrollment presents an assertion of its own to a protected resource.\<close>

lemma plain_presentation:
  "select_presentation (normalize_headers (prr_headers (plain_access ''b'')))
    = Inr (Some \<lparr>auth_carrier = Carrier_Standard, auth_scheme_of = Scheme_AEP, credentials = plain_assertion ''b''\<rparr>, True)"
proof -
  let ?a = "\<lparr>auth_carrier = Carrier_Standard, auth_scheme_of = Scheme_AEP, credentials = plain_assertion ''b''\<rparr>"
  have "list_all (in_range 33 126) (plain_assertion ''b'')" by code_simp
  then have "parse_authorization (scheme_value Scheme_AEP @ '' '' @ plain_assertion ''b'') (auth_carrier ?a) = Inr ?a"
    by (intro parse_render [where h = "carrier_value Carrier_Standard"])
      (simp_all add: render_authorization_Ok plain_assertion_def)
  then have p: "parse_authorization ''AEP aA.cA.b'' Carrier_Standard = Inr ?a" by (simp add: plain_assertion_def)
  have "header_values ''aep-authorization'' (normalize_headers (prr_headers (plain_access ''b''))) = []"
    "header_values ''authorization'' (normalize_headers (prr_headers (plain_access ''b''))) = [''AEP aA.cA.b'']"
    "names_aep_scheme ''AEP aA.cA.b''"
    by code_simp+
  with p show ?thesis
    by (simp add: select_presentation_def recognized_def)
qed

lemma plain_resource:
  "absolute_url (Some ''https://service.example/data'') False = Inr ''https://service.example/data''"
  "normalize_resource_uri ''https://service.example/data'' False = Inr ''https://service.example/data''"
  by code_simp+

lemma plain_assertion_accepted:
  "(case authenticate_assertion plain_service
      \<lparr>client_assertion = plain_assertion ''b'', opt_idempotency_key = None\<rparr> Op_Authenticate
      (Some ''https://service.example/data'') plain_state of
    (r, s) \<Rightarrow> r = Inr (Some (plain_claims (plain_assertion ''b'') \<lparr>vc_algorithms = [], vc_allow = False, vc_tolerance = 0,
      vc_current_time = plain_time 0, vc_idempotency_key = None, vc_operation = Op_Authenticate,
      vc_resource = Some ''https://service.example/data'', vc_service_did = ''did:web:service.example''\<rparr>))
    \<and> sv_enrollments s = [(''did:web:agent.example'', plain_record)])"
  by code_simp

lemma plain_access_run:
  "\<exists>a s. authenticate_protected_resource plain_service (plain_access ''b'') plain_state = (Inr a, s) \<and> pa_authenticated a"
proof -
  obtain c s where auth: "authenticate_assertion plain_service
      \<lparr>client_assertion = plain_assertion ''b'', opt_idempotency_key = None\<rparr> Op_Authenticate
      (Some ''https://service.example/data'') plain_state = (Inr (Some c), s)"
    and c: "sub c = ''did:web:agent.example''" "sv_enrollments s = [(''did:web:agent.example'', plain_record)]"
    using plain_assertion_accepted by (auto simp: plain_claims_def case_prod_beta prod_eq_iff)
  have "active_agent plain_service ''did:web:agent.example'' s = (Inr True, s)"
    by (simp add: active_agent_def enrollment_find_def c prog_simps validate_enrollment_record_def
      check_enrollment_record_def plain_record_def plain_time_def aware_def)
  then show ?thesis
    using auth plain_resource plain_presentation
    by (simp add: authenticate_protected_resource_def plain_access_def plain_service_def [THEN arg_cong [of _ _ sc_allow_insecure_loopback]]
      plain_service_def [THEN arg_cong [of _ _ sc_authentication_methods]]
      Let_def prog_simps sbind_run c AEP_AUTHENTICATION_METHOD_JWT_def authenticated_as_def)
qed

end
