(* ===== verification/Frames.thy ===== *)
theory Frames
  imports Service_Types
begin

text \<open>Frame rules for programs: what every run of a composed program keeps of its state.\<close>

text \<open>Programs that leave a component of the state alone.\<close>

definition unchanged :: "('s \<Rightarrow> 'c) \<Rightarrow> 's \<Rightarrow> 's \<Rightarrow> bool" where
  "unchanged get s s' = (get s' = get s)"

lemma unchanged_order [simp]: "reflp (unchanged get)" "transp (unchanged get)"
  by (auto simp: unchanged_def reflp_def transp_def)

lemma keeps_smodify: "(\<And>s. R s (f s)) \<Longrightarrow> keeps R (smodify f)"
  by (simp add: keeps_def smodify_def)

lemma keeps_if: "(b \<Longrightarrow> keeps R p) \<Longrightarrow> (\<not> b \<Longrightarrow> keeps R q) \<Longrightarrow> keeps R (if b then p else q)"
  by simp

lemma keeps_option:
  "keeps R p \<Longrightarrow> (\<And>x. keeps R (f x)) \<Longrightarrow> keeps R (case v of None \<Rightarrow> p | Some x \<Rightarrow> f x)"
  by (cases v) simp_all

lemma keeps_prod: "(\<And>a b. keeps R (f a b)) \<Longrightarrow> keeps R (case v of (a, b) \<Rightarrow> f a b)"
  by (cases v) simp

lemma keeps_run: "keeps R m \<Longrightarrow> m s = (r, s') \<Longrightarrow> R s s'"
  by (metis keeps_def snd_conv)

end
