(* ===== verification/Service_Facts.thy ===== *)
theory Service_Facts
  imports Service_Sample Frames
begin

text \<open>
  What a run of a Service operation can do to its state: the frame lemmas of the program combinators, the
  content of an accepted assertion and of a granted access, and a locale that lifts a relation between
  states from the collaborators and the stores to every operation and every history of operations.
\<close>

section \<open>Frames\<close>

lemma keeps_on_world:
  "(\<And>s w. R s (s\<lparr>sv_world := w\<rparr>)) \<Longrightarrow> keeps R (on_world p)"
  by (simp add: keeps_def on_world_def split: prod.split)

lemma keeps_none_on_refusal: "keeps R p \<Longrightarrow> keeps R (none_on_refusal p)"
  unfolding keeps_def none_on_refusal_def
  by (auto split: prod.splits sum.splits) (metis snd_conv)+

lemma keeps_for_each:
  assumes "reflp R" "transp R" and "\<And>x. keeps R (f x)"
  shows "keeps R (for_each f xs)"
  using assms by (induction xs) auto

text \<open>A relation that only looks at the stores.\<close>

definition world_blind :: "('w service_state \<Rightarrow> 'w service_state \<Rightarrow> bool) \<Rightarrow> bool" where
  "world_blind R = (reflp R \<and> transp R \<and> (\<forall>s w. R s (s\<lparr>sv_world := w\<rparr>)))"

lemma world_blind_parts [simp]:
  assumes "world_blind R" shows "reflp R" "transp R" "R s (s\<lparr>sv_world := w\<rparr>)"
  using assms by (simp_all add: world_blind_def)

lemma world_blind_unchanged [simp]:
  "world_blind (unchanged sv_enrollments)" "world_blind (unchanged sv_idempotency)"
  "world_blind (unchanged sv_replay)"
  by (simp_all add: world_blind_def) (simp_all add: unchanged_def)

lemma keeps_blind:
  assumes "world_blind R" shows "keeps R (on_world p)" "keeps R (now_of sv)"
  using assms unfolding now_of_def
  by (auto intro!: keeps_on_world keeps_bind)

lemma keeps_consume:
  assumes "world_blind R" and "\<And>s st. R s (s\<lparr>sv_replay := st\<rparr>)"
  shows "keeps R (consume_assertion sv claims now)"
  using assms by (simp add: keeps_def consume_assertion_def split: prod.split)

lemma keeps_idempotency:
  assumes "world_blind R" and "\<And>s st. R s (s\<lparr>sv_idempotency := st\<rparr>)" and "keeps R compute"
  shows "keeps R (idempotency_execute sv_idempotency sv_idempotency_update (now_of sv) input compute)"
proof -
  note order = world_blind_parts(1,2) [OF assms(1)]
  have modify: "keeps R (smodify (sv_idempotency_update f))" for f
  proof (rule keeps_smodify)
    fix s :: "'a service_state"
    have "sv_idempotency_update f s = s\<lparr>sv_idempotency := f (sv_idempotency s)\<rparr>" by (cases s) simp
    then show "R s (sv_idempotency_update f s)" by (simp only: assms(2))
  qed
  show ?thesis
    unfolding idempotency_execute_def Let_def
    by (intro keeps_bind keeps_basic order keeps_blind(2) [OF assms(1)] modify assms(3) keeps_option keeps_prod keeps_if)
qed

lemma keeps_authenticate_assertion:
  assumes "world_blind R" and "\<And>claims now. keeps R (consume_assertion sv claims now)"
  shows "keeps R (authenticate_assertion sv options operation wanted)"
  unfolding authenticate_assertion_def Let_def
  using assms by (auto intro!: keeps_bind keeps_if keeps_none_on_refusal keeps_blind keeps_option keeps_prod)


lemma keeps_authenticate_stores:
  "keeps (unchanged sv_enrollments) (authenticate_assertion sv options operation wanted)"
  "keeps (unchanged sv_idempotency) (authenticate_assertion sv options operation wanted)"
proof -
  have "keeps (unchanged sv_enrollments) (consume_assertion sv c t)"
    "keeps (unchanged sv_idempotency) (consume_assertion sv c t)" for c t
    by (rule keeps_consume; simp add: unchanged_def [abs_def] world_blind_def reflp_def transp_def)+
  note consume = this
  show "keeps (unchanged sv_enrollments) (authenticate_assertion sv options operation wanted)"
    by (rule keeps_authenticate_assertion [OF world_blind_unchanged(1) consume(1)])
  show "keeps (unchanged sv_idempotency) (authenticate_assertion sv options operation wanted)"
    by (rule keeps_authenticate_assertion [OF world_blind_unchanged(2) consume(2)])
qed


section \<open>Accepted assertions\<close>

lemma open_members_kept: "open_members known (JObj ms) = Inr ms' \<Longrightarrow> ms' = ms"
  by (auto simp: aep_members_def rbind_Ok_iff split: if_splits)

lemma assertion_claims_kept:
  assumes "assertion_claims_of_json allow (assertion_claims_to_wire c) = Inr c'"
  shows "aud c' = aud c \<and> exp_at c' = exp_at c \<and> iat c' = iat c \<and> iss c' = iss c \<and> jti c' = jti c
    \<and> op c' = op c \<and> sub c' = sub c"
  using assms unfolding assertion_claims_of_json_def assertion_claims_to_wire_def check_assertion_claims_def
  by (clarsimp simp: rbind_Ok_iff dest!: checks_value open_members_kept)

lemma valid_assertion_True:
  assumes "valid_assertion sv header c operation wanted now = Inr True"
  shows "map_of header ''typ'' = Some (JStr ''JWT'')
    \<and> (\<exists>k. map_of header ''kid'' = Some (JStr k) \<and> fst (partition_at CHR ''#'' k) = sub c)
    \<and> (\<exists>a. map_of header ''alg'' = Some (JStr a) \<and> a \<in> set (core_algorithms (inspect_core (sc_document sv))))
    \<and> aud c = service_did (inspect_service (sc_document sv)) \<and> iss c = sub c \<and> op c = operation
    \<and> (wanted = None \<or> (\<exists>r u. normalize_resource_uri r (sc_allow_insecure_loopback sv) = Inr u \<and> wanted = Some u))
    \<and> identity_method (sub c) \<in> set (identity_methods (inspect_identity (sc_document sv)))
    \<and> exp_at c - iat c \<le> sc_maximum_lifetime sv \<and> iat c \<le> timestamp now + sc_clock_tolerance sv
    \<and> timestamp now - sc_clock_tolerance sv < exp_at c"
proof -
  let ?allow = "sc_allow_insecure_loopback sv"
  obtain c' where c': "assertion_claims_of_json ?allow (assertion_claims_to_wire c) = Inr c'"
    using assms by (cases "assertion_claims_of_json ?allow (assertion_claims_to_wire c)")
      (auto simp: valid_assertion_def Let_def split: if_splits)
  note kept = assertion_claims_kept [OF c']
  show ?thesis
  proof (cases "resource c'")
    case None
    with assms c' kept show ?thesis
      by (auto simp: valid_assertion_def Let_def split: option.splits json.splits)
  next
    case (Some r)
    obtain u where u: "normalize_resource_uri r ?allow = Inr u"
      using assms c' Some by (cases "normalize_resource_uri r ?allow")
        (auto simp: valid_assertion_def Let_def split: if_splits)
    with assms c' kept Some show ?thesis
      by (auto simp: valid_assertion_def Let_def split: option.splits json.splits)
  qed
qed

lemma replay_consume_True:
  "replay_consume r now st = (Inr True, st') \<Longrightarrow>
     st' = dict_set (replay_key r) (rp_expires_at r) (dict_keep (\<lambda>(_, expiry). now < expiry) st)
     \<and> \<not> dict_has (replay_key r) (dict_keep (\<lambda>(_, expiry). now < expiry) st) \<and> now < rp_expires_at r"
  by (auto simp: replay_consume_def Let_def replay_key_def split: if_splits)

lemma on_world_run: "on_world p s = (r, s') \<longleftrightarrow> (\<exists>w. p (sv_world s) = (r, w) \<and> s' = s\<lparr>sv_world := w\<rparr>)"
  by (auto simp: on_world_def split: prod.splits)

lemma now_of_Ok:
  "now_of sv s = (Inr t, s') \<longleftrightarrow>
     aware t \<and> (\<exists>w. co_clock (sc_collaborators sv) (sv_world s) = (Inr t, w) \<and> s' = s\<lparr>sv_world := w\<rparr>)"
  by (auto simp: now_of_def sbind_Ok prog_run on_world_run)

lemma none_on_refusal_Some:
  "none_on_refusal p s = (Inr (Some a), s') \<longleftrightarrow> p s = (Inr a, s')"
  by (auto simp: none_on_refusal_def split: prod.splits sum.splits)

lemma authenticate_assertion_Some:
  assumes "authenticate_assertion sv options operation wanted s = (Inr (Some claims), s')"
  shows "\<exists>now w1 w2 context header payload.
      co_clock (sc_collaborators sv) (sv_world s) = (Inr now, w1) \<and> aware now
    \<and> co_verify (sc_collaborators sv) (client_assertion options) context w1 = (Inr claims, w2)
    \<and> vc_operation context = operation \<and> vc_resource context = wanted \<and> vc_current_time context = now
    \<and> vc_service_did context = service_did (inspect_service (sc_document sv))
    \<and> decode_jwt_unverified (rt_loads (sc_runtime sv)) (client_assertion options) = Inr (header, payload)
    \<and> valid_assertion sv header claims operation wanted now = Inr True
    \<and> consume_assertion sv claims now (s\<lparr>sv_world := w2\<rparr>) = (Inr True, s')"
proof -
  from assms have ne: "client_assertion options \<noteq> []"
    by (auto simp: authenticate_assertion_def prog_run)
  from iffD1 [OF sbind_Ok assms [unfolded authenticate_assertion_def if_not_P [OF ne]]]
  obtain now s1 where now: "now_of sv s = (Inr now, s1)"
    and rest: "sbind (slift (rmap algorithm_of_name (core_algorithms (inspect_core (sc_document sv))))) (\<lambda>algorithms.
      let context = \<lparr>vc_algorithms = algorithms, vc_allow = sc_allow_insecure_loopback sv,
            vc_tolerance = seconds (sc_clock_tolerance sv), vc_current_time = now,
            vc_idempotency_key = opt_idempotency_key options, vc_operation = operation, vc_resource = wanted,
            vc_service_did = service_did (inspect_service (sc_document sv))\<rparr> in
      sbind (none_on_refusal (
        sbind (on_world (co_verify (sc_collaborators sv) (client_assertion options) context)) (\<lambda>claims.
        sbind (slift (decode_jwt_unverified (rt_loads (sc_runtime sv)) (client_assertion options))) (\<lambda>(header, _).
        sret (header, claims))))) (\<lambda>verified.
      case verified of
        None \<Rightarrow> sret None
      | Some (header, claims) \<Rightarrow>
          sbind (slift (valid_assertion sv header claims operation wanted now)) (\<lambda>valid.
          if \<not> valid then sret None
          else sbind (consume_assertion sv claims now) (\<lambda>consumed.
            sret (if consumed then Some claims else None))))) s1 = (Inr (Some claims), s')"
    by blast
  from now obtain w1 where clock: "co_clock (sc_collaborators sv) (sv_world s) = (Inr now, w1)" "aware now"
    and s1: "s1 = s\<lparr>sv_world := w1\<rparr>" by (auto simp: now_of_Ok)
  define vc where "vc algorithms = \<lparr>vc_algorithms = algorithms, vc_allow = sc_allow_insecure_loopback sv,
            vc_tolerance = seconds (sc_clock_tolerance sv), vc_current_time = now,
            vc_idempotency_key = opt_idempotency_key options, vc_operation = operation, vc_resource = wanted,
            vc_service_did = service_did (inspect_service (sc_document sv))\<rparr>" for algorithms
  have ctx: "vc_operation (vc a) = operation" "vc_resource (vc a) = wanted" "vc_current_time (vc a) = now"
      "vc_service_did (vc a) = service_did (inspect_service (sc_document sv))" for a
    by (simp_all add: vc_def)
  from rest obtain algorithms header claims' payload w2 where
    verify: "co_verify (sc_collaborators sv) (client_assertion options) (vc algorithms) w1 = (Inr claims', w2)"
    and decode: "decode_jwt_unverified (rt_loads (sc_runtime sv)) (client_assertion options) = Inr (header, payload)"
    and valid: "sbind (slift (valid_assertion sv header claims' operation wanted now)) (\<lambda>valid.
          if \<not> valid then sret None
          else sbind (consume_assertion sv claims' now) (\<lambda>consumed.
            sret (if consumed then Some claims' else None))) (s\<lparr>sv_world := w2\<rparr>) = (Inr (Some claims), s')"
    unfolding Let_def vc_def [symmetric]
    by (auto simp: sbind_Ok prog_run s1 none_on_refusal_Some on_world_run split: option.splits prod.splits)
  from valid have "valid_assertion sv header claims' operation wanted now = Inr True"
    "consume_assertion sv claims' now (s\<lparr>sv_world := w2\<rparr>) = (Inr True, s')" "claims' = claims"
    by (auto simp: sbind_Ok prog_run split: if_splits)
  with clock ctx [of algorithms] verify decode show ?thesis by blast
qed


section \<open>Protected resources\<close>

lemma protected_problem_Ok: "protected_problem sv code target = Inr a \<Longrightarrow> \<not> pa_authenticated a"
  by (auto simp: protected_problem_def rbind_Ok_iff Let_def)

lemma active_agent_Ok:
  "active_agent sv agent_did s = (Inr b, s') \<Longrightarrow> s' = s \<and> (b \<longrightarrow>
     (\<exists>r. enrollment_find agent_did (sv_enrollments s) = Some r \<and> en_status r = Agent_Active \<and> en_agent_did r = agent_did))"
  by (auto simp: active_agent_def sbind_Ok prog_run validate_enrollment_record_def rbind_Ok_iff split: option.splits)

definition session_principal :: "'w service \<Rightarrow> authentication_input \<Rightarrow> string list \<Rightarrow> principal \<Rightarrow> bool" where
  "session_principal sv input ms p = (\<exists>d au w w'. pr_method p \<in> set ms \<and> pr_method p \<noteq> AEP_AUTHENTICATION_METHOD_JWT
     \<and> map_of (sc_grant_types sv) (pr_method p) = Some d \<and> gd_authenticator d = Some au
     \<and> au_authenticate au input w = (Inr (Some p), w')
     \<and> pr_kind p = Kind_Session_Credential \<and> pr_grant_type p = Some (pr_method p) \<and> pr_agent_did p \<noteq> [])"

lemma session_principal_more: "session_principal sv input ms p \<Longrightarrow> session_principal sv input (m # ms) p"
  unfolding session_principal_def by (elim exE conjE) (intro exI conjI; simp)

lemma session_principal_kind: "session_principal sv input ms p \<Longrightarrow> pr_kind p \<noteq> Kind_AEP_JWT"
  unfolding session_principal_def by (elim exE conjE) simp

definition active_in :: "'w service_state \<Rightarrow> string \<Rightarrow> bool" where
  "active_in s agent_did = (\<exists>r. enrollment_find agent_did (sv_enrollments s) = Some r \<and> en_status r = Agent_Active)"

lemma active_in_world [simp]: "active_in (s\<lparr>sv_world := w\<rparr>) a = active_in s a"
  by (simp add: active_in_def)

lemma try_methods_sound:
  assumes "try_methods sv input target presented ms s = (Inr a, s')" and "pa_authenticated a"
  shows "\<exists>p. a = authenticated_as p \<and> session_principal sv input ms p \<and> active_in s (pr_agent_did p)
     \<and> sv_enrollments s' = sv_enrollments s"
  using assms
proof (induction ms arbitrary: s presented)
  case Nil
  then show ?case by (auto simp: prog_run dest: protected_problem_Ok)
next
  case (Cons m ms)
  show ?case
  proof (cases "m = AEP_AUTHENTICATION_METHOD_JWT")
    case True
    then have "try_methods sv input target presented ms s = (Inr a, s')" using Cons.prems by simp
    from Cons.IH [OF this Cons.prems(2)] session_principal_more show ?thesis by blast
  next
    case False
    obtain d au where d: "map_of (sc_grant_types sv) m = Some d" "gd_authenticator d = Some au"
      using Cons.prems(1) False by (auto simp: prog_run split: option.splits)
    obtain b s1 where b: "(if presented then sret True else on_world (au_has_presentation au input)) s = (Inr b, s1)"
      and rest: "sbind (on_world (au_authenticate au input)) (\<lambda>found.
               case found of
                 None \<Rightarrow> try_methods sv input target b ms
               | Some p \<Rightarrow>
                   sbind (slift (require (pr_agent_did p \<noteq> [] \<and> pr_kind p = Kind_Session_Credential
                       \<and> pr_method p = m \<and> pr_grant_type p = Some m)
                     (Value_Error ''AEP credential authenticator returned an invalid principal''))) (\<lambda>_.
                   sbind (active_agent sv (pr_agent_did p)) (\<lambda>active.
                   if active then sret (authenticated_as p)
                   else slift (protected_problem sv ''not_recognized'' target)))) s1 = (Inr a, s')"
      using Cons.prems(1) False d by (auto simp: sbind_Ok)
    obtain w1 where s1: "s1 = s\<lparr>sv_world := w1\<rparr>"
    proof (cases presented)
      case True
      with b have "s1 = s\<lparr>sv_world := sv_world s\<rparr>" by (simp add: prog_run)
      then show ?thesis by (rule that)
    next
      case False
      with b that show ?thesis by (auto simp: on_world_run)
    qed
    from iffD1 [OF sbind_Ok rest] obtain found s2 where
      found: "on_world (au_authenticate au input) s1 = (Inr found, s2)" by blast
    then obtain w2 where w2: "au_authenticate au input w1 = (Inr found, w2)" "s2 = s\<lparr>sv_world := w2\<rparr>"
      by (auto simp: on_world_run s1)
    show ?thesis
    proof (cases found)
      case None
      then have "try_methods sv input target b ms s2 = (Inr a, s')"
        using rest found by (simp add: sbind_run)
      from Cons.IH [OF this Cons.prems(2)] obtain p where "a = authenticated_as p"
        "session_principal sv input ms p" "active_in s (pr_agent_did p)" "sv_enrollments s' = sv_enrollments s"
        by (auto simp: w2(2))
      then show ?thesis using session_principal_more by blast
    next
      case (Some p)
      have p: "pr_agent_did p \<noteq> []" "pr_kind p = Kind_Session_Credential" "pr_method p = m" "pr_grant_type p = Some m"
        and run: "sbind (active_agent sv (pr_agent_did p)) (\<lambda>active.
                   if active then sret (authenticated_as p)
                   else slift (protected_problem sv ''not_recognized'' target)) s2 = (Inr a, s')"
        using rest found Some by (auto simp: sbind_run sbind_Ok prog_run)
      from iffD1 [OF sbind_Ok run] obtain active s3 where
        act: "active_agent sv (pr_agent_did p) s2 = (Inr active, s3)"
        and fin: "(if active then sret (authenticated_as p)
                   else slift (protected_problem sv ''not_recognized'' target)) s3 = (Inr a, s')"
        by blast
      have "active" using fin Cons.prems(2) by (cases active) (auto simp: prog_run dest: protected_problem_Ok)
      with active_agent_Ok [OF act] fin have "a = authenticated_as p" "active_in s2 (pr_agent_did p)" "s' = s2"
        by (auto simp: prog_run active_in_def)
      moreover have "session_principal sv input (m # ms) p"
        using p d w2(1) False Some unfolding session_principal_def by auto
      ultimately show ?thesis by (auto simp: w2(2))
    qed
  qed
qed

text \<open>The two ways in: an assertion, or a credential that one of the configured methods recognises.\<close>

lemma protected_resource_cases:
  assumes "authenticate_protected_resource sv request s = (Inr a, s')" and "pa_authenticated a"
  obtains (Assertion) u target c claims s1 where
      "absolute_url (Some (prr_url request)) (sc_allow_insecure_loopback sv) = Inr u"
      "normalize_resource_uri u (sc_allow_insecure_loopback sv) = Inr target"
      "select_presentation (normalize_headers (prr_headers request)) = Inr (Some c, True)" "auth_scheme_of c = Scheme_AEP"
      "AEP_AUTHENTICATION_METHOD_JWT \<in> set (sc_authentication_methods sv)"
      "authenticate_assertion sv \<lparr>client_assertion = credentials c, opt_idempotency_key = None\<rparr>
         Op_Authenticate (Some target) s = (Inr (Some claims), s1)"
      "active_agent sv (sub claims) s1 = (Inr True, s')"
      "a = authenticated_as \<lparr>pr_agent_did = sub claims, pr_kind = Kind_AEP_JWT,
         pr_method = AEP_AUTHENTICATION_METHOD_JWT, pr_credential_id = None, pr_grant_type = None, pr_scopes = []\<rparr>"
  | (Session) u target presentation now w b where
      "absolute_url (Some (prr_url request)) (sc_allow_insecure_loopback sv) = Inr u"
      "normalize_resource_uri u (sc_allow_insecure_loopback sv) = Inr target"
      "select_presentation (normalize_headers (prr_headers request)) = Inr (presentation, True)"
      "try_methods sv \<lparr>ci_headers = normalize_headers (prr_headers request), ci_method = prr_method request,
         ci_current_time = now, ci_url = target\<rparr> target b (sc_authentication_methods sv) (s\<lparr>sv_world := w\<rparr>) = (Inr a, s')"
proof -
  let ?allow = "sc_allow_insecure_loopback sv" and ?hs = "normalize_headers (prr_headers request)"
  obtain u target presentation ok where u: "absolute_url (Some (prr_url request)) ?allow = Inr u"
    "normalize_resource_uri u ?allow = Inr target" "select_presentation ?hs = Inr (presentation, ok)"
    using assms(1) by (auto simp: authenticate_protected_resource_def sbind_Ok prog_run rbind_Ok_iff Let_def)
  note run = assms(1) [unfolded authenticate_protected_resource_def u rbind_simps sbind_simps Let_def prod.case]
  have ok: "ok" using run assms(2) by (cases ok) (auto simp: prog_run dest: protected_problem_Ok)
  show thesis
  proof (cases "\<exists>c. presentation = Some c \<and> auth_scheme_of c = Scheme_AEP")
    case True
    then obtain c where c: "presentation = Some c" "auth_scheme_of c = Scheme_AEP" by blast
    then obtain claims s1 where "AEP_AUTHENTICATION_METHOD_JWT \<in> set (sc_authentication_methods sv)"
      "authenticate_assertion sv \<lparr>client_assertion = credentials c, opt_idempotency_key = None\<rparr>
         Op_Authenticate (Some target) s = (Inr (Some claims), s1)"
      "active_agent sv (sub claims) s1 = (Inr True, s')"
      "a = authenticated_as \<lparr>pr_agent_did = sub claims, pr_kind = Kind_AEP_JWT,
         pr_method = AEP_AUTHENTICATION_METHOD_JWT, pr_credential_id = None, pr_grant_type = None, pr_scopes = []\<rparr>"
      using run assms(2) ok
      by (auto simp: sbind_Ok prog_run split: if_splits option.splits dest: protected_problem_Ok)
    then show thesis using u ok c by (intro Assertion) auto
  next
    case False
    then obtain b where "sbind (now_of sv) (\<lambda>now. try_methods sv \<lparr>ci_headers = ?hs, ci_method = prr_method request,
        ci_current_time = now, ci_url = target\<rparr> target b (sc_authentication_methods sv)) s = (Inr a, s')"
      using run assms(2) ok by (auto simp: prog_run split: if_splits option.splits dest: protected_problem_Ok)
    then show thesis using u ok by (auto simp: sbind_Ok now_of_Ok intro!: Session)
  qed
qed

lemma protected_resource_access:
  assumes "authenticate_protected_resource sv request s = (Inr a, s')" and "pa_authenticated a"
  shows "\<exists>p target u. a = authenticated_as p \<and> active_in s (pr_agent_did p)
    \<and> sv_enrollments s' = sv_enrollments s
    \<and> absolute_url (Some (prr_url request)) (sc_allow_insecure_loopback sv) = Inr u
    \<and> normalize_resource_uri u (sc_allow_insecure_loopback sv) = Inr target
    \<and> (\<exists>presentation. select_presentation (normalize_headers (prr_headers request)) = Inr (presentation, True)
      \<and> (if pr_kind p = Kind_AEP_JWT
         then AEP_AUTHENTICATION_METHOD_JWT \<in> set (sc_authentication_methods sv)
           \<and> (\<exists>c claims s1. presentation = Some c \<and> auth_scheme_of c = Scheme_AEP \<and> sub claims = pr_agent_did p
                \<and> authenticate_assertion sv \<lparr>client_assertion = credentials c, opt_idempotency_key = None\<rparr>
                    Op_Authenticate (Some target) s = (Inr (Some claims), s1))
         else (\<exists>input. ci_headers input = normalize_headers (prr_headers request) \<and> ci_url input = target
                \<and> session_principal sv input (sc_authentication_methods sv) p)))"
  using assms
proof (cases rule: protected_resource_cases)
  case (Assertion u target c claims s1)
  let ?p = "\<lparr>pr_agent_did = sub claims, pr_kind = Kind_AEP_JWT, pr_method = AEP_AUTHENTICATION_METHOD_JWT,
    pr_credential_id = None, pr_grant_type = None, pr_scopes = []\<rparr>"
  have "unchanged sv_enrollments s s1"
    using keeps_run [where R = "unchanged sv_enrollments"] keeps_authenticate_stores Assertion(6) by blast
  then have "active_in s (sub claims)" "sv_enrollments s' = sv_enrollments s"
    using active_agent_Ok [OF Assertion(7)] by (auto simp: unchanged_def active_in_def)
  with Assertion show ?thesis
    by (intro exI [of _ ?p] exI [of _ target] exI [of _ u] conjI exI [of _ "Some c"]) auto
next
  case (Session u target presentation now w b)
  let ?input = "\<lparr>ci_headers = normalize_headers (prr_headers request), ci_method = prr_method request,
    ci_current_time = now, ci_url = target\<rparr>"
  from try_methods_sound [OF Session(4) assms(2)] obtain p where
    p: "a = authenticated_as p" "session_principal sv ?input (sc_authentication_methods sv) p" "active_in s (pr_agent_did p)"
       "sv_enrollments s' = sv_enrollments s" by auto
  moreover have "pr_kind p \<noteq> Kind_AEP_JWT" by (rule session_principal_kind [OF p(2)])
  ultimately show ?thesis using Session
    by (intro exI [of _ p] exI [of _ target] exI [of _ u] conjI exI [of _ presentation])
      (auto intro!: exI [of _ ?input])
qed

text \<open>C7 Access to a protected resource is granted only to an agent with an active enrollment, by an
  enabled method and an unambiguous presentation. With the AEP scheme the agent is the subject of an
  assertion that verified for the \<open>authenticate\<close> operation and exactly the requested resource; with any
  other the grant type's own authenticator named the principal. The enrollments are untouched.\<close>

theorem authenticated_resource_sound:
  assumes "authenticate_protected_resource sv request s = (Inr a, s')" and "pa_authenticated a"
  shows "\<exists>p target u. a = authenticated_as p \<and> active_in s (pr_agent_did p)
    \<and> sv_enrollments s' = sv_enrollments s
    \<and> absolute_url (Some (prr_url request)) (sc_allow_insecure_loopback sv) = Inr u
    \<and> normalize_resource_uri u (sc_allow_insecure_loopback sv) = Inr target
    \<and> (\<exists>presentation. select_presentation (normalize_headers (prr_headers request)) = Inr (presentation, True)
      \<and> (if pr_kind p = Kind_AEP_JWT
         then AEP_AUTHENTICATION_METHOD_JWT \<in> set (sc_authentication_methods sv)
           \<and> (\<exists>c claims s1. presentation = Some c \<and> auth_scheme_of c = Scheme_AEP \<and> sub claims = pr_agent_did p
                \<and> authenticate_assertion sv \<lparr>client_assertion = credentials c, opt_idempotency_key = None\<rparr>
                    Op_Authenticate (Some target) s = (Inr (Some claims), s1))
         else (\<exists>input. ci_headers input = normalize_headers (prr_headers request) \<and> ci_url input = target
                \<and> session_principal sv input (sc_authentication_methods sv) p)))"
  by (rule protected_resource_access [OF assms])

theorem authenticated_resource_sound_witness:
  "\<exists>a p s. authenticate_protected_resource plain_service (plain_access ''b'') plain_state = (Inr a, s)
    \<and> pa_authenticated a \<and> a = authenticated_as p \<and> active_in plain_state (pr_agent_did p)"
proof -
  obtain a s where run: "authenticate_protected_resource plain_service (plain_access ''b'') plain_state = (Inr a, s)"
    and a: "pa_authenticated a"
    using plain_access_run by blast
  from authenticated_resource_sound [OF run a] run a show ?thesis by blast
qed


section \<open>Operations of the Service\<close>

datatype service_op =
    Do_Enroll body command_options
  | Do_Status command_options
  | Do_Grant body command_options
  | Do_Revoke body command_options
  | Do_Access resource_request

fun service_step :: "'w service \<Rightarrow> service_op \<Rightarrow> 'w service_state \<Rightarrow> 'w service_state" where
  "service_step sv (Do_Enroll data options) s = snd (service_enroll sv data options s)"
| "service_step sv (Do_Status options) s = snd (service_status sv options s)"
| "service_step sv (Do_Grant data options) s = snd (service_grant sv data options s)"
| "service_step sv (Do_Revoke data options) s = snd (service_revoke sv data options s)"
| "service_step sv (Do_Access request) s = snd (authenticate_protected_resource sv request s)"

text \<open>A relation between states that the collaborators and the stores keep is kept by every operation,
  whether it succeeds or raises.\<close>

locale service_relation =
  fixes sv :: "'w service" and R :: "'w service_state \<Rightarrow> 'w service_state \<Rightarrow> bool"
  assumes refl: "reflp R" and trans: "transp R"
    and clock: "keeps R (on_world (co_clock (sc_collaborators sv)))"
    and grants: "map_of (sc_grant_types sv) g = Some d \<Longrightarrow> keeps R (on_world (gd_grant d gq gc))"
    and revokes: "map_of (sc_grant_types sv) g = Some d \<Longrightarrow> keeps R (on_world (gd_revoke d rq rc))"
    and presentations: "map_of (sc_grant_types sv) g = Some d \<Longrightarrow> gd_authenticator d = Some au \<Longrightarrow>
      keeps R (on_world (au_has_presentation au ci))"
    and authenticators: "map_of (sc_grant_types sv) g = Some d \<Longrightarrow> gd_authenticator d = Some au \<Longrightarrow>
      keeps R (on_world (au_authenticate au ci))"
    and assertions: "keeps R (authenticate_assertion sv options operation wanted)"
    and idempotency: "keeps R compute \<Longrightarrow>
      keeps R (idempotency_execute sv_idempotency sv_idempotency_update (now_of sv) input compute)"
    and enrolls: "keeps R (enroll_execute sv agent_did request)"
begin

lemma basic: "keeps R (sret a)" "keeps R (sraise e)" "keeps R (slift m)" "keeps R (sget f)"
  using refl by simp_all

lemma bind: "keeps R m \<Longrightarrow> (\<And>a. keeps R (f a)) \<Longrightarrow> keeps R (sbind m f)"
  by (rule keeps_bind [OF trans])

lemma now: "keeps R (now_of sv)"
  unfolding now_of_def by (intro bind clock basic)

lemmas steps = bind basic now keeps_if keeps_option keeps_prod

lemma problems: "keeps R not_recognized" "keeps R invalid_request"
  by (simp_all add: not_recognized_def invalid_request_def basic)

lemma active: "keeps R (active_agent sv a)"
  unfolding active_agent_def by (intro steps)

lemma idem: "keeps R operation \<Longrightarrow> keeps R (idempotent sv a c k q enc parser operation)"
  unfolding idempotent_def Let_def by (intro steps idempotency)

lemma grant_run: "keeps R (grant_execute sv a q)"
  unfolding grant_execute_def Let_def
  by (cases "map_of (sc_grant_types sv) (gr_grant_type q)") (auto intro!: steps problems grants)

lemma revoke_run: "keeps R (revoke_execute sv a q)"
proof -
  have one: "keeps R (revoke_one sv a q r g)" for r g
    unfolding revoke_one_def
    by (cases "map_of (sc_grant_types sv) g") (auto intro!: steps revokes)
  have "keeps R (for_each (revoke_one sv a q r) gs)" for r gs
    by (rule keeps_for_each [OF refl trans one])
  then show ?thesis
    unfolding revoke_execute_def Let_def by (intro steps problems)
qed

lemma enroll: "keeps R (service_enroll sv data options)"
  unfolding service_enroll_def
  by (intro steps assertions problems idem enrolls)

lemma status: "keeps R (service_status sv options)"
  unfolding service_status_def by (intro steps assertions problems)

lemma grant: "keeps R (service_grant sv data options)"
  unfolding service_grant_def
  by (intro steps assertions problems idem grant_run)

lemma revoke: "keeps R (service_revoke sv data options)"
  unfolding service_revoke_def
  by (intro steps assertions problems idem revoke_run)

lemma methods: "keeps R (try_methods sv input target presented ms)"
proof (induction ms arbitrary: presented)
  case (Cons m ms)
  show ?case
  proof (cases "map_of (sc_grant_types sv) m")
    case (Some d)
    show ?thesis
    proof (cases "gd_authenticator d")
      case au: (Some au)
      then show ?thesis using Some Cons.IH
        by (auto intro!: steps active presentations [OF Some au] authenticators [OF Some au])
    qed (use Some Cons.IH in \<open>auto intro!: steps\<close>)
  qed (use Cons.IH in \<open>auto intro!: steps\<close>)
qed (auto intro!: steps)

lemma access: "keeps R (authenticate_protected_resource sv request)"
  unfolding authenticate_protected_resource_def Let_def
  by (intro steps assertions active methods)

lemma step: "R s (service_step sv act s)"
  using enroll status grant revoke access by (cases act) (simp_all add: keeps_def)

lemma history: "R s (fold (service_step sv) acts s)"
proof (induction acts arbitrary: s)
  case Nil
  then show ?case using refl by (simp add: reflp_def)
next
  case (Cons act acts)
  then show ?case using step [of s act] trans by (auto simp: transp_def)
qed

end

end
