(* ===== verification/Service_Enrollments.thy ===== *)
theory Service_Enrollments
  imports Service_Facts
begin

text \<open>
  The enrollments of a Service: what \<open>_create_enrollment\<close> and \<open>_update_enrollment\<close> write, the invariant of
  the stored records and its preservation by every history of calls.
\<close>


section \<open>Keys of claims\<close>

lemma opt_field_given: "opt_field k dec ms = Inr v \<Longrightarrow> dict_has k ms \<Longrightarrow> v \<noteq> None"
  by (auto simp: opt_field_def dict_has_lookup rbind_Ok_iff split: option.splits)

lemma dict_has_append [simp]: "dict_has k (a @ b) \<longleftrightarrow> dict_has k a \<or> dict_has k b"
  by (auto simp: dict_has_def)

lemma dict_has_wire_opt [simp]: "dict_has k (wire_opt k' enc v) \<longleftrightarrow> k = k' \<and> v \<noteq> None"
  by (cases v) (auto simp: dict_has_lookup)

lemma dict_has_extras: "dict_has k ms \<Longrightarrow> k \<notin> set known \<Longrightarrow> dict_has k (extras known ms)"
  by (force simp: dict_has_def extras_def)

lemma given_key: "opt_field k dec ms = Inr v \<Longrightarrow> dict_has k ms \<Longrightarrow> dict_has k (wire_opt k enc v)"
  using opt_field_given by fastforce

lemma wire_opts_keys:
  assumes "opt_field k1 d1 ms = Inr v1" "opt_field k2 d2 ms = Inr v2" "opt_field k3 d3 ms = Inr v3"
    "opt_field k4 d4 ms = Inr v4" "opt_field k5 d5 ms = Inr v5" "opt_field k6 d6 ms = Inr v6"
    "opt_field k7 d7 ms = Inr v7" and "dict_has k ms"
  shows "dict_has k (wire_opt k1 e1 v1 @ wire_opt k2 e2 v2 @ wire_opt k3 e3 v3 @ wire_opt k4 e4 v4
    @ wire_opt k5 e5 v5 @ wire_opt k6 e6 v6 @ wire_opt k7 e7 v7 @ extras [k1, k2, k3, k4, k5, k6, k7] ms)"
proof (cases "k \<in> set [k1, k2, k3, k4, k5, k6, k7]")
  case True
  then have "k = k1 \<or> k = k2 \<or> k = k3 \<or> k = k4 \<or> k = k5 \<or> k = k6 \<or> k = k7" by simp
  then show ?thesis
    unfolding dict_has_append using assms(1-7) [THEN given_key] assms(8) by blast
next
  case False
  from dict_has_extras [OF assms(8) this] show ?thesis unfolding dict_has_append by blast
qed

lemma claim_values_keys:
  assumes "claim_values_of_json (JObj ms) = Inr c" and "dict_has k ms"
  shows "dict_has k (claim_values_to_wire c)"
proof -
  from assms(1) obtain a e m b f l u where
    "opt_field ''contact.address.primary'' address_of_json ms = Inr a" "opt_field ''contact.email'' dec_str ms = Inr e"
    "opt_field ''contact.mobile'' dec_str ms = Inr m" "opt_field ''person.birthdate'' dec_str ms = Inr b"
    "opt_field ''person.first_name'' dec_str ms = Inr f" "opt_field ''person.last_name'' dec_str ms = Inr l"
    "opt_field ''person.username'' dec_str ms = Inr u"
    and c: "c = \<lparr>cv_address = a, cv_email = e, cv_mobile = m, cv_birthdate = b, cv_first_name = f,
      cv_last_name = l, cv_username = u, cv_extra = extras claim_fields ms\<rparr>"
    unfolding claim_values_of_json_def check_claim_values_def
    by (clarsimp simp: rbind_Ok_iff dest!: checks_value open_members_kept)
  from wire_opts_keys [OF this(1-7) assms(2)] show ?thesis
    unfolding c claim_values_to_wire_def claim_values.simps .
qed

definition claim_names :: "inspect_claims option \<Rightarrow> string list" where
  "claim_names advertised = (case advertised of None \<Rightarrow> [] | Some a \<Rightarrow>
     (case claims_required a of None \<Rightarrow> [] | Some n \<Rightarrow> n) @ (case claims_preferred a of None \<Rightarrow> [] | Some n \<Rightarrow> n)
     @ (case claims_optional a of None \<Rightarrow> [] | Some n \<Rightarrow> n))"

lemma accepted_claims_keys:
  assumes "accepted_claims (Some v) advertised = Inr c" and "dict_has k (claim_values_to_wire v)"
    and "k \<in> set (claim_names advertised)"
  shows "\<exists>w. c = Some w \<and> dict_has k (claim_values_to_wire w)"
proof -
  let ?kept = "filter (\<lambda>(name, _). name \<in> set (claim_names advertised)) (claim_values_to_wire v)"
  from assms(1) obtain w where "c = Some w" and p: "parse_json_model (Inr (JObj ?kept)) claim_values_of_json ''accepted claims'' = Inr w"
    by (auto simp: accepted_claims_def rbind_Ok_iff Let_def claim_names_def)
  moreover have "dict_has k ?kept" using assms(2,3) by (force simp: dict_has_def)
  ultimately show ?thesis using claim_values_keys by (auto simp: parse_json_model_Ok)
qed

section \<open>The enrollment invariant\<close>

definition has_required_claims :: "'w service \<Rightarrow> enrollment_record \<Rightarrow> bool" where
  "has_required_claims sv r = (\<forall>n \<in> set (required_claims sv).
     \<exists>c. en_claims r = Some c \<and> dict_has n (claim_values_to_wire c))"

definition enrollment_ok :: "'w service \<Rightarrow> string \<Rightarrow> enrollment_record \<Rightarrow> bool" where
  "enrollment_ok sv k r = (en_agent_did r = k \<and> en_agent_did r \<noteq> [] \<and> en_id r \<noteq> []
     \<and> aware (en_created_at r) \<and> aware (en_since r) \<and> aware (en_updated_at r)
     \<and> pending_ok (some_nonempty (en_requirements r)) \<and> pending_ok (some_nonempty (en_verification r))
     \<and> has_required_claims sv r)"

definition enrollments_ok :: "'w service \<Rightarrow> 'w service_state \<Rightarrow> bool" where
  "enrollments_ok sv s = (dict_ok (sv_enrollments s)
     \<and> (\<forall>k r. map_of (sv_enrollments s) k = Some r \<longrightarrow> enrollment_ok sv k r))"

text \<open>What no operation changes in a record that is there.\<close>

definition same_enrollment :: "enrollment_record \<Rightarrow> enrollment_record \<Rightarrow> bool" where
  "same_enrollment r r' = (en_agent_did r' = en_agent_did r \<and> en_id r' = en_id r
     \<and> en_created_at r' = en_created_at r \<and> en_since r' = en_since r \<and> en_status r' = en_status r
     \<and> set (en_acknowledged r) \<subseteq> set (en_acknowledged r')
     \<and> set (en_required_documents r') \<subseteq> set (en_required_documents r))"

definition enrollments_evolve :: "'w service \<Rightarrow> 'w service_state \<Rightarrow> 'w service_state \<Rightarrow> bool" where
  "enrollments_evolve sv s s' = (enrollments_ok sv s \<longrightarrow> enrollments_ok sv s'
     \<and> (\<forall>k r. map_of (sv_enrollments s) k = Some r \<longrightarrow>
          (\<exists>r'. map_of (sv_enrollments s') k = Some r' \<and> same_enrollment r r')))"

lemma same_enrollment_order: "same_enrollment r r" "same_enrollment r q \<Longrightarrow> same_enrollment q t \<Longrightarrow> same_enrollment r t"
  by (auto simp: same_enrollment_def)

lemma evolve_refl: "sv_enrollments s' = sv_enrollments s \<Longrightarrow> enrollments_evolve sv s s'"
  using same_enrollment_order(1) by (auto simp: enrollments_evolve_def enrollments_ok_def)

lemma evolve_order: "reflp (enrollments_evolve sv)" "transp (enrollments_evolve sv)"
proof -
  show "reflp (enrollments_evolve sv)" by (simp add: reflp_def evolve_refl)
  show "transp (enrollments_evolve sv)"
    unfolding transp_def enrollments_evolve_def using same_enrollment_order(2) by meson
qed

lemma evolve_unchanged: "keeps (unchanged sv_enrollments) m \<Longrightarrow> keeps (enrollments_evolve sv) m"
  by (simp add: keeps_def unchanged_def evolve_refl)

lemma evolve_blind: "world_blind (enrollments_evolve sv)"
  by (simp add: world_blind_def evolve_order evolve_refl)

lemma evolve_put:
  assumes "sv_enrollments s' = dict_set k r (sv_enrollments s)"
    and "enrollments_ok sv s \<Longrightarrow> enrollment_ok sv k r"
    and "\<And>q. enrollments_ok sv s \<Longrightarrow> map_of (sv_enrollments s) k = Some q \<Longrightarrow> same_enrollment q r"
  shows "enrollments_evolve sv s s'"
  using assms same_enrollment_order(1) unfolding enrollments_evolve_def enrollments_ok_def by auto

lemma decision_pending:
  assumes "validate_enrollment_decision d = Inr ()"
  shows "dc_requirements d = Some r \<Longrightarrow> pending_ok (some_nonempty r)"
    and "dc_verification d = Some v \<Longrightarrow> pending_ok (some_nonempty v)"
  using assms
  by (auto simp: validate_enrollment_decision_def rbind_Ok_iff check_enroll_response_def validate_pending_values_def)

lemma pending_ok_Nil [simp]: "pending_ok (some_nonempty [])"
  by (simp add: some_nonempty_def pending_ok_def)

lemma keeps_create: "keeps (unchanged sv_enrollments) (create_enrollment sv a q)"
  unfolding create_enrollment_def
  by (intro keeps_bind keeps_blind world_blind_unchanged keeps_basic unchanged_order)


text \<open>Where a program leaves the enrollments, from a given dictionary.\<close>

definition leaves :: "enrollment_state \<Rightarrow> (enrollment_state \<Rightarrow> bool) \<Rightarrow> ('w service_state, 'a) prog \<Rightarrow> bool" where
  "leaves E Q m = (\<forall>s. sv_enrollments s = E \<longrightarrow> Q (sv_enrollments (snd (m s))))"

lemma leaves_unchanged: "keeps (unchanged sv_enrollments) m \<Longrightarrow> Q E \<Longrightarrow> leaves E Q m"
  by (simp add: keeps_def unchanged_def leaves_def)

lemma leaves_bind:
  assumes "keeps (unchanged sv_enrollments) m" and "Q E" and "\<And>a s s'. m s = (Inr a, s') \<Longrightarrow> leaves E Q (f a)"
  shows "leaves E Q (sbind m f)"
  unfolding leaves_def
proof (intro allI impI)
  fix s :: "'a service_state" assume s: "sv_enrollments s = E"
  obtain x s' where run: "m s = (x, s')" by (cases "m s")
  have s': "sv_enrollments s' = E" using keeps_run [OF assms(1) run] s by (simp add: unchanged_def)
  show "Q (sv_enrollments (snd (sbind m f s)))"
  proof (cases x)
    case (Inl e)
    then show ?thesis using run s' assms(2) by (simp add: sbind_def)
  next
    case (Inr a)
    then show ?thesis using run s' assms(3) [of s a s'] by (simp add: sbind_def leaves_def)
  qed
qed

lemma leaves_if: "(b \<Longrightarrow> leaves E Q p) \<Longrightarrow> (\<not> b \<Longrightarrow> leaves E Q q) \<Longrightarrow> leaves E Q (if b then p else q)"
  by simp

definition update_result :: "'w service \<Rightarrow> enrollment_state \<Rightarrow> enrollment_record \<Rightarrow> enrollment_state \<Rightarrow> bool" where
  "update_result sv E existing X = (X = E \<or> (\<exists>r. X = dict_set (en_agent_did existing) r E
     \<and> same_enrollment existing r \<and> check_enrollment_record r = Inr r
     \<and> has_required_claims sv r
     \<and> (pending_ok (some_nonempty (en_requirements r)) \<or> en_requirements r = en_requirements existing)
     \<and> (pending_ok (some_nonempty (en_verification r)) \<or> en_verification r = en_verification existing)))"

lemma missing_none:
  "missing_required_claim_names names (Some c) = [] \<longleftrightarrow> (\<forall>n \<in> set names. dict_has n (claim_values_to_wire c))"
  by (auto simp: missing_required_claim_names_def Let_def filter_empty_conv)

lemma update_leaves:
  "leaves E (update_result sv E existing) (update_enrollment sv request existing)"
proof -
  have same: "update_result sv E existing E" by (simp add: update_result_def)
  note quiet = keeps_basic [OF unchanged_order(1)] keeps_blind [OF world_blind_unchanged(1)]
  have final: "leaves E (update_result sv E existing)
      (sbind (slift (check_enrollment_record rc)) (\<lambda>rc.
       sbind (smodify (sv_enrollments_update (enrollment_save rc))) (\<lambda>_. slift (m rc))))"
    if "same_enrollment existing rc" "has_required_claims sv rc"
      "pending_ok (some_nonempty (en_requirements rc)) \<or> en_requirements rc = en_requirements existing"
      "pending_ok (some_nonempty (en_verification rc)) \<or> en_verification rc = en_verification existing"
    for rc m
  proof (cases "check_enrollment_record rc")
    case (Inl e)
    then show ?thesis using same by (simp add: leaves_def prog_simps)
  next
    case (Inr rc')
    then have "rc' = rc" "check_enrollment_record rc = Inr rc"
      by (auto simp: check_enrollment_record_def rbind_Ok_iff)
    then show ?thesis
      using that by (auto simp: leaves_def prog_simps enrollment_save_def update_result_def same_enrollment_def)
  qed
  note silent = leaves_unchanged [where Q = "update_result sv E existing", OF keeps_basic(3) [OF unchanged_order(1)] same]
  show ?thesis
    unfolding update_enrollment_def Let_def
  proof ((rule leaves_bind [where Q = "update_result sv E existing" and E = E, OF _ same], rule quiet)+, (rule leaves_if, rule silent)+,
      (rule leaves_bind [where Q = "update_result sv E existing" and E = E, OF _ same], rule quiet)+, rule leaves_if, rule silent, rule final, goal_cases)
    case (1 _ _ _ now _ _ decision _ _ u _ _ supplied _ _ claims)
    then show ?case by (auto simp: same_enrollment_def accepted_document_ids_def)
  next
    case (2 _ _ _ now _ _ decision _ _ u _ _ supplied _ _ claims)
    then show ?case by (auto simp: has_required_claims_def missing_none)
  next
    case (3 _ _ _ now _ _ decision _ _ u _ _ supplied _ _ claims)
    then show ?case using decision_pending(1) [of decision] by (auto simp: prog_run split: option.split)
  next
    case (4 _ _ _ now _ _ decision _ _ u _ _ supplied _ _ claims)
    then show ?case using decision_pending(2) [of decision] by (auto simp: prog_run split: option.split)
  qed
qed


lemma check_enrollment_record_iff:
  "check_enrollment_record r = Inr q \<longleftrightarrow> q = r \<and> en_agent_did r \<noteq> [] \<and> en_id r \<noteq> []
     \<and> aware (en_created_at r) \<and> aware (en_since r) \<and> aware (en_updated_at r)"
  by (auto simp: check_enrollment_record_def rbind_Ok_iff)

lemma update_evolves:
  assumes "map_of (sv_enrollments s) k = Some existing"
  shows "enrollments_evolve sv s (snd (update_enrollment sv request existing s))"
proof -
  let ?X = "sv_enrollments (snd (update_enrollment sv request existing s))"
  have "update_result sv (sv_enrollments s) existing ?X"
    using update_leaves [of "sv_enrollments s" sv existing request] by (simp add: leaves_def)
  then consider "?X = sv_enrollments s"
    | r where "?X = dict_set (en_agent_did existing) r (sv_enrollments s)" "same_enrollment existing r"
        "check_enrollment_record r = Inr r" "has_required_claims sv r"
        "pending_ok (some_nonempty (en_requirements r)) \<or> en_requirements r = en_requirements existing"
        "pending_ok (some_nonempty (en_verification r)) \<or> en_verification r = en_verification existing"
    unfolding update_result_def by blast
  then show ?thesis
  proof cases
    case 1
    then show ?thesis by (rule evolve_refl)
  next
    case (2 r)
    show ?thesis
    proof (cases "enrollments_ok sv s")
      case True
      then have ok: "enrollment_ok sv k existing" using assms by (simp add: enrollments_ok_def)
      then have key: "en_agent_did existing = k" by (simp add: enrollment_ok_def)
      show ?thesis
      proof (rule evolve_put)
        show "?X = dict_set k r (sv_enrollments s)" using 2(1) by (simp add: key)
        show "enrollment_ok sv k r"
          using 2(2-) ok key by (auto simp: enrollment_ok_def check_enrollment_record_iff same_enrollment_def)
        show "same_enrollment q r" if "map_of (sv_enrollments s) k = Some q" for q
          using that assms 2(2) by simp
      qed
    qed (simp add: enrollments_evolve_def)
  qed
qed

lemma create_enrollment_Ok:
  assumes "create_enrollment sv a request s = (Inr r, s')"
    and "missing_required_claim_names (required_claims sv) (er_claims request) = []"
  shows "enrollment_ok sv a r"
proof -
  from assms(1) obtain decision now claims where
    d: "validate_enrollment_decision decision = Inr ()"
    and c: "accepted_claims (er_claims request) (inspect_claims_of (sc_document sv)) = Inr claims"
    and r: "check_enrollment_record r = Inr r" "en_agent_did r = a" "en_claims r = claims"
      "en_requirements r = (case dc_requirements decision of None \<Rightarrow> [] | Some x \<Rightarrow> x)"
      "en_verification r = (case dc_verification decision of None \<Rightarrow> [] | Some x \<Rightarrow> x)"
    unfolding create_enrollment_def by (auto simp: sbind_Ok prog_run check_enrollment_record_iff)
  have "has_required_claims sv r"
    unfolding has_required_claims_def
  proof
    fix n assume n: "n \<in> set (required_claims sv)"
    then obtain v where v: "er_claims request = Some v"
      using assms(2) by (cases "er_claims request") (auto simp: missing_required_claim_names_def Let_def dict_has_def filter_empty_conv)
    then have "dict_has n (claim_values_to_wire v)" using assms(2) n by (simp add: missing_none)
    moreover have "n \<in> set (claim_names (inspect_claims_of (sc_document sv)))"
      using n by (auto simp: required_claims_def claim_names_def split: option.splits)
    ultimately show "\<exists>c. en_claims r = Some c \<and> dict_has n (claim_values_to_wire c)"
      using accepted_claims_keys [OF c [unfolded v]] r(3) by blast
  qed
  then show ?thesis
    using r decision_pending [OF d] by (auto simp: enrollment_ok_def check_enrollment_record_iff split: option.split)
qed

lemma enroll_execute_evolves: "keeps (enrollments_evolve sv) (enroll_execute sv agent_did request)"
  unfolding enroll_execute_def
proof (rule keeps_bind [OF evolve_order(2) keeps_basic(3) [OF evolve_order(1)]])
  fix effective
  show "keeps (enrollments_evolve sv) (sbind (sget (\<lambda>s. enrollment_find agent_did (sv_enrollments s))) (\<lambda>found.
     case found of
       Some existing \<Rightarrow> update_enrollment sv effective existing
     | None \<Rightarrow>
         let missing = missing_required_claim_names (required_claims sv) (er_claims effective);
             missing_documents = (if er_acknowledged effective = None then missing_document_ids sv None else []) in
         if missing \<noteq> [] \<or> missing_documents \<noteq> [] then slift (document_requirements missing missing_documents)
         else
         sbind (find_or_create sv_enrollments sv_enrollments_update agent_did
           (create_enrollment sv agent_did effective)) (\<lambda>(rc, _).
         slift (enrollment_result rc agent_did (er_acknowledged effective)))))"
    unfolding keeps_def
  proof
    fix s
    show "enrollments_evolve sv s (snd (sbind (sget (\<lambda>s. enrollment_find agent_did (sv_enrollments s))) (\<lambda>found.
     case found of
       Some existing \<Rightarrow> update_enrollment sv effective existing
     | None \<Rightarrow>
         let missing = missing_required_claim_names (required_claims sv) (er_claims effective);
             missing_documents = (if er_acknowledged effective = None then missing_document_ids sv None else []) in
         if missing \<noteq> [] \<or> missing_documents \<noteq> [] then slift (document_requirements missing missing_documents)
         else
         sbind (find_or_create sv_enrollments sv_enrollments_update agent_did
           (create_enrollment sv agent_did effective)) (\<lambda>(rc, _).
         slift (enrollment_result rc agent_did (er_acknowledged effective)))) s))"
    proof (cases "enrollment_find agent_did (sv_enrollments s)")
      case (Some existing)
      then show ?thesis
        using update_evolves [of s agent_did existing sv effective] by (simp add: prog_simps enrollment_find_def)
    next
      case None
      have create: "enrollments_evolve sv s (snd (find_or_create sv_enrollments sv_enrollments_update agent_did
           (create_enrollment sv agent_did effective) s))"
        if m: "missing_required_claim_names (required_claims sv) (er_claims effective) = []"
      proof -
        obtain x s1 where run: "create_enrollment sv agent_did effective s = (x, s1)"
          by (cases "create_enrollment sv agent_did effective s")
        have s1: "sv_enrollments s1 = sv_enrollments s"
          using keeps_run [OF keeps_create run] by (simp add: unchanged_def)
        show ?thesis
        proof (cases x)
          case (Inl e)
          with run None s1 show ?thesis by (simp add: find_or_create_def sbind_def evolve_refl)
        next
          case (Inr r)
          from create_enrollment_Ok [OF run [unfolded Inr] m] have ok: "enrollment_ok sv agent_did r" .
          then have "en_agent_did r = agent_did" by (simp add: enrollment_ok_def)
          with run None Inr have "snd (find_or_create sv_enrollments sv_enrollments_update agent_did
             (create_enrollment sv agent_did effective) s) = sv_enrollments_update (dict_set agent_did r) s1"
            by (simp add: find_or_create_def sbind_run prog_simps)
          moreover have "enrollments_evolve sv s (sv_enrollments_update (dict_set agent_did r) s1)"
            by (rule evolve_put [where k = agent_did and r = r]) (use s1 ok None in \<open>simp_all add: enrollment_find_def\<close>)
          ultimately show ?thesis by simp
        qed
      qed
      show ?thesis
      proof (cases "missing_required_claim_names (required_claims sv) (er_claims effective) \<noteq> []
          \<or> (if er_acknowledged effective = None then missing_document_ids sv None else []) \<noteq> []")
        case True
        then show ?thesis using None by (simp add: prog_simps Let_def evolve_refl)
      next
        case False
        obtain y s2 where run: "find_or_create sv_enrollments sv_enrollments_update agent_did
           (create_enrollment sv agent_did effective) s = (y, s2)"
          by (cases "find_or_create sv_enrollments sv_enrollments_update agent_did
             (create_enrollment sv agent_did effective) s")
        with create False have "enrollments_evolve sv s s2" by simp
        with run False None show ?thesis
          by (cases y) (auto simp: prog_simps Let_def sbind_def split: prod.split)
      qed
    qed
  qed
qed

section \<open>Histories\<close>

interpretation enrollment_history: service_relation sv "enrollments_evolve sv" for sv :: "'w service"
proof
  show "reflp (enrollments_evolve sv)" "transp (enrollments_evolve sv)" by (rule evolve_order)+
  show "keeps (enrollments_evolve sv) (authenticate_assertion sv options operation wanted)" for options operation wanted
    by (rule evolve_unchanged [OF keeps_authenticate_stores(1)])
  show "keeps (enrollments_evolve sv) (idempotency_execute sv_idempotency sv_idempotency_update (now_of sv) input compute)"
    if "keeps (enrollments_evolve sv) compute" for input compute
    by (rule keeps_idempotency [OF evolve_blind _ that]) (rule evolve_refl, simp)
qed (rule keeps_blind [OF evolve_blind] enroll_execute_evolves)+

lemma initial_ok [simp]: "enrollments_ok sv (initial_state w)"
  by (simp add: enrollments_ok_def initial_state_def dict_ok_def)

text \<open>C9 After any sequence of calls (successful, refused or raising, whatever the collaborators do), each
  stored enrollment is filed under its own Agent DID, has an identifier, offset-aware times, well-formed
  pending values and every required claim; and an enrollment that was there before a further sequence is
  there after it, with the same identifier, creation time and status, no acknowledgment lost and no
  document requirement added.\<close>

theorem enrollments_invariant:
  assumes "s = fold (service_step sv) acts1 (initial_state w)" and "s' = fold (service_step sv) acts2 s"
  shows "enrollments_ok sv s \<and> enrollments_ok sv s'
    \<and> (\<forall>k r. map_of (sv_enrollments s) k = Some r \<longrightarrow>
         (\<exists>r'. map_of (sv_enrollments s') k = Some r' \<and> same_enrollment r r'))"
proof -
  have s: "enrollments_ok sv s"
    using enrollment_history.history [of sv "initial_state w" acts1] by (simp add: assms(1) enrollments_evolve_def)
  then show ?thesis
    using enrollment_history.history [of sv s acts2] by (simp add: assms(2) enrollments_evolve_def)
qed

theorem enrollments_invariant_witness:
  "\<exists>r. map_of (sv_enrollments (fold (service_step plain_service) [Do_Access (plain_access ''c'')] plain_enrolled))
      ''did:web:agent.example'' = Some r
    \<and> same_enrollment plain_record r \<and> enrollment_ok plain_service ''did:web:agent.example'' r"
proof -
  have first: "plain_enrolled = fold (service_step plain_service)
      [Do_Enroll (plain_enroll_body ''a@b.example'') (plain_command ''a'' ''k'')] (initial_state 1000)"
    by (simp add: plain_enrolled_def)
  define t where "t = fold (service_step plain_service) [Do_Access (plain_access ''c'')] plain_enrolled"
  have "map_of (sv_enrollments plain_enrolled) ''did:web:agent.example'' = Some plain_record"
    by (simp add: plain_enrolled_stores)
  with enrollments_invariant [OF first t_def] obtain r where
    "map_of (sv_enrollments t) ''did:web:agent.example'' = Some r" "same_enrollment plain_record r"
    and "enrollments_ok plain_service t" by blast
  then show ?thesis unfolding t_def [symmetric] by (simp add: enrollments_ok_def)
qed

end
