(* ===== verification/Model_Platform.thy ===== *)
theory Model_Platform
  imports Model_Credential
begin

text \<open>
  The hosted-Platform models of \<^verbatim>\<open>core/models.py\<close>: discovery document, Agent identities, and the
  provision, lifecycle, sign and verification messages.
\<close>

definition dec_algorithms :: "json \<Rightarrow> signing_algorithm list result" where
  "dec_algorithms = dec_tuple (dec_enum algorithm_value all_algorithms)"

definition enc_algorithms :: "signing_algorithm list \<Rightarrow> json" where
  "enc_algorithms algs = JArr (map (\<lambda>a. JStr (algorithm_value a)) algs)"

section \<open>PlatformDiscoveryDocument and its parts\<close>

record platform_endpoints =
  pe_lifecycle :: string
  pe_provision :: string
  pe_sign :: string
  pe_list :: string
  pe_hosted_verification :: "string option"
  pe_extra :: members

definition validate_paths :: "platform_endpoints \<Rightarrow> unit result" where
  "validate_paths e =
     rbind (require (list_all (\<lambda>v. case v of None \<Rightarrow> True | Some p \<Rightarrow> is_endpoint_path p)
         [Some (pe_lifecycle e), Some (pe_provision e), Some (pe_sign e), Some (pe_list e),
          pe_hosted_verification e])
       (Value_Error ''Platform endpoint paths must be origin-relative absolute paths'')) (\<lambda>_.
     rbind (require (count_sub ''{agent_identity_id}'' (pe_lifecycle e) = 1)
       (Value_Error ''lifecycle must contain one {agent_identity_id} placeholder'')) (\<lambda>_.
     rbind (require (count_sub ''{agent_identity_id}'' (pe_sign e) = 1)
       (Value_Error ''sign must contain one {agent_identity_id} placeholder'')) (\<lambda>_.
     rbind (require (\<not> (CHR ''{'' \<in> set (pe_provision e) \<or> CHR ''{'' \<in> set (pe_list e)))
       (Value_Error ''provision and list must not contain path placeholders'')) (\<lambda>_.
     require (case pe_hosted_verification e of None \<Rightarrow> True | Some h \<Rightarrow> CHR ''{'' \<notin> set h)
       (Value_Error ''hosted_verification must not contain path placeholders'')))))"

definition check_platform_endpoints :: "platform_endpoints \<Rightarrow> platform_endpoints result" where
  "check_platform_endpoints e = checks [in_validator (validate_paths e)] e"

abbreviation endpoints_fields :: "string list" where
  "endpoints_fields \<equiv> [''lifecycle'', ''provision'', ''sign'', ''list'', ''hosted_verification'']"

definition platform_endpoints_of_json :: "json \<Rightarrow> platform_endpoints result" where
  "platform_endpoints_of_json j = rbind (open_members endpoints_fields j) (\<lambda>ms.
     rbind (field ''lifecycle'' dec_str ms) (\<lambda>l.
     rbind (field ''provision'' dec_str ms) (\<lambda>p.
     rbind (field ''sign'' dec_str ms) (\<lambda>s.
     rbind (field ''list'' dec_str ms) (\<lambda>li.
     rbind (opt_field ''hosted_verification'' dec_str ms) (\<lambda>h.
     check_platform_endpoints \<lparr>pe_lifecycle = l, pe_provision = p, pe_sign = s, pe_list = li,
       pe_hosted_verification = h, pe_extra = extras endpoints_fields ms\<rparr>))))))"

definition platform_endpoints_to_wire :: "platform_endpoints \<Rightarrow> json" where
  "platform_endpoints_to_wire e = JObj (wire ''lifecycle'' (JStr (pe_lifecycle e))
     @ wire ''provision'' (JStr (pe_provision e)) @ wire ''sign'' (JStr (pe_sign e))
     @ wire ''list'' (JStr (pe_list e))
     @ wire_opt ''hosted_verification'' JStr (pe_hosted_verification e) @ pe_extra e)"

record platform_http =
  ph_endpoint_base :: string
  ph_extra :: members

definition check_platform_http :: "platform_http \<Rightarrow> platform_http result" where
  "check_platform_http h = checks
     [in_validator (require (is_endpoint_path (ph_endpoint_base h) \<and> CHR ''{'' \<notin> set (ph_endpoint_base h))
       (Value_Error ''endpoint_base must be an origin-relative absolute path''))] h"

definition platform_http_of_json :: "json \<Rightarrow> platform_http result" where
  "platform_http_of_json j = rbind (open_members [''endpoint_base''] j) (\<lambda>ms.
     rbind (field ''endpoint_base'' dec_str ms) (\<lambda>b.
     check_platform_http \<lparr>ph_endpoint_base = b, ph_extra = extras [''endpoint_base''] ms\<rparr>))"

definition platform_http_to_wire :: "platform_http \<Rightarrow> json" where
  "platform_http_to_wire h = JObj (wire ''endpoint_base'' (JStr (ph_endpoint_base h)) @ ph_extra h)"

record platform_identity_configuration =
  pi_did_methods :: "string list"
  pi_did_url_template :: string
  pi_extra :: members

definition validate_platform_identity :: "platform_identity_configuration \<Rightarrow> unit result" where
  "validate_platform_identity c =
     rbind (require ([] \<notin> set (pi_did_methods c) \<and> distinct (pi_did_methods c))
       (Value_Error ''did_methods must contain unique non-empty values'')) (\<lambda>_.
     rbind (require (count_sub ''{agent_did_id}'' (pi_did_url_template c) = 1)
       (Value_Error ''did_url_template must contain one {agent_did_id} placeholder'')) (\<lambda>_.
     require_https_uri (replace_sub ''{agent_did_id}'' ''validation'' (pi_did_url_template c))
       ''did_url_template''))"

definition check_platform_identity_configuration ::
    "platform_identity_configuration \<Rightarrow> platform_identity_configuration result" where
  "check_platform_identity_configuration c = checks
     [length_between 1 None (pi_did_methods c) ''did_methods'',
      in_validator (validate_platform_identity c)] c"

abbreviation platform_identity_fields :: "string list" where
  "platform_identity_fields \<equiv> [''did_methods'', ''did_url_template'']"

definition platform_identity_of_json :: "json \<Rightarrow> platform_identity_configuration result" where
  "platform_identity_of_json j = rbind (open_members platform_identity_fields j) (\<lambda>ms.
     rbind (field ''did_methods'' dec_strs ms) (\<lambda>m.
     rbind (field ''did_url_template'' dec_str ms) (\<lambda>t.
     check_platform_identity_configuration \<lparr>pi_did_methods = m, pi_did_url_template = t,
       pi_extra = extras platform_identity_fields ms\<rparr>)))"

definition platform_identity_to_wire :: "platform_identity_configuration \<Rightarrow> json" where
  "platform_identity_to_wire c = JObj (wire ''did_methods'' (enc_strs (pi_did_methods c))
     @ wire ''did_url_template'' (JStr (pi_did_url_template c)) @ pi_extra c)"

record platform_metadata =
  pm_hosted_verification :: bool
  pm_name :: string
  pm_did :: "string option"
  pm_extra :: members

definition check_platform_metadata :: "platform_metadata \<Rightarrow> platform_metadata result" where
  "check_platform_metadata m = checks
     [length_between 1 None (pm_name m) ''name'',
      in_validator (case pm_did m of None \<Rightarrow> Ok () | Some d \<Rightarrow> require_did d ''did'')] m"

abbreviation platform_metadata_fields :: "string list" where
  "platform_metadata_fields \<equiv> [''hosted_verification'', ''name'', ''did'']"

definition platform_metadata_of_json :: "json \<Rightarrow> platform_metadata result" where
  "platform_metadata_of_json j = rbind (open_members platform_metadata_fields j) (\<lambda>ms.
     rbind (field ''hosted_verification'' dec_bool ms) (\<lambda>h.
     rbind (field ''name'' dec_str ms) (\<lambda>n.
     rbind (opt_field ''did'' dec_str ms) (\<lambda>d.
     check_platform_metadata \<lparr>pm_hosted_verification = h, pm_name = n, pm_did = d,
       pm_extra = extras platform_metadata_fields ms\<rparr>))))"

definition platform_metadata_to_wire :: "platform_metadata \<Rightarrow> json" where
  "platform_metadata_to_wire m = JObj (wire ''hosted_verification'' (JBool (pm_hosted_verification m))
     @ wire ''name'' (JStr (pm_name m)) @ wire_opt ''did'' JStr (pm_did m) @ pm_extra m)"

record platform_signing =
  ps_algorithms :: "signing_algorithm list"
  ps_default_lifetime :: string
  ps_extra :: members

definition check_platform_signing :: "platform_signing \<Rightarrow> platform_signing result" where
  "check_platform_signing s = checks
     [length_between 1 None (ps_algorithms s) ''algorithms'',
      in_validator (require (fullmatch POSITIVE_SECONDS_PATTERN (ps_default_lifetime s))
        (Value_Error ''default_lifetime_seconds must be between 1 and 300''))] s"

abbreviation platform_signing_fields :: "string list" where
  "platform_signing_fields \<equiv> [''algorithms'', ''default_lifetime_seconds'']"

definition platform_signing_of_json :: "json \<Rightarrow> platform_signing result" where
  "platform_signing_of_json j = rbind (open_members platform_signing_fields j) (\<lambda>ms.
     rbind (field ''algorithms'' dec_algorithms ms) (\<lambda>a.
     rbind (field ''default_lifetime_seconds'' dec_str ms) (\<lambda>d.
     check_platform_signing \<lparr>ps_algorithms = a, ps_default_lifetime = d,
       ps_extra = extras platform_signing_fields ms\<rparr>)))"

definition platform_signing_to_wire :: "platform_signing \<Rightarrow> json" where
  "platform_signing_to_wire s = JObj (wire ''algorithms'' (enc_algorithms (ps_algorithms s))
     @ wire ''default_lifetime_seconds'' (JStr (ps_default_lifetime s)) @ ps_extra s)"

record platform_discovery =
  pd_aep_version :: string
  pd_endpoints :: platform_endpoints
  pd_http :: platform_http
  pd_identity :: platform_identity_configuration
  pd_platform :: platform_metadata
  pd_signing :: platform_signing
  pd_extra :: members

definition validate_discovery :: "platform_discovery \<Rightarrow> unit result" where
  "validate_discovery d =
     rbind (require (fullmatch VERSION_PATTERN (pd_aep_version d)
         \<and> major_version (pd_aep_version d) = major_version AEP_VERSION)
       (Value_Error ''aep_version must use a supported major.minor version'')) (\<lambda>_.
     require (pm_hosted_verification (pd_platform d) = (pe_hosted_verification (pd_endpoints d) \<noteq> None))
       (Value_Error ''hosted_verification flag and endpoint must agree''))"

definition check_platform_discovery :: "platform_discovery \<Rightarrow> platform_discovery result" where
  "check_platform_discovery d = checks [in_validator (validate_discovery d)] d"

abbreviation discovery_fields :: "string list" where
  "discovery_fields \<equiv> [''aep_version'', ''endpoints'', ''http'', ''identity'', ''platform'', ''signing'']"

definition platform_discovery_of_json :: "json \<Rightarrow> platform_discovery result" where
  "platform_discovery_of_json j = rbind (open_members discovery_fields j) (\<lambda>ms.
     rbind (field ''aep_version'' dec_str ms) (\<lambda>v.
     rbind (field ''endpoints'' platform_endpoints_of_json ms) (\<lambda>e.
     rbind (field ''http'' platform_http_of_json ms) (\<lambda>h.
     rbind (field ''identity'' platform_identity_of_json ms) (\<lambda>i.
     rbind (field ''platform'' platform_metadata_of_json ms) (\<lambda>p.
     rbind (field ''signing'' platform_signing_of_json ms) (\<lambda>s.
     check_platform_discovery \<lparr>pd_aep_version = v, pd_endpoints = e, pd_http = h, pd_identity = i,
       pd_platform = p, pd_signing = s, pd_extra = extras discovery_fields ms\<rparr>)))))))"

definition platform_discovery_to_wire :: "platform_discovery \<Rightarrow> json" where
  "platform_discovery_to_wire d = JObj (wire ''aep_version'' (JStr (pd_aep_version d))
     @ wire ''endpoints'' (platform_endpoints_to_wire (pd_endpoints d))
     @ wire ''http'' (platform_http_to_wire (pd_http d))
     @ wire ''identity'' (platform_identity_to_wire (pd_identity d))
     @ wire ''platform'' (platform_metadata_to_wire (pd_platform d))
     @ wire ''signing'' (platform_signing_to_wire (pd_signing d)) @ pd_extra d)"

section \<open>PlatformAgentIdentity and its list\<close>

record platform_agent_identity =
  ai_agent_did :: string
  ai_identity_id :: string
  ai_created_at :: string
  ai_document_url :: string
  ai_key_id :: string
  ai_service_did :: string
  ai_algorithms :: "signing_algorithm list"
  ai_status :: managed_status
  ai_updated_at :: string
  ai_extra :: members

definition validate_agent_identity :: "platform_agent_identity \<Rightarrow> unit result" where
  "validate_agent_identity i =
     rbind (require_did (ai_agent_did i) ''agent_did'') (\<lambda>_.
     rbind (require_did (ai_service_did i) ''service_did'') (\<lambda>_.
     rbind (require_https_uri (ai_document_url i) ''did_document_url'') (\<lambda>_.
     rbind (require_datetime (ai_created_at i) ''created_at'') (\<lambda>_.
     require_datetime (ai_updated_at i) ''updated_at''))))"

definition check_agent_identity :: "platform_agent_identity \<Rightarrow> platform_agent_identity result" where
  "check_agent_identity i = checks
     [length_between 1 None (ai_identity_id i) ''agent_identity_id'',
      length_between 1 None (ai_key_id i) ''key_id'',
      length_between 1 None (ai_algorithms i) ''signing_algorithms'',
      in_validator (validate_agent_identity i)] i"

abbreviation agent_identity_fields :: "string list" where
  "agent_identity_fields \<equiv> [''agent_did'', ''agent_identity_id'', ''created_at'', ''did_document_url'',
     ''key_id'', ''service_did'', ''signing_algorithms'', ''status'', ''updated_at'']"

definition agent_identity_of_json :: "json \<Rightarrow> platform_agent_identity result" where
  "agent_identity_of_json j = rbind (open_members agent_identity_fields j) (\<lambda>ms.
     rbind (field ''agent_did'' dec_str ms) (\<lambda>a.
     rbind (field ''agent_identity_id'' dec_str ms) (\<lambda>i.
     rbind (field ''created_at'' dec_str ms) (\<lambda>c.
     rbind (field ''did_document_url'' dec_str ms) (\<lambda>d.
     rbind (field ''key_id'' dec_str ms) (\<lambda>k.
     rbind (field ''service_did'' dec_str ms) (\<lambda>s.
     rbind (field ''signing_algorithms'' dec_algorithms ms) (\<lambda>al.
     rbind (field ''status'' (dec_enum managed_status_value all_managed_statuses) ms) (\<lambda>st.
     rbind (field ''updated_at'' dec_str ms) (\<lambda>u.
     check_agent_identity \<lparr>ai_agent_did = a, ai_identity_id = i, ai_created_at = c, ai_document_url = d,
       ai_key_id = k, ai_service_did = s, ai_algorithms = al, ai_status = st, ai_updated_at = u,
       ai_extra = extras agent_identity_fields ms\<rparr>))))))))))"

definition agent_identity_to_wire :: "platform_agent_identity \<Rightarrow> json" where
  "agent_identity_to_wire i = JObj (wire ''agent_did'' (JStr (ai_agent_did i))
     @ wire ''agent_identity_id'' (JStr (ai_identity_id i)) @ wire ''created_at'' (JStr (ai_created_at i))
     @ wire ''did_document_url'' (JStr (ai_document_url i)) @ wire ''key_id'' (JStr (ai_key_id i))
     @ wire ''service_did'' (JStr (ai_service_did i))
     @ wire ''signing_algorithms'' (enc_algorithms (ai_algorithms i))
     @ wire ''status'' (JStr (managed_status_value (ai_status i)))
     @ wire ''updated_at'' (JStr (ai_updated_at i)) @ ai_extra i)"

record identity_list_response =
  il_count :: string
  il_data :: "platform_agent_identity list"
  il_total :: string
  il_extra :: members

definition validate_counts :: "identity_list_response \<Rightarrow> unit result" where
  "validate_counts r =
     rbind (require (fullmatch NON_NEGATIVE_INTEGER_PATTERN (il_count r))
       (Value_Error ''count must be a non-negative decimal integer'')) (\<lambda>_.
     rbind (require (fullmatch NON_NEGATIVE_INTEGER_PATTERN (il_total r))
       (Value_Error ''total must be a non-negative decimal integer'')) (\<lambda>_.
     rbind (require (decimal_value (il_count r) = length (il_data r))
       (Value_Error ''count must equal the number of data entries'')) (\<lambda>_.
     require (decimal_value (il_count r) \<le> decimal_value (il_total r))
       (Value_Error ''total must not be less than count''))))"

definition check_identity_list :: "identity_list_response \<Rightarrow> identity_list_response result" where
  "check_identity_list r = checks [in_validator (validate_counts r)] r"

abbreviation identity_list_fields :: "string list" where
  "identity_list_fields \<equiv> [''count'', ''data'', ''total'']"

definition identity_list_of_json :: "json \<Rightarrow> identity_list_response result" where
  "identity_list_of_json j = rbind (open_members identity_list_fields j) (\<lambda>ms.
     rbind (field ''count'' dec_str ms) (\<lambda>c.
     rbind (field ''data'' (dec_tuple agent_identity_of_json) ms) (\<lambda>d.
     rbind (field ''total'' dec_str ms) (\<lambda>t.
     check_identity_list \<lparr>il_count = c, il_data = d, il_total = t,
       il_extra = extras identity_list_fields ms\<rparr>))))"

definition identity_list_to_wire :: "identity_list_response \<Rightarrow> json" where
  "identity_list_to_wire r = JObj (wire ''count'' (JStr (il_count r))
     @ wire ''data'' (enc_list agent_identity_to_wire (il_data r))
     @ wire ''total'' (JStr (il_total r)) @ il_extra r)"

section \<open>Provision, lifecycle and sign\<close>

record provision_request = pr_service_did :: string

definition check_provision_request :: "provision_request \<Rightarrow> provision_request result" where
  "check_provision_request r = checks [in_validator (require_did (pr_service_did r) ''service_did'')] r"

definition provision_request_of_json :: "json \<Rightarrow> provision_request result" where
  "provision_request_of_json j = rbind (forbid_members [''service_did''] j) (\<lambda>ms.
     rbind (field ''service_did'' dec_str ms) (\<lambda>s.
     check_provision_request \<lparr>pr_service_did = s\<rparr>))"

definition provision_request_to_wire :: "provision_request \<Rightarrow> json" where
  "provision_request_to_wire r = JObj (wire ''service_did'' (JStr (pr_service_did r)))"

record lifecycle_request = plr_status :: managed_status

definition lifecycle_request_of_json :: "json \<Rightarrow> lifecycle_request result" where
  "lifecycle_request_of_json j = rbind (forbid_members [''status''] j) (\<lambda>ms.
     rbind (field ''status'' (dec_enum managed_status_value all_managed_statuses) ms) (\<lambda>s.
     Ok \<lparr>plr_status = s\<rparr>))"

definition lifecycle_request_to_wire :: "lifecycle_request \<Rightarrow> json" where
  "lifecycle_request_to_wire r = JObj (wire ''status'' (JStr (managed_status_value (plr_status r))))"

record sign_request =
  sg_jti :: string
  sg_op :: assertion_operation
  sg_service_did :: string
  sg_lifetime :: "string option"
  sg_context :: "members option"
  sg_resource :: "string option"

definition validate_sign_request :: "sign_request \<Rightarrow> unit result" where
  "validate_sign_request r =
     rbind (require_did (sg_service_did r) ''service_did'') (\<lambda>_.
     rbind (validate_operation_resource (sg_op r) (sg_resource r)) (\<lambda>_.
     require (case sg_lifetime r of None \<Rightarrow> True | Some l \<Rightarrow> fullmatch POSITIVE_SECONDS_PATTERN l)
       (Value_Error ''lifetime_seconds must be between 1 and 300'')))"

definition check_sign_request :: "sign_request \<Rightarrow> sign_request result" where
  "check_sign_request r = checks
     [length_between 1 None (sg_jti r) ''jti'', in_validator (validate_sign_request r)] r"

abbreviation sign_fields :: "string list" where
  "sign_fields \<equiv> [''jti'', ''op'', ''service_did'', ''lifetime_seconds'', ''platform_context'', ''resource'']"

definition sign_request_of_json :: "json \<Rightarrow> sign_request result" where
  "sign_request_of_json j = rbind (forbid_members sign_fields j) (\<lambda>ms.
     rbind (field ''jti'' dec_str ms) (\<lambda>jt.
     rbind (field ''op'' (dec_enum operation_value all_operations) ms) (\<lambda>ope.
     rbind (field ''service_did'' dec_str ms) (\<lambda>s.
     rbind (opt_field ''lifetime_seconds'' dec_str ms) (\<lambda>l.
     rbind (opt_field ''platform_context'' dec_obj ms) (\<lambda>c.
     rbind (opt_field ''resource'' dec_str ms) (\<lambda>r.
     check_sign_request \<lparr>sg_jti = jt, sg_op = ope, sg_service_did = s, sg_lifetime = l,
       sg_context = c, sg_resource = r\<rparr>)))))))"

definition sign_request_to_wire :: "sign_request \<Rightarrow> json" where
  "sign_request_to_wire r = JObj (wire ''jti'' (JStr (sg_jti r))
     @ wire ''op'' (JStr (operation_value (sg_op r)))
     @ wire ''service_did'' (JStr (sg_service_did r))
     @ wire_opt ''lifetime_seconds'' JStr (sg_lifetime r)
     @ wire_opt ''platform_context'' JObj (sg_context r)
     @ wire_opt ''resource'' JStr (sg_resource r))"

record sign_completed =
  sc_agent_did :: string
  sc_assertion :: string
  sc_expires_at :: string
  sc_issued_at :: string
  sc_jti :: string
  sc_service_did :: string
  sc_context :: "members option"
  sc_extra :: members

definition validate_sign_completed :: "sign_completed \<Rightarrow> unit result" where
  "validate_sign_completed r =
     rbind (require_did (sc_agent_did r) ''agent_did'') (\<lambda>_.
     rbind (require_did (sc_service_did r) ''service_did'') (\<lambda>_.
     rbind (require_datetime (sc_expires_at r) ''expires_at'') (\<lambda>_.
     require_datetime (sc_issued_at r) ''issued_at'')))"

definition check_sign_completed :: "sign_completed \<Rightarrow> sign_completed result" where
  "check_sign_completed r = checks
     [length_between 1 None (sc_assertion r) ''client_assertion'',
      length_between 1 None (sc_jti r) ''jti'',
      in_validator (validate_sign_completed r)] r"

abbreviation completed_fields :: "string list" where
  "completed_fields \<equiv> [''status'', ''agent_did'', ''client_assertion'', ''expires_at'', ''issued_at'',
     ''jti'', ''service_did'', ''platform_context'']"

definition sign_completed_of_json :: "json \<Rightarrow> sign_completed result" where
  "sign_completed_of_json j = rbind (open_members completed_fields j) (\<lambda>ms.
     rbind (field ''status'' (dec_literal [''completed'']) ms) (\<lambda>_.
     rbind (field ''agent_did'' dec_str ms) (\<lambda>a.
     rbind (field ''client_assertion'' dec_str ms) (\<lambda>c.
     rbind (field ''expires_at'' dec_str ms) (\<lambda>e.
     rbind (field ''issued_at'' dec_str ms) (\<lambda>i.
     rbind (field ''jti'' dec_str ms) (\<lambda>jt.
     rbind (field ''service_did'' dec_str ms) (\<lambda>s.
     rbind (opt_field ''platform_context'' dec_obj ms) (\<lambda>p.
     check_sign_completed \<lparr>sc_agent_did = a, sc_assertion = c, sc_expires_at = e, sc_issued_at = i,
       sc_jti = jt, sc_service_did = s, sc_context = p,
       sc_extra = extras completed_fields ms\<rparr>)))))))))"

definition sign_completed_to_wire :: "sign_completed \<Rightarrow> json" where
  "sign_completed_to_wire r = JObj (wire ''status'' (JStr ''completed'')
     @ wire ''agent_did'' (JStr (sc_agent_did r)) @ wire ''client_assertion'' (JStr (sc_assertion r))
     @ wire ''expires_at'' (JStr (sc_expires_at r)) @ wire ''issued_at'' (JStr (sc_issued_at r))
     @ wire ''jti'' (JStr (sc_jti r)) @ wire ''service_did'' (JStr (sc_service_did r))
     @ wire_opt ''platform_context'' JObj (sc_context r) @ sc_extra r)"

record sign_pending =
  sp_retry_after :: string
  sp_context :: "members option"
  sp_extra :: members

definition check_sign_pending :: "sign_pending \<Rightarrow> sign_pending result" where
  "check_sign_pending r = checks
     [in_validator (require (fullmatch POSITIVE_SECONDS_PATTERN (sp_retry_after r))
       (Value_Error ''retry_after_seconds must be between 1 and 300''))] r"

abbreviation sign_pending_fields :: "string list" where
  "sign_pending_fields \<equiv> [''status'', ''retry_after_seconds'', ''platform_context'']"

definition sign_pending_of_json :: "json \<Rightarrow> sign_pending result" where
  "sign_pending_of_json j = rbind (open_members sign_pending_fields j) (\<lambda>ms.
     rbind (field ''status'' (dec_literal [''pending'']) ms) (\<lambda>_.
     rbind (field ''retry_after_seconds'' dec_str ms) (\<lambda>r.
     rbind (opt_field ''platform_context'' dec_obj ms) (\<lambda>p.
     check_sign_pending \<lparr>sp_retry_after = r, sp_context = p,
       sp_extra = extras sign_pending_fields ms\<rparr>))))"

definition sign_pending_to_wire :: "sign_pending \<Rightarrow> json" where
  "sign_pending_to_wire r = JObj (wire ''status'' (JStr ''pending'')
     @ wire ''retry_after_seconds'' (JStr (sp_retry_after r))
     @ wire_opt ''platform_context'' JObj (sp_context r) @ sp_extra r)"

text \<open>\<open>PlatformSignResponse\<close>: the literal status of the two classes makes at most one decoder succeed.\<close>

datatype sign_response = Sign_Completed sign_completed | Sign_Pending sign_pending

definition sign_response_of_json :: "json \<Rightarrow> sign_response result" where
  "sign_response_of_json j = (case sign_completed_of_json j of
      Inr c \<Rightarrow> Ok (Sign_Completed c)
    | Inl e \<Rightarrow> (case sign_pending_of_json j of Inr p \<Rightarrow> Ok (Sign_Pending p) | Inl _ \<Rightarrow> Raise e))"

text \<open>\<^verbatim>\<open>parse_platform_sign_response\<close> of \<^verbatim>\<open>core/validation.py\<close>.\<close>

definition parse_platform_sign_response :: "json result \<Rightarrow> sign_response result" where
  "parse_platform_sign_response d = parse_json_model d sign_response_of_json ''Platform Sign response''"

fun sign_response_to_wire :: "sign_response \<Rightarrow> json" where
  "sign_response_to_wire (Sign_Completed c) = sign_completed_to_wire c"
| "sign_response_to_wire (Sign_Pending p) = sign_pending_to_wire p"

section \<open>Hosted verification\<close>

record verification_request =
  vq_assertion :: string
  vq_op :: assertion_operation
  vq_service_did :: string
  vq_resource :: "string option"

definition check_verification_request :: "verification_request \<Rightarrow> verification_request result" where
  "check_verification_request r = checks
     [length_between 1 None (vq_assertion r) ''client_assertion'',
      in_validator (rbind (require_did (vq_service_did r) ''service_did'') (\<lambda>_.
        validate_operation_resource (vq_op r) (vq_resource r)))] r"

abbreviation verification_request_fields :: "string list" where
  "verification_request_fields \<equiv> [''client_assertion'', ''op'', ''service_did'', ''resource'']"

definition verification_request_of_json :: "json \<Rightarrow> verification_request result" where
  "verification_request_of_json j = rbind (forbid_members verification_request_fields j) (\<lambda>ms.
     rbind (field ''client_assertion'' dec_str ms) (\<lambda>c.
     rbind (field ''op'' (dec_enum operation_value all_operations) ms) (\<lambda>ope.
     rbind (field ''service_did'' dec_str ms) (\<lambda>s.
     rbind (opt_field ''resource'' dec_str ms) (\<lambda>r.
     check_verification_request \<lparr>vq_assertion = c, vq_op = ope, vq_service_did = s,
       vq_resource = r\<rparr>)))))"

definition verification_request_to_wire :: "verification_request \<Rightarrow> json" where
  "verification_request_to_wire r = JObj (wire ''client_assertion'' (JStr (vq_assertion r))
     @ wire ''op'' (JStr (operation_value (vq_op r)))
     @ wire ''service_did'' (JStr (vq_service_did r))
     @ wire_opt ''resource'' JStr (vq_resource r))"

record verification_response =
  vs_reason :: string
  vs_service_did :: string
  vs_verified :: bool
  vs_agent_did :: "string option"
  vs_identity_id :: "string option"
  vs_op :: "assertion_operation option"
  vs_status :: "managed_status option"
  vs_extra :: members

definition validate_verification_response :: "verification_response \<Rightarrow> unit result" where
  "validate_verification_response r =
     rbind (require_did (vs_service_did r) ''service_did'') (\<lambda>_.
     if vs_verified r then
       rbind (require (vs_reason r = ''verified'') (Value_Error ''verified and reason must agree'')) (\<lambda>_.
       case vs_agent_did r of
         None \<Rightarrow> Raise (Value_Error ''verified responses require Agent identity details'')
       | Some d \<Rightarrow>
           rbind (require (vs_identity_id r \<noteq> None \<and> vs_op r \<noteq> None \<and> vs_status r \<noteq> None)
             (Value_Error ''verified responses require Agent identity details'')) (\<lambda>_.
           require_did d ''agent_did''))
     else
       rbind (require (vs_reason r = ''not_recognized'') (Value_Error ''verified and reason must agree'')) (\<lambda>_.
       require (vs_agent_did r = None \<and> vs_identity_id r = None \<and> vs_op r = None \<and> vs_status r = None)
         (Value_Error ''not_recognized responses must not disclose identity details'')))"

definition check_verification_response :: "verification_response \<Rightarrow> verification_response result" where
  "check_verification_response r = checks
     [opt_length_between 1 None (vs_identity_id r) ''agent_identity_id'',
      in_validator (validate_verification_response r)] r"

abbreviation verification_response_fields :: "string list" where
  "verification_response_fields \<equiv> [''reason'', ''service_did'', ''verified'', ''agent_did'',
     ''agent_identity_id'', ''op'', ''status'']"

definition verification_response_of_json :: "json \<Rightarrow> verification_response result" where
  "verification_response_of_json j = rbind (open_members verification_response_fields j) (\<lambda>ms.
     rbind (field ''reason'' (dec_literal [''not_recognized'', ''verified'']) ms) (\<lambda>r.
     rbind (field ''service_did'' dec_str ms) (\<lambda>s.
     rbind (field ''verified'' dec_bool ms) (\<lambda>v.
     rbind (opt_field ''agent_did'' dec_str ms) (\<lambda>a.
     rbind (opt_field ''agent_identity_id'' dec_str ms) (\<lambda>i.
     rbind (opt_field ''op'' (dec_enum operation_value all_operations) ms) (\<lambda>ope.
     rbind (opt_field ''status'' (dec_enum managed_status_value all_managed_statuses) ms) (\<lambda>st.
     check_verification_response \<lparr>vs_reason = r, vs_service_did = s, vs_verified = v, vs_agent_did = a,
       vs_identity_id = i, vs_op = ope, vs_status = st,
       vs_extra = extras verification_response_fields ms\<rparr>))))))))"

definition verification_response_to_wire :: "verification_response \<Rightarrow> json" where
  "verification_response_to_wire r = JObj (wire ''reason'' (JStr (vs_reason r))
     @ wire ''service_did'' (JStr (vs_service_did r)) @ wire ''verified'' (JBool (vs_verified r))
     @ wire_opt ''agent_did'' JStr (vs_agent_did r)
     @ wire_opt ''agent_identity_id'' JStr (vs_identity_id r)
     @ wire_opt ''op'' (\<lambda>x. JStr (operation_value x)) (vs_op r)
     @ wire_opt ''status'' (\<lambda>x. JStr (managed_status_value x)) (vs_status r) @ vs_extra r)"

section \<open>Round trips\<close>

lemma dec_obj_JObj [simp]: "dec_obj (JObj ms) = Inr ms"
  by (simp add: dec_obj_def)

lemma enc_algorithms_not_null [simp]: "enc_algorithms a \<noteq> JNull"
  by (simp add: enc_algorithms_def)

lemma dec_algorithms_enc [simp]: "dec_algorithms (enc_algorithms a) = Inr a"
  unfolding dec_algorithms_def enc_algorithms_def by (rule dec_tuple_map) simp

lemma agent_identity_wire:
  "extra_ok agent_identity_fields (ai_extra i) \<Longrightarrow>
     agent_identity_of_json (agent_identity_to_wire i) = check_agent_identity i"
  by (cases i) (simp add: agent_identity_of_json_def agent_identity_to_wire_def
      open_members_wire extra_ok_extras)

lemma sign_request_wire: "sign_request_of_json (sign_request_to_wire r) = check_sign_request r"
  by (cases r) (simp add: sign_request_of_json_def sign_request_to_wire_def forbid_members_wire)

lemma verification_request_wire:
  "verification_request_of_json (verification_request_to_wire r) = check_verification_request r"
  by (cases r) (simp add: verification_request_of_json_def verification_request_to_wire_def
      forbid_members_wire)

lemma identity_list_wire:
  assumes "extra_ok identity_list_fields (il_extra r)"
    and "list_all (\<lambda>i. extra_ok agent_identity_fields (ai_extra i) \<and> check_agent_identity i = Inr i) (il_data r)"
  shows "identity_list_of_json (identity_list_to_wire r) = check_identity_list r"
proof -
  have "dec_tuple agent_identity_of_json (enc_list agent_identity_to_wire (il_data r)) = Inr (il_data r)"
    unfolding enc_list_def using assms(2)
    by (intro dec_tuple_map) (simp add: list_all_iff agent_identity_wire)
  with assms(1) show ?thesis
    by (cases r) (simp add: identity_list_of_json_def identity_list_to_wire_def
        open_members_wire extra_ok_extras)
qed

lemma sign_completed_wire:
  "extra_ok completed_fields (sc_extra r) \<Longrightarrow>
     sign_completed_of_json (sign_completed_to_wire r) = check_sign_completed r"
  by (cases r) (simp add: sign_completed_of_json_def sign_completed_to_wire_def
      open_members_wire extra_ok_extras extra_ok_lookup [of completed_fields])

lemma sign_pending_wire:
  "extra_ok sign_pending_fields (sp_extra r) \<Longrightarrow>
     sign_pending_of_json (sign_pending_to_wire r) = check_sign_pending r"
  by (cases r) (simp add: sign_pending_of_json_def sign_pending_to_wire_def
      open_members_wire extra_ok_extras extra_ok_lookup [of sign_pending_fields])

lemma verification_response_wire:
  assumes "extra_ok verification_response_fields (vs_extra r)"
    and "vs_reason r \<in> {''not_recognized'', ''verified''}"
  shows "verification_response_of_json (verification_response_to_wire r) = check_verification_response r"
  using assms
  by (cases r) (auto simp: verification_response_of_json_def verification_response_to_wire_def
      open_members_wire extra_ok_extras extra_ok_lookup [of verification_response_fields])

end
