(* ===== verification/Platform_Types.thy ===== *)
theory Platform_Types
  imports Model_Platform Service_Support
begin

text \<open>
  \<^verbatim>\<open>platform/types.py\<close>: the values of a Platform, the operations it expects of its collaborators, and
  the responses made of stored identities. \<open>'w\<close> is the state of the collaborators, \<open>'key\<close> a verification key.
\<close>

section \<open>Results, contexts, identities\<close>

record 'b platform_result =
  pl_status :: int
  pl_body :: "'b option"
  pl_content_type :: string
  pl_headers :: "(string, string) dict"
  pl_problem :: "problem_details option"

record request_context =
  rc_principal :: string
  rc_idempotency_key :: "string option"
  rc_authorization :: "string option"
  rc_request_id :: "string option"
  rc_current_time :: "datetime option"

record identity_record =
  id_agent_did :: string
  id_agent_did_id :: string
  id_identity_id :: string
  id_created_at :: datetime
  id_document_url :: string
  id_key_id :: string
  id_principal :: string
  id_service_did :: string
  id_algorithms :: "signing_algorithm list"
  id_status :: managed_status
  id_updated_at :: datetime

record identity_query =
  lq_descending :: bool
  lq_limit :: int
  lq_offset :: int
  lq_service_did :: "string option"
  lq_status :: "managed_status option"

record identity_list =
  ls_identities :: "identity_record list"
  ls_total :: int

record verification_method =
  vm_controller :: string
  vm_id :: string
  vm_jwk :: members
  vm_type :: string

section \<open>Authorization\<close>

datatype authorization_operation =
    Get_Identity | List_Identities | Provision_Identity | Sign_Operation | Update_Identity | Verify_Operation

record authorization_request =
  az_operation :: authorization_operation
  az_identity :: "identity_record option"
  az_lifecycle :: "lifecycle_request option"
  az_query :: "identity_query option"
  az_provision :: "provision_request option"
  az_sign :: "sign_request option"
  az_verification :: "verification_request option"

definition authorizing :: "authorization_operation \<Rightarrow> authorization_request" where
  "authorizing operation = \<lparr>az_operation = operation, az_identity = None, az_lifecycle = None, az_query = None,
     az_provision = None, az_sign = None, az_verification = None\<rparr>"

section \<open>Idempotency\<close>

datatype idempotent_operation = Idem_Hosted_Verification | Idem_Provision | Idem_Sign

record platform_stored =
  pst_status :: int
  pst_content_type :: string
  pst_body :: body
  pst_created_at :: datetime
  pst_headers :: "(string, string) dict"

record platform_input =
  pn_key :: string
  pn_operation :: idempotent_operation
  pn_principal :: string
  pn_hash :: string

datatype platform_idempotency_state = Platform_Conflict | Platform_Created | Platform_Replayed

record platform_idempotency_result =
  px_response :: "platform_stored option"
  px_state :: platform_idempotency_state

section \<open>Collaborators and options\<close>

record ('w, 'key) key_store =
  ks_create_key :: "identity_record \<Rightarrow> ('w, unit) prog"
  ks_verification_method :: "identity_record \<Rightarrow> ('w, verification_method) prog"
  ks_sign :: "identity_record \<Rightarrow> assertion_claims \<Rightarrow> ('w, string) prog"
  ks_verification_key :: "identity_record \<Rightarrow> ('w, 'key) prog"

record 'w lifecycle_policy =
  lp_can_sign :: "identity_record \<Rightarrow> request_context \<Rightarrow> ('w, bool) prog"
  lp_can_transition :: "identity_record \<Rightarrow> managed_status \<Rightarrow> request_context \<Rightarrow> ('w, bool) prog"
  lp_can_verify :: "identity_record \<Rightarrow> request_context \<Rightarrow> ('w, bool) prog"

text \<open>\<open>SignHandlerInput\<close> is the pair of the identity and the request.\<close>

type_synonym 'w sign_handler =
  "identity_record \<times> sign_request \<Rightarrow> request_context \<Rightarrow> ('w, sign_response platform_result option) prog"

record discovery_options =
  do_endpoint_base :: string
  do_lifecycle :: string
  do_list :: string
  do_platform_name :: string
  do_provision :: string
  do_sign :: string
  do_hosted_verification :: "string option"
  do_platform_did :: "string option"

text \<open>\<open>PlatformOptions\<close> with the in-memory stores; durations in microseconds.\<close>

record ('w, 'key) platform_options =
  po_authorize :: "authorization_request \<Rightarrow> request_context \<Rightarrow> ('w, bool) prog"
  po_did_host :: string
  po_did_url_template :: string
  po_discovery :: discovery_options
  po_key_store :: "('w, 'key) key_store"
  po_resolve :: "string \<Rightarrow> ('w, bool) prog"
  po_algorithms :: "signing_algorithm list"
  po_agent_did_id :: "('w, string) prog"
  po_clock :: "('w, datetime) prog"
  po_default_lifetime :: int
  po_did_path_prefix :: string
  po_hosted_verification :: bool
  po_identifier :: "('w, string) prog"
  po_lifecycle_policy :: "'w lifecycle_policy option"
  po_maximum_lifetime :: int
  po_replay_store :: bool
  po_sign_handler :: "'w sign_handler option"

section \<open>Responses\<close>

text \<open>\<open>isoformat(timespec="seconds")\<close>: local time, then the offset with its seconds when there are any.\<close>

definition iso_offset :: "int \<Rightarrow> string" where
  "iso_offset off =
     (let n = \<bar>off\<bar> in
      (if off < 0 then ''-'' else ''+'') @ padded 2 (n div 3600) @ '':'' @ padded 2 (n mod 3600 div 60)
      @ (if n mod 60 = 0 then [] else '':'' @ padded 2 (n mod 60)))"

definition iso_seconds :: "datetime \<Rightarrow> string" where
  "iso_seconds t =
     (let total = instant t div 1000000 + (case utcoffset t of None \<Rightarrow> 0 | Some off \<Rightarrow> off);
          s = total mod 86400 in
      case civil_date (total div 86400) of (y, m, d) \<Rightarrow>
        padded 4 y @ ''-'' @ padded 2 m @ ''-'' @ padded 2 d @ ''T''
        @ padded 2 (s div 3600) @ '':'' @ padded 2 (s mod 3600 div 60) @ '':'' @ padded 2 (s mod 60)
        @ (case utcoffset t of None \<Rightarrow> [] | Some off \<Rightarrow> iso_offset off))"

definition local_rfc3339 :: "datetime \<Rightarrow> string" where
  "local_rfc3339 t = replace_sub ''+00:00'' ''Z'' (iso_seconds t)"

definition identity_response :: "identity_record \<Rightarrow> platform_agent_identity result" where
  "identity_response r = check_agent_identity \<lparr>ai_agent_did = id_agent_did r, ai_identity_id = id_identity_id r,
     ai_created_at = local_rfc3339 (id_created_at r), ai_document_url = id_document_url r,
     ai_key_id = id_key_id r, ai_service_did = id_service_did r, ai_algorithms = id_algorithms r,
     ai_status = id_status r, ai_updated_at = local_rfc3339 (id_updated_at r), ai_extra = []\<rparr>"

definition list_response :: "identity_list \<Rightarrow> identity_list_response result" where
  "list_response listed =
     rbind (rmap identity_response (ls_identities listed)) (\<lambda>data.
     check_identity_list \<lparr>il_count = show_int (int (length data)), il_data = data,
       il_total = show_int (ls_total listed), il_extra = []\<rparr>)"

end
