(* ===== verification/Platform_Stores.thy ===== *)
theory Platform_Stores
  imports Platform_Types "HOL-Library.Product_Lexorder"
begin

text \<open>
  \<^verbatim>\<open>platform/stores.py\<close>: the in-memory stores of a Platform when one call runs at a time (\<open>Store_Calls\<close> has the
  calls that interleave), and the default lifecycle policy. The interface \<open>identity_index\<close> states what the four dictionaries of the identity store
  promise together: every lookup is a search in one list of records.
\<close>

section \<open>MemoryIdentityStore\<close>

record identity_state =
  im_records :: "(string, identity_record) dict"
  im_by_did :: "(string, string) dict"
  im_by_did_id :: "(string, string) dict"
  im_by_scope :: "(string \<times> string, string) dict"

definition no_identities :: identity_state where
  "no_identities = \<lparr>im_records = [], im_by_did = [], im_by_did_id = [], im_by_scope = []\<rparr>"

definition validate_identity_record :: "identity_record \<Rightarrow> unit result" where
  "validate_identity_record r = require
     (\<not> (\<not> list_all (\<lambda>v. v \<noteq> []) [id_agent_did r, id_agent_did_id r, id_identity_id r, id_document_url r,
          id_key_id r, id_principal r, id_service_did r]
       \<or> id_algorithms r = [] \<or> id_key_id r \<noteq> id_agent_did r
       \<or> \<not> aware (id_created_at r) \<or> \<not> aware (id_updated_at r)))
     (Value_Error ''AEP Platform identity store received an invalid record'')"

definition scope_of :: "identity_record \<Rightarrow> string \<times> string" where
  "scope_of r = (id_principal r, id_service_did r)"

text \<open>The block of \<open>find_or_create\<close> under the second lock.\<close>

definition identity_insert :: "identity_record \<Rightarrow> identity_state \<Rightarrow> identity_state result" where
  "identity_insert r st =
     (if dict_has (id_identity_id r) (im_records st) \<or> dict_has (id_agent_did r) (im_by_did st)
         \<or> dict_has (id_agent_did_id r) (im_by_did_id st)
      then Raise (Value_Error ''AEP Platform identity material must be unique'')
      else Ok \<lparr>im_records = dict_set (id_identity_id r) r (im_records st),
        im_by_did = dict_set (id_agent_did r) (id_identity_id r) (im_by_did st),
        im_by_did_id = dict_set (id_agent_did_id r) (id_identity_id r) (im_by_did_id st),
        im_by_scope = dict_set (scope_of r) (id_identity_id r) (im_by_scope st)\<rparr>)"

definition identity_get :: "string \<Rightarrow> identity_state \<Rightarrow> identity_record option" where
  "identity_get i st = map_of (im_records st) i"

definition identity_by_did :: "string \<Rightarrow> identity_state \<Rightarrow> identity_record option" where
  "identity_by_did d st = (case map_of (im_by_did st) d of None \<Rightarrow> None | Some i \<Rightarrow> identity_get i st)"

definition identity_by_did_id :: "string \<Rightarrow> identity_state \<Rightarrow> identity_record option" where
  "identity_by_did_id d st = (case map_of (im_by_did_id st) d of None \<Rightarrow> None | Some i \<Rightarrow> identity_get i st)"

definition identity_by_scope :: "string \<times> string \<Rightarrow> identity_state \<Rightarrow> identity_record option" where
  "identity_by_scope p st = (case map_of (im_by_scope st) p of None \<Rightarrow> None | Some i \<Rightarrow> identity_get i st)"

definition identity_find_or_create ::
    "('s \<Rightarrow> identity_state) \<Rightarrow> ((identity_state \<Rightarrow> identity_state) \<Rightarrow> 's \<Rightarrow> 's) \<Rightarrow> string \<Rightarrow> string
      \<Rightarrow> ('s, identity_record) prog \<Rightarrow> ('s, identity_record \<times> bool) prog" where
  "identity_find_or_create get upd owner service factory =
     sbind (slift (require (owner \<noteq> [] \<and> service \<noteq> [])
       (Value_Error ''AEP Platform identity scope must not be empty''))) (\<lambda>_.
     sbind (sget get) (\<lambda>st.
     case map_of (im_by_scope st) (owner, service) of
       Some i \<Rightarrow> (case identity_get i st of Some r \<Rightarrow> sret (r, False) | None \<Rightarrow> sraise (Key_Error i))
     | None \<Rightarrow>
         sbind factory (\<lambda>r.
         sbind (slift (validate_identity_record r)) (\<lambda>_.
         sbind (slift (require (scope_of r = (owner, service))
           (Value_Error ''AEP Platform identity does not match its requested scope''))) (\<lambda>_.
         sbind (sget get) (\<lambda>st.
         sbind (slift (identity_insert r st)) (\<lambda>st'.
         sbind (smodify (upd (\<lambda>_. st'))) (\<lambda>_.
         sret (r, True)))))))))"

definition identity_update :: "string \<Rightarrow> managed_status \<Rightarrow> datetime \<Rightarrow> (identity_state, identity_record option) prog" where
  "identity_update i status t =
     sbind (slift (require (aware t) (Value_Error ''AEP Platform identity update is invalid''))) (\<lambda>_.
     sbind (sget (identity_get i)) (\<lambda>current.
     case current of
       None \<Rightarrow> sret None
     | Some r \<Rightarrow>
         let updated = r\<lparr>id_status := status, id_updated_at := t\<rparr> in
         sbind (smodify (im_records_update (dict_set i updated))) (\<lambda>_. sret (Some updated))))"

definition listed :: "string \<Rightarrow> identity_query \<Rightarrow> identity_record \<Rightarrow> bool" where
  "listed owner q r = (id_principal r = owner
     \<and> (lq_service_did q = None \<or> lq_service_did q = Some (id_service_did r))
     \<and> (lq_status q = None \<or> lq_status q = Some (id_status r)))"

definition list_key :: "identity_record \<Rightarrow> int \<times> string" where
  "list_key r = (instant (id_created_at r), id_identity_id r)"

text \<open>\<open>list.sort\<close> is stable, with \<open>reverse=True\<close> too.\<close>

definition sorted_identities :: "bool \<Rightarrow> identity_record list \<Rightarrow> identity_record list" where
  "sorted_identities descending rs =
     (if descending then rev (sort_key list_key (rev rs)) else sort_key list_key rs)"

definition identity_page :: "string \<Rightarrow> identity_query \<Rightarrow> identity_state \<Rightarrow> identity_list result" where
  "identity_page owner q st =
     rbind (require (\<not> (owner = [] \<or> lq_limit q < 0 \<or> lq_offset q < 0))
       (Value_Error ''AEP Platform identity list query is invalid'')) (\<lambda>_.
     let rs = sorted_identities (lq_descending q) (filter (listed owner q) (map snd (im_records st))) in
     Ok \<lparr>ls_identities = take (nat (lq_limit q)) (drop (nat (lq_offset q)) rs), ls_total = int (length rs)\<rparr>)"

section \<open>MemoryPlatformIdempotencyStore\<close>

type_synonym platform_idempotency = "(string \<times> string, platform_input \<times> platform_stored) dict"

definition prune_platform :: "datetime \<Rightarrow> platform_idempotency \<Rightarrow> platform_idempotency" where
  "prune_platform now st = dict_keep (\<lambda>(_, (_, r)). instant now - seconds 3600 \<le> instant (pst_created_at r)) st"

definition platform_execute ::
    "('s \<Rightarrow> platform_idempotency) \<Rightarrow> ((platform_idempotency \<Rightarrow> platform_idempotency) \<Rightarrow> 's \<Rightarrow> 's)
      \<Rightarrow> ('s, datetime) prog \<Rightarrow> platform_input \<Rightarrow> ('s, platform_stored) prog
      \<Rightarrow> ('s, platform_idempotency_result) prog" where
  "platform_execute get upd clock v operation =
     sbind (slift (require (pn_principal v \<noteq> [] \<and> pn_key v \<noteq> [] \<and> pn_hash v \<noteq> [])
       (Value_Error ''AEP Platform idempotency input is invalid''))) (\<lambda>_.
     let key = (pn_principal v, pn_key v) in
     sbind clock (\<lambda>now.
     sbind (slift (require (aware now)
       (Value_Error ''AEP Platform idempotency clock must be offset-aware''))) (\<lambda>_.
     sbind (smodify (upd (prune_platform now))) (\<lambda>_.
     sbind (sget (\<lambda>s. map_of (get s) key)) (\<lambda>existing.
     case existing of
       Some (previous, response) \<Rightarrow>
         if pn_operation previous \<noteq> pn_operation v \<or> pn_hash previous \<noteq> pn_hash v
         then sret \<lparr>px_response = None, px_state = Platform_Conflict\<rparr>
         else sret \<lparr>px_response = Some response, px_state = Platform_Replayed\<rparr>
     | None \<Rightarrow>
         sbind operation (\<lambda>response.
         sbind (smodify (upd (dict_set key (v, response)))) (\<lambda>_.
         sret \<lparr>px_response = Some response, px_state = Platform_Created\<rparr>)))))))"

section \<open>MemoryReplayStore\<close>

type_synonym platform_replay = "(string, datetime) dict"

definition platform_consume :: "string \<Rightarrow> datetime \<Rightarrow> datetime \<Rightarrow> (platform_replay, bool) prog" where
  "platform_consume key deadline now st =
     (if key = [] \<or> \<not> aware deadline \<or> \<not> aware now
      then (Inl (Value_Error ''AEP Platform replay input is invalid''), st)
      else
        let records = dict_keep (\<lambda>(_, expiry). instant now < instant expiry) st in
        if instant deadline \<le> instant now \<or> dict_has key records then (Inr False, records)
        else (Inr True, dict_set key deadline records))"

section \<open>DefaultLifecyclePolicy\<close>

definition default_lifecycle :: "'w lifecycle_policy" where
  "default_lifecycle = \<lparr>lp_can_sign = (\<lambda>r _. sret (id_status r = Managed_Active)),
     lp_can_transition = (\<lambda>_ _ _. sret True),
     lp_can_verify = (\<lambda>r _. sret (id_status r = Managed_Active))\<rparr>"

section \<open>The contract of the identity store\<close>

text \<open>What may change in a stored identity.\<close>

definition same_identity :: "identity_record \<Rightarrow> identity_record \<Rightarrow> bool" where
  "same_identity r r' = (r' = r\<lparr>id_status := id_status r', id_updated_at := id_updated_at r'\<rparr>)"

lemma same_identity_refl [simp]: "same_identity r r"
  by (simp add: same_identity_def)

lemma same_identity_fields:
  assumes "same_identity r r'"
  shows "id_agent_did r' = id_agent_did r" "id_agent_did_id r' = id_agent_did_id r"
    "id_identity_id r' = id_identity_id r" "id_created_at r' = id_created_at r"
    "id_document_url r' = id_document_url r" "id_key_id r' = id_key_id r" "id_principal r' = id_principal r"
    "id_service_did r' = id_service_did r" "id_algorithms r' = id_algorithms r" "scope_of r' = scope_of r"
proof -
  from assms have "\<exists>a b. r' = r\<lparr>id_status := a, id_updated_at := b\<rparr>"
    unfolding same_identity_def by blast
  then obtain a b where "r' = r\<lparr>id_status := a, id_updated_at := b\<rparr>" by blast
  then show "id_agent_did r' = id_agent_did r" "id_agent_did_id r' = id_agent_did_id r"
    "id_identity_id r' = id_identity_id r" "id_created_at r' = id_created_at r"
    "id_document_url r' = id_document_url r" "id_key_id r' = id_key_id r" "id_principal r' = id_principal r"
    "id_service_did r' = id_service_did r" "id_algorithms r' = id_algorithms r" "scope_of r' = scope_of r"
    by (simp_all add: scope_of_def)
qed

lemma same_identity_trans: "same_identity r q \<Longrightarrow> same_identity q t \<Longrightarrow> same_identity r t"
  by (cases r; cases q; cases t) (simp add: same_identity_def)

lemma same_identity_update [simp]: "same_identity r (r\<lparr>id_status := st, id_updated_at := t\<rparr>)"
  by (simp add: same_identity_def)

locale identity_index =
  fixes stored :: "'s \<Rightarrow> identity_record set" and ok :: "'s \<Rightarrow> bool"
    and by_id :: "string \<Rightarrow> 's \<Rightarrow> identity_record option"
    and by_did :: "string \<Rightarrow> 's \<Rightarrow> identity_record option"
    and by_did_id :: "string \<Rightarrow> 's \<Rightarrow> identity_record option"
    and by_scope :: "string \<times> string \<Rightarrow> 's \<Rightarrow> identity_record option"
    and insert :: "identity_record \<Rightarrow> 's \<Rightarrow> 's result"
    and update :: "string \<Rightarrow> managed_status \<Rightarrow> datetime \<Rightarrow> ('s, identity_record option) prog"
  assumes by_id: "ok st \<Longrightarrow> by_id i st = Some r \<longleftrightarrow> r \<in> stored st \<and> id_identity_id r = i"
    and by_did: "ok st \<Longrightarrow> by_did d st = Some r \<longleftrightarrow> r \<in> stored st \<and> id_agent_did r = d"
    and by_did_id: "ok st \<Longrightarrow> by_did_id d st = Some r \<longleftrightarrow> r \<in> stored st \<and> id_agent_did_id r = d"
    and by_scope: "ok st \<Longrightarrow> by_scope p st = Some r \<longleftrightarrow> r \<in> stored st \<and> scope_of r = p"
    and insert_Ok: "ok st \<Longrightarrow> is_ok (validate_identity_record r) \<Longrightarrow> by_scope (scope_of r) st = None \<Longrightarrow>
      insert r st = Inr st' \<Longrightarrow> ok st' \<and> stored st' = Set.insert r (stored st)"
    and insert_total: "ok st \<Longrightarrow> is_ok (insert r st) \<longleftrightarrow>
      by_id (id_identity_id r) st = None \<and> by_did (id_agent_did r) st = None \<and> by_did_id (id_agent_did_id r) st = None"
    and update_Ok: "ok st \<Longrightarrow> update i status t st = (x, st') \<Longrightarrow> ok st'
      \<and> (stored st' = stored st \<or> (\<exists>r \<in> stored st. id_identity_id r = i
          \<and> stored st' = Set.insert (r\<lparr>id_status := status, id_updated_at := t\<rparr>) (stored st - {r})))"
begin

text \<open>Each of the four keys names at most one stored identity.\<close>

lemma unique:
  assumes "ok st" and "r \<in> stored st" "q \<in> stored st"
    and "id_identity_id r = id_identity_id q \<or> id_agent_did r = id_agent_did q
      \<or> id_agent_did_id r = id_agent_did_id q \<or> scope_of r = scope_of q"
  shows "r = q"
  using assms by_id [of st "id_identity_id q"] by_did [of st "id_agent_did q"]
    by_did_id [of st "id_agent_did_id q"] by_scope [of st "scope_of q"]
  by (metis option.inject)

text \<open>No operation loses an identity or moves it to other material.\<close>

definition evolves :: "'s \<Rightarrow> 's \<Rightarrow> bool" where
  "evolves st st' = (ok st \<longrightarrow> ok st' \<and> (\<forall>r \<in> stored st. \<exists>r' \<in> stored st'. same_identity r r'))"

lemma evolves_refl: "evolves st st"
  unfolding evolves_def using same_identity_refl by blast

lemma evolves_trans: "evolves a b \<Longrightarrow> evolves b c \<Longrightarrow> evolves a c"
  unfolding evolves_def using same_identity_trans by meson

lemma evolves_insert:
  assumes "is_ok (validate_identity_record r)" and "ok st \<Longrightarrow> by_scope (scope_of r) st = None" and "insert r st = Inr st'"
  shows "evolves st st'"
  unfolding evolves_def
proof
  assume "ok st"
  from insert_Ok [OF this assms(1) assms(2) [OF this] assms(3)]
  show "ok st' \<and> (\<forall>r \<in> stored st. \<exists>r' \<in> stored st'. same_identity r r')"
    using same_identity_refl by (metis Set.insertI2)
qed

lemma evolves_update: "evolves st (snd (update i status t st))"
  unfolding evolves_def
proof
  assume ok: "ok st"
  obtain x st' where run: "update i status t st = (x, st')" by (cases "update i status t st")
  from update_Ok [OF ok run] show "ok (snd (update i status t st))
      \<and> (\<forall>r \<in> stored st. \<exists>r' \<in> stored (snd (update i status t st)). same_identity r r')"
    unfolding run snd_conv
  proof (elim conjE disjE bexE)
    assume "stored st' = stored st" "ok st'"
    then show "ok st' \<and> (\<forall>r \<in> stored st. \<exists>r' \<in> stored st'. same_identity r r')" using same_identity_refl by blast
  next
    fix r assume "ok st'" "stored st' = Set.insert (r\<lparr>id_status := status, id_updated_at := t\<rparr>) (stored st - {r})"
    then show "ok st' \<and> (\<forall>r \<in> stored st. \<exists>r' \<in> stored st'. same_identity r r')"
      using same_identity_refl same_identity_update by (metis Diff_iff insertCI singletonD)
  qed
qed

lemma evolves_scope:
  assumes "evolves st st'" and "ok st" and "by_scope p st = Some r"
  shows "\<exists>r'. by_scope p st' = Some r' \<and> same_identity r r'"
proof -
  from assms by_scope [of st p r] obtain r' where "ok st'" "r' \<in> stored st'" "same_identity r r'" "scope_of r = p"
    by (auto simp: evolves_def)
  then show ?thesis using by_scope [of st' p r'] same_identity_fields(10) by metis
qed

end

text \<open>The four dictionaries of \<open>MemoryIdentityStore\<close> agree.\<close>

definition index_ok :: "('k, string) dict \<Rightarrow> (identity_record \<Rightarrow> 'k) \<Rightarrow> (string, identity_record) dict \<Rightarrow> bool" where
  "index_ok index key records =
     (\<forall>k i. map_of index k = Some i \<longleftrightarrow> (\<exists>r. map_of records i = Some r \<and> key r = k))"

definition identities_ok :: "identity_state \<Rightarrow> bool" where
  "identities_ok st = ((\<forall>i r. map_of (im_records st) i = Some r \<longrightarrow>
       id_identity_id r = i \<and> is_ok (validate_identity_record r))
     \<and> index_ok (im_by_did st) id_agent_did (im_records st)
     \<and> index_ok (im_by_did_id st) id_agent_did_id (im_records st)
     \<and> index_ok (im_by_scope st) scope_of (im_records st))"

definition stored_identities :: "identity_state \<Rightarrow> identity_record set" where
  "stored_identities st = ran (map_of (im_records st))"

lemma index_lookup:
  assumes "index_ok index key records"
  shows "(case map_of index k of None \<Rightarrow> None | Some i \<Rightarrow> map_of records i) = Some r
    \<longleftrightarrow> (\<exists>i. map_of records i = Some r \<and> key r = k)"
proof (cases "map_of index k")
  case None
  then have "\<not> (map_of records i = Some r \<and> key r = k)" for i
    using assms [unfolded index_ok_def, rule_format, of k i] by auto
  with None show ?thesis by auto
next
  case (Some i)
  then obtain q where q: "map_of records i = Some q" "key q = k" using assms by (auto simp: index_ok_def)
  have "j = i" if "map_of records j = Some r" "key r = k" for j
    using assms [unfolded index_ok_def, rule_format, of k j] that Some by auto
  with Some q show ?thesis by auto
qed

lemma index_none:
  assumes "index_ok index key records"
  shows "(case map_of index k of None \<Rightarrow> None | Some i \<Rightarrow> map_of records i) = None \<longleftrightarrow> map_of index k = None"
  using assms [unfolded index_ok_def, rule_format, of k] by (cases "map_of index k") auto

lemma index_insert:
  assumes "index_ok index key records" and "map_of records i = None" and "map_of index (key r) = None"
  shows "index_ok (dict_set (key r) i index) key (dict_set i r records)"
  unfolding index_ok_def map_of_dict_set
proof (intro allI)
  fix k j
  note at = assms(1) [unfolded index_ok_def, rule_format]
  show "((map_of index)(key r \<mapsto> i)) k = Some j \<longleftrightarrow> (\<exists>q. ((map_of records)(i \<mapsto> r)) j = Some q \<and> key q = k)"
    using at [of k j] at [of "key r" j] assms(2,3) by (cases "k = key r"; cases "j = i") auto
qed

lemma index_replace:
  assumes "index_ok index key records" and "map_of records i = Some r" and "key r' = key r"
  shows "index_ok index key (dict_set i r' records)"
  using assms unfolding index_ok_def map_of_dict_set by (auto split: if_splits)

lemma stored_iff: "r \<in> stored_identities st \<longleftrightarrow> (\<exists>i. map_of (im_records st) i = Some r)"
  by (auto simp: stored_identities_def ran_def)

interpretation memory_identities: identity_index stored_identities identities_ok identity_get identity_by_did
  identity_by_did_id identity_by_scope identity_insert identity_update
proof
  fix st st' :: identity_state and i d p r status t x
  assume ok: "identities_ok st"
  have key: "map_of (im_records st) i = Some r \<Longrightarrow> id_identity_id r = i" for i r
    using ok by (simp add: identities_ok_def)
  show by_id: "identity_get i st = Some r \<longleftrightarrow> r \<in> stored_identities st \<and> id_identity_id r = i"
    using key by (auto simp: identity_get_def stored_iff)
  show by_did: "identity_by_did d st = Some r \<longleftrightarrow> r \<in> stored_identities st \<and> id_agent_did r = d"
    unfolding identity_by_did_def identity_get_def stored_iff
    using index_lookup [of "im_by_did st" id_agent_did "im_records st" d r] ok by (simp add: identities_ok_def)
  show "identity_by_did_id d st = Some r \<longleftrightarrow> r \<in> stored_identities st \<and> id_agent_did_id r = d"
    unfolding identity_by_did_id_def identity_get_def stored_iff
    using index_lookup [of "im_by_did_id st" id_agent_did_id "im_records st" d r] ok by (simp add: identities_ok_def)
  show "identity_by_scope p st = Some r \<longleftrightarrow> r \<in> stored_identities st \<and> scope_of r = p"
    unfolding identity_by_scope_def identity_get_def stored_iff
    using index_lookup [of "im_by_scope st" scope_of "im_records st" p r] ok by (simp add: identities_ok_def)
  have none_did: "identity_by_did d st = None \<longleftrightarrow> map_of (im_by_did st) d = None" for d
    unfolding identity_by_did_def identity_get_def
    by (rule index_none [where key = id_agent_did]) (use ok in \<open>simp add: identities_ok_def\<close>)
  have none_did_id: "identity_by_did_id d st = None \<longleftrightarrow> map_of (im_by_did_id st) d = None" for d
    unfolding identity_by_did_id_def identity_get_def
    by (rule index_none [where key = id_agent_did_id]) (use ok in \<open>simp add: identities_ok_def\<close>)
  have none_scope: "identity_by_scope p st = None \<longleftrightarrow> map_of (im_by_scope st) p = None" for p
    unfolding identity_by_scope_def identity_get_def
    by (rule index_none [where key = scope_of]) (use ok in \<open>simp add: identities_ok_def\<close>)
  show "is_ok (identity_insert r st) \<longleftrightarrow> identity_get (id_identity_id r) st = None
      \<and> identity_by_did (id_agent_did r) st = None \<and> identity_by_did_id (id_agent_did_id r) st = None"
    unfolding none_did none_did_id by (simp add: identity_insert_def identity_get_def dict_has_lookup)
  show "identities_ok st' \<and> stored_identities st' = Set.insert r (stored_identities st)"
    if v: "is_ok (validate_identity_record r)" and s: "identity_by_scope (scope_of r) st = None"
      and run: "identity_insert r st = Inr st'"
  proof -
    from run have new: "map_of (im_records st) (id_identity_id r) = None" "map_of (im_by_did st) (id_agent_did r) = None"
      "map_of (im_by_did_id st) (id_agent_did_id r) = None"
      and st': "st' = \<lparr>im_records = dict_set (id_identity_id r) r (im_records st),
        im_by_did = dict_set (id_agent_did r) (id_identity_id r) (im_by_did st),
        im_by_did_id = dict_set (id_agent_did_id r) (id_identity_id r) (im_by_did_id st),
        im_by_scope = dict_set (scope_of r) (id_identity_id r) (im_by_scope st)\<rparr>"
      by (auto simp: identity_insert_def dict_has_lookup split: if_splits)
    have "identities_ok st'"
      using ok new s v unfolding none_scope identities_ok_def st' by (auto intro: index_insert split: if_splits)
    moreover have "stored_identities st' = Set.insert r (stored_identities st)"
      using new(1) by (simp add: stored_identities_def st')
    ultimately show ?thesis by simp
  qed
  show "identities_ok st' \<and> (stored_identities st' = stored_identities st
      \<or> (\<exists>r \<in> stored_identities st. id_identity_id r = i
          \<and> stored_identities st' = Set.insert (r\<lparr>id_status := status, id_updated_at := t\<rparr>) (stored_identities st - {r})))"
    if run: "identity_update i status t st = (x, st')"
  proof (cases "st' = st")
    case True
    with ok show ?thesis by simp
  next
    case False
    with run obtain r where r: "map_of (im_records st) i = Some r" and t: "aware t"
      and st': "st' = im_records_update (dict_set i (r\<lparr>id_status := status, id_updated_at := t\<rparr>)) st"
      by (auto simp: identity_update_def identity_get_def require_def prog_simps Let_def split: option.splits if_splits)
    let ?r' = "r\<lparr>id_status := status, id_updated_at := t\<rparr>"
    have "is_ok (validate_identity_record r)" using ok r by (simp add: identities_ok_def)
    then have "is_ok (validate_identity_record ?r')" using t by (simp add: validate_identity_record_def)
    then have "identities_ok st'"
      using ok r unfolding identities_ok_def st'
      by (auto intro!: index_replace [where r = r] split: if_splits simp: scope_of_def)
    moreover have "stored_identities st' = Set.insert ?r' (stored_identities st - {r})"
    proof (intro set_eqI iffI)
      fix q assume "q \<in> stored_identities st'"
      then show "q \<in> Set.insert ?r' (stored_identities st - {r})"
        using r key by (auto simp: stored_iff st' split: if_splits)
    next
      fix q assume "q \<in> Set.insert ?r' (stored_identities st - {r})"
      then show "q \<in> stored_identities st'"
        using r by (auto simp: stored_iff st') (metis option.inject)
    qed
    moreover have "r \<in> stored_identities st" using r by (auto simp: stored_iff)
    ultimately show ?thesis using key [OF r] by blast
  qed
qed

end
