(* ===== verification/Platform_Document.thy ===== *)
theory Platform_Document
  imports Platform_Types
begin

text \<open>
  \<^verbatim>\<open>platform/document.py\<close>: Agent DIDs and their document URLs, DID documents, and the discovery document.
\<close>

section \<open>Identifiers\<close>

definition PLACEHOLDER :: string where "PLACEHOLDER = ''{agent_did_id}''"

definition private_jwk_members :: "string list" where
  "private_jwk_members = [''d'', ''dp'', ''dq'', ''k'', ''oth'', ''p'', ''q'', ''qi'']"

text \<open>\<open>urllib.parse.quote(value, safe="-._~!$&'()*+,;=")\<close>; letters and digits are always safe.\<close>

definition quote_safe :: "char \<Rightarrow> bool" where
  "quote_safe c = (is_alpha c \<or> is_digit c \<or> c \<in> set ''-._~!$&()*+,;='' \<or> ord c = 39)"

definition hex_upper :: "nat \<Rightarrow> char" where
  "hex_upper n = (if n < 10 then char_of (48 + n) else char_of (55 + n))"

definition quote_byte :: "char \<Rightarrow> string" where
  "quote_byte c = (if quote_safe c then [c] else [CHR ''%'', hex_upper (ord c div 16), hex_upper (ord c mod 16)])"

definition encode_did_component :: "string \<Rightarrow> string" where
  "encode_did_component v = concat (map quote_byte (utf8_encode v))"

definition prefix_parts :: "string \<Rightarrow> string list" where
  "prefix_parts path_prefix =
     filter (\<lambda>p. p \<noteq> []) (split_on CHR ''/'' (strip_by (\<lambda>c. c = CHR ''/'') path_prefix))"

definition create_service_scoped_agent_did :: "string \<Rightarrow> string \<Rightarrow> string \<Rightarrow> string result" where
  "create_service_scoped_agent_did host path_prefix agent_did_id =
     rbind (urlsplit (''https://'' @ host)) (\<lambda>parsed.
     rbind (require (\<not> (host = [] \<or> agent_did_id = [] \<or> hostname parsed = None \<or> netloc parsed \<noteq> host
          \<or> username parsed \<noteq> None \<or> password parsed \<noteq> None \<or> url_path parsed \<noteq> []
          \<or> query parsed \<noteq> [] \<or> fragment parsed \<noteq> []))
       (Value_Error ''AEP Platform DID host or Agent DID identifier is invalid'')) (\<lambda>_.
     Ok (join '':'' ([''did'', ''web'', encode_did_component host]
       @ map encode_did_component (prefix_parts path_prefix) @ [encode_did_component agent_did_id]))))"

definition render_did_url :: "string \<Rightarrow> string \<Rightarrow> string result" where
  "render_did_url template agent_did_id =
     rbind (require (count_sub PLACEHOLDER template = 1)
       (Value_Error ''AEP Platform DID URL template must contain one {agent_did_id} placeholder'')) (\<lambda>_.
     let rendered = replace_sub PLACEHOLDER (encode_did_component agent_did_id) template in
     rbind (urlsplit rendered) (\<lambda>parsed.
     rbind (require (\<not> (scheme parsed \<noteq> ''https'' \<or> hostname parsed = None \<or> username parsed \<noteq> None
          \<or> password parsed \<noteq> None \<or> fragment parsed \<noteq> []))
       (Value_Error ''AEP Platform DID URL template must render an absolute HTTPS URL'')) (\<lambda>_.
     Ok rendered)))"

section \<open>DID documents\<close>

definition require_public_jwk :: "members \<Rightarrow> unit result" where
  "require_public_jwk jwk =
     require (\<not> (map_of jwk ''kty'' = Some (JStr ''oct'') \<or> list_ex (\<lambda>k. dict_has k jwk) private_jwk_members))
       (Value_Error ''AEP Platform DID verification method must carry only public key material'')"

definition create_did_document :: "identity_record \<Rightarrow> verification_method \<Rightarrow> members result" where
  "create_did_document identity method =
     rbind (require (\<not> (vm_id method \<noteq> id_key_id identity \<or> vm_controller method \<noteq> id_agent_did identity
          \<or> vm_type method = [] \<or> vm_jwk method = []))
       (Value_Error ''AEP Platform DID verification method does not match the managed identity'')) (\<lambda>_.
     rbind (require_public_jwk (vm_jwk method)) (\<lambda>_.
     Ok [(''@context'', JArr [JStr ''https://www.w3.org/ns/did/v1'']),
         (''assertionMethod'', JArr [JStr (vm_id method)]),
         (''authentication'', JArr [JStr (vm_id method)]),
         (''capabilityInvocation'', JArr [JStr (vm_id method)]),
         (''id'', JStr (id_agent_did identity)),
         (''verificationMethod'', JArr [JObj [(''controller'', JStr (vm_controller method)),
            (''id'', JStr (vm_id method)), (''publicKeyJwk'', JObj (vm_jwk method)),
            (''type'', JStr (vm_type method))]])]))"

section \<open>Discovery\<close>

definition validate_endpoint_path :: "string \<Rightarrow> string \<Rightarrow> unit result" where
  "validate_endpoint_path name path =
     rbind (urlsplit path) (\<lambda>parsed.
     require (\<not> (\<not> starts_with path ''/'' \<or> starts_with path ''//'' \<or> scheme parsed \<noteq> [] \<or> netloc parsed \<noteq> []
          \<or> query parsed \<noteq> [] \<or> fragment parsed \<noteq> []))
       (Value_Error (''AEP Platform '' @ name @ '' endpoint must be an absolute path'')))"

definition create_discovery_document :: "discovery_options \<Rightarrow> string \<Rightarrow> bool \<Rightarrow> signing_algorithm list \<Rightarrow> int
    \<Rightarrow> platform_discovery result" where
  "create_discovery_document options did_url_template hosted_verification algorithms default_lifetime =
     rbind (rmap (\<lambda>(name, path). validate_endpoint_path name path)
       [(''endpoint base'', do_endpoint_base options), (''lifecycle'', do_lifecycle options),
        (''list'', do_list options), (''provision'', do_provision options), (''sign'', do_sign options)]) (\<lambda>_.
     rbind (require (hosted_verification = (do_hosted_verification options \<noteq> None))
       (Value_Error ''AEP Platform hosted verification flag and endpoint must agree'')) (\<lambda>_.
     rbind (case do_hosted_verification options of
         None \<Rightarrow> Ok () | Some path \<Rightarrow> validate_endpoint_path ''hosted verification'' path) (\<lambda>_.
     rbind (require (do_platform_name options \<noteq> []) (Value_Error ''AEP Platform name is required'')) (\<lambda>_.
     rbind (render_did_url did_url_template ''validation'') (\<lambda>_.
     rbind (check_platform_endpoints \<lparr>pe_lifecycle = do_lifecycle options, pe_provision = do_provision options,
       pe_sign = do_sign options, pe_list = do_list options,
       pe_hosted_verification = do_hosted_verification options, pe_extra = []\<rparr>) (\<lambda>endpoints.
     rbind (check_platform_http \<lparr>ph_endpoint_base = do_endpoint_base options, ph_extra = []\<rparr>) (\<lambda>http.
     rbind (check_platform_identity_configuration \<lparr>pi_did_methods = [''did:web''],
       pi_did_url_template = did_url_template, pi_extra = []\<rparr>) (\<lambda>identity.
     rbind (check_platform_metadata \<lparr>pm_hosted_verification = hosted_verification,
       pm_name = do_platform_name options, pm_did = do_platform_did options, pm_extra = []\<rparr>) (\<lambda>platform.
     rbind (check_platform_signing \<lparr>ps_algorithms = algorithms,
       ps_default_lifetime = show_int default_lifetime, ps_extra = []\<rparr>) (\<lambda>signing.
     check_platform_discovery \<lparr>pd_aep_version = AEP_VERSION, pd_endpoints = endpoints, pd_http = http,
       pd_identity = identity, pd_platform = platform, pd_signing = signing, pd_extra = []\<rparr>))))))))))"

end
