(* ===== verification/Platform.thy ===== *)
theory Platform
  imports Platform_Stores Platform_Document
begin

text \<open>
  The class \<open>Platform\<close> of \<^verbatim>\<open>platform/platform.py\<close> with its in-memory stores. A method is a program on
  \<^verbatim>\<open>platform_state\<close>. A stored response is the JSON text of a body with sorted members; reading it
  back is the decoder applied to the sorted tree.
\<close>

section \<open>State and helpers\<close>

record 'w platform_state =
  pw_identities :: identity_state
  pw_idempotency :: platform_idempotency
  pw_replay :: platform_replay
  pw_world :: 'w

text \<open>What the standard library and PyJWT compute: the text of a float, \<open>hashlib.sha256\<close> in hexadecimal,
  \<open>json.loads\<close> on bytes, and the two functions of PyJWT that \<open>verify_client_assertion\<close> calls.\<close>

record 'key platform_runtime =
  pr_float_repr :: "rat \<Rightarrow> string"
  pr_sha256_hex :: "string \<Rightarrow> string"
  pr_loads :: "string \<Rightarrow> json result"
  pr_jwt_header :: "string \<Rightarrow> members result"
  pr_jwt_decode :: "string \<Rightarrow> 'key \<Rightarrow> string list \<Rightarrow> members result"

record ('w, 'key) platform =
  pf_runtime :: "'key platform_runtime"
  pf_options :: "('w, 'key) platform_options"
  pf_policy :: "'w lifecycle_policy"
  pf_discovery :: platform_discovery
  pf_default_lifetime :: int
  pf_maximum_lifetime :: int
  pf_discovery_etag :: string
  pf_discovery_last_modified :: string

definition on_pworld :: "('w, 'a) prog \<Rightarrow> ('w platform_state, 'a) prog" where
  "on_pworld p s = (case p (pw_world s) of (r, w) \<Rightarrow> (r, s\<lparr>pw_world := w\<rparr>))"

definition on_identities :: "(identity_state, 'a) prog \<Rightarrow> ('w platform_state, 'a) prog" where
  "on_identities p s = (case p (pw_identities s) of (r, i) \<Rightarrow> (r, s\<lparr>pw_identities := i\<rparr>))"

definition on_replay :: "(platform_replay, 'a) prog \<Rightarrow> ('w platform_state, 'a) prog" where
  "on_replay p s = (case p (pw_replay s) of (r, i) \<Rightarrow> (r, s\<lparr>pw_replay := i\<rparr>))"

definition initial_platform :: "'w \<Rightarrow> 'w platform_state" where
  "initial_platform w = \<lparr>pw_identities = no_identities, pw_idempotency = [], pw_replay = [], pw_world = w\<rparr>"

definition require_aware :: "datetime \<Rightarrow> datetime result" where
  "require_aware t = rbind (require (aware t)
     (Value_Error ''AEP Platform clock must return an offset-aware datetime'')) (\<lambda>_. Ok t)"

definition whole_lifetime :: "int \<Rightarrow> string \<Rightarrow> int result" where
  "whole_lifetime v name = rbind (require (\<not> (v \<le> 0 \<or> v mod 1000000 \<noteq> 0))
     (Value_Error (''AEP Platform '' @ name @ '' must be a positive whole number of seconds''))) (\<lambda>_.
     Ok (v div 1000000))"

definition is_did :: "string \<Rightarrow> bool" where
  "is_did v = (case partition_at CHR '':'' v of (prefix, separator, identifier) \<Rightarrow>
     prefix = ''did'' \<and> separator \<and> identifier \<noteq> [] \<and> \<not> list_ex is_space v)"

text \<open>\<open>email.utils.format_datetime(..., usegmt=True)\<close>; 1970-01-01 was a Thursday.\<close>

definition http_date :: "datetime \<Rightarrow> string" where
  "http_date t =
     (let total = instant t div 1000000; days = total div 86400; s = total mod 86400 in
      case civil_date days of (y, m, d) \<Rightarrow>
        [''Mon'', ''Tue'', ''Wed'', ''Thu'', ''Fri'', ''Sat'', ''Sun''] ! nat ((days + 3) mod 7) @ '', ''
        @ padded 2 d @ '' ''
        @ [''Jan'', ''Feb'', ''Mar'', ''Apr'', ''May'', ''Jun'', ''Jul'', ''Aug'', ''Sep'', ''Oct'', ''Nov'', ''Dec'']
            ! nat (m - 1)
        @ '' '' @ padded 4 y @ '' '' @ padded 2 (s div 3600) @ '':'' @ padded 2 (s mod 3600 div 60)
        @ '':'' @ padded 2 (s mod 60) @ '' GMT'')"

definition utc_rfc3339 :: "datetime \<Rightarrow> string" where
  "utc_rfc3339 t = local_rfc3339 (t\<lparr>utcoffset := Some 0\<rparr>)"

definition lifecycle_error :: "managed_status \<Rightarrow> string" where
  "lifecycle_error status =
     (if status = Managed_Terminated then ''identity_terminated''
      else if status \<in> {Managed_Suspended, Managed_Revoked} then ''identity_suspended''
      else ''identity_unavailable'')"

definition platform_success :: "int \<Rightarrow> 'b \<Rightarrow> (string, string) dict \<Rightarrow> 'b platform_result" where
  "platform_success status b headers = \<lparr>pl_status = status, pl_body = Some b, pl_content_type = AEP_MEDIA_TYPE,
     pl_headers = headers, pl_problem = None\<rparr>"

definition platform_problem :: "int \<Rightarrow> string \<Rightarrow> string \<Rightarrow> 'b platform_result result" where
  "platform_problem status code title =
     rbind (check_problem_details \<lparr>problem_type = ''urn:aep:error:'' @ code, problem_title = title,
       problem_status = status, problem_code = code, problem_detail = None, problem_instance = None,
       problem_owner_action = None, problem_verification = None, problem_requirements = None,
       problem_document_ids = None, problem_extra = []\<rparr>) (\<lambda>p.
     Ok \<lparr>pl_status = status, pl_body = None, pl_content_type = AEP_PROBLEM_MEDIA_TYPE, pl_headers = [],
       pl_problem = Some p\<rparr>)"

abbreviation not_managed :: "('s, 'b platform_result) prog" where
  "not_managed \<equiv> slift (platform_problem 404 ''not_recognized'' ''Identity not recognized'')"

abbreviation missing_context :: "('s, 'b platform_result) prog" where
  "missing_context \<equiv> slift (platform_problem 400 ''invalid_request''
     ''Idempotency-Key and authenticated principal are required'')"

section \<open>Construction\<close>

text \<open>Every value of \<^typ>\<open>signing_algorithm\<close> is one of the two supported algorithms.\<close>

definition make_platform :: "'key platform_runtime \<Rightarrow> ('w, 'key) platform_options \<Rightarrow> ('w, ('w, 'key) platform) prog" where
  "make_platform rt options =
     sbind (slift (require (po_algorithms options \<noteq> [] \<and> distinct (po_algorithms options))
       (Value_Error ''AEP Platform requires unique signing algorithms''))) (\<lambda>_.
     sbind (slift (whole_lifetime (po_maximum_lifetime options) ''maximum assertion lifetime'')) (\<lambda>maximum.
     sbind (slift (whole_lifetime (po_default_lifetime options) ''default assertion lifetime'')) (\<lambda>default.
     sbind (slift (require (\<not> (300 < maximum \<or> maximum < default))
       (Value_Error ''AEP Platform assertion lifetime exceeds the configured maximum''))) (\<lambda>_.
     sbind (slift (require (\<not> (po_hosted_verification options \<and> \<not> po_replay_store options))
       (Value_Error ''AEP Platform hosted verification requires a replay store''))) (\<lambda>_.
     sbind (slift (create_service_scoped_agent_did (po_did_host options) (po_did_path_prefix options)
       ''validation'')) (\<lambda>sample_did.
     sbind (slift (render_did_url (po_did_url_template options) ''validation'')) (\<lambda>rendered.
     sbind (slift (did_web_document_url sample_did False)) (\<lambda>expected.
     sbind (slift (require (rendered = expected)
       (Value_Error ''AEP Platform DID URL template must match its DID host and path prefix''))) (\<lambda>_.
     sbind (slift (create_discovery_document (po_discovery options) (po_did_url_template options)
       (po_hosted_verification options) (po_algorithms options) default)) (\<lambda>discovery.
     sbind (po_clock options) (\<lambda>now.
     sbind (slift (require_aware now)) (\<lambda>now.
     sret \<lparr>pf_runtime = rt, pf_options = options,
       pf_policy = (case po_lifecycle_policy options of None \<Rightarrow> default_lifecycle | Some p \<Rightarrow> p),
       pf_discovery = discovery, pf_default_lifetime = default, pf_maximum_lifetime = maximum,
       pf_discovery_etag = [char_of (34 :: nat)] @ take 32 (pr_sha256_hex rt
         (utf8_encode (dumps_canonical (pr_float_repr rt) (platform_discovery_to_wire discovery)))) @ [char_of (34 :: nat)],
       pf_discovery_last_modified = http_date now\<rparr>))))))))))))"

definition discovery_result :: "('w, 'key) platform \<Rightarrow> platform_discovery platform_result" where
  "discovery_result pf = platform_success 200 (pf_discovery pf)
     [(''Cache-Control'', ''max-age=300''), (''ETag'', pf_discovery_etag pf),
      (''Last-Modified'', pf_discovery_last_modified pf)]"

section \<open>Clock and identities\<close>

definition platform_now :: "('w, 'key) platform \<Rightarrow> ('w platform_state, datetime) prog" where
  "platform_now pf = sbind (on_pworld (po_clock (pf_options pf))) (\<lambda>t. slift (require_aware t))"

definition request_time :: "('w, 'key) platform \<Rightarrow> request_context \<Rightarrow> ('w platform_state, datetime) prog" where
  "request_time pf context = (case rc_current_time context of
      Some t \<Rightarrow> slift (require_aware t)
    | None \<Rightarrow> platform_now pf)"

definition authorize :: "('w, 'key) platform \<Rightarrow> authorization_request \<Rightarrow> request_context \<Rightarrow> ('w platform_state, bool) prog" where
  "authorize pf request context = on_pworld (po_authorize (pf_options pf) request context)"

definition authorized_identity :: "('w, 'key) platform \<Rightarrow> string \<Rightarrow> authorization_request \<Rightarrow> request_context
    \<Rightarrow> ('w platform_state, identity_record option) prog" where
  "authorized_identity pf i request context =
     sbind (sget (\<lambda>s. identity_get i (pw_identities s))) (\<lambda>found.
     case found of
       None \<Rightarrow> sret None
     | Some r \<Rightarrow>
         sbind (slift (validate_identity_record r)) (\<lambda>_.
         sbind (slift (require (id_identity_id r = i)
           (Value_Error ''AEP Platform identity store returned a mismatched record''))) (\<lambda>_.
         if rc_principal context = [] \<or> id_principal r \<noteq> rc_principal context then sret None
         else sbind (authorize pf (request\<lparr>az_identity := Some r\<rparr>) context) (\<lambda>granted.
           sret (if granted then Some r else None)))))"

definition create_identity :: "('w, 'key) platform \<Rightarrow> string \<Rightarrow> string \<Rightarrow> ('w platform_state, identity_record) prog" where
  "create_identity pf owner service =
     sbind (on_pworld (po_identifier (pf_options pf))) (\<lambda>identifier.
     sbind (on_pworld (po_agent_did_id (pf_options pf))) (\<lambda>agent_did_id.
     sbind (slift (require (identifier \<noteq> [] \<and> agent_did_id \<noteq> [])
       (Value_Error ''AEP Platform identity generator returned an empty identifier''))) (\<lambda>_.
     sbind (platform_now pf) (\<lambda>now.
     sbind (slift (create_service_scoped_agent_did (po_did_host (pf_options pf))
       (po_did_path_prefix (pf_options pf)) agent_did_id)) (\<lambda>agent_did.
     sbind (slift (render_did_url (po_did_url_template (pf_options pf)) agent_did_id)) (\<lambda>url.
     let r = \<lparr>id_agent_did = agent_did, id_agent_did_id = agent_did_id,
       id_identity_id = (if starts_with identifier ''pai_'' then identifier else ''pai_'' @ identifier),
       id_created_at = now, id_document_url = url, id_key_id = agent_did, id_principal = owner,
       id_service_did = service, id_algorithms = po_algorithms (pf_options pf), id_status = Managed_Active,
       id_updated_at = now\<rparr> in
     sbind (on_pworld (ks_create_key (po_key_store (pf_options pf)) r)) (\<lambda>_.
     sret r)))))))"

section \<open>Idempotent execution\<close>

text \<open>The tree that \<open>json.dumps(..., sort_keys=True)\<close> prints.\<close>

fun sorted_json :: "json \<Rightarrow> json" where
  "sorted_json (JArr vs) = JArr (map sorted_json vs)"
| "sorted_json (JObj ms) = JObj (sort_key fst (map (\<lambda>(k, v). (k, sorted_json v)) ms))"
| "sorted_json j = j"

definition result_value :: "('b \<Rightarrow> json) \<Rightarrow> 'b platform_result \<Rightarrow> json" where
  "result_value enc r = (case pl_problem r of
      Some p \<Rightarrow> problem_details_to_wire p
    | None \<Rightarrow> (case pl_body r of None \<Rightarrow> JNull | Some b \<Rightarrow> enc b))"

definition store_result :: "('w, 'key) platform \<Rightarrow> ('b \<Rightarrow> json) \<Rightarrow> ('w platform_state, 'b platform_result) prog
    \<Rightarrow> ('w platform_state, platform_stored) prog" where
  "store_result pf enc execute =
     sbind execute (\<lambda>result.
     sbind (platform_now pf) (\<lambda>now.
     let v = result_value enc result in
     sret \<lparr>pst_status = pl_status result, pst_content_type = pl_content_type result,
       pst_body = body_of_text (sorted_json v) (dumps_canonical (pr_float_repr (pf_runtime pf)) v),
       pst_created_at = now, pst_headers = pl_headers result\<rparr>))"

definition validate_json :: "(json \<Rightarrow> 'a result) \<Rightarrow> body \<Rightarrow> 'a result" where
  "validate_json model b = (case body_doc b of
      Inl _ \<Rightarrow> Raise (Pydantic_Error [([], ''Invalid JSON'')]) | Inr j \<Rightarrow> model j)"

definition restore_result :: "platform_stored \<Rightarrow> (json \<Rightarrow> 'b result) \<Rightarrow> 'b platform_result result" where
  "restore_result stored model =
     (if pst_content_type stored = AEP_PROBLEM_MEDIA_TYPE then
        rbind (validate_json problem_details_of_json (pst_body stored)) (\<lambda>p.
        Ok \<lparr>pl_status = pst_status stored, pl_body = None, pl_content_type = pst_content_type stored,
          pl_headers = pst_headers stored, pl_problem = Some p\<rparr>)
      else
        rbind (validate_json model (pst_body stored)) (\<lambda>b.
        Ok \<lparr>pl_status = pst_status stored, pl_body = Some b, pl_content_type = pst_content_type stored,
          pl_headers = pst_headers stored, pl_problem = None\<rparr>))"

definition platform_idempotent :: "('w, 'key) platform \<Rightarrow> idempotent_operation \<Rightarrow> json \<Rightarrow> request_context
    \<Rightarrow> ('b \<Rightarrow> json) \<Rightarrow> (json \<Rightarrow> 'b result) \<Rightarrow> ('w platform_state, 'b platform_result) prog
    \<Rightarrow> ('w platform_state, 'b platform_result) prog" where
  "platform_idempotent pf operation material context enc model execute =
     sbind (platform_execute pw_idempotency pw_idempotency_update (on_pworld (po_clock (pf_options pf)))
       \<lparr>pn_key = (case rc_idempotency_key context of None \<Rightarrow> [] | Some k \<Rightarrow> k), pn_operation = operation,
        pn_principal = rc_principal context,
        pn_hash = pr_sha256_hex (pf_runtime pf)
          (utf8_encode (dumps_canonical (pr_float_repr (pf_runtime pf)) material))\<rparr>
       (store_result pf enc execute)) (\<lambda>result.
     if px_state result = Platform_Conflict
     then slift (platform_problem 409 ''idempotency_conflict'' ''Idempotency conflict'')
     else case px_response result of
       None \<Rightarrow> sraise (Value_Error ''AEP Platform idempotency store returned no response'')
     | Some stored \<Rightarrow> slift (restore_result stored model))"

section \<open>Documents and identities\<close>

definition platform_did_document :: "('w, 'key) platform \<Rightarrow> string \<Rightarrow> ('w platform_state, members platform_result) prog" where
  "platform_did_document pf agent_did_id =
     sbind (sget (\<lambda>s. identity_by_did_id agent_did_id (pw_identities s))) (\<lambda>found.
     case found of
       None \<Rightarrow> not_managed
     | Some r \<Rightarrow>
         if id_status r \<noteq> Managed_Active then not_managed
         else
         sbind (slift (validate_identity_record r)) (\<lambda>_.
         sbind (slift (require (id_agent_did_id r = agent_did_id)
           (Value_Error ''AEP Platform identity store returned a mismatched record''))) (\<lambda>_.
         sbind (on_pworld (ks_verification_method (po_key_store (pf_options pf)) r)) (\<lambda>method.
         sbind (slift (create_did_document r method)) (\<lambda>document.
         sret \<lparr>pl_status = 200, pl_body = Some document, pl_content_type = ''application/did+json'',
           pl_headers = [(''Cache-Control'', ''max-age=300'')], pl_problem = None\<rparr>)))))"

definition platform_get_identity :: "('w, 'key) platform \<Rightarrow> string \<Rightarrow> request_context
    \<Rightarrow> ('w platform_state, platform_agent_identity platform_result) prog" where
  "platform_get_identity pf i context =
     sbind (authorized_identity pf i (authorizing Get_Identity) context) (\<lambda>found.
     case found of
       None \<Rightarrow> not_managed
     | Some r \<Rightarrow> sbind (slift (identity_response r)) (\<lambda>b. sret (platform_success 200 b [])))"

definition valid_listed_identity :: "identity_record \<Rightarrow> string \<Rightarrow> identity_query \<Rightarrow> bool" where
  "valid_listed_identity r owner q = (is_ok (validate_identity_record r) \<and> id_principal r = owner
     \<and> (lq_service_did q = None \<or> lq_service_did q = Some (id_service_did r))
     \<and> (lq_status q = None \<or> lq_status q = Some (id_status r)))"

definition platform_list :: "('w, 'key) platform \<Rightarrow> identity_query \<Rightarrow> request_context
    \<Rightarrow> ('w platform_state, identity_list_response platform_result) prog" where
  "platform_list pf q context =
     (if lq_limit q < 0 \<or> 100 < lq_limit q \<or> lq_offset q < 0
         \<or> (case lq_service_did q of None \<Rightarrow> False | Some d \<Rightarrow> \<not> is_did d)
      then slift (platform_problem 400 ''invalid_request'' ''Identity list query is invalid'')
      else
      let effective = (if lq_limit q \<noteq> 0 then q else q\<lparr>lq_limit := 100\<rparr>) in
      sbind (authorize pf ((authorizing List_Identities)\<lparr>az_query := Some effective\<rparr>) context) (\<lambda>granted.
      if \<not> granted \<or> rc_principal context = [] then not_managed
      else
      sbind (sget pw_identities) (\<lambda>st.
      sbind (slift (identity_page (rc_principal context) effective st)) (\<lambda>found.
      sbind (slift (require (\<not> list_ex (\<lambda>r. \<not> valid_listed_identity r (rc_principal context) effective)
          (ls_identities found))
        (Value_Error ''AEP Platform identity store returned an unauthorized record''))) (\<lambda>_.
      let identifiers = map id_identity_id (ls_identities found) in
      sbind (slift (require (\<not> (ls_total found < int (length identifiers) \<or> \<not> distinct identifiers))
        (Value_Error ''AEP Platform identity store returned an invalid list result''))) (\<lambda>_.
      sbind (slift (list_response found)) (\<lambda>b. sret (platform_success 200 b []))))))))"

definition provision_execute :: "('w, 'key) platform \<Rightarrow> provision_request \<Rightarrow> request_context
    \<Rightarrow> ('w platform_state, platform_agent_identity platform_result) prog" where
  "provision_execute pf request context =
     sbind (on_pworld (po_resolve (pf_options pf) (pr_service_did request))) (\<lambda>resolved.
     if \<not> resolved then slift (platform_problem 400 ''invalid_request'' ''Service DID could not be resolved'')
     else
     sbind (identity_find_or_create pw_identities pw_identities_update (rc_principal context)
       (pr_service_did request) (create_identity pf (rc_principal context) (pr_service_did request))) (\<lambda>(r, _).
     sbind (slift (validate_identity_record r)) (\<lambda>_.
     sbind (slift (require (id_principal r = rc_principal context \<and> id_service_did r = pr_service_did request)
       (Value_Error ''AEP Platform identity store returned a mismatched record''))) (\<lambda>_.
     sbind (slift (identity_response r)) (\<lambda>b. sret (platform_success 200 b []))))))"

definition platform_provision :: "('w, 'key) platform \<Rightarrow> provision_request \<Rightarrow> request_context
    \<Rightarrow> ('w platform_state, platform_agent_identity platform_result) prog" where
  "platform_provision pf request context =
     (if rc_principal context = [] \<or> rc_idempotency_key context \<in> {None, Some []} then missing_context
      else
      sbind (authorize pf ((authorizing Provision_Identity)\<lparr>az_provision := Some request\<rparr>) context) (\<lambda>granted.
      if \<not> granted then not_managed
      else platform_idempotent pf Idem_Provision (provision_request_to_wire request) context
        agent_identity_to_wire agent_identity_of_json (provision_execute pf request context)))"

definition platform_update_identity :: "('w, 'key) platform \<Rightarrow> string \<Rightarrow> lifecycle_request \<Rightarrow> request_context
    \<Rightarrow> ('w platform_state, platform_agent_identity platform_result) prog" where
  "platform_update_identity pf i request context =
     sbind (authorized_identity pf i ((authorizing Update_Identity)\<lparr>az_lifecycle := Some request\<rparr>) context) (\<lambda>found.
     case found of
       None \<Rightarrow> not_managed
     | Some r \<Rightarrow>
         sbind (on_pworld (lp_can_transition (pf_policy pf) r (plr_status request) context)) (\<lambda>allowed.
         if \<not> allowed then slift (platform_problem 403 (lifecycle_error (id_status r)) ''Lifecycle transition rejected'')
         else
         sbind (platform_now pf) (\<lambda>now.
         sbind (on_identities (identity_update i (plr_status request) now)) (\<lambda>updated.
         case updated of
           None \<Rightarrow> not_managed
         | Some u \<Rightarrow>
             sbind (slift (validate_identity_record u)) (\<lambda>_.
             sbind (slift (require (u = r\<lparr>id_status := plr_status request, id_updated_at := id_updated_at u\<rparr>)
               (Value_Error ''AEP Platform identity store returned a mismatched record''))) (\<lambda>_.
             sbind (slift (identity_response u)) (\<lambda>b. sret (platform_success 200 b []))))))))"

section \<open>Signing\<close>

text \<open>\<open>try ... except AepAssertionError\<close>: \<^const>\<open>None\<close> where it is caught.\<close>

definition none_on_assertion_error :: "('s, 'a) prog \<Rightarrow> ('s, 'a option) prog" where
  "none_on_assertion_error p s = (case p s of
      (Inr a, s') \<Rightarrow> (Inr (Some a), s')
    | (Inl e, s') \<Rightarrow> if is_assertion_error e then (Inr None, s') else (Inl e, s'))"

text \<open>\<open>verify_client_assertion\<close> with the identity's key and expectations; the system clock is not read
  because the time is given.\<close>

definition verify_for_identity :: "('w, 'key) platform \<Rightarrow> identity_record \<Rightarrow> string \<Rightarrow> string
    \<Rightarrow> assertion_operation \<Rightarrow> string option \<Rightarrow> 'key \<Rightarrow> datetime \<Rightarrow> assertion_claims result" where
  "verify_for_identity pf r assertion service ope wanted key now =
     verify_client_assertion (pr_jwt_header (pf_runtime pf)) (pr_jwt_decode (pf_runtime pf)) 0 assertion key
       \<lparr>vo_algorithms = id_algorithms r, vo_audience = Some service, vo_issuer = Some (id_agent_did r),
        vo_subject = Some (id_agent_did r), vo_operation = Some ope, vo_expected_resource = wanted,
        vo_current_time = Some (timestamp now), vo_clock_tolerance_seconds = 0, vo_allow_insecure_loopback = False\<rparr>"

definition validate_sign_result :: "('w, 'key) platform \<Rightarrow> sign_response platform_result \<Rightarrow> identity_record
    \<Rightarrow> sign_request \<Rightarrow> int \<Rightarrow> datetime \<Rightarrow> ('w platform_state, unit) prog" where
  "validate_sign_result pf result r request lifetime now =
     sbind (slift (require (\<not> (media_type_essence (pl_content_type result) \<noteq> AEP_MEDIA_TYPE
         \<or> pl_problem result \<noteq> None))
       (Value_Error ''AEP Platform signing response must use application/aep+json''))) (\<lambda>_.
     sbind (slift (require (\<not> list_ex (\<lambda>(name, _). lower name = ''retry-after'') (pl_headers result))
       (Value_Error ''AEP Platform signing response must not include Retry-After''))) (\<lambda>_.
     case pl_body result of
       Some (Sign_Pending _) \<Rightarrow> slift (require (pl_status result = 202)
         (Value_Error ''AEP Platform pending signing response must use 202''))
     | None \<Rightarrow> sraise (Value_Error ''AEP Platform signing handler returned an invalid response'')
     | Some (Sign_Completed b) \<Rightarrow>
         sbind (slift (require (pl_status result = 200)
           (Value_Error ''AEP Platform signing handler returned an invalid response''))) (\<lambda>_.
         sbind (slift (parse_rfc3339 (sc_issued_at b))) (\<lambda>issued.
         sbind (slift (parse_rfc3339 (sc_expires_at b))) (\<lambda>expires.
         sbind (slift (require (\<not> (sc_agent_did b \<noteq> id_agent_did r \<or> sc_service_did b \<noteq> sg_service_did request
             \<or> sc_jti b \<noteq> sg_jti request \<or> instant expires - instant issued \<noteq> seconds lifetime))
           (Value_Error ''AEP Platform signing handler response does not match the request''))) (\<lambda>_.
         sbind (none_on_assertion_error (
           sbind (slift (decode_jwt_unverified (pr_loads (pf_runtime pf)) (sc_assertion b))) (\<lambda>(header, _).
           sbind (on_pworld (ks_verification_key (po_key_store (pf_options pf)) r)) (\<lambda>key.
           sbind (slift (verify_for_identity pf r (sc_assertion b) (sg_service_did request) (sg_op request)
             (sg_resource request) key now)) (\<lambda>claims.
           sret (header, claims)))))) (\<lambda>verified.
         case verified of
           None \<Rightarrow> sraise (Value_Error ''AEP Platform signer returned an invalid client assertion'')
         | Some (header, claims) \<Rightarrow> slift (require
             (\<not> (map_of header ''kid'' \<noteq> Some (JStr (id_key_id r)) \<or> iat claims \<noteq> timestamp issued
                \<or> exp_at claims \<noteq> timestamp expires \<or> jti claims \<noteq> sg_jti request))
             (Value_Error ''AEP Platform signer returned mismatched assertion claims'')))))))))"

definition sign_lifetime :: "('w, 'key) platform \<Rightarrow> sign_request \<Rightarrow> int option" where
  "sign_lifetime pf request =
     (let lifetime = (case sg_lifetime request of None \<Rightarrow> pf_default_lifetime pf | Some l \<Rightarrow> int (decimal_value l))
      in if pf_maximum_lifetime pf < lifetime then None else Some lifetime)"

text \<open>\<open>_clone_model\<close>: printed and read again.\<close>

definition clone_sign_request :: "sign_request \<Rightarrow> sign_request result" where
  "clone_sign_request request = sign_request_of_json (sign_request_to_wire request)"

definition built_in_sign :: "('w, 'key) platform \<Rightarrow> identity_record \<Rightarrow> sign_request \<Rightarrow> request_context \<Rightarrow> int
    \<Rightarrow> ('w platform_state, sign_response platform_result) prog" where
  "built_in_sign pf r request context lifetime =
     sbind (request_time pf context) (\<lambda>now.
     sbind (slift (check_assertion_claims False \<lparr>aud = sg_service_did request, exp_at = timestamp now + lifetime,
       iat = timestamp now, iss = id_agent_did r, jti = sg_jti request, op = sg_op request,
       resource = sg_resource request, sub = id_agent_did r, assertion_extra = []\<rparr>)) (\<lambda>claims.
     sbind (on_pworld (ks_sign (po_key_store (pf_options pf)) r claims)) (\<lambda>assertion.
     sbind (slift (check_sign_completed \<lparr>sc_agent_did = id_agent_did r, sc_assertion = assertion,
       sc_expires_at = utc_rfc3339 (plus_us now (seconds lifetime)), sc_issued_at = utc_rfc3339 now,
       sc_jti = sg_jti request, sc_service_did = sg_service_did request, sc_context = sg_context request,
       sc_extra = []\<rparr>)) (\<lambda>b.
     let result = platform_success 200 (Sign_Completed b) [] in
     sbind (validate_sign_result pf result r request lifetime now) (\<lambda>_. sret result)))))"

definition sign_execute :: "('w, 'key) platform \<Rightarrow> identity_record \<Rightarrow> sign_request \<Rightarrow> request_context \<Rightarrow> int
    \<Rightarrow> ('w platform_state, sign_response platform_result) prog" where
  "sign_execute pf r request context lifetime =
     (let refused = slift (platform_problem 403 (lifecycle_error (id_status r)) ''Identity cannot sign'') in
      if id_status r \<noteq> Managed_Active then refused
      else
      sbind (on_pworld (lp_can_sign (pf_policy pf) r context)) (\<lambda>allowed.
      if \<not> allowed then refused
      else case po_sign_handler (pf_options pf) of
        None \<Rightarrow> built_in_sign pf r request context lifetime
      | Some handler \<Rightarrow>
          sbind (slift (clone_sign_request request)) (\<lambda>copy.
          sbind (on_pworld (handler (r, copy) context)) (\<lambda>handled.
          case handled of
            None \<Rightarrow> built_in_sign pf r request context lifetime
          | Some result \<Rightarrow>
              sbind (request_time pf context) (\<lambda>now.
              sbind (validate_sign_result pf result r request lifetime now) (\<lambda>_. sret result))))))"

definition platform_sign :: "('w, 'key) platform \<Rightarrow> string \<Rightarrow> sign_request \<Rightarrow> request_context
    \<Rightarrow> ('w platform_state, sign_response platform_result) prog" where
  "platform_sign pf i request context =
     (case sign_lifetime pf request of
        None \<Rightarrow> slift (platform_problem 400 ''invalid_request'' ''lifetime_seconds exceeds the configured maximum'')
      | Some lifetime \<Rightarrow>
          if rc_principal context = [] \<or> rc_idempotency_key context \<in> {None, Some []} then missing_context
          else
          sbind (slift (clone_sign_request request)) (\<lambda>copy.
          sbind (authorized_identity pf i ((authorizing Sign_Operation)\<lparr>az_sign := Some copy\<rparr>) context) (\<lambda>found.
          case found of
            None \<Rightarrow> not_managed
          | Some r \<Rightarrow>
              if id_service_did r \<noteq> sg_service_did request then not_managed
              else platform_idempotent pf Idem_Sign
                (JObj [(''agent_identity_id'', JStr i), (''request'', sign_request_to_wire request)]) context
                sign_response_to_wire sign_response_of_json (sign_execute pf r request context lifetime))))"

section \<open>Hosted verification\<close>

definition unrecognized_result :: "verification_request \<Rightarrow> verification_response platform_result result" where
  "unrecognized_result request =
     rbind (check_verification_response \<lparr>vs_reason = ''not_recognized'', vs_service_did = vq_service_did request,
       vs_verified = False, vs_agent_did = None, vs_identity_id = None, vs_op = None, vs_status = None,
       vs_extra = []\<rparr>) (\<lambda>b. Ok (platform_success 200 b []))"

definition replay_text :: "identity_record \<Rightarrow> verification_request \<Rightarrow> string \<Rightarrow> string" where
  "replay_text r request jwt_id = join [char_of (0 :: nat)]
     [vq_service_did request, operation_value (vq_op request), id_agent_did r, jwt_id]"

definition checked_claims :: "('w, 'key) platform \<Rightarrow> identity_record \<Rightarrow> verification_request \<Rightarrow> request_context
    \<Rightarrow> ('w platform_state, assertion_claims option) prog" where
  "checked_claims pf r request context = none_on_assertion_error (
     sbind (on_pworld (ks_verification_key (po_key_store (pf_options pf)) r)) (\<lambda>key.
     sbind (request_time pf context) (\<lambda>now.
     slift (verify_for_identity pf r (vq_assertion request) (vq_service_did request) (vq_op request)
       (vq_resource request) key now))))"

definition consume_verified :: "('w, 'key) platform \<Rightarrow> identity_record \<Rightarrow> verification_request \<Rightarrow> request_context
    \<Rightarrow> assertion_claims \<Rightarrow> ('w platform_state, bool) prog" where
  "consume_verified pf r request context claims =
     sbind (request_time pf context) (\<lambda>now.
     on_replay (platform_consume (replay_text r request (jti claims))
       \<lparr>instant = seconds (exp_at claims), utcoffset = Some 0\<rparr> now))"

definition verify_execute :: "('w, 'key) platform \<Rightarrow> identity_record \<Rightarrow> verification_request \<Rightarrow> request_context
    \<Rightarrow> ('w platform_state, verification_response platform_result) prog" where
  "verify_execute pf r request context =
     sbind (slift (unrecognized_result request)) (\<lambda>unrecognized.
     if id_status r \<noteq> Managed_Active then sret unrecognized
     else
     sbind (on_pworld (lp_can_verify (pf_policy pf) r context)) (\<lambda>allowed.
     if \<not> allowed then sret unrecognized
     else
     sbind (checked_claims pf r request context) (\<lambda>verified.
     case verified of
       None \<Rightarrow> sret unrecognized
     | Some claims \<Rightarrow>
         sbind (consume_verified pf r request context claims) (\<lambda>fresh.
         if \<not> fresh then sret unrecognized
         else
         sbind (slift (check_verification_response \<lparr>vs_reason = ''verified'', vs_service_did = vq_service_did request,
           vs_verified = True, vs_agent_did = Some (id_agent_did r), vs_identity_id = Some (id_identity_id r),
           vs_op = Some (vq_op request), vs_status = Some (id_status r), vs_extra = []\<rparr>)) (\<lambda>b.
         sret (platform_success 200 b []))))))"

definition platform_verify :: "('w, 'key) platform \<Rightarrow> verification_request \<Rightarrow> request_context
    \<Rightarrow> ('w platform_state, verification_response platform_result) prog" where
  "platform_verify pf request context =
     (if \<not> po_hosted_verification (pf_options pf)
      then slift (platform_problem 404 ''not_recognized'' ''Hosted verification is not available'')
      else if rc_principal context = [] \<or> rc_idempotency_key context \<in> {None, Some []} then missing_context
      else
      sbind (slift (unrecognized_result request)) (\<lambda>unrecognized.
      sbind (none_on_assertion_error (slift (decode_jwt_unverified (pr_loads (pf_runtime pf)) (vq_assertion request))))
        (\<lambda>decoded.
      case decoded of
        None \<Rightarrow> sret unrecognized
      | Some (header, payload) \<Rightarrow>
          (case map_of payload ''iss'' of
             Some (JStr agent_did) \<Rightarrow>
               if map_of payload ''sub'' \<noteq> Some (JStr agent_did) \<or> map_of header ''kid'' \<noteq> Some (JStr agent_did)
               then sret unrecognized
               else
               sbind (sget (\<lambda>s. identity_by_did agent_did (pw_identities s))) (\<lambda>found.
               case found of
                 None \<Rightarrow> sret unrecognized
               | Some r \<Rightarrow>
                   sbind (slift (validate_identity_record r)) (\<lambda>_.
                   sbind (slift (require (id_agent_did r = agent_did)
                     (Value_Error ''AEP Platform identity store returned a mismatched record''))) (\<lambda>_.
                   if id_service_did r \<noteq> vq_service_did request then sret unrecognized
                   else
                   sbind (authorize pf ((authorizing Verify_Operation)\<lparr>az_identity := Some r,
                     az_verification := Some request\<rparr>) context) (\<lambda>granted.
                   if \<not> granted then sret unrecognized
                   else platform_idempotent pf Idem_Hosted_Verification (verification_request_to_wire request) context
                     verification_response_to_wire verification_response_of_json
                     (verify_execute pf r request context)))))
           | _ \<Rightarrow> sret unrecognized))))"

end
