(* ===== verification/Platform_Facts.thy ===== *)
theory Platform_Facts
  imports Platform Frames
begin

text \<open>
  Histories of a Platform: a locale lifts a relation between states from the stores to every operation, and
  the identities of a Platform are shown to evolve by the contract of the identity store.
\<close>

section \<open>Frames\<close>

definition other_parts :: "('w platform_state \<Rightarrow> 'w platform_state \<Rightarrow> bool) \<Rightarrow> bool" where
  "other_parts R = (reflp R \<and> transp R \<and> (\<forall>s w. R s (s\<lparr>pw_world := w\<rparr>)))"

lemma keeps_on_pworld: "other_parts R \<Longrightarrow> keeps R (on_pworld p)"
  by (simp add: keeps_def on_pworld_def other_parts_def split: prod.split)

lemma keeps_none_on_assertion_error: "keeps R p \<Longrightarrow> keeps R (none_on_assertion_error p)"
  unfolding keeps_def none_on_assertion_error_def
  by (auto split: prod.splits sum.splits) (metis snd_conv)+

lemma keeps_json_string:
  "(\<And>a. keeps R (f a)) \<Longrightarrow> keeps R g \<Longrightarrow> keeps R (case j of JStr a \<Rightarrow> f a | _ \<Rightarrow> g)"
  by (cases j) simp_all

lemma keeps_sign_response:
  "(\<And>c. keeps R (f c)) \<Longrightarrow> (\<And>q. keeps R (g q)) \<Longrightarrow>
    keeps R (case v of Sign_Completed c \<Rightarrow> f c | Sign_Pending q \<Rightarrow> g q)"
  by (cases v) simp_all

lemma keeps_quiet: "keeps (unchanged pw_identities) (on_pworld p)"
  by (rule keeps_on_pworld) (simp add: other_parts_def, simp add: unchanged_def)

lemma on_pworld_run: "on_pworld p s = (r, s') \<longleftrightarrow> (\<exists>w. p (pw_world s) = (r, w) \<and> s' = s\<lparr>pw_world := w\<rparr>)"
  by (auto simp: on_pworld_def split: prod.splits)

lemma on_identities_run:
  "on_identities p s = (r, s') \<longleftrightarrow> (\<exists>i. p (pw_identities s) = (r, i) \<and> s' = s\<lparr>pw_identities := i\<rparr>)"
  by (auto simp: on_identities_def split: prod.splits)

lemma on_replay_run:
  "on_replay p s = (r, s') \<longleftrightarrow> (\<exists>i. p (pw_replay s) = (r, i) \<and> s' = s\<lparr>pw_replay := i\<rparr>)"
  by (auto simp: on_replay_def split: prod.splits)

lemma none_on_assertion_error_Some:
  "none_on_assertion_error p s = (Inr (Some a), s') \<longleftrightarrow> p s = (Inr a, s')"
  by (auto simp: none_on_assertion_error_def split: prod.splits sum.splits)

lemma require_aware_Ok [simp]: "require_aware t = Inr u \<longleftrightarrow> u = t \<and> aware t"
  by (auto simp: require_aware_def rbind_Ok_iff)

section \<open>Operations and histories\<close>

datatype platform_op =
    Do_Did_Document string
  | Do_Get_Identity string request_context
  | Do_List identity_query request_context
  | Do_Provision provision_request request_context
  | Do_Sign string sign_request request_context
  | Do_Update string lifecycle_request request_context
  | Do_Verify verification_request request_context

fun platform_step :: "('w, 'key) platform \<Rightarrow> platform_op \<Rightarrow> 'w platform_state \<Rightarrow> 'w platform_state" where
  "platform_step pf (Do_Did_Document i) s = snd (platform_did_document pf i s)"
| "platform_step pf (Do_Get_Identity i context) s = snd (platform_get_identity pf i context s)"
| "platform_step pf (Do_List q context) s = snd (platform_list pf q context s)"
| "platform_step pf (Do_Provision request context) s = snd (platform_provision pf request context s)"
| "platform_step pf (Do_Sign i request context) s = snd (platform_sign pf i request context s)"
| "platform_step pf (Do_Update i request context) s = snd (platform_update_identity pf i request context s)"
| "platform_step pf (Do_Verify request context) s = snd (platform_verify pf request context s)"

locale platform_relation =
  fixes pf :: "('w, 'key) platform" and R :: "'w platform_state \<Rightarrow> 'w platform_state \<Rightarrow> bool"
  assumes others: "other_parts R"
    and creates: "keeps R (identity_find_or_create pw_identities pw_identities_update owner service
      (create_identity pf owner service))"
    and updates: "keeps R (on_identities (identity_update i status t))"
    and replays: "keeps R (on_replay (platform_consume k e t))"
    and idempotency: "keeps R operation \<Longrightarrow> keeps R (platform_execute pw_idempotency pw_idempotency_update
      (on_pworld (po_clock (pf_options pf))) v operation)"
begin

lemma refl: "reflp R" and trans: "transp R"
  using others by (simp_all add: other_parts_def)

lemma basic: "keeps R (sret a)" "keeps R (sraise e)" "keeps R (slift m)" "keeps R (sget f)"
  using refl by simp_all

lemma bind: "keeps R m \<Longrightarrow> (\<And>a. keeps R (f a)) \<Longrightarrow> keeps R (sbind m f)"
  by (rule keeps_bind [OF trans])

lemma world: "keeps R (on_pworld p)"
  by (rule keeps_on_pworld [OF others])

lemmas steps = bind basic world keeps_if keeps_option keeps_prod keeps_none_on_assertion_error
  keeps_json_string keeps_sign_response

lemma now: "keeps R (platform_now pf)" "keeps R (request_time pf context)"
  unfolding platform_now_def request_time_def by (intro steps)+

lemma idem: "keeps R execute \<Longrightarrow> keeps R (platform_idempotent pf operation material context enc model execute)"
  unfolding platform_idempotent_def store_result_def Let_def
  by (intro steps idempotency now)

lemma authorized: "keeps R (authorized_identity pf i request context)"
  unfolding authorized_identity_def authorize_def by (intro steps)

lemma validated: "keeps R (validate_sign_result pf result r request lifetime t)"
  unfolding validate_sign_result_def by (intro steps)

lemma signs: "keeps R (built_in_sign pf r request context lifetime)" "keeps R (sign_execute pf r request context lifetime)"
proof -
  show built_in: "keeps R (built_in_sign pf r request context lifetime)"
    unfolding built_in_sign_def Let_def by (intro steps now validated)
  show "keeps R (sign_execute pf r request context lifetime)"
    unfolding sign_execute_def Let_def by (intro steps now validated built_in)
qed

lemma verifies: "keeps R (verify_execute pf r request context)"
  unfolding verify_execute_def checked_claims_def consume_verified_def by (intro steps now replays)

lemma did_document: "keeps R (platform_did_document pf i)"
  unfolding platform_did_document_def by (intro steps)

lemma get_identity: "keeps R (platform_get_identity pf i context)"
  unfolding platform_get_identity_def by (intro steps authorized)

lemma page: "keeps R (platform_list pf q context)"
  unfolding platform_list_def authorize_def Let_def by (intro steps)

lemma provision_run: "keeps R (provision_execute pf request context)"
  unfolding provision_execute_def by (intro steps creates)

lemma provision: "keeps R (platform_provision pf request context)"
  unfolding platform_provision_def authorize_def by (intro steps idem provision_run)

lemma sign: "keeps R (platform_sign pf i request context)"
  unfolding platform_sign_def by (intro steps idem authorized signs)

lemma update: "keeps R (platform_update_identity pf i request context)"
  unfolding platform_update_identity_def by (intro steps authorized now updates)

lemma verify: "keeps R (platform_verify pf request context)"
  unfolding platform_verify_def authorize_def by (intro steps idem verifies)

lemma step: "R s (platform_step pf act s)"
  using did_document get_identity page provision sign update verify by (cases act) (simp_all add: keeps_def)

lemma history: "R s (fold (platform_step pf) acts s)"
proof (induction acts arbitrary: s)
  case Nil
  then show ?case using refl by (simp add: reflp_def)
next
  case (Cons act acts)
  then show ?case using step [of s act] trans by (auto simp: transp_def)
qed

end

section \<open>Identities\<close>

definition identities_evolve :: "'w platform_state \<Rightarrow> 'w platform_state \<Rightarrow> bool" where
  "identities_evolve s s' = memory_identities.evolves (pw_identities s) (pw_identities s')"

lemma identities_same: "pw_identities s' = pw_identities s \<Longrightarrow> identities_evolve s s'"
  by (simp add: identities_evolve_def memory_identities.evolves_refl)

lemma identities_order: "reflp identities_evolve" "transp identities_evolve"
  by (auto simp: reflp_def transp_def identities_same identities_evolve_def memory_identities.evolves_refl
    intro: memory_identities.evolves_trans)

lemma keeps_create_identity: "keeps (unchanged pw_identities) (create_identity pf owner service)"
  unfolding create_identity_def platform_now_def Let_def
  by (intro keeps_bind unchanged_order keeps_basic keeps_quiet)

text \<open>What \<open>find_or_create\<close> does to the stored identities.\<close>

lemma find_or_create_evolves:
  assumes "keeps (unchanged pw_identities) factory"
  shows "keeps identities_evolve (identity_find_or_create pw_identities pw_identities_update owner service factory)"
  unfolding keeps_def
proof
  fix s :: "'a platform_state"
  let ?m = "identity_find_or_create pw_identities pw_identities_update owner service factory"
  show "identities_evolve s (snd (?m s))"
  proof (cases "owner = [] \<or> service = [] \<or> map_of (im_by_scope (pw_identities s)) (owner, service) \<noteq> None")
    case True
    then show ?thesis
      by (auto simp: identity_find_or_create_def prog_simps require_def identities_same split: option.split)
  next
    case False
    obtain x s1 where run: "factory s = (x, s1)" by (cases "factory s")
    have s1: "pw_identities s1 = pw_identities s" using keeps_run [OF assms run] by (simp add: unchanged_def)
    show ?thesis
    proof (cases x)
      case (Inl e)
      with run False s1 show ?thesis
        by (simp add: identity_find_or_create_def prog_simps require_def sbind_def identities_same)
    next
      case (Inr r)
      with run False have m: "?m s = sbind (slift (validate_identity_record r)) (\<lambda>_.
         sbind (slift (require (scope_of r = (owner, service))
           (Value_Error ''AEP Platform identity does not match its requested scope''))) (\<lambda>_.
         sbind (slift (identity_insert r (pw_identities s1))) (\<lambda>st'.
         sbind (smodify (pw_identities_update (\<lambda>_. st'))) (\<lambda>_. sret (r, True))))) s1"
        by (cases "validate_identity_record r")
          (simp_all add: identity_find_or_create_def prog_simps require_def sbind_run)
      show ?thesis
      proof (cases "is_ok (validate_identity_record r) \<and> scope_of r = (owner, service)
          \<and> is_ok (identity_insert r (pw_identities s1))")
        case True
        then obtain st' where st': "identity_insert r (pw_identities s1) = Inr st'" by (auto simp: is_ok_iff)
        with True have "snd (?m s) = pw_identities_update (\<lambda>_. st') s1"
          unfolding m by (auto simp: prog_simps is_ok_iff)
        moreover have "memory_identities.evolves (pw_identities s) st'"
          by (rule memory_identities.evolves_insert [where r = r])
            (use True False st' s1 in \<open>auto simp: identity_by_scope_def\<close>)
        ultimately show ?thesis by (simp add: identities_evolve_def)
      next
        case no: False
        then have "snd (?m s) = s1"
          unfolding m
          by (cases "validate_identity_record r"; cases "identity_insert r (pw_identities s1)")
            (auto simp: prog_simps require_def)
        then show ?thesis using s1 by (simp add: identities_same)
      qed
    qed
  qed
qed

lemma keeps_platform_execute:
  assumes "other_parts R" and "\<And>s i. R s (s\<lparr>pw_idempotency := i\<rparr>)" and "keeps R operation"
  shows "keeps R (platform_execute pw_idempotency pw_idempotency_update (on_pworld clock) v operation)"
proof -
  have order: "reflp R" "transp R" using assms(1) by (simp_all add: other_parts_def)
  have modify: "keeps R (smodify (pw_idempotency_update f))" for f
  proof (rule keeps_smodify)
    fix s :: "'a platform_state"
    have "pw_idempotency_update f s = s\<lparr>pw_idempotency := f (pw_idempotency s)\<rparr>" by (cases s) simp
    then show "R s (pw_idempotency_update f s)" by (simp only: assms(2))
  qed
  show ?thesis
    unfolding platform_execute_def Let_def
    by (intro keeps_bind keeps_basic order keeps_on_pworld [OF assms(1)] modify assms(3) keeps_option keeps_prod keeps_if)
qed

interpretation identity_history: platform_relation pf identities_evolve for pf :: "('w, 'key) platform"
proof
  have others: "other_parts (identities_evolve :: 'w platform_state \<Rightarrow> _)"
    by (simp add: other_parts_def identities_order identities_same)
  show "other_parts (identities_evolve :: 'w platform_state \<Rightarrow> _)" by (rule others)
  show "keeps identities_evolve (identity_find_or_create pw_identities pw_identities_update owner service
      (create_identity pf owner service))" for owner service
    by (rule find_or_create_evolves [OF keeps_create_identity])
  show "keeps (identities_evolve :: 'w platform_state \<Rightarrow> _) (on_identities (identity_update i status t))" for i status t
    by (simp add: keeps_def on_identities_def identities_evolve_def memory_identities.evolves_update [of _ i status t, simplified]
      case_prod_beta)
  show "keeps (identities_evolve :: 'w platform_state \<Rightarrow> _) (on_replay (platform_consume k e t))" for k e t
    by (simp add: keeps_def on_replay_def identities_same case_prod_beta)
  show "keeps (identities_evolve :: 'w platform_state \<Rightarrow> _)
      (platform_execute pw_idempotency pw_idempotency_update (on_pworld (po_clock (pf_options pf))) v operation)"
    if "keeps identities_evolve operation" for v operation
    by (rule keeps_platform_execute [OF others _ that]) (simp add: identities_same)
qed

end
