(* ===== verification/Evaluation.thy ===== *)
theory Evaluation
  imports Service_Support
begin

text \<open>
  Code equations that print and read decimal numbers on binary integers instead of unary naturals, for the
  evaluation of concrete instances.
\<close>

function int_digits :: "int \<Rightarrow> string" where
  "int_digits k = (if k < 10 then [char_of (48 + k)] else int_digits (k div 10) @ [char_of (48 + k mod 10)])"
  by auto
termination by (relation "measure nat") auto

lemma char_of_int: "0 \<le> k \<Longrightarrow> (char_of k :: char) = char_of (nat k)"
proof -
  assume "0 \<le> k"
  then obtain n where "k = int n" by (metis zero_le_imp_eq_int)
  then show ?thesis by (simp add: char_of_def bit_simps)
qed

lemma show_nat_digits_of: "show_nat n = int_digits (int n)"
proof (induction n rule: show_nat.induct)
  case (1 n)
  then show ?case
    by (subst show_nat.simps, subst int_digits.simps)
      (auto simp: char_of_int nat_add_distrib nat_mod_distrib zdiv_int simp del: int_digits.simps)
qed

lemma show_int_code [code]: "show_int i = (if i < 0 then CHR ''-'' # int_digits (- i) else int_digits i)"
  by (simp add: show_int_def show_nat_digits_of del: int_digits.simps)

lemma padded_code [code]:
  "padded n k = (let d = int_digits (if k < 0 then 0 else k) in replicate (n - length d) CHR ''0'' @ d)"
  by (simp add: padded_def show_nat_digits_of Let_def del: int_digits.simps)

lemma digits_at_code [code]:
  "digits_at i n s = foldl (\<lambda>k c. 10 * k + (let d = of_char c - 48 in if d < 0 then 0 else d)) 0 (take n (drop i s))"
proof -
  have digit: "int (ord c - 48) = (let d = of_char c - 48 in if d < 0 then 0 else d)" for c
  proof -
    have "(of_char c :: int) = int (ord c)" by (cases c) simp
    then show ?thesis by (simp add: Let_def)
  qed
  have "int (foldl (\<lambda>n c. 10 * n + (ord c - 48)) m t)
      = foldl (\<lambda>k c. 10 * k + (let d = of_char c - 48 in if d < 0 then 0 else d)) (int m) t" for m t
    by (induction t arbitrary: m) (simp_all add: digit)
  from this [of 0 "take n (drop i s)"] show ?thesis by (simp add: digits_at_def decimal_value_def)
qed

end
