(* ===== verification/Platform_Sample.thy ===== *)
theory Platform_Sample
  imports Platform Evaluation
begin

text \<open>
  A concrete Platform for the instances of the theorems: a fixed clock, one managed identity, a key store
  that signs every request with the same token, and PyJWT functions that read that token.
\<close>

definition demo_did :: string where "demo_did = ''did:web:platform.example:agents:a1''"

definition demo_time :: datetime where "demo_time = \<lparr>instant = seconds 1000, utcoffset = Some 0\<rparr>"

definition demo_header :: members where
  "demo_header = [(''alg'', JStr ''EdDSA''), (''typ'', JStr ''JWT''), (''kid'', JStr demo_did)]"

definition demo_payload :: members where
  "demo_payload = [(''aud'', JStr ''did:web:service.example''), (''exp'', JInt 1300), (''iat'', JInt 1000),
     (''iss'', JStr demo_did), (''jti'', JStr ''j1''), (''op'', JStr ''enroll''), (''sub'', JStr demo_did)]"

definition demo_runtime :: "string platform_runtime" where
  "demo_runtime = \<lparr>pr_float_repr = (\<lambda>_. []), pr_sha256_hex = (\<lambda>_. ''ab''),
     pr_loads = (\<lambda>b. if b = ''h'' then Ok (JObj demo_header) else if b = ''p'' then Ok (JObj demo_payload)
       else Raise (Value_Error ''not JSON'')),
     pr_jwt_header = (\<lambda>_. Ok demo_header),
     pr_jwt_decode = (\<lambda>_ key _. if key = demo_did then Ok demo_payload
       else Raise (Pyjwt_Error ''Signature verification failed''))\<rparr>"

definition demo_jwk :: members where
  "demo_jwk = [(''crv'', JStr ''Ed25519''), (''kty'', JStr ''OKP''), (''x'', JStr ''AQ'')]"

definition demo_options :: "(unit, string) platform_options" where
  "demo_options = \<lparr>po_authorize = (\<lambda>_ _. sret True), po_did_host = ''platform.example'',
     po_did_url_template = ''https://platform.example/agents/{agent_did_id}/did.json'',
     po_discovery = \<lparr>do_endpoint_base = ''/aep/platform/'', do_lifecycle = ''/identities/{agent_identity_id}'',
       do_list = ''/identities'', do_platform_name = ''Demo'', do_provision = ''/identities'',
       do_sign = ''/identities/{agent_identity_id}/sign'', do_hosted_verification = Some ''/verify'',
       do_platform_did = None\<rparr>,
     po_key_store = \<lparr>ks_create_key = (\<lambda>_. sret ()),
       ks_verification_method = (\<lambda>r. sret \<lparr>vm_controller = id_agent_did r, vm_id = id_key_id r, vm_jwk = demo_jwk,
         vm_type = ''JsonWebKey2020''\<rparr>),
       ks_sign = (\<lambda>_ _. sret ''aA.cA.c2ln''), ks_verification_key = (\<lambda>r. sret (id_agent_did r))\<rparr>,
     po_resolve = (\<lambda>_. sret True), po_algorithms = [EdDSA], po_agent_did_id = sret ''a1'',
     po_clock = sret demo_time, po_default_lifetime = seconds 300, po_did_path_prefix = ''agents'',
     po_hosted_verification = True, po_identifier = sret ''1'', po_lifecycle_policy = None,
     po_maximum_lifetime = seconds 300, po_replay_store = True, po_sign_handler = None\<rparr>"

definition demo_identity :: identity_record where
  "demo_identity = \<lparr>id_agent_did = demo_did, id_agent_did_id = ''a1'', id_identity_id = ''pai_1'',
     id_created_at = demo_time, id_document_url = ''https://platform.example/agents/a1/did.json'',
     id_key_id = demo_did, id_principal = ''owner'', id_service_did = ''did:web:service.example'',
     id_algorithms = [EdDSA], id_status = Managed_Active, id_updated_at = demo_time\<rparr>"

definition demo_context :: "string \<Rightarrow> request_context" where
  "demo_context key = \<lparr>rc_principal = ''owner'', rc_idempotency_key = Some key, rc_authorization = None,
     rc_request_id = None, rc_current_time = None\<rparr>"

definition demo_provision :: provision_request where
  "demo_provision = \<lparr>pr_service_did = ''did:web:service.example''\<rparr>"

definition demo_sign :: sign_request where
  "demo_sign = \<lparr>sg_jti = ''j1'', sg_op = Op_Enroll, sg_service_did = ''did:web:service.example'', sg_lifetime = None,
     sg_context = None, sg_resource = None\<rparr>"

definition demo_verification :: verification_request where
  "demo_verification = \<lparr>vq_assertion = ''aA.cA.c2ln'', vq_op = Op_Enroll,
     vq_service_did = ''did:web:service.example'', vq_resource = None\<rparr>"

definition demo_discovery :: platform_discovery where
  "demo_discovery = \<lparr>pd_aep_version = ''1.0'',
     pd_endpoints = \<lparr>pe_lifecycle = ''/identities/{agent_identity_id}'', pe_provision = ''/identities'',
       pe_sign = ''/identities/{agent_identity_id}/sign'', pe_list = ''/identities'',
       pe_hosted_verification = Some ''/verify'', pe_extra = []\<rparr>,
     pd_http = \<lparr>ph_endpoint_base = ''/aep/platform/'', ph_extra = []\<rparr>,
     pd_identity = \<lparr>pi_did_methods = [''did:web''],
       pi_did_url_template = ''https://platform.example/agents/{agent_did_id}/did.json'', pi_extra = []\<rparr>,
     pd_platform = \<lparr>pm_hosted_verification = True, pm_name = ''Demo'', pm_did = None, pm_extra = []\<rparr>,
     pd_signing = \<lparr>ps_algorithms = [EdDSA], ps_default_lifetime = ''300'', ps_extra = []\<rparr>, pd_extra = []\<rparr>"

definition demo_platform :: "(unit, string) platform" where
  "demo_platform = \<lparr>pf_runtime = demo_runtime, pf_options = demo_options, pf_policy = default_lifecycle,
     pf_discovery = demo_discovery, pf_default_lifetime = 300, pf_maximum_lifetime = 300,
     pf_discovery_etag = [char_of (34 :: nat)] @ ''ab'' @ [char_of (34 :: nat)],
     pf_discovery_last_modified = ''Thu, 01 Jan 1970 00:16:40 GMT''\<rparr>"

lemma demo_discovery_made:
  "create_discovery_document (po_discovery demo_options) (po_did_url_template demo_options)
     (po_hosted_verification demo_options) (po_algorithms demo_options) 300 = Inr demo_discovery"
  by code_simp

lemma demo_made: "make_platform demo_runtime demo_options () = (Inr demo_platform, ())"
proof -
  have "whole_lifetime (po_maximum_lifetime demo_options) ''maximum assertion lifetime'' = Inr 300"
    "whole_lifetime (po_default_lifetime demo_options) ''default assertion lifetime'' = Inr 300"
    "create_service_scoped_agent_did (po_did_host demo_options) (po_did_path_prefix demo_options) ''validation''
      = Inr ''did:web:platform.example:agents:validation''"
    "render_did_url (po_did_url_template demo_options) ''validation'' = Inr ''https://platform.example/agents/validation/did.json''"
    "did_web_document_url ''did:web:platform.example:agents:validation'' False
      = Inr ''https://platform.example/agents/validation/did.json''"
    "http_date demo_time = ''Thu, 01 Jan 1970 00:16:40 GMT''"
    by code_simp+
  moreover have "po_clock demo_options () = (Inr demo_time, ())" "require_aware demo_time = Inr demo_time"
    "po_algorithms demo_options = [EdDSA]" "po_replay_store demo_options" "po_lifecycle_policy demo_options = None"
    by (simp_all add: demo_options_def prog_run require_aware_def demo_time_def aware_def)
  ultimately show ?thesis
    using demo_discovery_made
    by (simp add: make_platform_def sbind_simps prog_run require_def demo_platform_def demo_runtime_def
      sbind_run [where m = "po_clock demo_options" and s = "()" and s' = "()"])
qed

definition demo_identities :: identity_state where
  "demo_identities = \<lparr>im_records = [(''pai_1'', demo_identity)], im_by_did = [(demo_did, ''pai_1'')],
     im_by_did_id = [(''a1'', ''pai_1'')], im_by_scope = [((''owner'', ''did:web:service.example''), ''pai_1'')]\<rparr>"

definition demo_state :: "unit platform_state" where
  "demo_state = \<lparr>pw_identities = demo_identities, pw_idempotency = [], pw_replay = [], pw_world = ()\<rparr>"

lemma demo_facts:
  "create_identity demo_platform ''owner'' ''did:web:service.example'' (initial_platform ()) = (Inr demo_identity, initial_platform ())"
  "is_ok (identity_response demo_identity)" "validate_identity_record demo_identity = Inr ()"
  "identity_insert demo_identity no_identities = Inr demo_identities"
  by code_simp+

lemma demo_resolve: "on_pworld (po_resolve (pf_options demo_platform) service) s = (Inr True, s)"
  by (cases s) (simp add: on_pworld_def demo_platform_def demo_options_def prog_run)

text \<open>The first provisioning creates the identity, the second finds it.\<close>

lemma demo_provision_runs:
  "\<exists>res b. provision_execute demo_platform demo_provision (demo_context k) (initial_platform ()) = (Inr res, demo_state)
    \<and> pl_body res = Some b"
  "\<exists>res b. provision_execute demo_platform demo_provision (demo_context k) demo_state = (Inr res, demo_state)
    \<and> pl_body res = Some b"
proof -
  obtain b where b: "identity_response demo_identity = Inr b" using demo_facts(2) by (auto simp: is_ok_iff)
  have scope: "scope_of demo_identity = (''owner'', ''did:web:service.example'')" "id_principal demo_identity = ''owner''"
    "id_service_did demo_identity = ''did:web:service.example''"
    by (simp_all add: scope_of_def demo_identity_def)
  have new: "identity_find_or_create pw_identities pw_identities_update ''owner'' ''did:web:service.example''
      (create_identity demo_platform ''owner'' ''did:web:service.example'') (initial_platform ())
    = (Inr (demo_identity, True), demo_state)"
  proof -
    have "pw_identities (initial_platform ()) = no_identities" "im_by_scope no_identities = []"
      "pw_identities_update (\<lambda>_. demo_identities) (initial_platform ()) = demo_state"
      by (simp_all add: initial_platform_def no_identities_def demo_state_def)
    with demo_facts scope show ?thesis
      by (simp add: identity_find_or_create_def sbind_def prog_run)
  qed
  have old: "identity_find_or_create pw_identities pw_identities_update ''owner'' ''did:web:service.example'' factory demo_state
    = (Inr (demo_identity, False), demo_state)" for factory
    by (simp add: identity_find_or_create_def prog_simps require_def demo_state_def demo_identities_def identity_get_def)
  have request: "rc_principal (demo_context k) = ''owner''" "pr_service_did demo_provision = ''did:web:service.example''"
    by (simp_all add: demo_context_def demo_provision_def)
  show "\<exists>res b. provision_execute demo_platform demo_provision (demo_context k) (initial_platform ()) = (Inr res, demo_state)
    \<and> pl_body res = Some b"
    unfolding provision_execute_def request
    using b demo_facts(3) scope
    by (simp add: demo_resolve new sbind_def prog_run platform_success_def)
  show "\<exists>res b. provision_execute demo_platform demo_provision (demo_context k) demo_state = (Inr res, demo_state)
    \<and> pl_body res = Some b"
    unfolding provision_execute_def request
    using b demo_facts(3) scope
    by (simp add: demo_resolve old sbind_def prog_run platform_success_def)
qed

definition demo_claims :: assertion_claims where
  "demo_claims = \<lparr>aud = ''did:web:service.example'', exp_at = 1300, iat = 1000, iss = demo_did, jti = ''j1'',
     op = Op_Enroll, resource = None, sub = demo_did, assertion_extra = []\<rparr>"

definition demo_completed :: sign_completed where
  "demo_completed = \<lparr>sc_agent_did = demo_did, sc_assertion = ''aA.cA.c2ln'', sc_expires_at = ''1970-01-01T00:21:40Z'',
     sc_issued_at = ''1970-01-01T00:16:40Z'', sc_jti = ''j1'', sc_service_did = ''did:web:service.example'',
     sc_context = None, sc_extra = []\<rparr>"

lemma demo_token:
  "verify_for_identity demo_platform demo_identity ''aA.cA.c2ln'' ''did:web:service.example'' Op_Enroll None demo_did demo_time
     = Inr demo_claims"
  "decode_jwt_unverified (pr_loads demo_runtime) ''aA.cA.c2ln'' = Inr (demo_header, demo_payload)"
  "check_assertion_claims False demo_claims = Inr demo_claims"
  by code_simp+

lemma demo_response:
  "utc_rfc3339 demo_time = ''1970-01-01T00:16:40Z''"
  "utc_rfc3339 (plus_us demo_time (seconds 300)) = ''1970-01-01T00:21:40Z''"
  "check_sign_completed demo_completed = Inr demo_completed"
  "parse_rfc3339 ''1970-01-01T00:16:40Z'' = Inr demo_time"
  "parse_rfc3339 ''1970-01-01T00:21:40Z'' = Inr (plus_us demo_time (seconds 300))"
  "timestamp demo_time = 1000" "timestamp (plus_us demo_time (seconds 300)) = 1300"
  "media_type_essence AEP_MEDIA_TYPE = AEP_MEDIA_TYPE"
  by code_simp+

lemma demo_time_aware [simp]: "aware demo_time"
  by (simp add: demo_time_def aware_def)

lemma demo_collaborators:
  "request_time demo_platform (demo_context k) s = (Inr demo_time, s)"
  "on_pworld (ks_verification_key (po_key_store (pf_options demo_platform)) r) s = (Inr (id_agent_did r), s)"
  "on_pworld (ks_sign (po_key_store (pf_options demo_platform)) r c) s = (Inr ''aA.cA.c2ln'', s)"
  "on_pworld (lp_can_sign (pf_policy demo_platform) demo_identity context) s = (Inr True, s)"
  "on_pworld (lp_can_verify (pf_policy demo_platform) demo_identity context) s = (Inr True, s)"
  by (cases s; simp add: on_pworld_def demo_platform_def demo_options_def prog_run request_time_def demo_context_def
    platform_now_def sbind_def require_aware_def default_lifecycle_def demo_identity_def)+

lemma demo_identity_did: "id_agent_did demo_identity = demo_did"
  by (simp add: demo_identity_def)

lemma demo_sign_run:
  "\<exists>res. sign_execute demo_platform demo_identity demo_sign (demo_context k) 300 s = (Inr res, s)
    \<and> pl_body res = Some (Sign_Completed demo_completed) \<and> pl_problem res = None"
proof -
  note fields = demo_completed_def demo_identity_def demo_sign_def
  have valid: "validate_sign_result demo_platform (platform_success 200 (Sign_Completed demo_completed) []) demo_identity
      demo_sign 300 demo_time s = (Inr (), s)"
  proof -
    have "none_on_assertion_error (
           sbind (slift (decode_jwt_unverified (pr_loads (pf_runtime demo_platform)) ''aA.cA.c2ln'')) (\<lambda>(header, _).
           sbind (on_pworld (ks_verification_key (po_key_store (pf_options demo_platform)) demo_identity)) (\<lambda>key.
           sbind (slift (verify_for_identity demo_platform demo_identity ''aA.cA.c2ln'' ''did:web:service.example'' Op_Enroll
             None key demo_time)) (\<lambda>claims.
           sret (header, claims))))) s = (Inr (Some (demo_header, demo_claims)), s)"
      using demo_token demo_collaborators(2) demo_identity_did
      by (simp add: none_on_assertion_error_def sbind_def prog_run demo_platform_def [THEN arg_cong [of _ _ pf_runtime]])
    moreover have "map_of demo_header ''kid'' = Some (JStr demo_did)" by (simp add: demo_header_def)
    ultimately show ?thesis
      using demo_response
      by (simp add: validate_sign_result_def sbind_def prog_run platform_success_def fields demo_claims_def plus_us_def)
  qed
  have "\<lparr>aud = sg_service_did demo_sign, exp_at = timestamp demo_time + 300, iat = timestamp demo_time,
      iss = id_agent_did demo_identity, jti = sg_jti demo_sign, op = sg_op demo_sign, resource = sg_resource demo_sign,
      sub = id_agent_did demo_identity, assertion_extra = []\<rparr> = demo_claims"
    using demo_response(6) by (simp add: demo_claims_def fields)
  moreover have "\<lparr>sc_agent_did = id_agent_did demo_identity, sc_assertion = ''aA.cA.c2ln'',
      sc_expires_at = utc_rfc3339 (plus_us demo_time (seconds 300)), sc_issued_at = utc_rfc3339 demo_time,
      sc_jti = sg_jti demo_sign, sc_service_did = sg_service_did demo_sign, sc_context = sg_context demo_sign,
      sc_extra = []\<rparr> = demo_completed"
    unfolding demo_response(1,2) by (simp add: fields)
  ultimately have "built_in_sign demo_platform demo_identity demo_sign (demo_context k) 300 s
      = (Inr (platform_success 200 (Sign_Completed demo_completed) []), s)"
    using valid demo_collaborators(1,3) demo_token(3) demo_response(3)
    by (simp add: built_in_sign_def sbind_def prog_run Let_def)
  moreover have "po_sign_handler (pf_options demo_platform) = None" "id_status demo_identity = Managed_Active"
    by (simp_all add: demo_platform_def demo_options_def demo_identity_def)
  ultimately show ?thesis
    using demo_collaborators(4) by (simp add: sign_execute_def sbind_def Let_def platform_success_def)
qed

lemma demo_verify_run:
  "\<exists>res b s. verify_execute demo_platform demo_identity demo_verification (demo_context k) demo_state = (Inr res, s)
    \<and> pl_body res = Some b \<and> vs_verified b"
proof -
  have unrecognized: "is_ok (unrecognized_result demo_verification)"
    and verified: "check_verification_response \<lparr>vs_reason = ''verified'', vs_service_did = vq_service_did demo_verification,
       vs_verified = True, vs_agent_did = Some (id_agent_did demo_identity),
       vs_identity_id = Some (id_identity_id demo_identity), vs_op = Some (vq_op demo_verification),
       vs_status = Some (id_status demo_identity), vs_extra = []\<rparr>
     = Inr \<lparr>vs_reason = ''verified'', vs_service_did = vq_service_did demo_verification, vs_verified = True,
       vs_agent_did = Some (id_agent_did demo_identity), vs_identity_id = Some (id_identity_id demo_identity),
       vs_op = Some (vq_op demo_verification), vs_status = Some (id_status demo_identity), vs_extra = []\<rparr>"
    by code_simp+
  from unrecognized obtain u where u: "unrecognized_result demo_verification = Inr u" by (auto simp: is_ok_iff)
  have request: "vq_assertion demo_verification = ''aA.cA.c2ln''" "vq_op demo_verification = Op_Enroll"
    "vq_service_did demo_verification = ''did:web:service.example''" "vq_resource demo_verification = None"
    by (simp_all add: demo_verification_def)
  have checked: "checked_claims demo_platform demo_identity demo_verification (demo_context k) demo_state
      = (Inr (Some demo_claims), demo_state)"
    unfolding checked_claims_def request
    using demo_token(1) demo_collaborators(1,2) demo_identity_did by (simp add: none_on_assertion_error_def sbind_def prog_run)
  obtain t where consumed: "consume_verified demo_platform demo_identity demo_verification (demo_context k) demo_claims demo_state
      = (Inr True, t)"
    using demo_collaborators(1)
    by (simp add: consume_verified_def sbind_def on_replay_def demo_state_def platform_consume_def aware_def
      replay_text_def demo_claims_def demo_time_def seconds_def dict_keep_def dict_has_def)
  have "id_status demo_identity = Managed_Active" by (simp add: demo_identity_def)
  then show ?thesis
    using u verified checked consumed demo_collaborators(5)
    by (simp add: verify_execute_def sbind_def prog_run platform_success_def)
qed

end
