(* ===== verification/Platform_Identities.thy ===== *)
theory Platform_Identities
  imports Platform_Facts Platform_Sample
begin

text \<open>
  The managed identities: provisioning gives one identity per principal and Service, through every history
  of calls.
\<close>

section \<open>Provisioning\<close>

lemma find_or_create_Ok:
  assumes "identity_find_or_create pw_identities pw_identities_update owner service factory s = (Inr (r, created), s')"
    and "keeps (unchanged pw_identities) factory"
  shows "identity_by_scope (owner, service) (pw_identities s') = Some r"
proof (cases "map_of (im_by_scope (pw_identities s)) (owner, service)")
  case (Some i)
  with assms(1) show ?thesis
    by (auto simp: identity_find_or_create_def sbind_Ok prog_run identity_by_scope_def split: option.splits)
next
  case None
  with assms(1) obtain s1 st' where run: "factory s = (Inr r, s1)" and scope: "scope_of r = (owner, service)"
    and ins: "identity_insert r (pw_identities s1) = Inr st'" and s': "pw_identities s' = st'"
    by (auto simp: identity_find_or_create_def sbind_Ok prog_run)
  from ins scope show ?thesis
    by (auto simp: identity_insert_def identity_by_scope_def identity_get_def s' split: if_splits)
qed

lemma identity_response_Ok:
  assumes "identity_response r = Inr b"
  shows "ai_agent_did b = id_agent_did r" "ai_identity_id b = id_identity_id r" "ai_document_url b = id_document_url r"
    "ai_service_did b = id_service_did r" "ai_algorithms b = id_algorithms r" "ai_key_id b = id_key_id r"
    "ai_created_at b = local_rfc3339 (id_created_at r)"
  using checks_value [OF assms [unfolded identity_response_def check_agent_identity_def]] by simp_all

lemma provision_Ok:
  assumes "provision_execute pf request context s = (Inr res, s')" and "pl_body res = Some b"
  shows "\<exists>r. identity_by_scope (rc_principal context, pr_service_did request) (pw_identities s') = Some r
    \<and> identity_response r = Inr b"
proof -
  from assms obtain r created s1 where
    run: "identity_find_or_create pw_identities pw_identities_update (rc_principal context)
       (pr_service_did request) (create_identity pf (rc_principal context) (pr_service_did request)) s1
       = (Inr (r, created), s')" and b: "identity_response r = Inr b"
    by (auto simp: provision_execute_def sbind_Ok prog_run platform_success_def platform_problem_def rbind_Ok_iff
      split: if_splits prod.splits)
  from find_or_create_Ok [OF run keeps_create_identity] b show ?thesis by blast
qed

lemma initial_identities_ok [simp]: "identities_ok (pw_identities (initial_platform w))"
  by (simp add: identities_ok_def initial_platform_def no_identities_def index_ok_def)

text \<open>C14 One identity per principal and Service: when two provisionings for the same principal and Service DID
  both return an identity, whatever calls come between them, it is the same identity with the same Agent
  DID, key, document URL and creation time.\<close>

theorem provision_one_identity:
  assumes "s = fold (platform_step pf) acts1 (initial_platform w)"
    and "provision_execute pf request context s = (Inr res, s1)" and "pl_body res = Some b"
    and "s2 = fold (platform_step pf) acts2 s1"
    and "provision_execute pf request context' s2 = (Inr res', s3)" and "pl_body res' = Some b'"
    and "rc_principal context' = rc_principal context"
  shows "ai_agent_did b' = ai_agent_did b \<and> ai_identity_id b' = ai_identity_id b \<and> ai_key_id b' = ai_key_id b
    \<and> ai_document_url b' = ai_document_url b \<and> ai_created_at b' = ai_created_at b"
proof -
  let ?p = "(rc_principal context, pr_service_did request)"
  have "identities_evolve (initial_platform w) s" unfolding assms(1) by (rule identity_history.history)
  moreover have "identities_evolve s s1" by (rule keeps_run [OF identity_history.provision_run assms(2)])
  moreover have "identities_evolve (initial_platform w) (initial_platform w)" by (rule identities_same) simp
  ultimately have ok: "identities_ok (pw_identities s1)"
    by (auto simp: identities_evolve_def memory_identities.evolves_def)
  from provision_Ok [OF assms(2,3)] obtain r where r: "identity_by_scope ?p (pw_identities s1) = Some r"
    and b: "identity_response r = Inr b" by blast
  from provision_Ok [OF assms(5,6)] obtain r' where r': "identity_by_scope ?p (pw_identities s3) = Some r'"
    and b': "identity_response r' = Inr b'" unfolding assms(7) by blast
  have "identities_evolve s1 s2" unfolding assms(4) by (rule identity_history.history)
  moreover have "identities_evolve s2 s3" by (rule keeps_run [OF identity_history.provision_run assms(5)])
  ultimately have "memory_identities.evolves (pw_identities s1) (pw_identities s3)"
    unfolding identities_evolve_def by (rule memory_identities.evolves_trans)
  from memory_identities.evolves_scope [OF this ok r] r' have "same_identity r r'" by simp
  from same_identity_fields [OF this] show ?thesis
    by (simp add: identity_response_Ok [OF b] identity_response_Ok [OF b'])
qed

theorem provision_one_identity_witness:
  "\<exists>res res' b b' s2. provision_execute demo_platform demo_provision (demo_context ''k'') (initial_platform ())
      = (Inr res, demo_state) \<and> pl_body res = Some b
    \<and> s2 = fold (platform_step demo_platform) [] demo_state
    \<and> provision_execute demo_platform demo_provision (demo_context ''l'') s2 = (Inr res', s2) \<and> pl_body res' = Some b'
    \<and> ai_agent_did b' = ai_agent_did b"
proof -
  have start: "initial_platform () = fold (platform_step demo_platform) [] (initial_platform ())" by simp
  from demo_provision_runs(1) [of "''k''"] obtain res b where
    first: "provision_execute demo_platform demo_provision (demo_context ''k'') (initial_platform ()) = (Inr res, demo_state)"
      "pl_body res = Some b" by blast
  from demo_provision_runs(2) [of "''l''"] obtain res' b' where
    again: "provision_execute demo_platform demo_provision (demo_context ''l'') demo_state = (Inr res', demo_state)"
      "pl_body res' = Some b'" by blast
  have later: "demo_state = fold (platform_step demo_platform) [] demo_state" by simp
  have "rc_principal (demo_context ''l'') = rc_principal (demo_context ''k'')" by (simp add: demo_context_def)
  from provision_one_identity [OF start first later again this] show ?thesis using first again by auto
qed

end
