(* ===== verification/Platform_Signing.thy ===== *)
theory Platform_Signing
  imports Platform_Facts Platform_Sample
begin

text \<open>
  What a completed signature and a positive hosted verification guarantee, and the replay store of a
  Platform as a second implementation of the contract \<open>replay_guard\<close>.
\<close>

section \<open>Signing\<close>

text \<open>What a verification with an identity's expectations says of the claims.\<close>

definition names_identity :: "assertion_claims \<Rightarrow> identity_record \<Rightarrow> string \<Rightarrow> assertion_operation \<Rightarrow> datetime \<Rightarrow> bool" where
  "names_identity claims r service ope now = (aud claims = service \<and> iss claims = id_agent_did r
     \<and> sub claims = id_agent_did r \<and> op claims = ope \<and> iat claims \<le> timestamp now \<and> timestamp now < exp_at claims)"

lemma verify_for_identity_Ok:
  assumes "verify_for_identity pf r assertion service ope wanted key now = Inr claims"
  shows "names_identity claims r service ope now"
proof -
  from assms have "check_expected \<lparr>vo_algorithms = id_algorithms r, vo_audience = Some service,
      vo_issuer = Some (id_agent_did r), vo_subject = Some (id_agent_did r), vo_operation = Some ope,
      vo_expected_resource = wanted, vo_current_time = Some (timestamp now), vo_clock_tolerance_seconds = 0,
      vo_allow_insecure_loopback = False\<rparr> claims = Inr ()" "iat claims \<le> timestamp now" "timestamp now < exp_at claims"
    unfolding verify_for_identity_def verify_client_assertion_Ok by (auto simp: effective_time_def)
  then show ?thesis
    by (auto simp: names_identity_def check_expected_def wanted_differs_def rbind_Ok_iff)
qed

lemma validate_sign_result_Ok:
  assumes "validate_sign_result pf result r request lifetime now s = (Inr u, s')"
    and "pl_body result = Some (Sign_Completed b)"
  shows "pl_status result = 200 \<and> pl_problem result = None \<and> sc_agent_did b = id_agent_did r
    \<and> sc_service_did b = sg_service_did request \<and> sc_jti b = sg_jti request
    \<and> (\<exists>issued expires header payload key claims. parse_rfc3339 (sc_issued_at b) = Inr issued
      \<and> parse_rfc3339 (sc_expires_at b) = Inr expires \<and> instant expires = instant issued + seconds lifetime
      \<and> decode_jwt_unverified (pr_loads (pf_runtime pf)) (sc_assertion b) = Inr (header, payload)
      \<and> map_of header ''kid'' = Some (JStr (id_key_id r))
      \<and> ks_verification_key (po_key_store (pf_options pf)) r (pw_world s) = (Inr key, pw_world s')
      \<and> verify_for_identity pf r (sc_assertion b) (sg_service_did request) (sg_op request) (sg_resource request)
          key now = Inr claims
      \<and> names_identity claims r (sg_service_did request) (sg_op request) now
      \<and> jti claims = sg_jti request \<and> iat claims = timestamp issued \<and> exp_at claims = timestamp expires)"
proof -
  from assms have status: "pl_status result = 200" "pl_problem result = None"
    by (auto simp: validate_sign_result_def sbind_Ok prog_run)
  from assms obtain issued expires header payload key claims where
    times: "parse_rfc3339 (sc_issued_at b) = Inr issued" "parse_rfc3339 (sc_expires_at b) = Inr expires"
      "instant expires - instant issued = seconds lifetime"
    and fields: "sc_agent_did b = id_agent_did r" "sc_service_did b = sg_service_did request" "sc_jti b = sg_jti request"
    and "decode_jwt_unverified (pr_loads (pf_runtime pf)) (sc_assertion b) = Inr (header, payload)"
    and "ks_verification_key (po_key_store (pf_options pf)) r (pw_world s) = (Inr key, pw_world s')"
    and ok: "verify_for_identity pf r (sc_assertion b) (sg_service_did request) (sg_op request) (sg_resource request)
      key now = Inr claims"
    and "map_of header ''kid'' = Some (JStr (id_key_id r))" "iat claims = timestamp issued"
      "exp_at claims = timestamp expires" "jti claims = sg_jti request"
    unfolding validate_sign_result_def
    by (clarsimp simp: sbind_Ok prog_run)
      (auto simp: sbind_Ok prog_run on_pworld_run none_on_assertion_error_Some split: option.splits)
  with verify_for_identity_Ok [OF ok] status show ?thesis
    by (intro conjI exI [of _ issued] exI [of _ expires] exI [of _ header] exI [of _ payload] exI [of _ key]
      exI [of _ claims]) simp_all
qed

lemma built_in_sign_validated:
  assumes "built_in_sign pf r request context lifetime s = (Inr res, s')"
  shows "\<exists>now t t'. request_time pf context s = (Inr now, t)
    \<and> validate_sign_result pf res r request lifetime now t' = (Inr (), s')"
  using assms by (auto simp: built_in_sign_def sbind_Ok Let_def prog_run)

text \<open>The state in which the time of a signature is taken: after the policy, and after the sign handler if there is
  one. \<open>w\<close> is the world the policy left.\<close>

definition before_signing :: "('w, 'key) platform \<Rightarrow> identity_record \<Rightarrow> sign_request \<Rightarrow> request_context \<Rightarrow> 'w
    \<Rightarrow> 'w \<Rightarrow> bool" where
  "before_signing pf r request context w v =
     (case po_sign_handler (pf_options pf) of
        None \<Rightarrow> v = w
      | Some handler \<Rightarrow> (\<exists>copy handled. clone_sign_request request = Inr copy \<and> handler (r, copy) context w = (Inr handled, v)))"

lemma sign_execute_validated:
  assumes "sign_execute pf r request context lifetime s = (Inr res, s')" and "pl_problem res = None"
  shows "id_status r = Managed_Active
    \<and> (\<exists>w v now t t'. lp_can_sign (pf_policy pf) r context (pw_world s) = (Inr True, w)
        \<and> before_signing pf r request context w v \<and> request_time pf context (s\<lparr>pw_world := v\<rparr>) = (Inr now, t)
        \<and> validate_sign_result pf res r request lifetime now t' = (Inr (), s'))"
proof -
  have active: "id_status r = Managed_Active"
    using assms by (auto simp: sign_execute_def prog_run Let_def platform_problem_def rbind_Ok_iff split: if_splits)
  with assms obtain allowed w where can: "lp_can_sign (pf_policy pf) r context (pw_world s) = (Inr allowed, w)"
    by (auto simp: sign_execute_def sbind_Ok on_pworld_run Let_def)
  with assms active have allowed: "allowed = True"
    by (cases allowed) (auto simp: sign_execute_def sbind_Ok on_pworld_run Let_def prog_run platform_problem_def rbind_Ok_iff)
  with active can assms(1) allowed have rest: "(case po_sign_handler (pf_options pf) of
        None \<Rightarrow> built_in_sign pf r request context lifetime
      | Some handler \<Rightarrow>
          sbind (slift (clone_sign_request request)) (\<lambda>copy.
          sbind (on_pworld (handler (r, copy) context)) (\<lambda>handled.
          case handled of
            None \<Rightarrow> built_in_sign pf r request context lifetime
          | Some result \<Rightarrow>
              sbind (request_time pf context) (\<lambda>now.
              sbind (validate_sign_result pf result r request lifetime now) (\<lambda>_. sret result)))))
     (s\<lparr>pw_world := w\<rparr>) = (Inr res, s')"
    by (simp add: sign_execute_def sbind_def on_pworld_def Let_def)
  have "\<exists>v now t t'. before_signing pf r request context w v \<and> request_time pf context (s\<lparr>pw_world := v\<rparr>) = (Inr now, t)
      \<and> validate_sign_result pf res r request lifetime now t' = (Inr (), s')"
  proof (cases "po_sign_handler (pf_options pf)")
    case None
    with rest show ?thesis using built_in_sign_validated by (fastforce simp: before_signing_def)
  next
    case (Some handler)
    with rest obtain copy handled v where before: "clone_sign_request request = Inr copy"
        "handler (r, copy) context w = (Inr handled, v)"
      and handled: "(case handled of
            None \<Rightarrow> built_in_sign pf r request context lifetime
          | Some result \<Rightarrow>
              sbind (request_time pf context) (\<lambda>now.
              sbind (validate_sign_result pf result r request lifetime now) (\<lambda>_. sret result))) (s\<lparr>pw_world := v\<rparr>) = (Inr res, s')"
      by (auto simp: sbind_Ok prog_run on_pworld_run)
    have "before_signing pf r request context w v" using Some before by (auto simp: before_signing_def)
    moreover have "\<exists>now t t'. request_time pf context (s\<lparr>pw_world := v\<rparr>) = (Inr now, t)
        \<and> validate_sign_result pf res r request lifetime now t' = (Inr (), s')"
    proof (cases handled)
      case None
      with handled show ?thesis using built_in_sign_validated by fastforce
    next
      case (Some result)
      with handled show ?thesis by (auto simp: sbind_Ok prog_run)
    qed
    ultimately show ?thesis by blast
  qed
  with active can allowed show ?thesis by blast
qed

text \<open>C12 A Platform signs only for an active identity that its lifecycle policy allows to sign, and whoever
  produced the assertion (the key store or a custom sign handler), a completed response carries a token
  that verifies with the key that the key store then holds for this very identity, at the time of the request: it
  names the identity as issuer and subject and the requested Service, operation, resource and JWT ID, is valid at
  that time, and its lifetime is the one asked for.\<close>

theorem signed_assertion_sound:
  assumes "sign_execute pf r request context lifetime s = (Inr res, s')" and "pl_body res = Some (Sign_Completed b)"
    and "pl_problem res = None"
  shows "id_status r = Managed_Active
    \<and> pl_status res = 200 \<and> sc_agent_did b = id_agent_did r \<and> sc_service_did b = sg_service_did request
    \<and> sc_jti b = sg_jti request
    \<and> (\<exists>w v now t u key issued expires header payload claims.
        lp_can_sign (pf_policy pf) r context (pw_world s) = (Inr True, w)
      \<and> before_signing pf r request context w v \<and> request_time pf context (s\<lparr>pw_world := v\<rparr>) = (Inr now, t)
      \<and> ks_verification_key (po_key_store (pf_options pf)) r u = (Inr key, pw_world s')
      \<and> parse_rfc3339 (sc_issued_at b) = Inr issued
      \<and> parse_rfc3339 (sc_expires_at b) = Inr expires \<and> instant expires = instant issued + seconds lifetime
      \<and> decode_jwt_unverified (pr_loads (pf_runtime pf)) (sc_assertion b) = Inr (header, payload)
      \<and> map_of header ''kid'' = Some (JStr (id_key_id r))
      \<and> verify_for_identity pf r (sc_assertion b) (sg_service_did request) (sg_op request) (sg_resource request)
          key now = Inr claims
      \<and> names_identity claims r (sg_service_did request) (sg_op request) now
      \<and> jti claims = sg_jti request \<and> iat claims = timestamp issued \<and> exp_at claims = timestamp expires)"
proof -
  from sign_execute_validated [OF assms(1,3)] obtain w v now t t' where
    active: "id_status r = Managed_Active" and before: "lp_can_sign (pf_policy pf) r context (pw_world s) = (Inr True, w)"
      "before_signing pf r request context w v" "request_time pf context (s\<lparr>pw_world := v\<rparr>) = (Inr now, t)"
    and valid: "validate_sign_result pf res r request lifetime now t' = (Inr (), s')" by blast
  from validate_sign_result_Ok [OF valid assms(2)] active before show ?thesis by blast
qed

theorem signed_assertion_sound_witness:
  "\<exists>claims. names_identity claims demo_identity ''did:web:service.example'' Op_Enroll demo_time \<and> jti claims = ''j1''
    \<and> verify_for_identity demo_platform demo_identity (sc_assertion demo_completed) ''did:web:service.example'' Op_Enroll
        None demo_did demo_time = Inr claims"
proof -
  obtain res where run: "sign_execute demo_platform demo_identity demo_sign (demo_context ''k'') 300 demo_state
      = (Inr res, demo_state)" "pl_body res = Some (Sign_Completed demo_completed)" "pl_problem res = None"
    using demo_sign_run [of "''k''" demo_state] by blast
  have request: "sg_service_did demo_sign = ''did:web:service.example''" "sg_op demo_sign = Op_Enroll"
    "sg_resource demo_sign = None" "sg_jti demo_sign = ''j1''"
    by (simp_all add: demo_sign_def)
  have time: "now = demo_time" if "request_time demo_platform (demo_context ''k'') t = (Inr now, t')" for now t t'
    using that by (simp add: demo_collaborators(1))
  have key: "key = demo_did" if "ks_verification_key (po_key_store (pf_options demo_platform)) demo_identity u = (Inr key, u')"
    for key u u'
    using that by (simp add: demo_platform_def demo_options_def prog_run demo_identity_def)
  from signed_assertion_sound [OF run] time key show ?thesis unfolding request by blast
qed

section \<open>Hosted verification\<close>

definition utc_at :: "int \<Rightarrow> datetime" where
  "utc_at n = \<lparr>instant = n, utcoffset = Some 0\<rparr>"

text \<open>The replay store keeps the contract of \<open>replay_guard\<close> too, with instants for times and any text made of
  subject and JWT ID for its key.\<close>

definition text_key :: "string \<times> string \<Rightarrow> string" where
  "text_key k = join [char_of (0 :: nat)] [fst k, snd k]"

definition consume_text :: "replay_record \<Rightarrow> int \<Rightarrow> platform_replay \<Rightarrow> bool result \<times> platform_replay" where
  "consume_text r now = platform_consume (text_key (replay_key r)) (utc_at (rp_expires_at r)) (utc_at now)"

definition text_recorded :: "platform_replay \<Rightarrow> string \<times> string \<Rightarrow> int option" where
  "text_recorded st k = map_option instant (map_of st (text_key k))"

lemma consume_True:
  "platform_consume key e now st = (Inr True, st') \<Longrightarrow> aware e \<and> aware now \<and> instant now < instant e
     \<and> st' = dict_set key e (dict_keep (\<lambda>(_, expiry). instant now < instant expiry) st)
     \<and> \<not> dict_has key (dict_keep (\<lambda>(_, expiry). instant now < instant expiry) st)"
  by (auto simp: platform_consume_def Let_def split: if_splits)

lemma replay_kept:
  assumes "dict_ok st" and "map_of st k = Some e" and "instant now < instant e"
  shows "map_of (dict_keep (\<lambda>(_, expiry). instant now < instant expiry) st) k = Some e"
  using map_of_dict_keep [OF assms(1)] assms(2,3) by simp

lemma utc_at_simps [simp]: "aware (utc_at n)" "instant (utc_at n) = n"
  by (simp_all add: utc_at_def aware_def)

interpretation text_replay: replay_guard consume_text text_recorded dict_ok
proof
  fix st st' :: platform_replay and r now k e
  assume ok: "dict_ok st"
  show "dict_ok (snd (consume_text r now st))"
    using ok by (auto simp: consume_text_def platform_consume_def Let_def)
  show "consume_text r now st = (Inr True, st') \<Longrightarrow> text_recorded st' (replay_key r) = Some (rp_expires_at r)"
    unfolding consume_text_def by (drule consume_True) (simp add: text_recorded_def)
  show "fst (consume_text r now st) \<noteq> Inr True" if "text_recorded st (replay_key r) = Some e" "now < e"
  proof
    assume "fst (consume_text r now st) = Inr True"
    then obtain st' where "consume_text r now st = (Inr True, st')" by (cases "consume_text r now st") auto
    from consume_True [OF this [unfolded consume_text_def]] that ok show False
      using replay_kept [OF ok, of "text_key (replay_key r)" _ "utc_at now"] by (auto simp: text_recorded_def dict_has_lookup)
  qed
  show "text_recorded (snd (consume_text r now st)) k = Some e" if "text_recorded st k = Some e" "now < e"
    using that replay_kept [OF ok, of "text_key k" _ "utc_at now"]
    by (auto simp: text_recorded_def consume_text_def platform_consume_def Let_def dict_has_lookup)
qed

lemma verify_execute_run:
  assumes "verify_execute pf r request context s = (Inr res, s')" and "pl_body res = Some b" and "vs_verified b"
  shows "id_status r = Managed_Active
    \<and> vs_agent_did b = Some (id_agent_did r) \<and> vs_service_did b = vq_service_did request
    \<and> (\<exists>w key w' moment t now t' claims. lp_can_verify (pf_policy pf) r context (pw_world s) = (Inr True, w)
      \<and> ks_verification_key (po_key_store (pf_options pf)) r w = (Inr key, w')
      \<and> request_time pf context (s\<lparr>pw_world := w'\<rparr>) = (Inr moment, t) \<and> request_time pf context t = (Inr now, t')
      \<and> verify_for_identity pf r (vq_assertion request) (vq_service_did request) (vq_op request)
          (vq_resource request) key moment = Inr claims
      \<and> platform_consume (replay_text r request (jti claims)) (utc_at (seconds (exp_at claims))) now (pw_replay s)
          = (Inr True, pw_replay s'))"
proof -
  from assms(1) obtain u where u: "unrecognized_result request = Inr u"
    by (auto simp: verify_execute_def sbind_Ok prog_run)
  then have no: "pl_body u = Some b' \<Longrightarrow> \<not> vs_verified b'" for b'
    by (auto simp: unrecognized_result_def rbind_Ok_iff platform_success_def check_verification_response_def
      simp del: checks.simps dest!: checks_value)
  have active: "id_status r = Managed_Active"
    using assms u no by (auto simp: verify_execute_def sbind_simps prog_run split: if_splits)
  obtain allowed w where can: "lp_can_verify (pf_policy pf) r context (pw_world s) = (Inr allowed, w)"
    using assms(1) u active by (auto simp: verify_execute_def sbind_Ok prog_run on_pworld_run)
  have allowed: "allowed = True"
    using assms u active can no by (cases allowed) (auto simp: verify_execute_def sbind_simps sbind_Ok on_pworld_run prog_run)
  let ?s = "s\<lparr>pw_world := w\<rparr>"
  obtain verified t where v: "checked_claims pf r request context ?s = (Inr verified, t)"
    using assms(1) u active can allowed by (auto simp: verify_execute_def sbind_simps sbind_Ok on_pworld_run)
  have quiet: "pw_replay t' = pw_replay t" if "request_time pf context t = (x, t')" for x t t'
    using that by (auto simp: request_time_def platform_now_def prog_run sbind_def on_pworld_def split: option.splits prod.splits sum.splits)
  have rest: "(case verified of
       None \<Rightarrow> sret u
     | Some claims \<Rightarrow>
         sbind (consume_verified pf r request context claims) (\<lambda>fresh.
         if \<not> fresh then sret u
         else
         sbind (slift (check_verification_response \<lparr>vs_reason = ''verified'', vs_service_did = vq_service_did request,
           vs_verified = True, vs_agent_did = Some (id_agent_did r), vs_identity_id = Some (id_identity_id r),
           vs_op = Some (vq_op request), vs_status = Some (id_status r), vs_extra = []\<rparr>)) (\<lambda>b.
         sret (platform_success 200 b [])))) t = (Inr res, s')"
    using assms(1) u active can allowed v
    by (simp add: verify_execute_def sbind_simps sbind_run [of "on_pworld (lp_can_verify (pf_policy pf) r context)"]
      on_pworld_run sbind_run [where m = "checked_claims pf r request context", OF v])
  with assms(2,3) no obtain claims where claims: "verified = Some claims"
    by (cases verified) (auto simp: prog_run)
  with rest obtain fresh t' where c: "consume_verified pf r request context claims t = (Inr fresh, t')"
    by (auto simp: sbind_Ok)
  with rest claims assms(2,3) no have fresh: "fresh = True"
    by (cases fresh) (auto simp: sbind_run [where m = "consume_verified pf r request context claims", OF c] prog_run)
  with rest claims have b: "check_verification_response \<lparr>vs_reason = ''verified'',
      vs_service_did = vq_service_did request, vs_verified = True, vs_agent_did = Some (id_agent_did r),
      vs_identity_id = Some (id_identity_id r), vs_op = Some (vq_op request), vs_status = Some (id_status r),
      vs_extra = []\<rparr> = Inr b" and s': "s' = t'"
    using assms(2) by (auto simp: sbind_run [where m = "consume_verified pf r request context claims", OF c] sbind_Ok prog_run platform_success_def)
  from v claims obtain key moment w' where
    ok: "verify_for_identity pf r (vq_assertion request) (vq_service_did request) (vq_op request)
          (vq_resource request) key moment = Inr claims"
    and key: "ks_verification_key (po_key_store (pf_options pf)) r w = (Inr key, w')"
    and t: "request_time pf context (s\<lparr>pw_world := w'\<rparr>) = (Inr moment, t)"
    by (auto simp: checked_claims_def none_on_assertion_error_Some sbind_Ok prog_run on_pworld_run)
  from c fresh obtain now t2 where now: "request_time pf context t = (Inr now, t2)"
    and consume: "platform_consume (replay_text r request (jti claims)) (utc_at (seconds (exp_at claims))) now (pw_replay t2)
      = (Inr True, pw_replay t')"
    by (auto simp: consume_verified_def sbind_Ok on_replay_run utc_at_def)
  have "vs_agent_did b = Some (id_agent_did r) \<and> vs_service_did b = vq_service_did request"
    using checks_value [OF b [unfolded check_verification_response_def]] by simp
  moreover have "pw_replay t2 = pw_replay s" using quiet [OF t] quiet [OF now] by simp
  ultimately show ?thesis using active can allowed ok key t now consume s' by auto
qed

text \<open>C13 A hosted verification answers "verified" only for an active identity that the policy allows, and only
  when the assertion verifies for the requested Service, operation and resource with the key that the key store holds
  for this very identity, at the time of the request; the same JWT ID was not verified before while its assertion was
  valid, and it is recorded until the assertion expires.\<close>

theorem hosted_verification_sound:
  assumes "verify_execute pf r request context s = (Inr res, s')" and "pl_body res = Some b" and "vs_verified b"
    and "dict_ok (pw_replay s)"
  shows "id_status r = Managed_Active
    \<and> vs_agent_did b = Some (id_agent_did r) \<and> vs_service_did b = vq_service_did request
    \<and> (\<exists>w key w' moment t (now :: datetime) t' claims.
        lp_can_verify (pf_policy pf) r context (pw_world s) = (Inr True, w)
      \<and> ks_verification_key (po_key_store (pf_options pf)) r w = (Inr key, w')
      \<and> request_time pf context (s\<lparr>pw_world := w'\<rparr>) = (Inr moment, t) \<and> request_time pf context t = (Inr now, t')
      \<and> verify_for_identity pf r (vq_assertion request) (vq_service_did request) (vq_op request)
          (vq_resource request) key moment = Inr claims
      \<and> names_identity claims r (vq_service_did request) (vq_op request) moment
      \<and> (\<forall>e. map_of (pw_replay s) (replay_text r request (jti claims)) = Some e \<longrightarrow> instant e \<le> instant now)
      \<and> map_of (pw_replay s') (replay_text r request (jti claims)) = Some (utc_at (seconds (exp_at claims)))
      \<and> instant now < seconds (exp_at claims))"
proof -
  from verify_execute_run [OF assms(1-3)] obtain w key w' moment t now t' claims where
    first: "id_status r = Managed_Active" "vs_agent_did b = Some (id_agent_did r)" "vs_service_did b = vq_service_did request"
    and run: "lp_can_verify (pf_policy pf) r context (pw_world s) = (Inr True, w)"
      "ks_verification_key (po_key_store (pf_options pf)) r w = (Inr key, w')"
      "request_time pf context (s\<lparr>pw_world := w'\<rparr>) = (Inr moment, t)" "request_time pf context t = (Inr now, t')"
    and ok: "verify_for_identity pf r (vq_assertion request) (vq_service_did request) (vq_op request)
          (vq_resource request) key moment = Inr claims"
    and consume: "platform_consume (replay_text r request (jti claims)) (utc_at (seconds (exp_at claims))) now
      (pw_replay s) = (Inr True, pw_replay s')" by blast
  from consume_True [OF consume] have
    "map_of (pw_replay s') (replay_text r request (jti claims)) = Some (utc_at (seconds (exp_at claims)))"
    "instant now < seconds (exp_at claims)" by simp_all
  moreover have "\<forall>e. map_of (pw_replay s) (replay_text r request (jti claims)) = Some e \<longrightarrow> instant e \<le> instant now"
    using consume_True [OF consume] replay_kept [OF assms(4), of "replay_text r request (jti claims)" _ now]
    by (force simp: dict_has_lookup)
  ultimately show ?thesis using first run ok verify_for_identity_Ok [OF ok] by blast
qed

theorem hosted_verification_sound_witness:
  "\<exists>res b s claims. verify_execute demo_platform demo_identity demo_verification (demo_context ''k'') demo_state = (Inr res, s)
    \<and> pl_body res = Some b \<and> vs_agent_did b = Some demo_did
    \<and> verify_for_identity demo_platform demo_identity (vq_assertion demo_verification) (vq_service_did demo_verification)
        (vq_op demo_verification) (vq_resource demo_verification) demo_did demo_time = Inr claims"
proof -
  obtain res b s where run: "verify_execute demo_platform demo_identity demo_verification (demo_context ''k'') demo_state
      = (Inr res, s)" "pl_body res = Some b" "vs_verified b"
    using demo_verify_run [of "''k''"] by blast
  have dict: "dict_ok (pw_replay demo_state)" by (simp add: demo_state_def)
  have time: "now = demo_time" if "request_time demo_platform (demo_context ''k'') t = (Inr now, t')" for now t t'
    using that by (simp add: demo_collaborators(1))
  have key: "key = demo_did" if "ks_verification_key (po_key_store (pf_options demo_platform)) demo_identity u = (Inr key, u')"
    for key u u'
    using that by (simp add: demo_platform_def demo_options_def prog_run demo_identity_def)
  from hosted_verification_sound [OF run dict] time key run demo_identity_did show ?thesis by metis
qed

end
