(* ===== verification/Agent_Types.thy ===== *)
theory Agent_Types
  imports Credentials
begin

text \<open>
  \<^verbatim>\<open>agent/types.py\<close>: the values an Agent exchanges with its collaborators, the exceptions of the
  package and the effect type of its operations. The record \<open>ServiceIdentity\<close> of the source is
  \<open>scoped_identity\<close> here, because the Inspect document has a member type of that name. The tuples and
  mapping proxies that \<open>__post_init__\<close> builds are values already.
\<close>

section \<open>Values\<close>

record scoped_identity =
  si_agent_did :: string
  si_identity_method :: string
  si_service_did :: string
  si_algorithms :: "signing_algorithm list"
  si_metadata :: "(string, string) dict"

record identity_request =
  iq_inspect :: inspect_document
  iq_service_did :: string
  iq_service_url :: string

record operation_key =
  ok_command :: string
  ok_service_did :: string
  ok_service_url :: string
  ok_credential_id :: "string option"
  ok_grant_type :: "string option"

text \<open>\<open>CredentialRecord\<close>; the bytes of the payload are a body.\<close>

record held_credential =
  hc_credential_id :: string
  hc_expires_at :: datetime
  hc_grant_type :: string
  hc_issued_at :: datetime
  hc_payload :: body
  hc_service_did :: string
  hc_service_url :: string

definition check_held_credential :: "held_credential \<Rightarrow> held_credential result" where
  "check_held_credential c =
     rbind (require (aware (hc_expires_at c) \<and> aware (hc_issued_at c))
       (Value_Error ''credential timestamps must include a UTC offset'')) (\<lambda>_. Ok c)"

record inspect_entry =
  ie_cached_at :: datetime
  ie_document :: inspect_document
  ie_final_url :: string
  ie_cache_control :: string
  ie_etag :: string
  ie_last_modified :: string
  ie_age :: string
  ie_date :: string
  ie_expires :: string

record inspection =
  in_document :: inspect_document
  in_final_url :: string
  in_inspect_url :: string
  in_service_url :: string
  in_cache_control :: string
  in_etag :: string
  in_last_modified :: string

record 'b command_result =
  cr_body :: 'b
  cr_status :: int
  cr_url :: string

record enroll_options =
  eo_claims :: "claim_values option"
  eo_idempotency_key :: "string option"
  eo_acknowledged :: "string list option"

record grant_options =
  go_grant_type :: "string option"
  go_idempotency_key :: "string option"
  go_parameters :: members
  go_preferred :: "string list"
  go_scopes :: "string list"

record grant_result =
  gt_credential :: "built_in_credential option"
  gt_grant_type :: string
  gt_raw :: body

record revoke_options =
  ro_all :: bool
  ro_credential_id :: "string option"
  ro_grant_type :: "string option"
  ro_idempotency_key :: "string option"
  ro_parameters :: members

text \<open>A float of the options is its exact value, \<^const>\<open>None\<close> for an infinity or NaN.\<close>

record wait_options =
  wo_interval :: "rat option"
  wo_timeout :: "rat option"

record authentication_options =
  ao_resource :: string
  ao_carrier :: string
  ao_client_assertion_only :: bool
  ao_credential_id :: "string option"
  ao_grant_type :: "string option"
  ao_allowed_methods :: "string list option"

definition default_grant_options :: grant_options where
  "default_grant_options = \<lparr>go_grant_type = None, go_idempotency_key = None, go_parameters = [],
     go_preferred = [], go_scopes = []\<rparr>"

text \<open>\<open>_copy_parameters\<close>; the keys of \<^typ>\<open>members\<close> are strings.\<close>

definition copy_parameters :: "members \<Rightarrow> members result" where
  "copy_parameters ms =
     rbind (require (\<not> list_ex (\<lambda>(name, _). name = []) ms)
       (Value_Error ''AEP extension parameter names must be non-empty strings'')) (\<lambda>_. Ok ms)"

definition check_grant_options :: "grant_options \<Rightarrow> grant_options result" where
  "check_grant_options v = rbind (copy_parameters (go_parameters v)) (\<lambda>ms. Ok (v\<lparr>go_parameters := ms\<rparr>))"

definition check_revoke_options :: "revoke_options \<Rightarrow> revoke_options result" where
  "check_revoke_options v = rbind (copy_parameters (ro_parameters v)) (\<lambda>ms. Ok (v\<lparr>ro_parameters := ms\<rparr>))"

section \<open>Exceptions\<close>

text \<open>
  \<open>Python\<close> holds the exceptions of the rest of the program. \<open>Io_Error\<close> is what a transport raises
  of its own: an \<open>OSError\<close>, an \<open>httpx.HTTPError\<close> or, when a time limit passes, \<open>TimeoutError\<close>. The last
  two are the exceptions of \<^verbatim>\<open>agent/platform_provider.py\<close>; a pending signature carries the identity, the
  context and the delay.
\<close>

datatype agent_error =
    Python exn
  | Credential_Unavailable string
  | Command_Failed int string "problem_details option"
  | Enrollment_State string
  | Io_Error string
  | Platform_Failed int "problem_details option"
  | Signing_Pending scoped_identity members int

text \<open>\<open>except ValueError\<close>: \<open>CredentialUnavailableError\<close> is a subclass.\<close>

fun value_error_class :: "agent_error \<Rightarrow> bool" where
  "value_error_class (Python e) = is_value_error e"
| "value_error_class (Credential_Unavailable _) = True"
| "value_error_class _ = False"

fun is_credential_unavailable :: "agent_error \<Rightarrow> bool" where
  "is_credential_unavailable (Credential_Unavailable _) = True"
| "is_credential_unavailable _ = False"

text \<open>\<open>except (ValueError, OSError, httpx.HTTPError, TimeoutError, AgentCommandError)\<close>\<close>

fun discovery_failure :: "agent_error \<Rightarrow> bool" where
  "discovery_failure (Io_Error _) = True"
| "discovery_failure (Command_Failed _ _ _) = True"
| "discovery_failure e = value_error_class e"

section \<open>Effects\<close>

type_synonym ('s, 'a) aprog = "(agent_error, 's, 'a) eprog"

text \<open>A call that can raise one of the exceptions \<^typ>\<open>exn\<close>.\<close>

definition py :: "'a result \<Rightarrow> ('s, 'a) aprog" where
  "py m = slift (map_sum Python id m)"

abbreviation refuse :: "string \<Rightarrow> ('s, 'a) aprog" where
  "refuse msg \<equiv> sraise (Python (Value_Error msg))"

abbreviation demand :: "bool \<Rightarrow> string \<Rightarrow> ('s, unit) aprog" where
  "demand b msg \<equiv> py (require b (Value_Error msg))"

lemma py_run [prog_simps, simp]:
  "py (Inr a) s = (Inr a, s)" "py (Inl e) s = (Inl (Python e), s)"
  "sbind (py (Inr a)) f s = f a s" "sbind (py (Inl e)) f s = (Inl (Python e), s)"
  by (simp_all add: py_def slift_def sbind_def)

lemma py_Ok: "py m s = (Inr a, t) \<longleftrightarrow> m = Inr a \<and> t = s"
  by (cases m) auto

lemma keeps_py [simp, intro]: "reflp R \<Longrightarrow> keeps R (py m)"
  by (simp add: py_def)

text \<open>An assertion signer: the claims, the acceptable algorithms, the assertion.\<close>

type_synonym 'w signer = "assertion_claims \<Rightarrow> signing_algorithm list \<Rightarrow> ('w, string) aprog"

end
