(* ===== verification/Agent_Stores.thy ===== *)
theory Agent_Stores
  imports Agent_Types "HOL-Library.Product_Lexorder"
begin

text \<open>
  \<^verbatim>\<open>agent/stores.py\<close> and \<^verbatim>\<open>agent/transport.py\<close>: the in-memory stores, each a dictionary whose
  operations run under a lock, the freshness rule of the Inspect cache, and the bounded read of a
  response body. The clock of the credential store is the time handed to an operation. Entries are values, so
  \<open>_copy_cache_entry\<close> is the identity.
\<close>

section \<open>MemoryIdentityStore\<close>

type_synonym identity_memory = "(string, scoped_identity) dict"

definition find_identity :: "string \<Rightarrow> identity_memory \<Rightarrow> scoped_identity option" where
  "find_identity service records = map_of records service"

definition save_identity :: "scoped_identity \<Rightarrow> identity_memory \<Rightarrow> identity_memory" where
  "save_identity i records = dict_set (si_service_did i) i records"

section \<open>MemoryCredentialStore\<close>

type_synonym credential_memory = "(string \<times> string, held_credential) dict"

text \<open>Comparing an aware with a naive value raises TypeError; the clock of an Agent and the timestamps of a
  record are aware.\<close>

definition expired :: "datetime \<Rightarrow> held_credential \<Rightarrow> bool" where
  "expired now c = (instant (hc_expires_at c) \<le> instant now)"

definition delete_held :: "string \<Rightarrow> string \<Rightarrow> credential_memory \<Rightarrow> credential_memory" where
  "delete_held service i records = dict_pop (service, i) records"

definition find_held :: "string \<Rightarrow> string \<Rightarrow> datetime \<Rightarrow> credential_memory
    \<Rightarrow> held_credential option \<times> credential_memory" where
  "find_held service i now records =
     (case map_of records (service, i) of
        None \<Rightarrow> (None, records)
      | Some c \<Rightarrow> if expired now c then (None, dict_pop (service, i) records) else (Some c, records))"

definition newest_first :: "held_credential \<Rightarrow> int \<times> string" where
  "newest_first c = (- instant (hc_issued_at c), hc_credential_id c)"

definition list_held :: "string \<Rightarrow> datetime \<Rightarrow> credential_memory \<Rightarrow> held_credential list \<times> credential_memory" where
  "list_held service now records =
     (let kept = dict_keep (\<lambda>(_, c). \<not> expired now c) records in
      (sort_key newest_first (filter (\<lambda>c. hc_service_did c = service) (map snd kept)), kept))"

definition save_held :: "held_credential \<Rightarrow> datetime \<Rightarrow> credential_memory \<Rightarrow> credential_memory result" where
  "save_held c now records =
     rbind (require (\<not> expired now c) (Value_Error ''AEP credential expiration must be in the future'')) (\<lambda>_.
     Ok (dict_set (hc_service_did c, hc_credential_id c) c records))"

section \<open>MemoryInspectCache\<close>

type_synonym inspect_memory = "(string, inspect_entry) dict"

definition find_inspect :: "string \<Rightarrow> inspect_memory \<Rightarrow> inspect_entry option" where
  "find_inspect key records = map_of records key"

definition save_inspect :: "string \<Rightarrow> inspect_entry \<Rightarrow> inspect_memory \<Rightarrow> inspect_memory" where
  "save_inspect key entry records = dict_set key entry records"

definition delete_inspect :: "string \<Rightarrow> inspect_memory \<Rightarrow> inspect_memory" where
  "delete_inspect key records = dict_pop key records"

section \<open>Freshness\<close>

text \<open>
  \<open>_fresh_cache\<close> counts in microseconds where the source has floats of seconds: below 2 to the 53 the
  floats are exact. \<open>email.utils.parsedate_to_datetime\<close> is the parameter \<open>parsedate\<close>.
\<close>

definition http_datetime :: "(string \<Rightarrow> datetime result) \<Rightarrow> string \<Rightarrow> datetime result" where
  "http_datetime parsedate v = rbind (parsedate v) (\<lambda>d.
     Ok (if utcoffset d = None then d\<lparr>utcoffset := Some 0\<rparr> else d))"

definition minus_datetime :: "datetime \<Rightarrow> datetime \<Rightarrow> int result" where
  "minus_datetime a b =
     rbind (require (aware a = aware b)
       (Type_Error ''cannot subtract offset-naive and offset-aware datetimes'')) (\<lambda>_.
     Ok (instant a - instant b))"

definition is_quote :: "char \<Rightarrow> bool" where
  "is_quote c = (ord c = 34)"

text \<open>One directive: its name in lower case and its value.\<close>

definition split_directive :: "string \<Rightarrow> string \<times> bool \<times> string" where
  "split_directive item = (case partition_at CHR ''='' (strip item) of (key, separator, v) \<Rightarrow>
     (lower key, separator, v))"

definition cache_directives :: "string \<Rightarrow> (string, string) dict" where
  "cache_directives v = foldl (\<lambda>acc item. case split_directive item of (key, _, text) \<Rightarrow>
     dict_set key (strip_by is_quote text) acc) [] (split_on CHR '','' v)"

definition ascii_decimal :: "string \<Rightarrow> bool" where
  "ascii_decimal s = (s \<noteq> [] \<and> list_all is_digit s)"

definition seconds_of :: "string \<Rightarrow> int" where
  "seconds_of s = seconds (int (decimal_value s))"

text \<open>\<open>None\<close> where the lifetime is not a number and the source returns False.\<close>

definition cache_lifetime :: "(string \<Rightarrow> datetime result) \<Rightarrow> (string, string) dict \<Rightarrow> string \<Rightarrow> datetime
    \<Rightarrow> int option result" where
  "cache_lifetime parsedate directives expires response_date =
     (case map_of directives ''max-age'' of
        Some raw \<Rightarrow> Ok (if ascii_decimal raw then Some (seconds_of raw) else None)
      | None \<Rightarrow>
          if expires \<noteq> []
          then rbind (http_datetime parsedate expires) (\<lambda>d. rbind (minus_datetime d response_date) (\<lambda>l. Ok (Some l)))
          else Ok (Some (seconds 300)))"

definition fresh_cache :: "(string \<Rightarrow> datetime result) \<Rightarrow> string \<Rightarrow> datetime \<Rightarrow> datetime \<Rightarrow> string \<Rightarrow> string
    \<Rightarrow> string \<Rightarrow> bool" where
  "fresh_cache parsedate cache_control cached_at now age date expires =
     (let directives = cache_directives cache_control in
      if dict_has ''no-cache'' directives \<or> dict_has ''no-store'' directives then False
      else case
        rbind (if date \<noteq> [] then http_datetime parsedate date else Ok cached_at) (\<lambda>response_date.
        rbind (cache_lifetime parsedate directives expires response_date) (\<lambda>lifetime.
        case lifetime of
          None \<Rightarrow> Ok False
        | Some l \<Rightarrow>
            if age \<noteq> [] \<and> \<not> ascii_decimal age then Ok False
            else
            rbind (minus_datetime cached_at response_date) (\<lambda>apparent.
            let initial_age = max apparent (if age = [] then 0 else seconds_of age) in
            rbind (minus_datetime now cached_at) (\<lambda>resident.
            Ok (0 \<le> resident \<and> initial_age + resident < l)))))
      of Inr b \<Rightarrow> b | Inl _ \<Rightarrow> False)"

section \<open>HttpxTransport\<close>

text \<open>The body loop of \<open>HttpxTransport._send\<close> over the chunks of the stream.\<close>

fun read_chunks :: "int \<Rightarrow> string \<Rightarrow> string list \<Rightarrow> string result" where
  "read_chunks maximum body [] = Ok body"
| "read_chunks maximum body (chunk # chunks) =
     (if maximum < int (length body) + int (length chunk)
      then Raise (Value_Error ''AEP response exceeds the configured limit'')
      else read_chunks maximum (body @ chunk) chunks)"

record stream_response =
  ht_status :: int
  ht_headers :: "(string, string) dict"
  ht_chunks :: "string list"

text \<open>\<open>json.loads\<close> on bytes is the parameter \<open>loads\<close>.\<close>

definition body_of_bytes :: "(string \<Rightarrow> json result) \<Rightarrow> string \<Rightarrow> body" where
  "body_of_bytes loads bytes = \<lparr>body_size = length bytes, body_doc = loads bytes\<rparr>"

definition make_httpx_transport :: "int \<Rightarrow> int result" where
  "make_httpx_transport maximum =
     rbind (require (1 \<le> maximum) (Value_Error ''maximum_response_bytes must be positive'')) (\<lambda>_. Ok maximum)"

definition httpx_send :: "(string \<Rightarrow> json result) \<Rightarrow> (http_request \<Rightarrow> ('w, stream_response) aprog) \<Rightarrow> int
    \<Rightarrow> http_request \<Rightarrow> ('w, http_response) aprog" where
  "httpx_send loads client maximum request =
     sbind (client request) (\<lambda>response.
     sbind (py (read_chunks maximum [] (ht_chunks response))) (\<lambda>bytes.
     sret \<lparr>rs_status = ht_status response, rs_headers = ht_headers response,
       rs_body = body_of_bytes loads bytes\<rparr>))"

end
