(* ===== verification/Agent.thy ===== *)
theory Agent
  imports Agent_Stores Assertions Did_Web
begin

text \<open>
  \<^verbatim>\<open>agent/client.py\<close>: the classes \<open>Agent\<close> and \<open>ServiceSession\<close> with the in-memory stores. A method of a
  session is a program on \<^verbatim>\<open>agent_state\<close>; the fields of the session in use are its component
  \<open>as_session\<close>, its service URL is an argument. Transports, identity provider, signers, the clock and the
  random source are programs on the state \<open>'w\<close> of the collaborators; a time limit that passes is the
  \<open>Io_Error\<close> of the transport call it interrupts. The locks of a session serialise its operations, so no
  interleaving is modelled.
\<close>

section \<open>State and construction\<close>

record session =
  ss_identity :: "scoped_identity option"
  ss_active :: bool

record 'w agent_state =
  as_identities :: identity_memory
  as_credentials :: credential_memory
  as_cache :: inspect_memory
  as_session :: session
  as_world :: 'w

definition new_session :: session where
  "new_session = \<lparr>ss_identity = None, ss_active = False\<rparr>"

definition initial_agent :: "'w \<Rightarrow> 'w agent_state" where
  "initial_agent w = \<lparr>as_identities = [], as_credentials = [], as_cache = [], as_session = new_session, as_world = w\<rparr>"

text \<open>What the standard library computes: the text of a float, \<open>json.loads\<close> on bytes,
  \<open>email.utils.parsedate_to_datetime\<close>.\<close>

record agent_runtime =
  ar_float_repr :: "rat \<Rightarrow> string"
  ar_loads :: "string \<Rightarrow> json result"
  ar_parsedate :: "string \<Rightarrow> datetime result"

text \<open>\<open>ac_find_existing\<close> is there when the provider is an \<open>ExistingIdentityProvider\<close>; \<open>signer_for\<close> may
  return something that is not callable.\<close>

record 'w agent_collaborators =
  ac_clock :: "('w, datetime) aprog"
  ac_command_transport :: "http_request \<Rightarrow> ('w, http_response) aprog"
  ac_inspect_transport :: "http_request \<Rightarrow> ('w, http_response) aprog"
  ac_get_or_create :: "identity_request \<Rightarrow> ('w, scoped_identity) aprog"
  ac_find_existing :: "(string \<Rightarrow> ('w, scoped_identity option) aprog) option"
  ac_signer_for :: "scoped_identity \<Rightarrow> ('w, 'w signer option) aprog"
  ac_create_key :: "operation_key \<Rightarrow> ('w, string) aprog"
  ac_token_hex :: "('w, string) aprog"
  ac_sleep :: "rat \<Rightarrow> ('w, unit) aprog"

definition random_idempotency_key :: "('w, string) aprog \<Rightarrow> operation_key \<Rightarrow> ('w, string) aprog" where
  "random_idempotency_key token_hex operation = token_hex"

record 'w agent_options =
  ao_collaborators :: "'w agent_collaborators"
  ao_allow_insecure_loopback :: bool
  ao_assertion_lifetime :: int
  ao_maximum_response_bytes :: int
  ao_request_timeout :: "rat option"

record 'w agent =
  ag_runtime :: agent_runtime
  ag_collaborators :: "'w agent_collaborators"
  ag_allow :: bool
  ag_lifetime :: int
  ag_maximum_bytes :: int

definition on_aworld :: "('w, 'a) aprog \<Rightarrow> ('w agent_state, 'a) aprog" where
  "on_aworld p s = (case p (as_world s) of (r, w) \<Rightarrow> (r, s\<lparr>as_world := w\<rparr>))"

definition validated_time :: "('w, datetime) aprog \<Rightarrow> ('w, datetime) aprog" where
  "validated_time clock = sbind clock (\<lambda>v.
     sbind (demand (aware v) ''AEP Agent clock must return a time with a UTC offset'') (\<lambda>_. sret v))"

definition positive_finite :: "rat option \<Rightarrow> bool" where
  "positive_finite v = (case v of None \<Rightarrow> False | Some r \<Rightarrow> 0 < r)"

text \<open>The lifetime of an assertion is a \<open>timedelta\<close>, in microseconds.\<close>

definition make_agent :: "agent_runtime \<Rightarrow> 'w agent_options \<Rightarrow> ('w, 'w agent) aprog" where
  "make_agent rt options =
     sbind (demand (\<not> (ao_assertion_lifetime options < seconds 1 \<or> seconds 300 < ao_assertion_lifetime options
         \<or> ao_assertion_lifetime options mod 1000000 \<noteq> 0))
       ''AEP Agent assertion lifetime must be whole seconds from 1 through 300'') (\<lambda>_.
     sbind (demand (1 \<le> ao_maximum_response_bytes options)
       ''AEP Agent maximum response bytes must be positive'') (\<lambda>_.
     sbind (demand (positive_finite (ao_request_timeout options))
       ''AEP Agent request timeout must be positive and finite'') (\<lambda>_.
     sbind (validated_time (ac_clock (ao_collaborators options))) (\<lambda>_.
     sret \<lparr>ag_runtime = rt, ag_collaborators = ao_collaborators options,
       ag_allow = ao_allow_insecure_loopback options,
       ag_lifetime = ao_assertion_lifetime options div 1000000,
       ag_maximum_bytes = ao_maximum_response_bytes options\<rparr>))))"

definition agent_now :: "'w agent \<Rightarrow> ('w agent_state, datetime) aprog" where
  "agent_now ag = on_aworld (validated_time (ac_clock (ag_collaborators ag)))"

section \<open>URLs\<close>

definition valid_https_url :: "string \<Rightarrow> bool \<Rightarrow> bool result" where
  "valid_https_url v allow = rbind (urlsplit v) (\<lambda>parsed.
     Ok (if truthy (username parsed) \<or> truthy (password parsed) \<or> fragment parsed \<noteq> []
            \<or> \<not> truthy (hostname parsed) then False
         else if scheme parsed = ''https'' then True
         else allow \<and> scheme parsed = ''http'' \<and> is_loopback_host (hostname parsed)))"

definition origin_url :: "string \<Rightarrow> string result" where
  "origin_url v = rbind (urlsplit v) (\<lambda>parsed.
     Ok (urlunsplit (scheme parsed) (netloc parsed) ''/'' [] []))"

text \<open>\<open>Agent.service\<close> with \<open>_service_url\<close>: the URL of a session.\<close>

definition service_url :: "string \<Rightarrow> bool \<Rightarrow> string result" where
  "service_url reference allow =
     (let v = strip reference in
      rbind (require (v \<noteq> []) (Value_Error ''invalid AEP Service reference'')) (\<lambda>_.
      rbind (if starts_with v ''did:web:'' then rbind (did_web_document_url v allow) origin_url
             else if count_sub ''://'' v = 0 then Ok (''https://'' @ v)
             else Ok v) (\<lambda>u.
      rbind (valid_https_url u allow) (\<lambda>valid.
      rbind (require valid (Value_Error ''AEP Service references require HTTPS'')) (\<lambda>_.
      origin_url u)))))"

definition require_resource :: "string \<Rightarrow> string \<Rightarrow> bool \<Rightarrow> unit result" where
  "require_resource target url allow =
     rbind (valid_https_url target allow) (\<lambda>valid.
     rbind (if valid then rbind (urlsplit target) (\<lambda>p. Ok (fragment p = [])) else Ok False) (\<lambda>plain.
     rbind (require plain (Value_Error ''AEP protected resource URL is invalid'')) (\<lambda>_.
     rbind (same_origin target url) (\<lambda>same.
     require same (Value_Error ''AEP protected resource must use the Service origin'')))))"

section \<open>Headers\<close>

definition find_header :: "(string, string) dict \<Rightarrow> string \<Rightarrow> string option" where
  "find_header headers name = map_option snd (find (\<lambda>(key, _). lower key = lower name) headers)"

definition header_text :: "(string, string) dict \<Rightarrow> string \<Rightarrow> string" where
  "header_text headers name = (case find_header headers name of None \<Rightarrow> [] | Some v \<Rightarrow> v)"

text \<open>\<open>_cache_directive\<close>\<close>

definition cache_directive :: "string \<Rightarrow> string \<Rightarrow> string option" where
  "cache_directive v name = map_option (\<lambda>(_, separator, item). if separator then strip_by is_quote item else [])
     (find (\<lambda>(key, _). key = name) (map split_directive (split_on CHR '','' v)))"

definition bounded :: "body \<Rightarrow> int \<Rightarrow> unit result" where
  "bounded data maximum = require (int (body_size data) \<le> maximum)
     (Value_Error ''AEP response exceeds the configured limit'')"

definition redirect_statuses :: "int list" where
  "redirect_statuses = [301, 302, 303, 307, 308]"

section \<open>Inspection\<close>

definition inspection_from_cache :: "inspect_entry \<Rightarrow> string \<Rightarrow> string \<Rightarrow> inspection" where
  "inspection_from_cache entry inspect_url url = \<lparr>in_document = ie_document entry, in_final_url = ie_final_url entry,
     in_inspect_url = inspect_url, in_service_url = url, in_cache_control = ie_cache_control entry,
     in_etag = ie_etag entry, in_last_modified = ie_last_modified entry\<rparr>"

definition entry_fresh :: "'w agent \<Rightarrow> inspect_entry \<Rightarrow> datetime \<Rightarrow> bool" where
  "entry_fresh ag entry now = fresh_cache (ar_parsedate (ag_runtime ag)) (ie_cache_control entry)
     (ie_cached_at entry) now (ie_age entry) (ie_date entry) (ie_expires entry)"

text \<open>The document of an entry is printed and read again.\<close>

definition checked_entry :: "'w agent \<Rightarrow> string \<Rightarrow> inspect_entry \<Rightarrow> inspect_entry result" where
  "checked_entry ag inspect_url entry =
     rbind (require (aware (ie_cached_at entry))
       (Value_Error ''cached AEP Inspect timestamp has no UTC offset'')) (\<lambda>_.
     rbind (valid_https_url (ie_final_url entry) (ag_allow ag)) (\<lambda>valid.
     rbind (if valid then same_origin (ie_final_url entry) inspect_url else Ok False) (\<lambda>same.
     rbind (require same (Value_Error ''cached AEP Inspect URL is invalid'')) (\<lambda>_.
     rbind (parse_json_model (Inr (inspect_document_to_wire (ie_document entry))) inspect_document_of_json
       ''Inspect document'') (\<lambda>document.
     rbind (require_service_origin_binding document (ie_final_url entry) (ag_allow ag)) (\<lambda>_.
     Ok (entry\<lparr>ie_document := document\<rparr>)))))))"

definition usable_entry :: "'w agent \<Rightarrow> string \<Rightarrow> inspect_entry option \<Rightarrow> ('w agent_state, inspect_entry option) aprog" where
  "usable_entry ag inspect_url found =
     (case found of
        None \<Rightarrow> sret None
      | Some entry \<Rightarrow>
          (case checked_entry ag inspect_url entry of
             Inr e \<Rightarrow> sret (Some e)
           | Inl e \<Rightarrow>
               if is_validation_error e \<or> is_value_error e
               then sbind (smodify (as_cache_update (delete_inspect inspect_url))) (\<lambda>_. sret None)
               else sraise (Python e)))"

definition inspect_headers :: "inspect_entry option \<Rightarrow> (string, string) dict" where
  "inspect_headers cached = [(''Accept'', AEP_MEDIA_TYPE)]
     @ (case cached of None \<Rightarrow> [] | Some e \<Rightarrow>
          (if ie_etag e \<noteq> [] then [(''If-None-Match'', ie_etag e)] else [])
          @ (if ie_last_modified e \<noteq> [] then [(''If-Modified-Since'', ie_last_modified e)] else []))"

text \<open>A response that is not a redirect: the entry it gives, or the exception.\<close>

definition inspect_answer :: "'w agent \<Rightarrow> inspect_entry option \<Rightarrow> datetime \<Rightarrow> http_response \<Rightarrow> string
    \<Rightarrow> agent_error + inspect_entry" where
  "inspect_answer ag cached now response current =
     (let h = header_text (rs_headers response) in
      if rs_status response = 304 then
        (case cached of
           None \<Rightarrow> Inl (Python (Value_Error ''AEP Inspect returned 304 without a cached document''))
         | Some e \<Rightarrow> Inr \<lparr>ie_cached_at = now, ie_document = ie_document e, ie_final_url = current,
             ie_cache_control = or_default (find_header (rs_headers response) ''cache-control'') (ie_cache_control e),
             ie_etag = or_default (find_header (rs_headers response) ''etag'') (ie_etag e),
             ie_last_modified = or_default (find_header (rs_headers response) ''last-modified'') (ie_last_modified e),
             ie_age = h ''age'', ie_date = h ''date'',
             ie_expires = or_default (find_header (rs_headers response) ''expires'') (ie_expires e)\<rparr>)
      else if rs_status response < 200 \<or> 300 \<le> rs_status response
      then Inl (Command_Failed (rs_status response)
        (''AEP Inspect failed with HTTP '' @ show_int (rs_status response)) None)
      else map_sum Python id (
        rbind (require (media_type_essence (h ''content-type'') = AEP_MEDIA_TYPE)
          (Value_Error ''AEP Inspect response media type is invalid'')) (\<lambda>_.
        rbind (bounded (rs_body response) (ag_maximum_bytes ag)) (\<lambda>_.
        rbind (parse_json_model (body_doc (rs_body response)) inspect_document_of_json ''Inspect document'') (\<lambda>document.
        rbind (require_service_origin_binding document current (ag_allow ag)) (\<lambda>_.
        Ok \<lparr>ie_cached_at = now, ie_document = document, ie_final_url = current,
          ie_cache_control = h ''cache-control'', ie_etag = h ''etag'', ie_last_modified = h ''last-modified'',
          ie_age = h ''age'', ie_date = h ''date'', ie_expires = h ''expires''\<rparr>))))))"

definition store_entry :: "string \<Rightarrow> inspect_entry \<Rightarrow> inspect_memory \<Rightarrow> inspect_memory" where
  "store_entry inspect_url entry =
     (if cache_directive (ie_cache_control entry) ''no-store'' \<noteq> None then delete_inspect inspect_url
      else save_inspect inspect_url entry)"

definition inspect_redirect :: "'w agent \<Rightarrow> http_response \<Rightarrow> string \<Rightarrow> string result" where
  "inspect_redirect ag response current =
     (case find_header (rs_headers response) ''location'' of
        None \<Rightarrow> Raise (Value_Error ''AEP Inspect redirect omitted Location'')
      | Some location \<Rightarrow>
          rbind (urljoin current location) (\<lambda>target.
          rbind (valid_https_url target (ag_allow ag)) (\<lambda>valid.
          rbind (if valid then same_origin current target else Ok False) (\<lambda>same.
          rbind (require same (Value_Error ''AEP Inspect redirect changed origin or scheme'')) (\<lambda>_.
          Ok target)))))"

text \<open>The \<open>while True\<close> loop: the number is how many redirects may still be followed.\<close>

definition inspect_request :: "inspect_entry option \<Rightarrow> string \<Rightarrow> http_request" where
  "inspect_request cached current = \<lparr>rq_method = ''GET'', rq_url = current, rq_headers = inspect_headers cached,
     rq_body = None\<rparr>"

primrec inspect_loop :: "'w agent \<Rightarrow> inspect_entry option \<Rightarrow> datetime \<Rightarrow> nat \<Rightarrow> string
    \<Rightarrow> ('w agent_state, inspect_entry) aprog" where
  "inspect_loop ag cached now 0 current =
     sbind (on_aworld (ac_inspect_transport (ag_collaborators ag) (inspect_request cached current))) (\<lambda>response.
     if rs_status response \<in> set redirect_statuses then refuse ''AEP Inspect exceeded five redirects''
     else slift (inspect_answer ag cached now response current))"
| "inspect_loop ag cached now (Suc n) current =
     sbind (on_aworld (ac_inspect_transport (ag_collaborators ag) (inspect_request cached current))) (\<lambda>response.
     if rs_status response \<in> set redirect_statuses
     then sbind (py (inspect_redirect ag response current)) (inspect_loop ag cached now n)
     else slift (inspect_answer ag cached now response current))"

definition inspect :: "'w agent \<Rightarrow> string \<Rightarrow> ('w agent_state, inspection) aprog" where
  "inspect ag url =
     sbind (py (urljoin url AEP_WELL_KNOWN_PATH)) (\<lambda>inspect_url.
     sbind (sget (\<lambda>s. find_inspect inspect_url (as_cache s))) (\<lambda>found.
     sbind (agent_now ag) (\<lambda>now.
     sbind (usable_entry ag inspect_url found) (\<lambda>cached.
     if (case cached of None \<Rightarrow> False | Some e \<Rightarrow> entry_fresh ag e now)
     then sret (inspection_from_cache (the cached) inspect_url url)
     else
     sbind (inspect_loop ag cached now 5 (case cached of None \<Rightarrow> inspect_url | Some e \<Rightarrow> ie_final_url e)) (\<lambda>entry.
     sbind (smodify (as_cache_update (store_entry inspect_url entry))) (\<lambda>_.
     sret (inspection_from_cache entry inspect_url url)))))))"

end
