(* ===== verification/Agent_Session.thy ===== *)
theory Agent_Session
  imports Agent
begin

text \<open>
  \<^verbatim>\<open>agent/client.py\<close>, the rest of \<open>ServiceSession\<close>: identities, signed commands, the four commands, stored
  credentials and authentication headers. Request data that \<open>model_validate\<close> reads is the JSON object
  of its members; a tuple is an array.
\<close>

section \<open>Identities\<close>

abbreviation advertised_did :: "inspection \<Rightarrow> string" where
  "advertised_did i \<equiv> service_did (inspect_service (in_document i))"

definition validate_identity :: "scoped_identity \<Rightarrow> inspection \<Rightarrow> unit result" where
  "validate_identity i inspection =
     rbind (require (\<not> (\<not> starts_with (si_agent_did i) ''did:'' \<or> si_service_did i \<noteq> advertised_did inspection
         \<or> si_identity_method i \<notin> set (identity_methods (inspect_identity (in_document inspection)))
         \<or> si_algorithms i = []))
       (Value_Error ''AEP identity provider returned an invalid Service-scoped identity'')) (\<lambda>_.
     require (\<not> (si_identity_method i = ''did:web'' \<and> \<not> starts_with (si_agent_did i) ''did:web:''))
       (Value_Error ''AEP Agent DID does not match its identity method''))"

definition remember_identity :: "scoped_identity \<Rightarrow> ('w agent_state, unit) aprog" where
  "remember_identity i = smodify (as_identities_update (save_identity i))"

definition known_identity :: "inspection \<Rightarrow> ('w agent_state, scoped_identity option) aprog" where
  "known_identity inspection = sget (\<lambda>s. find_identity (advertised_did inspection) (as_identities s))"

definition resolve_identity :: "'w agent \<Rightarrow> string \<Rightarrow> inspection \<Rightarrow> ('w agent_state, scoped_identity) aprog" where
  "resolve_identity ag url inspection =
     sbind (sget (\<lambda>s. ss_identity (as_session s))) (\<lambda>held.
     case held of
       Some i \<Rightarrow> sbind (py (validate_identity i inspection)) (\<lambda>_. sret i)
     | None \<Rightarrow>
         sbind (known_identity inspection) (\<lambda>found.
         sbind (case found of
             None \<Rightarrow>
               sbind (on_aworld (ac_get_or_create (ag_collaborators ag) \<lparr>iq_inspect = in_document inspection,
                 iq_service_did = advertised_did inspection, iq_service_url = url\<rparr>)) (\<lambda>i.
               sbind (py (validate_identity i inspection)) (\<lambda>_.
               sbind (remember_identity i) (\<lambda>_. sret i)))
           | Some i \<Rightarrow> sbind (py (validate_identity i inspection)) (\<lambda>_. sret i)) (\<lambda>i.
         sbind (smodify (as_session_update (ss_identity_update (\<lambda>_. Some i)))) (\<lambda>_.
         sret i))))"

definition signer_of :: "'w agent \<Rightarrow> scoped_identity \<Rightarrow> ('w agent_state, 'w signer) aprog" where
  "signer_of ag i = sbind (on_aworld (ac_signer_for (ag_collaborators ag) i)) (\<lambda>signer.
     case signer of None \<Rightarrow> refuse ''AEP identity provider returned no assertion signer'' | Some f \<Rightarrow> sret f)"

definition advertises :: "inspection \<Rightarrow> command \<Rightarrow> bool" where
  "advertises inspection c = (command_value c \<in> set (commands_supported (inspect_commands (in_document inspection))))"

definition session_identity :: "'w agent \<Rightarrow> string \<Rightarrow> ('w agent_state, scoped_identity) aprog" where
  "session_identity ag url = sbind (inspect ag url) (resolve_identity ag url)"

definition command_context :: "'w agent \<Rightarrow> string \<Rightarrow> command
    \<Rightarrow> ('w agent_state, inspection \<times> scoped_identity \<times> 'w signer) aprog" where
  "command_context ag url c =
     sbind (inspect ag url) (\<lambda>inspection.
     sbind (demand (advertises inspection c) (''AEP Service does not advertise '' @ command_value c)) (\<lambda>_.
     sbind (resolve_identity ag url inspection) (\<lambda>i.
     sbind (signer_of ag i) (\<lambda>signer.
     sret (inspection, i, signer)))))"

text \<open>\<open>_existing_command_context\<close>: a Grant never creates an identity.\<close>

definition existing_identity :: "'w agent \<Rightarrow> inspection \<Rightarrow> ('w agent_state, scoped_identity) aprog" where
  "existing_identity ag inspection =
     sbind (known_identity inspection) (\<lambda>found.
     sbind (case (found, ac_find_existing (ag_collaborators ag)) of
         (None, Some find_existing) \<Rightarrow>
           sbind (on_aworld (find_existing (advertised_did inspection))) (\<lambda>recovered.
           case recovered of
             None \<Rightarrow> sret None
           | Some i \<Rightarrow>
               sbind (py (validate_identity i inspection)) (\<lambda>_.
               sbind (remember_identity i) (\<lambda>_. sret (Some i))))
       | _ \<Rightarrow> sret found) (\<lambda>identity.
     case identity of
       None \<Rightarrow> sraise (Command_Failed 401 ''AEP Grant requires an existing enrolled identity'' None)
     | Some i \<Rightarrow> sbind (py (validate_identity i inspection)) (\<lambda>_. sret i)))"

definition existing_command_context :: "'w agent \<Rightarrow> string \<Rightarrow> command
    \<Rightarrow> ('w agent_state, inspection \<times> scoped_identity \<times> 'w signer) aprog" where
  "existing_command_context ag url c =
     sbind (inspect ag url) (\<lambda>inspection.
     sbind (demand (advertises inspection c) (''AEP Service does not advertise '' @ command_value c)) (\<lambda>_.
     sbind (existing_identity ag inspection) (\<lambda>i.
     sbind (signer_of ag i) (\<lambda>signer.
     sret (inspection, i, signer)))))"

definition idempotency_key :: "'w agent \<Rightarrow> string \<Rightarrow> inspection \<Rightarrow> command \<Rightarrow> string option \<Rightarrow> string option
    \<Rightarrow> string option \<Rightarrow> ('w agent_state, string) aprog" where
  "idempotency_key ag url inspection c provided cid chosen =
     (case provided of
        Some key \<Rightarrow> sbind (demand (key \<noteq> []) ''AEP idempotency key must not be empty'') (\<lambda>_. sret key)
      | None \<Rightarrow>
          sbind (on_aworld (ac_create_key (ag_collaborators ag) \<lparr>ok_command = command_value c,
            ok_service_did = advertised_did inspection, ok_service_url = url, ok_credential_id = cid,
            ok_grant_type = chosen\<rparr>)) (\<lambda>key.
          sbind (demand (key \<noteq> []) ''AEP idempotency key provider returned an empty key'') (\<lambda>_. sret key)))"

section \<open>Signing\<close>

text \<open>\<open>_validate_signed_assertion\<close>. \<open>decode_jwt_unverified\<close> refuses the non-standard constants, so printing the
  payload and reading it again gives the same tree.\<close>

definition validate_signed_assertion :: "(string \<Rightarrow> json result) \<Rightarrow> string \<Rightarrow> assertion_claims \<Rightarrow> string list
    \<Rightarrow> bool \<Rightarrow> int \<Rightarrow> assertion_claims result" where
  "validate_signed_assertion loads assertion claims algorithms allow current_time =
     (let invalid = Raise (Value_Error ''AEP assertion signer returned an invalid assertion'') in
      case rbind (decode_jwt_unverified loads assertion) (\<lambda>(header, payload).
             rbind (assertion_claims_of_json allow (JObj payload)) (\<lambda>parsed. Ok (header, parsed))) of
        Inl e \<Rightarrow> if is_assertion_error e \<or> is_value_error e then invalid else Inl e
      | Inr (header, parsed) \<Rightarrow>
          rbind (require (\<not> (map_of header ''typ'' \<noteq> Some (JStr ''JWT'')
              \<or> map_of header ''alg'' \<notin> Some ` JStr ` set algorithms
              \<or> (case map_of header ''kid'' of
                   Some (JStr key_id) \<Rightarrow> fst (partition_at CHR ''#'' key_id) \<noteq> iss claims
                 | _ \<Rightarrow> True)
              \<or> parsed\<lparr>iat := iat claims, exp_at := exp_at claims\<rparr> \<noteq> claims
              \<or> exp_at parsed - iat parsed \<noteq> exp_at claims - iat claims
              \<or> iat parsed > current_time
              \<or> exp_at parsed \<le> current_time))
            (Value_Error ''AEP assertion signer returned an assertion that does not match the request'')) (\<lambda>_.
          Ok parsed))"

definition operation_of_command :: "command \<Rightarrow> assertion_operation result" where
  "operation_of_command c = (case enum_of operation_value all_operations (command_value c) of
     None \<Rightarrow> Raise (Value_Error (command_value c @ '' is not a valid AssertionOperation'')) | Some v \<Rightarrow> Ok v)"

definition shared_algorithms :: "inspection \<Rightarrow> scoped_identity \<Rightarrow> string list" where
  "shared_algorithms inspection i =
     filter (\<lambda>v. v \<in> algorithm_value ` set (si_algorithms i)) (core_algorithms (inspect_core (in_document inspection)))"

definition sign_assertion :: "'w agent \<Rightarrow> inspection \<Rightarrow> scoped_identity \<Rightarrow> 'w signer \<Rightarrow> assertion_operation
    \<Rightarrow> string option \<Rightarrow> ('w agent_state, string) aprog" where
  "sign_assertion ag inspection i signer operation target =
     sbind (py (validate_identity i inspection)) (\<lambda>_.
     sbind (agent_now ag) (\<lambda>now.
     sbind (on_aworld (ac_token_hex (ag_collaborators ag))) (\<lambda>identifier.
     sbind (case target of
         None \<Rightarrow> sret None
       | Some r \<Rightarrow> sbind (py (normalize_resource_uri r (ag_allow ag))) (\<lambda>u. sret (Some u))) (\<lambda>normalized.
     sbind (py (check_assertion_claims (ag_allow ag) \<lparr>aud = advertised_did inspection,
       exp_at = timestamp now + ag_lifetime ag, iat = timestamp now, iss = si_agent_did i, jti = identifier,
       op = operation, resource = normalized, sub = si_agent_did i, assertion_extra = []\<rparr>)) (\<lambda>claims.
     let algorithms = shared_algorithms inspection i in
     sbind (on_aworld (signer claims (List.map_filter (enum_of algorithm_value all_algorithms) algorithms))) (\<lambda>assertion.
     sbind (demand (assertion \<noteq> []) ''AEP assertion signer returned an empty assertion'') (\<lambda>_.
     sbind (agent_now ag) (\<lambda>later_now.
     sbind (py (validate_signed_assertion (ar_loads (ag_runtime ag)) assertion claims algorithms (ag_allow ag)
       (timestamp later_now))) (\<lambda>_.
     sret assertion)))))))))"

section \<open>Commands\<close>

definition command_problem :: "http_response \<Rightarrow> problem_details option result" where
  "command_problem response =
     (if media_type_essence (header_text (rs_headers response) ''content-type'') \<noteq> AEP_PROBLEM_MEDIA_TYPE then Ok None
      else case parse_json_model (body_doc (rs_body response)) problem_details_of_json ''Problem Details'' of
             Inr p \<Rightarrow> Ok (Some p)
           | Inl e \<Rightarrow> if is_validation_error e then Ok None else Raise e)"

definition command_failure :: "int \<Rightarrow> problem_details option \<Rightarrow> agent_error" where
  "command_failure status problem = Command_Failed status (''AEP command failed with HTTP '' @ show_int status
     @ (case problem of None \<Rightarrow> [] | Some p \<Rightarrow> '': '' @ problem_code p)) problem"

definition command_headers :: "string \<Rightarrow> json option \<Rightarrow> string option \<Rightarrow> (string, string) dict" where
  "command_headers assertion data key = [(''Accept'', AEP_MEDIA_TYPE), (''Authorization'', ''AEP '' @ assertion)]
     @ (if data = None then [] else [(''Content-Type'', AEP_MEDIA_TYPE)])
     @ (case key of None \<Rightarrow> [] | Some k \<Rightarrow> [(''Idempotency-Key'', k)])"

definition execute :: "'w agent \<Rightarrow> string \<Rightarrow> inspection \<Rightarrow> scoped_identity \<Rightarrow> 'w signer \<Rightarrow> command \<Rightarrow> string
    \<Rightarrow> json option \<Rightarrow> string option \<Rightarrow> (body \<Rightarrow> 'b result) \<Rightarrow> ('w agent_state, 'b command_result) aprog" where
  "execute ag url inspection i signer c method data key parser =
     sbind (py (rbind (command_path_from_inspect (in_document inspection) c) (urljoin url))) (\<lambda>target.
     sbind (py (operation_of_command c)) (\<lambda>operation.
     sbind (sign_assertion ag inspection i signer operation None) (\<lambda>assertion.
     sbind (on_aworld (ac_command_transport (ag_collaborators ag) \<lparr>rq_method = method, rq_url = target,
       rq_headers = command_headers assertion data key,
       rq_body = map_option (\<lambda>v. body_of_text v (dumps_compact (ar_float_repr (ag_runtime ag)) v)) data\<rparr>)) (\<lambda>response.
     sbind (py (bounded (rs_body response) (ag_maximum_bytes ag))) (\<lambda>_.
     if rs_status response < 200 \<or> 300 \<le> rs_status response
     then sbind (py (command_problem response)) (\<lambda>problem. sraise (command_failure (rs_status response) problem))
     else
     sbind (demand (media_type_essence (header_text (rs_headers response) ''content-type'') = AEP_MEDIA_TYPE)
       ''AEP command response media type is invalid'') (\<lambda>_.
     sbind (py (parser (rs_body response))) (\<lambda>parsed.
     sret \<lparr>cr_body = parsed, cr_status = rs_status response, cr_url = target\<rparr>)))))))"

definition set_active :: "bool \<Rightarrow> ('w agent_state, unit) aprog" where
  "set_active b = smodify (as_session_update (ss_active_update (\<lambda>_. b)))"

definition parse_enroll_response :: "body \<Rightarrow> enroll_response result" where
  "parse_enroll_response data = parse_json_model (body_doc data) enroll_response_of_json ''Enroll response''"

definition parse_status_response :: "body \<Rightarrow> status_response result" where
  "parse_status_response data = parse_json_model (body_doc data) status_response_of_json ''Status response''"

definition parse_revoke_response :: "body \<Rightarrow> revoke_response result" where
  "parse_revoke_response data = parse_json_model (body_doc data) revoke_response_of_json ''Revoke response''"

subsection \<open>Enroll and Status\<close>

definition supported_extensions :: "inspect_document \<Rightarrow> string list" where
  "supported_extensions d = (case inspect_extensions d of None \<Rightarrow> [] | Some e \<Rightarrow>
     (case extensions_supported e of None \<Rightarrow> [] | Some xs \<Rightarrow> xs))"

definition enroll_request_data :: "scoped_identity \<Rightarrow> string \<Rightarrow> enroll_options \<Rightarrow> enroll_request result" where
  "enroll_request_data i key options =
     rbind (opt_field ''acknowledged_document_ids'' dec_document_ids
       (wire_opt ''acknowledged_document_ids'' enc_strs (eo_acknowledged options))) (\<lambda>ids.
     check_enroll_request \<lparr>er_agent_did = si_agent_did i, er_claims = eo_claims options,
       er_idempotency_key = Some key, er_acknowledged = ids, er_extra = []\<rparr>)"

definition agent_enroll :: "'w agent \<Rightarrow> string \<Rightarrow> enroll_options
    \<Rightarrow> ('w agent_state, enroll_response command_result) aprog" where
  "agent_enroll ag url options =
     sbind (command_context ag url Cmd_Enroll) (\<lambda>(inspection, i, signer).
     sbind (demand (eo_acknowledged options = None
         \<or> AEP_SERVICE_DOCUMENTS_EXTENSION \<in> set (supported_extensions (in_document inspection)))
       ''Service does not advertise the Service Documents extension'') (\<lambda>_.
     sbind (idempotency_key ag url inspection Cmd_Enroll (eo_idempotency_key options) None None) (\<lambda>key.
     sbind (py (enroll_request_data i key options)) (\<lambda>request.
     sbind (execute ag url inspection i signer Cmd_Enroll ''POST'' (Some (JObj (enroll_request_to_wire request)))
       (Some key) parse_enroll_response) (\<lambda>result.
     if lr_status (cr_body result) \<noteq> Agent_Rejected
        \<and> er_document_ids (cr_body result) \<noteq> eo_acknowledged options
     then sraise (Command_Failed (cr_status result) ''AEP document acknowledgement does not match the request'' None)
     else
     sbind (set_active (lr_status (cr_body result) = Agent_Active)) (\<lambda>_.
     sret result))))))"

definition request_status :: "'w agent \<Rightarrow> string \<Rightarrow> inspection \<Rightarrow> scoped_identity \<Rightarrow> 'w signer
    \<Rightarrow> ('w agent_state, status_response command_result) aprog" where
  "request_status ag url inspection i signer =
     sbind (execute ag url inspection i signer Cmd_Status ''GET'' None None parse_status_response) (\<lambda>result.
     sbind (set_active (lr_status (cr_body result) = Agent_Active)) (\<lambda>_.
     sret result))"

definition agent_status_command :: "'w agent \<Rightarrow> string \<Rightarrow> ('w agent_state, status_response command_result) aprog" where
  "agent_status_command ag url =
     sbind (command_context ag url Cmd_Status) (\<lambda>(inspection, i, signer).
     request_status ag url inspection i signer)"

text \<open>
  \<open>wait_for\<close> ends the polling loop at the time limit. Each round sleeps for the interval, so after
  \<open>polls_within\<close> rounds the limit has passed; a collaborator may raise the \<open>Io_Error\<close> earlier.
\<close>

definition polls_within :: "rat \<Rightarrow> rat \<Rightarrow> nat" where
  "polls_within interval limit = nat (ceiling (limit / interval))"

primrec poll_active :: "'w agent \<Rightarrow> string \<Rightarrow> rat \<Rightarrow> nat \<Rightarrow> ('w agent_state, status_response command_result) aprog" where
  "poll_active ag url interval 0 = sraise (Io_Error ''TimeoutError'')"
| "poll_active ag url interval (Suc n) =
     sbind (agent_status_command ag url) (\<lambda>result.
     let status = lr_status (cr_body result) in
     if status = Agent_Active then sret result
     else if status \<in> {Agent_Rejected, Agent_Suspended, Agent_Terminated}
     then sraise (Enrollment_State (agent_status_value status))
     else sbind (on_aworld (ac_sleep (ag_collaborators ag) interval)) (\<lambda>_. poll_active ag url interval n))"

definition wait_for_active :: "'w agent \<Rightarrow> string \<Rightarrow> wait_options
    \<Rightarrow> ('w agent_state, status_response command_result) aprog" where
  "wait_for_active ag url options =
     sbind (demand (positive_finite (wo_interval options) \<and> positive_finite (wo_timeout options))
       ''AEP Status polling interval and timeout must be positive and finite'') (\<lambda>_.
     poll_active ag url (the (wo_interval options))
       (polls_within (the (wo_interval options)) (the (wo_timeout options))))"

end
