(* ===== verification/Platform_Provider.thy ===== *)
theory Platform_Provider
  imports Agent_Session Platform_Document
begin

text \<open>
  \<^verbatim>\<open>agent/platform_provider.py\<close>: the identity provider that asks a Platform for identities and signatures. Its
  discovery cache is the in-memory one; transport, clock, key factory, context provider and pending-signature
  resolver are programs on the state \<open>'w\<close> of the collaborators. The loop of the signer ends only when a
  resolver gives up, so it is a partial function, with \<^const>\<open>None\<close> for a run that never returns.
\<close>

section \<open>State and options\<close>

record discovery_entry =
  de_cached_at :: datetime
  de_document :: platform_discovery
  de_final_url :: string
  de_cache_control :: string
  de_etag :: string
  de_last_modified :: string
  de_age :: string
  de_date :: string
  de_expires :: string

type_synonym discovery_memory = "(string, discovery_entry) dict"

definition discovery_find :: "string \<Rightarrow> discovery_memory \<Rightarrow> discovery_entry option" where
  "discovery_find key records = map_of records key"

definition discovery_save :: "string \<Rightarrow> discovery_entry \<Rightarrow> discovery_memory \<Rightarrow> discovery_memory" where
  "discovery_save key entry records = dict_set key entry records"

definition discovery_delete :: "string \<Rightarrow> discovery_memory \<Rightarrow> discovery_memory" where
  "discovery_delete key records = dict_pop key records"

record 'w provider_state =
  pv_cache :: discovery_memory
  pv_world :: 'w

record pending_sign =
  pn_identity :: scoped_identity
  pn_context :: members
  pn_retry_after :: int

definition check_pending_sign :: "pending_sign \<Rightarrow> pending_sign result" where
  "check_pending_sign p =
     rbind (require (\<not> (pn_retry_after p < 1 \<or> 300 < pn_retry_after p))
       (Value_Error ''retry_after_seconds must be between 1 and 300'')) (\<lambda>_. Ok p)"

record 'w provider_options =
  pvo_platform_url :: string
  pvo_allow :: bool
  pvo_authentication_headers :: "('w, (string, string) dict) aprog option"
  pvo_authorization :: "string option"
  pvo_clock :: "('w, datetime) aprog"
  pvo_idempotency_key :: "('w, string) aprog"
  pvo_maximum_bytes :: int
  pvo_resolver :: "(pending_sign \<Rightarrow> ('w, members option) aprog) option"
  pvo_context :: "(scoped_identity \<Rightarrow> assertion_claims \<Rightarrow> ('w, members option) aprog) option"
  pvo_timeout :: "rat option"
  pvo_transport :: "http_request \<Rightarrow> ('w, http_response) aprog"

record 'w provider =
  pv_runtime :: agent_runtime
  pv_options :: "'w provider_options"
  pv_url :: string

definition on_pvworld :: "('w, 'a) aprog \<Rightarrow> ('w provider_state, 'a) aprog" where
  "on_pvworld p s = (case p (pv_world s) of (r, w) \<Rightarrow> (r, s\<lparr>pv_world := w\<rparr>))"

definition provider_time :: "('w, datetime) aprog \<Rightarrow> ('w, datetime) aprog" where
  "provider_time clock = sbind clock (\<lambda>v.
     sbind (demand (aware v) ''AEP Platform clock must return an offset-aware datetime'') (\<lambda>_. sret v))"

text \<open>\<open>_valid_url\<close> has the body of \<open>_valid_https_url\<close>.\<close>

definition provider_valid_url :: "string \<Rightarrow> bool \<Rightarrow> bool result" where
  "provider_valid_url v allow = valid_https_url v allow"

definition provider_url :: "string \<Rightarrow> bool \<Rightarrow> string result" where
  "provider_url v allow =
     (let raw = strip v in
      rbind (require (raw \<noteq> []) (Value_Error ''invalid AEP Platform URL'')) (\<lambda>_.
      let absolute = (if count_sub ''://'' raw = 0 then ''https://'' @ raw else raw) in
      rbind (provider_valid_url absolute allow) (\<lambda>valid.
      rbind (require valid (Value_Error ''AEP Platform URLs require HTTPS'')) (\<lambda>_.
      origin_url absolute))))"

definition make_provider :: "agent_runtime \<Rightarrow> 'w provider_options \<Rightarrow> ('w, 'w provider) aprog" where
  "make_provider rt options =
     sbind (demand (1 \<le> pvo_maximum_bytes options)
       ''AEP Platform maximum response bytes must be positive'') (\<lambda>_.
     sbind (demand (positive_finite (pvo_timeout options))
       ''AEP Platform request timeout must be positive and finite'') (\<lambda>_.
     sbind (py (provider_url (pvo_platform_url options) (pvo_allow options))) (\<lambda>url.
     sbind (provider_time (pvo_clock options)) (\<lambda>_.
     sret \<lparr>pv_runtime = rt, pv_options = options, pv_url = url\<rparr>))))"

definition provider_now :: "'w provider \<Rightarrow> ('w provider_state, datetime) aprog" where
  "provider_now pv = on_pvworld (provider_time (pvo_clock (pv_options pv)))"

section \<open>URLs\<close>

text \<open>\<open>urllib.parse.quote(value, safe="")\<close>, and \<open>quote_plus\<close>, which \<open>urlencode\<close> applies to names and values.\<close>

definition unreserved :: "char \<Rightarrow> bool" where
  "unreserved c = (is_alpha c \<or> is_digit c \<or> c \<in> set ''_.-~'')"

definition percent :: "char \<Rightarrow> string" where
  "percent c = [CHR ''%'', hex_upper (ord c div 16), hex_upper (ord c mod 16)]"

definition quote_all :: "string \<Rightarrow> string" where
  "quote_all v = concat (map (\<lambda>c. if unreserved c then [c] else percent c) (utf8_encode v))"

definition quote_plus :: "string \<Rightarrow> string" where
  "quote_plus v = concat (map (\<lambda>c. if unreserved c then [c] else if c = CHR '' '' then ''+'' else percent c) (utf8_encode v))"

definition urlencode :: "(string, string) dict \<Rightarrow> string" where
  "urlencode ms = join ''&'' (map (\<lambda>(k, v). quote_plus k @ ''='' @ quote_plus v) ms)"

definition endpoint_url :: "string \<Rightarrow> string \<Rightarrow> string option \<Rightarrow> string result" where
  "endpoint_url url advertised agent_identity_id =
     (let path = (case agent_identity_id of None \<Rightarrow> advertised
         | Some i \<Rightarrow> replace_sub ''{agent_identity_id}'' (quote_all i) advertised) in
      rbind (urlsplit path) (\<lambda>parsed.
      rbind (require (\<not> (\<not> starts_with path ''/'' \<or> starts_with path ''//'' \<or> scheme parsed \<noteq> [] \<or> netloc parsed \<noteq> []
          \<or> query parsed \<noteq> [] \<or> fragment parsed \<noteq> [] \<or> CHR ''{'' \<in> set path))
        (Value_Error ''AEP Platform advertised an invalid endpoint'')) (\<lambda>_.
      urljoin url path)))"

section \<open>Requests\<close>

definition set_header :: "string \<Rightarrow> string \<Rightarrow> (string, string) dict \<Rightarrow> (string, string) dict" where
  "set_header name v headers =
     dict_set name v (case find (\<lambda>(key, _). lower key = lower name) headers of
       None \<Rightarrow> headers | Some (key, _) \<Rightarrow> dict_pop key headers)"

definition supplied_headers :: "(string, string) dict \<Rightarrow> (string, string) dict \<Rightarrow> (string, string) dict" where
  "supplied_headers headers supplied = foldl (\<lambda>acc (name, v).
     if lower name \<in> {''accept'', ''content-type'', ''idempotency-key''} then acc else set_header name v acc)
     headers supplied"

definition request_headers :: "'w provider \<Rightarrow> ('w provider_state, (string, string) dict) aprog" where
  "request_headers pv =
     (let start = (case pvo_authorization (pv_options pv) of
          None \<Rightarrow> [] | Some v \<Rightarrow> if v = [] then [] else [(''Authorization'', v)]) in
      case pvo_authentication_headers (pv_options pv) of
        None \<Rightarrow> sret start
      | Some p \<Rightarrow> sbind (on_pvworld p) (\<lambda>supplied. sret (supplied_headers start supplied)))"

definition provider_send :: "'w provider \<Rightarrow> http_request \<Rightarrow> ('w provider_state, http_response) aprog" where
  "provider_send pv request = on_pvworld (pvo_transport (pv_options pv) request)"

definition new_key :: "'w provider \<Rightarrow> ('w provider_state, string) aprog" where
  "new_key pv = sbind (on_pvworld (pvo_idempotency_key (pv_options pv))) (\<lambda>key.
     sbind (demand (strip key \<noteq> []) ''AEP Platform idempotency key generation failed'') (\<lambda>_. sret key))"

definition provider_bounded :: "body \<Rightarrow> int \<Rightarrow> unit result" where
  "provider_bounded data maximum = require (int (body_size data) \<le> maximum)
     (Value_Error ''AEP Platform response exceeds the configured limit'')"

definition provider_problem :: "http_response \<Rightarrow> problem_details option result" where
  "provider_problem response =
     (if media_type_essence (header_text (rs_headers response) ''content-type'') \<noteq> AEP_PROBLEM_MEDIA_TYPE then Ok None
      else case parse_json_model (body_doc (rs_body response)) problem_details_of_json ''Problem Details'' of
             Inr p \<Rightarrow> Ok (if problem_status p = rs_status response then Some p else None)
           | Inl e \<Rightarrow> if is_validation_error e then Ok None else Raise e)"

definition provider_command :: "'w provider \<Rightarrow> string \<Rightarrow> string \<Rightarrow> string option \<Rightarrow> json option
    \<Rightarrow> (body \<Rightarrow> 'b result) \<Rightarrow> ('w provider_state, int \<times> (string, string) dict \<times> 'b) aprog" where
  "provider_command pv method url key data parser =
     sbind (request_headers pv) (\<lambda>start.
     let accepted = dict_set ''Accept'' AEP_MEDIA_TYPE start;
         typed = (if data = None then accepted else dict_set ''Content-Type'' AEP_MEDIA_TYPE accepted);
         keyed = (case key of None \<Rightarrow> typed | Some k \<Rightarrow> dict_set ''Idempotency-Key'' k typed) in
     sbind (provider_send pv \<lparr>rq_method = method, rq_url = url, rq_headers = keyed,
       rq_body = map_option (\<lambda>v. body_of_text v (dumps_compact (ar_float_repr (pv_runtime pv)) v)) data\<rparr>) (\<lambda>response.
     sbind (py (provider_bounded (rs_body response) (pvo_maximum_bytes (pv_options pv)))) (\<lambda>_.
     if rs_status response < 200 \<or> 300 \<le> rs_status response
     then sbind (py (provider_problem response)) (\<lambda>problem. sraise (Platform_Failed (rs_status response) problem))
     else
     sbind (demand (media_type_essence (header_text (rs_headers response) ''content-type'') = AEP_MEDIA_TYPE)
       ''AEP Platform response media type is invalid'') (\<lambda>_.
     sbind (py (parser (rs_body response))) (\<lambda>parsed.
     sret (rs_status response, rs_headers response, parsed))))))"

section \<open>Discovery\<close>

definition provider_directive :: "string \<Rightarrow> string \<Rightarrow> string option" where
  "provider_directive v name = map_option (\<lambda>(_, separator, content). if separator then content else [])
     (find (\<lambda>(key, _). key = lower name) (map split_directive (split_on CHR '','' v)))"

definition provider_fresh :: "'w provider \<Rightarrow> discovery_entry \<Rightarrow> datetime \<Rightarrow> bool" where
  "provider_fresh pv entry now = fresh_cache (ar_parsedate (pv_runtime pv)) (de_cache_control entry)
     (de_cached_at entry) now (de_age entry) (de_date entry) (de_expires entry)"

definition validate_cache_entry :: "discovery_entry \<Rightarrow> string \<Rightarrow> bool \<Rightarrow> discovery_entry result" where
  "validate_cache_entry entry discovery_url allow =
     rbind (require (aware (de_cached_at entry))
       (Value_Error ''cached AEP Platform discovery timestamp has no UTC offset'')) (\<lambda>_.
     rbind (provider_valid_url (de_final_url entry) allow) (\<lambda>valid.
     rbind (if valid then same_origin (de_final_url entry) discovery_url else Ok False) (\<lambda>same.
     rbind (require same (Value_Error ''cached AEP Platform discovery URL is invalid'')) (\<lambda>_.
     rbind (parse_json_model (Inr (platform_discovery_to_wire (de_document entry))) platform_discovery_of_json
       ''Platform discovery document'') (\<lambda>document.
     rbind (require (''did:web'' \<in> set (pi_did_methods (pd_identity document)))
       (Value_Error ''AEP Platform does not advertise did:web'')) (\<lambda>_.
     Ok (entry\<lparr>de_document := document\<rparr>)))))))"

text \<open>The handler catches ValueError only.\<close>

definition usable_discovery :: "'w provider \<Rightarrow> string \<Rightarrow> discovery_entry option
    \<Rightarrow> ('w provider_state, discovery_entry option) aprog" where
  "usable_discovery pv discovery_url found =
     (case found of
        None \<Rightarrow> sret None
      | Some entry \<Rightarrow>
          (case validate_cache_entry entry discovery_url (pvo_allow (pv_options pv)) of
             Inr e \<Rightarrow> sret (Some e)
           | Inl e \<Rightarrow>
               if is_value_error e
               then sbind (smodify (pv_cache_update (discovery_delete discovery_url))) (\<lambda>_. sret None)
               else sraise (Python e)))"

definition discovery_answer :: "'w provider \<Rightarrow> http_response \<Rightarrow> string \<Rightarrow> datetime \<Rightarrow> discovery_entry option
    \<Rightarrow> agent_error + discovery_entry" where
  "discovery_answer pv response final_url now cached =
     (let h = header_text (rs_headers response) in
      if rs_status response = 304 then
        (case cached of
           None \<Rightarrow> Inl (Python (Value_Error ''AEP Platform discovery returned 304 without a cached document''))
         | Some e \<Rightarrow> Inr \<lparr>de_cached_at = now, de_document = de_document e, de_final_url = final_url,
             de_cache_control = or_default (find_header (rs_headers response) ''cache-control'') (de_cache_control e),
             de_etag = or_default (find_header (rs_headers response) ''etag'') (de_etag e),
             de_last_modified = or_default (find_header (rs_headers response) ''last-modified'') (de_last_modified e),
             de_age = h ''age'', de_date = h ''date'',
             de_expires = or_default (find_header (rs_headers response) ''expires'') (de_expires e)\<rparr>)
      else if rs_status response < 200 \<or> 300 \<le> rs_status response
      then Inl (Platform_Failed (rs_status response) None)
      else map_sum Python id (
        rbind (require (media_type_essence (h ''content-type'') = AEP_MEDIA_TYPE)
          (Value_Error ''AEP Platform discovery response media type is invalid'')) (\<lambda>_.
        rbind (provider_bounded (rs_body response) (pvo_maximum_bytes (pv_options pv))) (\<lambda>_.
        rbind (parse_json_model (body_doc (rs_body response)) platform_discovery_of_json
          ''Platform discovery document'') (\<lambda>document.
        rbind (require (''did:web'' \<in> set (pi_did_methods (pd_identity document)))
          (Value_Error ''AEP Platform does not advertise did:web'')) (\<lambda>_.
        Ok \<lparr>de_cached_at = now, de_document = document, de_final_url = final_url,
          de_cache_control = h ''cache-control'', de_etag = h ''etag'', de_last_modified = h ''last-modified'',
          de_age = h ''age'', de_date = h ''date'', de_expires = h ''expires''\<rparr>))))))"

definition discovery_redirect :: "'w provider \<Rightarrow> http_response \<Rightarrow> string \<Rightarrow> bool \<Rightarrow> string result" where
  "discovery_redirect pv response current more_allowed =
     (case find_header (rs_headers response) ''location'' of
        None \<Rightarrow> Raise (Value_Error ''AEP Platform discovery redirect omitted Location'')
      | Some location \<Rightarrow>
          rbind (require more_allowed (Value_Error ''AEP Platform discovery exceeded five redirects'')) (\<lambda>_.
          rbind (urljoin current location) (\<lambda>target.
          rbind (provider_valid_url target (pvo_allow (pv_options pv))) (\<lambda>valid.
          rbind (if valid then same_origin current target else Ok False) (\<lambda>same.
          rbind (require same (Value_Error ''AEP Platform discovery redirect changed origin or scheme'')) (\<lambda>_.
          Ok target))))))"

definition discovery_request :: "discovery_entry option \<Rightarrow> string \<Rightarrow> http_request" where
  "discovery_request cached current = \<lparr>rq_method = ''GET'', rq_url = current,
     rq_headers = [(''Accept'', AEP_MEDIA_TYPE)]
       @ (case cached of None \<Rightarrow> [] | Some e \<Rightarrow>
          (if de_etag e \<noteq> [] then [(''If-None-Match'', de_etag e)] else [])
          @ (if de_last_modified e \<noteq> [] then [(''If-Modified-Since'', de_last_modified e)] else [])),
     rq_body = None\<rparr>"

primrec discovery_loop :: "'w provider \<Rightarrow> discovery_entry option \<Rightarrow> datetime \<Rightarrow> nat \<Rightarrow> string
    \<Rightarrow> ('w provider_state, discovery_entry) aprog" where
  "discovery_loop pv cached now 0 current =
     sbind (provider_send pv (discovery_request cached current)) (\<lambda>response.
     if rs_status response \<in> set redirect_statuses
     then sbind (py (discovery_redirect pv response current False)) (\<lambda>_. refuse ''AEP Platform discovery exceeded five redirects'')
     else slift (discovery_answer pv response current now cached))"
| "discovery_loop pv cached now (Suc n) current =
     sbind (provider_send pv (discovery_request cached current)) (\<lambda>response.
     if rs_status response \<in> set redirect_statuses
     then sbind (py (discovery_redirect pv response current True)) (discovery_loop pv cached now n)
     else slift (discovery_answer pv response current now cached))"

definition AEP_PLATFORM_WELL_KNOWN_PATH :: string where
  "AEP_PLATFORM_WELL_KNOWN_PATH = ''/.well-known/aep-platform''"

definition provider_discover :: "'w provider \<Rightarrow> ('w provider_state, discovery_entry) aprog" where
  "provider_discover pv =
     sbind (py (urljoin (pv_url pv) AEP_PLATFORM_WELL_KNOWN_PATH)) (\<lambda>discovery_url.
     sbind (sget (\<lambda>s. discovery_find discovery_url (pv_cache s))) (\<lambda>found.
     sbind (provider_now pv) (\<lambda>now.
     sbind (usable_discovery pv discovery_url found) (\<lambda>cached.
     if (case cached of None \<Rightarrow> False | Some e \<Rightarrow> provider_fresh pv e now) then sret (the cached)
     else
     sbind (discovery_loop pv cached now 5 (case cached of None \<Rightarrow> discovery_url | Some e \<Rightarrow> de_final_url e)) (\<lambda>entry.
     sbind (smodify (pv_cache_update (if provider_directive (de_cache_control entry) ''no-store'' \<noteq> None
       then discovery_delete discovery_url else discovery_save discovery_url entry))) (\<lambda>_.
     sret entry))))))"

section \<open>Identities\<close>

definition hosted_identity :: "'w provider \<Rightarrow> platform_agent_identity \<Rightarrow> scoped_identity" where
  "hosted_identity pv v = \<lparr>si_agent_did = ai_agent_did v, si_identity_method = ''did:web'',
     si_service_did = ai_service_did v, si_algorithms = ai_algorithms v,
     si_metadata = [(''agent_identity_id'', ai_identity_id v), (''created_at'', ai_created_at v),
       (''did_document_url'', ai_document_url v), (''key_id'', ai_key_id v), (''platform_url'', pv_url pv),
       (''status'', managed_status_value (ai_status v)), (''updated_at'', ai_updated_at v)]\<rparr>"

definition validate_hosted :: "platform_agent_identity \<Rightarrow> unit result" where
  "validate_hosted v =
     rbind (require (\<not> (\<not> starts_with (ai_agent_did v) ''did:web:'' \<or> ai_key_id v \<noteq> ai_agent_did v \<or> ai_algorithms v = []))
       (Value_Error ''AEP Platform returned an invalid identity'')) (\<lambda>_.
     rbind (did_web_document_url (ai_agent_did v) False) (\<lambda>expected.
     require (ai_document_url v = expected)
       (Value_Error ''AEP Platform DID document URL does not match the Agent DID'')))"

text \<open>The loop over the listed identities: the first active one for the Service.\<close>

fun first_active :: "string \<Rightarrow> platform_agent_identity list \<Rightarrow> platform_agent_identity option result" where
  "first_active service [] = Ok None"
| "first_active service (v # vs) =
     rbind (validate_hosted v) (\<lambda>_.
     if ai_service_did v = service \<and> ai_status v = Managed_Active then Ok (Some v) else first_active service vs)"

definition find_by_service_did :: "'w provider \<Rightarrow> string \<Rightarrow> ('w provider_state, scoped_identity option) aprog" where
  "find_by_service_did pv service =
     sbind (py (check_provision_request \<lparr>pr_service_did = service\<rparr>)) (\<lambda>_.
     sbind (provider_discover pv) (\<lambda>discovery.
     sbind (py (endpoint_url (pv_url pv) (pe_list (pd_endpoints (de_document discovery))) None)) (\<lambda>endpoint.
     sbind (provider_command pv ''GET''
       (endpoint @ ''?'' @ urlencode [(''descending'', ''true''), (''limit'', ''100''), (''service_did'', service)]) None None
       (\<lambda>b. parse_json_model (body_doc b) identity_list_of_json ''Platform identity list'')) (\<lambda>(_, _, listed).
     sbind (py (first_active service (il_data listed))) (\<lambda>found.
     sret (map_option (hosted_identity pv) found))))))"

definition provider_get_or_create :: "'w provider \<Rightarrow> identity_request \<Rightarrow> ('w provider_state, scoped_identity) aprog" where
  "provider_get_or_create pv request =
     sbind (demand (iq_service_did request = service_did (inspect_service (iq_inspect request)))
       ''AEP identity request does not match the inspected Service'') (\<lambda>_.
     sbind (demand (''did:web'' \<in> set (identity_methods (inspect_identity (iq_inspect request))))
       ''AEP Service does not support Platform-hosted did:web identities'') (\<lambda>_.
     sbind (find_by_service_did pv (iq_service_did request)) (\<lambda>existing.
     case existing of
       Some i \<Rightarrow> sret i
     | None \<Rightarrow>
         sbind (provider_discover pv) (\<lambda>discovery.
         sbind (py (endpoint_url (pv_url pv) (pe_provision (pd_endpoints (de_document discovery))) None)) (\<lambda>endpoint.
         sbind (new_key pv) (\<lambda>key.
         sbind (py (check_provision_request \<lparr>pr_service_did = iq_service_did request\<rparr>)) (\<lambda>provision.
         sbind (provider_command pv ''POST'' endpoint (Some key) (Some (provision_request_to_wire provision))
           (\<lambda>b. parse_json_model (body_doc b) agent_identity_of_json ''Platform provision response'')) (\<lambda>(_, _, created).
         sbind (py (validate_hosted created)) (\<lambda>_.
         sbind (demand (ai_service_did created = iq_service_did request \<and> ai_status created = Managed_Active)
           ''AEP Platform provisioned an identity outside the requested Service scope'') (\<lambda>_.
         sret (hosted_identity pv created)))))))))))"

definition validate_owned :: "'w provider \<Rightarrow> scoped_identity \<Rightarrow> unit result" where
  "validate_owned pv i =
     rbind (require (\<not> (map_of (si_metadata i) ''platform_url'' \<noteq> Some (pv_url pv)
         \<or> map_of (si_metadata i) ''agent_identity_id'' \<in> {None, Some []}
         \<or> map_of (si_metadata i) ''status'' \<noteq> Some (managed_status_value Managed_Active)
         \<or> si_identity_method i \<noteq> ''did:web''
         \<or> \<not> starts_with (si_agent_did i) ''did:web:''
         \<or> map_of (si_metadata i) ''key_id'' \<noteq> Some (si_agent_did i)
         \<or> si_algorithms i = []))
       (Value_Error ''AEP identity is not an active identity from this Platform'')) (\<lambda>_.
     rbind (did_web_document_url (si_agent_did i) False) (\<lambda>expected.
     require (map_of (si_metadata i) ''did_document_url'' = Some expected)
       (Value_Error ''AEP Platform DID document URL does not match the Agent DID'')))"

section \<open>Signing\<close>

definition valid_completed_sign :: "'w provider \<Rightarrow> sign_completed \<Rightarrow> scoped_identity \<Rightarrow> assertion_claims
    \<Rightarrow> signing_algorithm list \<Rightarrow> int \<Rightarrow> bool result" where
  "valid_completed_sign pv response i claims algorithms current_time =
     rbind (parse_rfc3339 (sc_issued_at response)) (\<lambda>issued.
     rbind (parse_rfc3339 (sc_expires_at response)) (\<lambda>expires.
     rbind (validate_signed_assertion (ar_loads (pv_runtime pv)) (sc_assertion response) claims
       (map algorithm_value (filter (\<lambda>a. a \<in> set (si_algorithms i)) algorithms))
       (pvo_allow (pv_options pv)) current_time) (\<lambda>parsed.
     Ok (sc_agent_did response = si_agent_did i \<and> sc_service_did response = si_service_did i
       \<and> sc_jti response = jti claims \<and> timestamp issued = iat parsed \<and> timestamp expires = exp_at parsed
       \<and> instant expires - instant issued = seconds (exp_at claims - iat claims)))))"

definition sign_once :: "'w provider \<Rightarrow> scoped_identity \<Rightarrow> assertion_claims \<Rightarrow> members option \<Rightarrow> string
    \<Rightarrow> signing_algorithm list \<Rightarrow> ('w provider_state, sign_response) aprog" where
  "sign_once pv i claims context key algorithms =
     sbind (provider_discover pv) (\<lambda>discovery.
     sbind (py (endpoint_url (pv_url pv) (pe_sign (pd_endpoints (de_document discovery)))
       (Some (case map_of (si_metadata i) ''agent_identity_id'' of None \<Rightarrow> [] | Some v \<Rightarrow> v)))) (\<lambda>endpoint.
     sbind (py (check_sign_request \<lparr>sg_jti = jti claims, sg_op = op claims, sg_service_did = aud claims,
       sg_lifetime = Some (show_int (exp_at claims - iat claims)), sg_context = context,
       sg_resource = resource claims\<rparr>)) (\<lambda>request.
     sbind (provider_command pv ''POST'' endpoint (Some key) (Some (sign_request_to_wire request))
       (\<lambda>b. parse_platform_sign_response (body_doc b))) (\<lambda>(status, headers, response).
     sbind (demand (find_header headers ''retry-after'' = None)
       ''AEP Platform Sign response included Retry-After'') (\<lambda>_.
     case response of
       Sign_Pending p \<Rightarrow>
         sbind (demand (status = 202) ''AEP Platform returned an invalid pending Sign status'') (\<lambda>_. sret response)
     | Sign_Completed c \<Rightarrow>
         if status \<noteq> 200 then refuse ''AEP Platform returned an invalid completed Sign response''
         else
         sbind (provider_now pv) (\<lambda>now.
         sbind (py (valid_completed_sign pv c i claims
           (filter (\<lambda>a. a \<in> set algorithms) (ps_algorithms (pd_signing (de_document discovery)))) (timestamp now))) (\<lambda>valid.
         sbind (demand valid ''AEP Platform returned an invalid completed Sign response'') (\<lambda>_.
         sret response))))))))"

text \<open>One round of the loop: the assertion, or the context and the key of the next round.\<close>

definition sign_round :: "'w provider \<Rightarrow> scoped_identity \<Rightarrow> assertion_claims \<Rightarrow> signing_algorithm list
    \<Rightarrow> members option \<Rightarrow> string option \<Rightarrow> ('w provider_state, string + members option \<times> string) aprog" where
  "sign_round pv i claims algorithms context previous =
     sbind (new_key pv) (\<lambda>key.
     sbind (demand (previous \<noteq> Some key)
       ''AEP Platform pending Sign stages require distinct idempotency keys'') (\<lambda>_.
     sbind (sign_once pv i claims context key algorithms) (\<lambda>response.
     case response of
       Sign_Completed c \<Rightarrow> sret (Inl (sc_assertion c))
     | Sign_Pending p \<Rightarrow>
         sbind (py (check_pending_sign \<lparr>pn_identity = i,
           pn_context = (case sp_context p of None \<Rightarrow> [] | Some ms \<Rightarrow> ms),
           pn_retry_after = int (decimal_value (sp_retry_after p))\<rparr>)) (\<lambda>pending.
         case pvo_resolver (pv_options pv) of
           None \<Rightarrow> sraise (Signing_Pending (pn_identity pending) (pn_context pending) (pn_retry_after pending))
         | Some resolver \<Rightarrow> sbind (on_pvworld (resolver pending)) (\<lambda>next_context. sret (Inr (next_context, key)))))))"

partial_function (option) sign_rounds :: "'w provider \<Rightarrow> scoped_identity \<Rightarrow> assertion_claims
    \<Rightarrow> signing_algorithm list \<Rightarrow> members option \<Rightarrow> string option \<Rightarrow> 'w provider_state
    \<Rightarrow> ((agent_error + string) \<times> 'w provider_state) option" where
  "sign_rounds pv i claims algorithms context previous s =
     (case sign_round pv i claims algorithms context previous s of
        (Inl e, t) \<Rightarrow> Some (Inl e, t)
      | (Inr (Inl assertion), t) \<Rightarrow> Some (Inr assertion, t)
      | (Inr (Inr (next_context, key)), t) \<Rightarrow> sign_rounds pv i claims algorithms next_context (Some key) t)"

definition start_signing :: "'w provider \<Rightarrow> scoped_identity \<Rightarrow> assertion_claims \<Rightarrow> signing_algorithm list
    \<Rightarrow> ('w provider_state, members option) aprog" where
  "start_signing pv i claims algorithms =
     sbind (demand (\<not> (iss claims \<noteq> si_agent_did i \<or> sub claims \<noteq> si_agent_did i \<or> aud claims \<noteq> si_service_did i))
       ''AEP Platform signer received claims for another identity'') (\<lambda>_.
     sbind (demand (set (si_algorithms i) \<inter> set algorithms \<noteq> {})
       ''AEP Platform and Service have no compatible signing algorithm'') (\<lambda>_.
     case pvo_context (pv_options pv) of
       None \<Rightarrow> sret None
     | Some provide \<Rightarrow> on_pvworld (provide i claims)))"

text \<open>The function that \<open>signer_for\<close> returns.\<close>

definition provider_signer :: "'w provider \<Rightarrow> scoped_identity \<Rightarrow> assertion_claims \<Rightarrow> signing_algorithm list
    \<Rightarrow> 'w provider_state \<Rightarrow> ((agent_error + string) \<times> 'w provider_state) option" where
  "provider_signer pv i claims algorithms s =
     (case start_signing pv i claims algorithms s of
        (Inl e, t) \<Rightarrow> Some (Inl e, t)
      | (Inr context, t) \<Rightarrow> sign_rounds pv i claims algorithms context None t)"

definition provider_signer_for :: "'w provider \<Rightarrow> scoped_identity \<Rightarrow> (assertion_claims \<Rightarrow> signing_algorithm list
    \<Rightarrow> 'w provider_state \<Rightarrow> ((agent_error + string) \<times> 'w provider_state) option) result" where
  "provider_signer_for pv i = rbind (validate_owned pv i) (\<lambda>_. Ok (provider_signer pv i))"

end
