(* ===== verification/Agent_Credentials.thy ===== *)
theory Agent_Credentials
  imports Agent_Session
begin

text \<open>
  \<^verbatim>\<open>agent/client.py\<close>: Grant and Revoke, the credentials an Agent holds, and the headers it presents to a
  protected resource. The dictionary of headers has one or more pairs.
\<close>

section \<open>Credentials\<close>

definition advertised_grants :: "inspect_document \<Rightarrow> string list" where
  "advertised_grants d = (case grant_types (inspect_commands d) of None \<Rightarrow> [] | Some xs \<Rightarrow> xs)"

definition grant_config :: "inspect_document \<Rightarrow> string \<Rightarrow> grant_type_config option" where
  "grant_config d name = (case grant_types_config (inspect_commands d) of None \<Rightarrow> None | Some cs \<Rightarrow> map_of cs name)"

definition select_grant_type :: "inspect_document \<Rightarrow> string option \<Rightarrow> string list \<Rightarrow> string result" where
  "select_grant_type document selected preferred =
     (let advertised = advertised_grants document in
      case selected of
        Some v \<Rightarrow> rbind (require (v \<in> set advertised)
          (Value_Error ''AEP Service does not advertise the selected grant type'')) (\<lambda>_. Ok v)
      | None \<Rightarrow>
          (case find (\<lambda>v. v \<in> set advertised) (if preferred = [] then advertised else preferred) of
             Some v \<Rightarrow> Ok v
           | None \<Rightarrow> Raise (Value_Error ''AEP Service does not advertise a compatible grant type'')))"

definition parse_credential :: "string \<Rightarrow> body \<Rightarrow> built_in_credential option result" where
  "parse_credential grant_type data =
     (if grant_type = AEP_GRANT_TYPE_API_KEY
      then rbind (parse_json_model (body_doc data) api_key_of_json ''Grant response'') (\<lambda>c. Ok (Some (Api_Key_Credential c)))
      else if grant_type = AEP_GRANT_TYPE_BASIC
      then rbind (parse_json_model (body_doc data) basic_of_json ''Grant response'') (\<lambda>c. Ok (Some (Basic_Credential c)))
      else if grant_type = AEP_GRANT_TYPE_OAUTH_BEARER
      then rbind (parse_json_model (body_doc data) oauth_bearer_of_json ''Grant response'') (\<lambda>c. Ok (Some (Bearer_Credential c)))
      else
      rbind (reject_duplicate_members (body_doc data) ''Grant response'') (\<lambda>parsed.
      case parsed of
        JObj ms \<Rightarrow>
          (case map_of ms ''credential_id'' of
             Some (JStr i) \<Rightarrow> rbind (require (i \<noteq> [])
               (Value_Error ''AEP Grant response requires a credential_id'')) (\<lambda>_. Ok None)
           | _ \<Rightarrow> Raise (Value_Error ''AEP Grant response requires a credential_id''))
      | _ \<Rightarrow> Raise (Value_Error ''AEP Grant response must be a JSON object'')))"

section \<open>The credential store of the agent\<close>

definition credential_lookup :: "'w agent \<Rightarrow> string \<Rightarrow> string \<Rightarrow> ('w agent_state, held_credential option) aprog" where
  "credential_lookup ag service i =
     sbind (sget (\<lambda>s. map_of (as_credentials s) (service, i))) (\<lambda>found.
     if found = None then sret None
     else
     sbind (agent_now ag) (\<lambda>now s. case find_held service i now (as_credentials s) of
       (c, records) \<Rightarrow> (Inr c, s\<lparr>as_credentials := records\<rparr>)))"

definition credential_list :: "'w agent \<Rightarrow> string \<Rightarrow> ('w agent_state, held_credential list) aprog" where
  "credential_list ag service =
     sbind (agent_now ag) (\<lambda>now s. case list_held service now (as_credentials s) of
       (cs, records) \<Rightarrow> (Inr cs, s\<lparr>as_credentials := records\<rparr>))"

definition credential_save :: "'w agent \<Rightarrow> held_credential \<Rightarrow> ('w agent_state, unit) aprog" where
  "credential_save ag c =
     sbind (agent_now ag) (\<lambda>now.
     sbind (sget as_credentials) (\<lambda>records.
     sbind (py (save_held c now records)) (\<lambda>saved.
     smodify (as_credentials_update (\<lambda>_. saved)))))"

definition credential_delete :: "string \<Rightarrow> string \<Rightarrow> ('w agent_state, unit) aprog" where
  "credential_delete service i = smodify (as_credentials_update (delete_held service i))"

section \<open>Grant\<close>

definition grant_request_data :: "string \<Rightarrow> grant_options \<Rightarrow> members" where
  "grant_request_data grant_type options =
     (let ms = dict_set ''grant_type'' (JStr grant_type) (go_parameters options) in
      if go_scopes options = [] then ms else dict_set ''requested_scopes'' (enc_strs (go_scopes options)) ms)"

definition configured_names :: "json list \<Rightarrow> string list option" where
  "configured_names items = those (map (\<lambda>j. case j of JStr s \<Rightarrow> Some s | _ \<Rightarrow> None) items)"

definition check_advertised_header :: "inspect_document \<Rightarrow> string \<Rightarrow> built_in_credential option \<Rightarrow> unit result" where
  "check_advertised_header document grant_type credential =
     (case credential of
        Some (Api_Key_Credential c) \<Rightarrow>
          (case Option.bind (grant_config document grant_type)
                  (\<lambda>config. map_of (grant_type_config_to_wire config) ''header_names'') of
             None \<Rightarrow> Ok ()
           | Some JNull \<Rightarrow> Ok ()
           | Some (JArr items) \<Rightarrow>
               (case configured_names items of
                  None \<Rightarrow> Raise (Value_Error ''AEP API-key header_names configuration is invalid'')
                | Some names \<Rightarrow> require (lower (api_key_header c) \<in> set (map lower names))
                    (Value_Error ''AEP API-key Grant response header was not advertised''))
           | Some _ \<Rightarrow> Raise (Value_Error ''AEP API-key header_names configuration is invalid''))
      | _ \<Rightarrow> Ok ())"

definition keep_granted :: "'w agent \<Rightarrow> string \<Rightarrow> inspection \<Rightarrow> string \<Rightarrow> body \<Rightarrow> built_in_credential option
    \<Rightarrow> ('w agent_state, unit) aprog" where
  "keep_granted ag url inspection grant_type raw credential =
     (case credential of
        None \<Rightarrow> sret ()
      | Some c \<Rightarrow>
          sbind (py (parse_rfc3339 (built_in_expires_at c))) (\<lambda>expires.
          sbind (agent_now ag) (\<lambda>now.
          sbind (py (check_held_credential \<lparr>hc_credential_id = built_in_id c, hc_expires_at = expires,
            hc_grant_type = grant_type, hc_issued_at = now, hc_payload = raw,
            hc_service_did = advertised_did inspection, hc_service_url = url\<rparr>)) (\<lambda>held.
          credential_save ag held))))"

text \<open>Status is asked first when the session has not seen an active enrollment.\<close>

definition require_active :: "'w agent \<Rightarrow> string \<Rightarrow> inspection \<Rightarrow> scoped_identity \<Rightarrow> 'w signer
    \<Rightarrow> ('w agent_state, unit) aprog" where
  "require_active ag url inspection i signer =
     sbind (sget (\<lambda>s. ss_active (as_session s))) (\<lambda>active.
     if active \<or> \<not> advertises inspection Cmd_Status then sret ()
     else
     sbind (request_status ag url inspection i signer) (\<lambda>current.
     if lr_status (cr_body current) \<noteq> Agent_Active
     then sraise (Command_Failed 401 ''AEP Grant requires active enrollment'' None)
     else sret ()))"

definition agent_grant :: "'w agent \<Rightarrow> string \<Rightarrow> grant_options
    \<Rightarrow> ('w agent_state, grant_result command_result) aprog" where
  "agent_grant ag url options =
     sbind (existing_command_context ag url Cmd_Grant) (\<lambda>(inspection, i, signer).
     sbind (py (select_grant_type (in_document inspection) (go_grant_type options) (go_preferred options))) (\<lambda>chosen.
     sbind (require_active ag url inspection i signer) (\<lambda>_.
     sbind (idempotency_key ag url inspection Cmd_Grant (go_idempotency_key options) None (Some chosen)) (\<lambda>key.
     sbind (py (grant_request_of_json (JObj (grant_request_data chosen options)))) (\<lambda>request.
     sbind (execute ag url inspection i signer Cmd_Grant ''POST'' (Some (grant_request_to_wire request))
       (Some key) Ok) (\<lambda>result.
     sbind (py (parse_credential chosen (cr_body result))) (\<lambda>credential.
     sbind (py (check_advertised_header (in_document inspection) chosen credential)) (\<lambda>_.
     sbind (keep_granted ag url inspection chosen (cr_body result) credential) (\<lambda>_.
     sret \<lparr>cr_body = \<lparr>gt_credential = credential, gt_grant_type = chosen, gt_raw = cr_body result\<rparr>,
       cr_status = cr_status result, cr_url = cr_url result\<rparr>)))))))))"

section \<open>Revoke\<close>

definition revoke_request_data :: "revoke_options \<Rightarrow> members" where
  "revoke_request_data options =
     (if ro_all options then dict_set ''all_grant_types'' (JStr ''true'') (ro_parameters options)
      else
        let ms = (case ro_grant_type options of None \<Rightarrow> ro_parameters options
                  | Some g \<Rightarrow> dict_set ''grant_type'' (JStr g) (ro_parameters options)) in
        case ro_credential_id options of None \<Rightarrow> ms | Some c \<Rightarrow> dict_set ''credential_id'' (JStr c) ms)"

definition check_revocable :: "inspect_document \<Rightarrow> revoke_request \<Rightarrow> unit result" where
  "check_revocable document request =
     rbind (require (case rr_grant_type request of None \<Rightarrow> True | Some g \<Rightarrow> g \<in> set (advertised_grants document))
       (Value_Error ''AEP Service does not advertise the selected grant type'')) (\<lambda>_.
     require (rr_credential_id request = None
         \<or> (case grant_config document (or_default (rr_grant_type request) []) of
              None \<Rightarrow> False | Some config \<Rightarrow> supports_per_credential_revoke config = Some ''true''))
       (Value_Error ''AEP Service does not advertise per-credential Revoke''))"

definition revoked_by :: "revoke_request \<Rightarrow> held_credential \<Rightarrow> bool" where
  "revoked_by request c = (rr_all request = Some ''true'' \<or> Some (hc_credential_id c) = rr_credential_id request
     \<or> (rr_credential_id request = None \<and> Some (hc_grant_type c) = rr_grant_type request))"

definition agent_revoke :: "'w agent \<Rightarrow> string \<Rightarrow> revoke_options
    \<Rightarrow> ('w agent_state, revoke_response command_result) aprog" where
  "agent_revoke ag url options =
     sbind (demand (\<not> list_ex (\<lambda>name. dict_has name (ro_parameters options))
         [''all_grant_types'', ''grant_type'', ''credential_id''])
       ''AEP Revoke selectors must be provided through RevokeOptions'') (\<lambda>_.
     sbind (py (revoke_request_of_json (JObj (revoke_request_data options)))) (\<lambda>request.
     sbind (command_context ag url Cmd_Revoke) (\<lambda>(inspection, i, signer).
     sbind (py (check_revocable (in_document inspection) request)) (\<lambda>_.
     sbind (idempotency_key ag url inspection Cmd_Revoke (ro_idempotency_key options)
       (rr_credential_id request) (rr_grant_type request)) (\<lambda>key.
     sbind (execute ag url inspection i signer Cmd_Revoke ''POST'' (Some (revoke_request_to_wire request))
       (Some key) parse_revoke_response) (\<lambda>result.
     sbind (credential_list ag (advertised_did inspection)) (\<lambda>held.
     sbind (smodify (as_credentials_update (fold (\<lambda>c. delete_held (advertised_did inspection) (hc_credential_id c))
       (filter (revoked_by request) held)))) (\<lambda>_.
     sret result))))))))"

section \<open>Presenting\<close>

definition validate_held :: "held_credential \<Rightarrow> string \<Rightarrow> datetime \<Rightarrow> unit result" where
  "validate_held c service now =
     rbind (require (\<not> (hc_credential_id c = [] \<or> hc_service_did c \<noteq> service \<or> hc_grant_type c = []
         \<or> instant (hc_expires_at c) \<le> instant now))
       (Value_Error ''stored AEP credential metadata is invalid'')) (\<lambda>_.
     rbind (parse_credential (hc_grant_type c) (hc_payload c)) (\<lambda>credential.
     let mismatch = Raise (Value_Error ''stored AEP credential metadata does not match its payload'') in
     case credential of
       None \<Rightarrow> mismatch
     | Some b \<Rightarrow>
         if built_in_id b \<noteq> hc_credential_id c then mismatch
         else rbind (parse_rfc3339 (built_in_expires_at b)) (\<lambda>expires.
           if instant expires \<noteq> instant (hc_expires_at c) then mismatch else Ok ())))"

definition render_presentation :: "carrier \<Rightarrow> auth_scheme \<Rightarrow> string \<Rightarrow> (string, string) dict result" where
  "render_presentation c s text =
     rbind (check_authorization \<lparr>auth_carrier = c, auth_scheme_of = s, credentials = text\<rparr>) (\<lambda>a.
     rbind (render_authorization a) (\<lambda>header. Ok [header]))"

definition credential_headers :: "held_credential \<Rightarrow> carrier \<Rightarrow> (string, string) dict result" where
  "credential_headers c carried =
     rbind (parse_credential (hc_grant_type c) (hc_payload c)) (\<lambda>credential.
     let mismatch = Raise (Value_Error ''stored AEP credential metadata does not match its payload'') in
     case credential of
       None \<Rightarrow> mismatch
     | Some b \<Rightarrow>
         if built_in_id b \<noteq> hc_credential_id c then mismatch
         else (case b of
           Api_Key_Credential a \<Rightarrow> Ok [(api_key_header a, credential_secret b)]
         | Bearer_Credential _ \<Rightarrow> render_presentation carried Scheme_Bearer (credential_secret b)
         | Basic_Credential _ \<Rightarrow> render_presentation carried Scheme_Basic (credential_secret b)))"

text \<open>The two loops of \<open>_find_credential\<close>: methods in order, and for each the newest credential.\<close>

definition first_match :: "string list \<Rightarrow> string option \<Rightarrow> held_credential list \<Rightarrow> held_credential option" where
  "first_match methods wanted held =
     (case List.map_filter (\<lambda>m. find (\<lambda>c. hc_grant_type c = m \<and> (wanted = None \<or> Some (hc_grant_type c) = wanted)) held)
        methods of [] \<Rightarrow> None | c # _ \<Rightarrow> Some c)"

definition automatic_methods :: "string list \<Rightarrow> string option \<Rightarrow> string list" where
  "automatic_methods methods wanted =
     (if wanted = None \<and> AEP_AUTHENTICATION_METHOD_JWT \<in> set methods
      then takeWhile (\<lambda>m. m \<noteq> AEP_AUTHENTICATION_METHOD_JWT) methods else methods)"

definition find_credential :: "'w agent \<Rightarrow> string \<Rightarrow> string list \<Rightarrow> authentication_options
    \<Rightarrow> ('w agent_state, held_credential option) aprog" where
  "find_credential ag service methods options =
     sbind (demand (case ao_grant_type options of None \<Rightarrow> True | Some g \<Rightarrow> g \<in> set methods)
       ''AEP Service does not advertise a compatible authentication method'') (\<lambda>_.
     case ao_credential_id options of
       Some i \<Rightarrow>
         sbind (credential_lookup ag service i) (\<lambda>found.
         case found of
           None \<Rightarrow> sret None
         | Some c \<Rightarrow>
             sbind (agent_now ag) (\<lambda>now.
             sbind (py (validate_held c service now)) (\<lambda>_.
             sbind (demand (hc_credential_id c = i)
               ''stored AEP credential does not match requested credential ID'') (\<lambda>_.
             sbind (demand (ao_grant_type options = None \<or> Some (hc_grant_type c) = ao_grant_type options)
               ''stored AEP credential does not match requested grant type'') (\<lambda>_.
             sbind (demand (hc_grant_type c \<in> set methods)
               ''AEP Service does not advertise a compatible authentication method'') (\<lambda>_.
             sret (Some c)))))))
     | None \<Rightarrow>
         sbind (credential_list ag service) (\<lambda>held.
         case first_match (automatic_methods methods (ao_grant_type options)) (ao_grant_type options) held of
           None \<Rightarrow> sret None
         | Some c \<Rightarrow>
             sbind (agent_now ag) (\<lambda>now.
             sbind (py (validate_held c service now)) (\<lambda>_.
             sret (Some c)))))"

definition carrier_of_name :: "string \<Rightarrow> carrier result" where
  "carrier_of_name v = (case enum_of carrier_value all_carriers v of
     None \<Rightarrow> Raise (Value_Error (v @ '' is not a valid AuthorizationCarrier'')) | Some c \<Rightarrow> Ok c)"

definition document_methods :: "inspect_document \<Rightarrow> string list" where
  "document_methods d = (case inspect_authentication d of None \<Rightarrow> [] | Some a \<Rightarrow> auth_methods a)"

definition allowed_methods :: "inspect_document \<Rightarrow> authentication_options \<Rightarrow> string list" where
  "allowed_methods d options = (case ao_allowed_methods options of
     None \<Rightarrow> document_methods d
   | Some allowed \<Rightarrow> filter (\<lambda>m. m \<in> set allowed) (document_methods d))"

definition assertion_headers :: "'w agent \<Rightarrow> string \<Rightarrow> inspection \<Rightarrow> carrier \<Rightarrow> string
    \<Rightarrow> ('w agent_state, (string, string) dict) aprog" where
  "assertion_headers ag url inspection carried target =
     sbind (resolve_identity ag url inspection) (\<lambda>i.
     sbind (signer_of ag i) (\<lambda>signer.
     sbind (sign_assertion ag inspection i signer Op_Authenticate (Some target)) (\<lambda>assertion.
     py (render_presentation carried Scheme_AEP assertion))))"

definition authentication_headers :: "'w agent \<Rightarrow> string \<Rightarrow> authentication_options
    \<Rightarrow> ('w agent_state, (string, string) dict) aprog" where
  "authentication_headers ag url options =
     (let selected = (ao_credential_id options \<noteq> None \<or> ao_grant_type options \<noteq> None) in
      sbind (demand (\<not> (ao_client_assertion_only options \<and> selected))
        ''AEP credential selection cannot accompany client-assertion-only mode'') (\<lambda>_.
      sbind (demand (ao_credential_id options \<noteq> Some [] \<and> ao_grant_type options \<noteq> Some [])
        ''AEP credential selectors must not be empty'') (\<lambda>_.
      sbind (inspect ag url) (\<lambda>inspection.
      sbind (py (require_resource (ao_resource options) url (ag_allow ag))) (\<lambda>_.
      sbind (py (carrier_of_name (ao_carrier options))) (\<lambda>carried.
      let methods = allowed_methods (in_document inspection) options in
      sbind (if ao_client_assertion_only options then sret None
             else find_credential ag (advertised_did inspection) methods options) (\<lambda>found.
      case found of
        Some c \<Rightarrow> py (credential_headers c carried)
      | None \<Rightarrow>
          if \<not> ao_client_assertion_only options \<and> selected
          then sraise (Credential_Unavailable ''requested AEP credential was not found'')
          else if AEP_AUTHENTICATION_METHOD_JWT \<notin> set methods
          then sraise (Credential_Unavailable ''AEP Service does not advertise a compatible authentication method'')
          else assertion_headers ag url inspection carried (ao_resource options))))))))"

definition forget_credential :: "'w agent \<Rightarrow> string \<Rightarrow> string \<Rightarrow> ('w agent_state, unit) aprog" where
  "forget_credential ag url i =
     sbind (demand (i \<noteq> []) ''AEP credential ID is required'') (\<lambda>_.
     sbind (inspect ag url) (\<lambda>inspection.
     credential_delete (advertised_did inspection) i))"

end
