(* ===== verification/Protected_Resource.thy ===== *)
theory Protected_Resource
  imports Agent_Credentials Open_Api
begin

text \<open>
  \<^verbatim>\<open>agent/protected_resource.py\<close>: a request to a protected resource, authenticated after the OpenAPI
  description of the Service or after its live challenge, through redirects. The transport is a program on the
  state of the collaborators. The loop of \<open>_fetch\<close> runs on fuel; \<open>fetch_fuel\<close> rounds are enough.
\<close>

section \<open>Options\<close>

record 'w fetch_options =
  fo_request :: http_request
  fo_carrier :: string
  fo_credential_id :: "string option"
  fo_grant_type :: "string option"
  fo_additional :: "(string, string) dict"
  fo_transport :: "http_request \<Rightarrow> ('w, http_response) aprog"
  fo_max_redirects :: int
  fo_timeout :: "rat option"

definition check_fetch_options :: "'w fetch_options \<Rightarrow> 'w fetch_options result" where
  "check_fetch_options options =
     rbind (carrier_of_name (fo_carrier options)) (\<lambda>_.
     rbind (require (0 \<le> fo_max_redirects options)
       (Value_Error ''max_redirects must be a non-negative integer'')) (\<lambda>_.
     rbind (require (positive_finite (fo_timeout options))
       (Value_Error ''timeout must be positive and finite'')) (\<lambda>_.
     Ok options)))"

definition SECRET_HEADERS :: "string list" where
  "SECRET_HEADERS = [''authorization'', ''aep-authorization'', ''proxy-authorization'', ''cookie'', ''payment'',
     ''payment-signature'', ''x-payment'', ''x-api-key'', ''api-key'']"

section \<open>URLs and headers\<close>

definition validate_url :: "string \<Rightarrow> bool \<Rightarrow> unit result" where
  "validate_url v allow = rbind (urlsplit v) (\<lambda>parsed.
     rbind (port parsed) (\<lambda>_.
     require (\<not> (\<not> truthy (hostname parsed) \<or> username parsed \<noteq> None \<or> password parsed \<noteq> None
         \<or> CHR ''#'' \<in> set v \<or> list_ex (\<lambda>c. is_space c \<or> ord c < 32) v
         \<or> \<not> (scheme parsed = ''https''
              \<or> (allow \<and> scheme parsed = ''http'' \<and> is_loopback_host (hostname parsed)))))
       (Value_Error ''AEP resource requires an HTTPS URL without user information or fragments'')))"

definition single_header :: "(string, string) dict \<Rightarrow> string \<Rightarrow> string result" where
  "single_header headers name =
     (case filter (\<lambda>(key, _). lower key = name) headers of
        [] \<Rightarrow> Ok []
      | [(_, v)] \<Rightarrow> Ok v
      | _ \<Rightarrow> Raise (Value_Error (''Ambiguous '' @ name @ '' header'')))"

text \<open>\<open>_redirect\<close>: the next URL and whether it leaves the origin.\<close>

definition redirect :: "http_response \<Rightarrow> string \<Rightarrow> bool \<Rightarrow> (string \<times> bool) result" where
  "redirect response target allow =
     rbind (single_header (rs_headers response) ''location'') (\<lambda>location.
     rbind (require (location \<noteq> []) (Value_Error ''AEP redirect has no Location'')) (\<lambda>_.
     rbind (require (CHR ''#'' \<notin> set location) (Value_Error ''AEP redirect contains a fragment'')) (\<lambda>_.
     rbind (urljoin target location) (\<lambda>next_url.
     rbind (validate_url next_url allow) (\<lambda>_.
     rbind (urlsplit target) (\<lambda>old.
     rbind (urlsplit next_url) (\<lambda>new.
     rbind (require (\<not> (scheme old = ''https'' \<and> scheme new \<noteq> ''https''))
       (Value_Error ''AEP redirect weakens HTTPS'')) (\<lambda>_.
     rbind (same_origin target next_url) (\<lambda>same.
     Ok (next_url, \<not> same))))))))))"

definition anonymous_headers :: "(string, string) dict \<Rightarrow> (string, string) dict" where
  "anonymous_headers headers = filter (\<lambda>(key, _). lower key \<notin> set SECRET_HEADERS) headers"

definition without_header :: "string \<Rightarrow> (string, string) dict \<Rightarrow> (string, string) dict" where
  "without_header name headers = filter (\<lambda>(key, _). lower key \<noteq> lower name) headers"

fun add_headers :: "string list \<Rightarrow> (string, string) dict \<Rightarrow> (string, string) dict \<Rightarrow> (string, string) dict result" where
  "add_headers reserved headers [] = Ok headers"
| "add_headers reserved headers ((name, v) # more_headers) =
     (if lower name \<in> set reserved \<or> lower name = ''aep-authorization''
      then Raise (Value_Error ''Additional authentication header conflicts with AEP presentation'')
      else add_headers reserved (dict_set name v (without_header name headers)) more_headers)"

definition authenticated_headers :: "'w fetch_options \<Rightarrow> (string, string) dict \<Rightarrow> bool \<Rightarrow> (string, string) dict result" where
  "authenticated_headers options controlled original =
     (let reserved = map (\<lambda>(name, _). lower name) controlled in
      rbind (add_headers reserved (if original then anonymous_headers (rq_headers (fo_request options)) else [])
        (if original then fo_additional options else [])) (\<lambda>headers.
      Ok (dict_update (filter (\<lambda>(key, _). lower key \<notin> set reserved) headers) controlled)))"

section \<open>Challenges\<close>

definition is_parameter_char :: "char \<Rightarrow> bool" where
  "is_parameter_char c = (is_alpha c \<or> c = CHR ''_'')"

text \<open>\<open>_PARAMETER.match\<close>: the name, the quoted value and what follows. No shorter run of name characters or blanks
  can match, because the next item differs.\<close>

definition match_parameter :: "string \<Rightarrow> (string \<times> string \<times> string) option" where
  "match_parameter s =
     (let name = takeWhile is_parameter_char s;
          after_name = dropWhile is_blank (dropWhile is_parameter_char s) in
      if name = [] \<or> \<not> starts_with after_name ''='' then None
      else
        let quoted = dropWhile is_blank (tl after_name) in
        if \<not> starts_with quoted [char_of (34 :: nat)] then None
        else
          let v = takeWhile (\<lambda>c. ord c \<notin> {34, 92}) (tl quoted);
              rest = dropWhile (\<lambda>c. ord c \<notin> {34, 92}) (tl quoted) in
          if starts_with rest [char_of (34 :: nat)] then Some (name, v, tl rest) else None)"

lemma starts_with_single: "starts_with s [c] \<longleftrightarrow> (\<exists>t. s = c # t)"
  by (cases s) auto

lemma match_parameter_shorter: "match_parameter s = Some (n, v, rest) \<Longrightarrow> length rest < length s"
proof -
  assume m: "match_parameter s = Some (n, v, rest)"
  define a where "a = dropWhile is_blank (dropWhile is_parameter_char s)"
  define q where "q = dropWhile is_blank (tl a)"
  define r where "r = dropWhile (\<lambda>c. ord c \<notin> {34, 92}) (tl q)"
  have "starts_with a ''=''" and "rest = tl r" and "starts_with r [char_of (34 :: nat)]"
    using m by (auto simp: match_parameter_def Let_def a_def q_def r_def split: if_splits)
  then have "length rest < length r" by (auto simp: starts_with_single)
  also have "\<dots> \<le> length (tl q)" unfolding r_def by (rule length_dropWhile_le)
  also have "\<dots> \<le> length (tl a)" using length_dropWhile_le [of is_blank "tl a"] by (simp add: q_def)
  also have "\<dots> \<le> length a" by simp
  also have "\<dots> \<le> length s"
    using length_dropWhile_le [of is_blank "dropWhile is_parameter_char s"]
      length_dropWhile_le [of is_parameter_char s] by (simp add: a_def)
  finally show ?thesis .
qed

lemma length_strip: "length (strip s) \<le> length s"
proof -
  have "length (dropWhile is_space (rev (dropWhile is_space s))) \<le> length (dropWhile is_space s)"
    using length_dropWhile_le [of is_space "rev (dropWhile is_space s)"] by simp
  with length_dropWhile_le [of is_space s] show ?thesis by (simp add: strip_def strip_by_def)
qed

function challenge_parameters :: "(string, string) dict \<Rightarrow> string \<Rightarrow> (string, string) dict option" where
  "challenge_parameters acc remainder =
     (if remainder = [] then Some acc
      else case match_parameter remainder of
        None \<Rightarrow> None
      | Some (name, v, rest) \<Rightarrow>
          if dict_has (lower name) acc then None
          else
            let acc' = dict_set (lower name) v acc; r = strip rest in
            if r = [] then Some acc'
            else if \<not> starts_with r '','' then None
            else let following = strip (tl r) in
              if following = [] then None else challenge_parameters acc' following)"
  by pat_completeness auto
termination
proof (relation "measure (\<lambda>(_, s). length s)", goal_cases)
  case (2 acc remainder x name y v rest acc' r following)
  have "length following \<le> length rest"
    using 2 length_strip [of "tl (strip rest)"] length_strip [of rest] by simp
  with match_parameter_shorter 2 show ?case by fastforce
qed simp

definition challenge :: "http_response \<Rightarrow> (string \<times> string) option result" where
  "challenge response =
     rbind (single_header (rs_headers response) ''www-authenticate'') (\<lambda>v.
     if rs_status response \<noteq> 401 \<or> lower (take 3 v) \<noteq> ''aep'' \<or> length v \<le> 3 \<or> \<not> is_blank (v ! 3)
     then Ok None
     else case challenge_parameters [] (strip (drop 3 v)) of
       None \<Rightarrow> Ok None
     | Some parameters \<Rightarrow>
         (case (map_of parameters ''service_did'', map_of parameters ''inspect'') of
            (Some did, Some inspect_url) \<Rightarrow>
              Ok (if did \<noteq> [] \<and> inspect_url \<noteq> [] then Some (did, inspect_url) else None)
          | _ \<Rightarrow> Ok None))"

section \<open>OpenAPI\<close>

text \<open>\<open>;\s*version\s*=\s*"?3\.1"?(?:\s*;|\s*$)\<close>, searched for without regard to case.\<close>

definition VERSION_PARAMETER :: regex where
  "VERSION_PARAMETER =
     (let sp = Many (Cls [(9, 13), (28, 32), (133, 133), (160, 160)]); any = Many (Cls [(0, 255)]);
          qu = Opt (Cls [(34, 34)]) in
      Cat [any, Lit '';'', sp, NoCase ''version'', sp, Lit ''='', sp, qu, Lit ''3.1'', qu,
        Alt (Cat [sp, Lit '';'', any]) sp])"

definition OPENAPI_VERSION :: regex where
  "OPENAPI_VERSION = Cat [Lit ''3.1.'', Plus (Cls [(48, 57)])]"

definition openapi_media_type :: "string \<Rightarrow> bool" where
  "openapi_media_type content_type =
     (media_type_essence content_type \<in> {''application/json'', ''application/vnd.oai.openapi+json''}
      \<and> (media_type_essence content_type = ''application/vnd.oai.openapi+json''
           \<longrightarrow> fullmatch VERSION_PARAMETER content_type))"

text \<open>\<open>_security_shape\<close> and the value it lets through: \<open>None\<close> for another shape.\<close>

definition scopes_of :: "string \<times> json \<Rightarrow> (string \<times> string list) option" where
  "scopes_of m = (case snd m of JArr vs \<Rightarrow> map_option (\<lambda>ss. (fst m, ss)) (configured_names vs) | _ \<Rightarrow> None)"

definition security_shape :: "json option \<Rightarrow> requirement list option option" where
  "security_shape v = (case v of
      None \<Rightarrow> Some None
    | Some (JArr items) \<Rightarrow> map_option Some (those (map (\<lambda>item. case item of
          JObj ms \<Rightarrow> those (map scopes_of ms) | _ \<Rightarrow> None) items))
    | Some _ \<Rightarrow> None)"

definition supported_schemes :: "string list \<Rightarrow> members \<Rightarrow> (string, string) dict" where
  "supported_schemes advertised schemes = List.map_filter (\<lambda>(name, scheme). case scheme of
     JObj ms \<Rightarrow>
       if dict_has ''$ref'' ms then None
       else (case map_of ms ''x-aep-authentication-method'' of
         Some (JStr m) \<Rightarrow> if m \<in> set advertised then Some (name, m) else None
       | _ \<Rightarrow> None)
     | _ \<Rightarrow> None) schemes"

definition object_member :: "string \<Rightarrow> members \<Rightarrow> members option" where
  "object_member name ms = (case map_of ms name of Some (JObj v) \<Rightarrow> Some v | _ \<Rightarrow> None)"

definition security_schemes :: "members \<Rightarrow> members option" where
  "security_schemes document = (case map_of document ''components'' of
     Some (JObj components) \<Rightarrow>
       (case map_of components ''securitySchemes'' of None \<Rightarrow> Some [] | Some (JObj s) \<Rightarrow> Some s | Some _ \<Rightarrow> None)
   | _ \<Rightarrow> Some [])"

definition resolved_methods :: "security_resolution \<Rightarrow> (string, string) dict \<Rightarrow> string list option" where
  "resolved_methods resolution supported =
     (if resolved_disposition resolution \<in> {Public, Optional_Anonymous} then Some []
      else if resolved_disposition resolution \<notin> {Required, Alternatives} then None
      else (case map (\<lambda>r. the (map_of supported (hd r)))
          (filter (\<lambda>r. length r = 1) (satisfiable resolution)) of [] \<Rightarrow> None | ms \<Rightarrow> Some ms))"

text \<open>The policy a parsed document states for an operation.\<close>

definition document_policy :: "inspection \<Rightarrow> openapi_reference \<Rightarrow> string \<Rightarrow> string \<Rightarrow> members
    \<Rightarrow> string list option result" where
  "document_policy inspection advertisement method target document =
     (case map_of document ''openapi'' of
        Some (JStr version) \<Rightarrow>
          if \<not> fullmatch OPENAPI_VERSION version then Ok None
          else (case object_member ''paths'' document of
            None \<Rightarrow> Ok None
          | Some paths \<Rightarrow>
              rbind (urlsplit target) (\<lambda>parsed.
              rbind (match_openapi_path (map fst paths) method
                (if url_path parsed = [] then ''/'' else url_path parsed)
                (pm_trailing_slash (path_matching advertisement))) (\<lambda>matched.
              Ok (case object_member (match_template matched) paths of
                None \<Rightarrow> None
              | Some item \<Rightarrow>
                  if dict_has ''$ref'' item then None
                  else (case (object_member (lower method) item, security_schemes document) of
                    (Some operation, Some schemes) \<Rightarrow>
                      let supported = supported_schemes (document_methods (in_document inspection)) schemes in
                      if map_of document ''security'' = Some JNull \<or> map_of operation ''security'' = Some JNull then None
                      else (case (security_shape (map_of document ''security''), security_shape (map_of operation ''security'')) of
                        (Some whole, Some selected) \<Rightarrow>
                          resolved_methods (resolve_openapi_security whole selected (map fst supported)) supported
                      | _ \<Rightarrow> None)
                  | _ \<Rightarrow> None)))))
      | _ \<Rightarrow> Ok None)"

definition openapi_request :: "string \<Rightarrow> http_request" where
  "openapi_request url = \<lparr>rq_method = ''GET'', rq_url = url,
     rq_headers = [(''Accept'', ''application/vnd.oai.openapi+json;version=3.1, application/json'')], rq_body = None\<rparr>"

primrec openapi_follow :: "'w agent \<Rightarrow> nat \<Rightarrow> string \<Rightarrow> ('w agent_state, http_response option) aprog" where
  "openapi_follow ag 0 url = sret None"
| "openapi_follow ag (Suc n) url =
     sbind (on_aworld (ac_inspect_transport (ag_collaborators ag) (openapi_request url))) (\<lambda>response.
     if rs_status response \<notin> set redirect_statuses then sret (Some response)
     else sbind (py (redirect response url (ag_allow ag))) (\<lambda>(next_url, _). openapi_follow ag n next_url))"

definition openapi_answer :: "'w agent \<Rightarrow> inspection \<Rightarrow> openapi_reference \<Rightarrow> string \<Rightarrow> string \<Rightarrow> http_response
    \<Rightarrow> string list option result" where
  "openapi_answer ag inspection advertisement method target response =
     rbind (single_header (rs_headers response) ''content-type'') (\<lambda>content_type.
     if rs_status response \<noteq> 200 \<or> ag_maximum_bytes ag < int (body_size (rs_body response))
        \<or> \<not> openapi_media_type content_type then Ok None
     else
     rbind (reject_duplicate_members (body_doc (rs_body response)) ''OpenAPI document'') (\<lambda>parsed.
     case parsed of
       JObj document \<Rightarrow> document_policy inspection advertisement method target document
     | _ \<Rightarrow> Ok None))"

definition openapi_methods :: "'w agent \<Rightarrow> inspection \<Rightarrow> string \<Rightarrow> string
    \<Rightarrow> ('w agent_state, string list option) aprog" where
  "openapi_methods ag inspection method target =
     (case http_openapi (inspect_http (in_document inspection)) of
        None \<Rightarrow> sret None
      | Some advertisement \<Rightarrow>
          sbind (py (resolve_openapi_url (in_final_url inspection) (openapi_url advertisement) (ag_allow ag))) (\<lambda>url.
          sbind (py (validate_url url (ag_allow ag))) (\<lambda>_.
          sbind (openapi_follow ag 6 url) (\<lambda>followed.
          case followed of
            None \<Rightarrow> sret None
          | Some response \<Rightarrow> py (openapi_answer ag inspection advertisement method target response)))))"

section \<open>Fetching\<close>

text \<open>What a round of the loop ends with: a response, or the values for the next round.\<close>

datatype fetch_step =
    Finished http_response
  | Again string nat bool bool

definition send_bounded :: "'w agent \<Rightarrow> 'w fetch_options \<Rightarrow> string \<Rightarrow> (string, string) dict
    \<Rightarrow> ('w agent_state, http_response) aprog" where
  "send_bounded ag options target headers =
     sbind (on_aworld (fo_transport options ((fo_request options)\<lparr>rq_url := target, rq_headers := headers\<rparr>))) (\<lambda>response.
     sbind (demand (int (body_size (rs_body response)) \<le> ag_maximum_bytes ag)
       ''AEP response exceeds the configured byte limit'') (\<lambda>_. sret response))"

text \<open>\<open>try: ... except (ValueError, OSError, httpx.HTTPError, TimeoutError, AgentCommandError)\<close>\<close>

definition none_on_discovery_failure :: "('s, 'a option) aprog \<Rightarrow> ('s, 'a option) aprog" where
  "none_on_discovery_failure p s = (case p s of
      (Inr v, s') \<Rightarrow> (Inr v, s')
    | (Inl e, s') \<Rightarrow> if discovery_failure e then (Inr None, s') else (Inl e, s'))"

definition discover :: "'w agent \<Rightarrow> string \<Rightarrow> string \<Rightarrow> string \<Rightarrow> bool \<Rightarrow> ('w agent_state, string list option) aprog" where
  "discover ag url method target use_openapi = none_on_discovery_failure (
     sbind (inspect ag url) (\<lambda>inspection.
     if use_openapi then openapi_methods ag inspection method target else sret None))"

definition challenged_methods :: "'w agent \<Rightarrow> string \<Rightarrow> 'w fetch_options \<Rightarrow> string \<Rightarrow> string list option
    \<Rightarrow> string \<times> string \<Rightarrow> ('w agent_state, string list) aprog" where
  "challenged_methods ag url options target methods presented =
     (case presented of (did, inspect_url) \<Rightarrow>
     sbind (py (validate_url inspect_url (ag_allow ag))) (\<lambda>_.
     sbind (py (same_origin target inspect_url)) (\<lambda>same.
     sbind (demand same ''AEP challenge Inspect URI changed origin'') (\<lambda>_.
     sbind (inspect ag url) (\<lambda>inspection.
     sbind (demand (advertised_did inspection = did) ''AEP challenge Service DID did not match Inspect'') (\<lambda>_.
     sbind (if methods = Some []
            then none_on_discovery_failure (openapi_methods ag inspection (rq_method (fo_request options)) target)
            else sret None) (\<lambda>_.
     sret (case methods of Some (m # ms) \<Rightarrow> m # ms | _ \<Rightarrow> document_methods (in_document inspection)))))))))"

definition next_round :: "'w agent \<Rightarrow> http_response \<Rightarrow> string \<Rightarrow> nat \<Rightarrow> bool \<Rightarrow> fetch_step result" where
  "next_round ag response target redirects require_challenge =
     rbind (redirect response target (ag_allow ag)) (\<lambda>(next_url, crossed).
     Ok (Again next_url (Suc redirects) (require_challenge \<or> crossed) True))"

text \<open>The anonymous request: the end of the round, or the methods to authenticate with.\<close>

definition anonymous_phase :: "'w agent \<Rightarrow> string \<Rightarrow> 'w fetch_options \<Rightarrow> string \<Rightarrow> string \<Rightarrow> nat \<Rightarrow> bool
    \<Rightarrow> string list option \<Rightarrow> ('w agent_state, fetch_step + string list) aprog" where
  "anonymous_phase ag url options initial target redirects require_challenge methods =
     sbind (py (same_origin initial target)) (\<lambda>original.
     sbind (send_bounded ag options target
       (if original then anonymous_headers (rq_headers (fo_request options)) else [])) (\<lambda>response.
     if rs_status response \<in> set redirect_statuses
     then sbind (py (next_round ag response target redirects require_challenge)) (\<lambda>step. sret (Inl step))
     else
     sbind (py (challenge response)) (\<lambda>presented.
     case presented of
       None \<Rightarrow> sret (Inl (Finished response))
     | Some p \<Rightarrow>
         sbind (challenged_methods ag url options target methods p) (\<lambda>ms.
         sret (if ms = [] then Inl (Finished response) else Inr ms)))))"

text \<open>Authentication headers, with a Grant and a second attempt when no credential is at hand.\<close>

definition headers_or_grant :: "'w agent \<Rightarrow> string \<Rightarrow> 'w fetch_options \<Rightarrow> string list \<Rightarrow> authentication_options
    \<Rightarrow> ('w agent_state, (string, string) dict) aprog" where
  "headers_or_grant ag url options methods authentication s =
     (case authentication_headers ag url authentication s of
        (Inr headers, t) \<Rightarrow> (Inr headers, t)
      | (Inl e, t) \<Rightarrow>
          if \<not> is_credential_unavailable e \<or> fo_credential_id options \<noteq> None then (Inl e, t)
          else (case (if fo_grant_type options \<noteq> None \<and> fo_grant_type options \<noteq> Some [] then fo_grant_type options
                      else find (\<lambda>m. m \<noteq> AEP_AUTHENTICATION_METHOD_JWT) methods) of
            None \<Rightarrow> (Inl e, t)
          | Some chosen \<Rightarrow>
              sbind (agent_grant ag url (default_grant_options\<lparr>go_grant_type := Some chosen\<rparr>)) (\<lambda>_.
              authentication_headers ag url authentication) t))"

definition authenticated_phase :: "'w agent \<Rightarrow> string \<Rightarrow> 'w fetch_options \<Rightarrow> string \<Rightarrow> string \<Rightarrow> nat \<Rightarrow> bool
    \<Rightarrow> bool \<Rightarrow> string list \<Rightarrow> ('w agent_state, fetch_step) aprog" where
  "authenticated_phase ag url options initial target redirects require_challenge policy_used methods =
     (let authentication = \<lparr>ao_resource = target, ao_carrier = fo_carrier options, ao_client_assertion_only = False,
        ao_credential_id = fo_credential_id options, ao_grant_type = fo_grant_type options,
        ao_allowed_methods = Some methods\<rparr> in
      sbind (demand (case fo_grant_type options of None \<Rightarrow> True | Some g \<Rightarrow> g \<in> set methods)
        ''Requested grant type is not permitted by resource authentication policy'') (\<lambda>_.
      sbind (headers_or_grant ag url options methods authentication) (\<lambda>controlled.
      sbind (py (same_origin initial target)) (\<lambda>original.
      sbind (py (authenticated_headers options controlled original)) (\<lambda>headers.
      sbind (send_bounded ag options target headers) (\<lambda>response.
      sbind (if policy_used then py (challenge response) else sret None) (\<lambda>presented.
      if presented \<noteq> None then sret (Again target redirects require_challenge False)
      else if rs_status response \<notin> set redirect_statuses then sret (Finished response)
      else py (next_round ag response target redirects require_challenge))))))))"

definition fetch_round :: "'w agent \<Rightarrow> 'w fetch_options \<Rightarrow> string \<Rightarrow> string \<Rightarrow> nat \<Rightarrow> bool \<Rightarrow> bool
    \<Rightarrow> ('w agent_state, fetch_step) aprog" where
  "fetch_round ag options initial target redirects require_challenge use_openapi =
     sbind (py (service_url target (ag_allow ag))) (\<lambda>url.
     sbind (smodify (as_session_update (\<lambda>_. new_session))) (\<lambda>_.
     sbind (discover ag url (rq_method (fo_request options)) target use_openapi) (\<lambda>methods.
     case methods of
       Some (m # ms) \<Rightarrow>
         if require_challenge
         then sbind (anonymous_phase ag url options initial target redirects require_challenge methods) (\<lambda>outcome.
           case outcome of
             Inl step \<Rightarrow> sret step
           | Inr chosen \<Rightarrow> authenticated_phase ag url options initial target redirects require_challenge True chosen)
         else authenticated_phase ag url options initial target redirects require_challenge True (m # ms)
     | _ \<Rightarrow>
         sbind (anonymous_phase ag url options initial target redirects require_challenge methods) (\<lambda>outcome.
         case outcome of
           Inl step \<Rightarrow> sret step
         | Inr chosen \<Rightarrow> authenticated_phase ag url options initial target redirects require_challenge False chosen))))"

text \<open>\<open>None\<close> when the fuel runs out.\<close>

primrec fetch_loop :: "'w agent \<Rightarrow> 'w fetch_options \<Rightarrow> string \<Rightarrow> nat \<Rightarrow> string \<Rightarrow> nat \<Rightarrow> bool \<Rightarrow> bool
    \<Rightarrow> ('w agent_state, http_response option) aprog" where
  "fetch_loop ag options initial 0 target redirects require_challenge use_openapi = sret None"
| "fetch_loop ag options initial (Suc fuel) target redirects require_challenge use_openapi =
     (if fo_max_redirects options < int redirects
      then refuse (''AEP protected resource exceeded '' @ show_nat redirects @ '' redirects'')
      else
      sbind (fetch_round ag options initial target redirects require_challenge use_openapi) (\<lambda>step.
      case step of
        Finished response \<Rightarrow> sret (Some response)
      | Again target' redirects' require_challenge' use_openapi' \<Rightarrow>
          fetch_loop ag options initial fuel target' redirects' require_challenge' use_openapi'))"

definition fetch_fuel :: "'w fetch_options \<Rightarrow> nat" where
  "fetch_fuel options = 2 * nat (fo_max_redirects options) + 3"

definition fetch_protected_resource :: "'w agent \<Rightarrow> 'w fetch_options \<Rightarrow> ('w agent_state, http_response option) aprog" where
  "fetch_protected_resource ag options =
     (let target = rq_url (fo_request options) in
      sbind (py (validate_url target (ag_allow ag))) (\<lambda>_.
      fetch_loop ag options target (fetch_fuel options) target 0 False True))"

end
