(* ===== verification/Agent_Inspection.thy ===== *)
theory Agent_Inspection
  imports Agent
begin

text \<open>
  What an inspection guarantees, for any content of the cache and any transport: origins are compared through
  \<open>url_origin\<close>; the loop keeps the origin and the binding of the document.
\<close>

section \<open>Origins\<close>

definition url_origin :: "string \<Rightarrow> string result" where
  "url_origin u = rbind (urlsplit u) split_origin"

lemma same_origin_iff:
  "same_origin a b = Inr True \<longleftrightarrow> (\<exists>o'. url_origin a = Inr o' \<and> url_origin b = Inr o')"
  by (auto simp: same_origin_def url_origin_def rbind_Ok_iff)

lemma same_origin_sym: "same_origin a b = Inr True \<Longrightarrow> same_origin b a = Inr True"
  by (auto simp: same_origin_iff)

lemma same_origin_trans: "same_origin a b = Inr True \<Longrightarrow> same_origin b c = Inr True \<Longrightarrow> same_origin a c = Inr True"
  by (auto simp: same_origin_iff)

text \<open>The idiom \<open>not valid(u) or not same_origin(a, u)\<close>.\<close>

lemma valid_and_same:
  "rbind (valid_https_url u allow) (\<lambda>valid. rbind (if valid then same_origin a b else Ok False) (\<lambda>same.
     rbind (require same e) (\<lambda>_. f))) = Inr r
   \<longleftrightarrow> valid_https_url u allow = Inr True \<and> same_origin a b = Inr True \<and> f = Inr r"
  by (auto simp: rbind_Ok_iff split: if_splits)

lemma inspect_origin_valid:
  assumes "valid_https_url u allow = Inr True"
  shows "inspect_origin u allow = url_origin u"
proof -
  from assms obtain r where r: "urlsplit u = Inr r" "\<not> truthy (username r)" "\<not> truthy (password r)"
    "truthy (hostname r)" "scheme r = ''https'' \<or> allow \<and> scheme r = ''http'' \<and> is_loopback_host (hostname r)"
    by (auto simp: valid_https_url_def rbind_Ok_iff split: if_splits)
  then show ?thesis by (auto simp: inspect_origin_def url_origin_def Let_def)
qed

lemma inspect_origin_url: "inspect_origin u allow = Inr o' \<Longrightarrow> url_origin u = Inr o'"
  using inspect_origin_Ok [of u allow o'] by (auto simp: url_origin_def)

definition bound :: "bool \<Rightarrow> inspect_document \<Rightarrow> string \<Rightarrow> bool" where
  "bound allow document u = (require_service_origin_binding document u allow = Inr ())"

lemma bound_origin: "bound allow document u \<Longrightarrow> \<exists>o'. url_origin u = Inr o'"
  by (auto simp: bound_def require_service_origin_binding_def rbind_Ok_iff dest: inspect_origin_url)

lemma bound_moves:
  assumes "bound allow document u" and "same_origin u v = Inr True" and "valid_https_url v allow = Inr True"
  shows "bound allow document v"
proof -
  from assms(1) obtain o' where o: "inspect_origin u allow = Inr o'"
    "did_web_origin (service_did (inspect_service document)) allow = Inr o'"
    by (auto simp: bound_def require_service_origin_binding_def rbind_Ok_iff)
  from assms(2) inspect_origin_url [OF o(1)] have "url_origin v = Inr o'" by (auto simp: same_origin_iff)
  then have "inspect_origin v allow = Inr o'" using inspect_origin_valid [OF assms(3)] by simp
  with o(2) show ?thesis by (simp add: bound_def require_service_origin_binding_def)
qed

section \<open>Steps\<close>

lemma on_aworld_run: "on_aworld p s = (r, t) \<longleftrightarrow> (\<exists>w. p (as_world s) = (r, w) \<and> t = s\<lparr>as_world := w\<rparr>)"
  by (auto simp: on_aworld_def split: prod.splits)

definition bound_entry :: "'w agent \<Rightarrow> string \<Rightarrow> inspect_entry \<Rightarrow> bool" where
  "bound_entry ag inspect_url e = (valid_https_url (ie_final_url e) (ag_allow ag) = Inr True
     \<and> same_origin inspect_url (ie_final_url e) = Inr True \<and> bound (ag_allow ag) (ie_document e) (ie_final_url e))"

lemma checked_entry_Ok:
  assumes "checked_entry ag inspect_url entry = Inr e"
  shows "bound_entry ag inspect_url e"
proof -
  from assms obtain document
    where "rbind (valid_https_url (ie_final_url entry) (ag_allow ag)) (\<lambda>valid.
        rbind (if valid then same_origin (ie_final_url entry) inspect_url else Ok False) (\<lambda>same.
        rbind (require same (Value_Error ''cached AEP Inspect URL is invalid'')) (\<lambda>_. Ok ()))) = Inr ()"
      and "require_service_origin_binding document (ie_final_url entry) (ag_allow ag) = Inr ()"
      and "e = entry\<lparr>ie_document := document\<rparr>"
    by (auto simp: checked_entry_def rbind_Ok_iff)
  then show ?thesis
    unfolding valid_and_same by (auto simp: bound_entry_def bound_def intro: same_origin_sym)
qed

lemma usable_entry_Some:
  "usable_entry ag inspect_url found s = (Inr (Some e), t) \<Longrightarrow> bound_entry ag inspect_url e"
  by (auto simp: usable_entry_def sbind_def smodify_def prog_run split: option.splits sum.splits if_splits
      intro: checked_entry_Ok)

lemma inspect_redirect_Ok:
  assumes "inspect_redirect ag response current = Inr target"
  shows "valid_https_url target (ag_allow ag) = Inr True \<and> same_origin current target = Inr True"
proof -
  from assms obtain location where "rbind (urljoin current location) (\<lambda>target.
      rbind (valid_https_url target (ag_allow ag)) (\<lambda>valid.
      rbind (if valid then same_origin current target else Ok False) (\<lambda>same.
      rbind (require same (Value_Error ''AEP Inspect redirect changed origin or scheme'')) (\<lambda>_. Ok target)))) = Inr target"
    by (auto simp: inspect_redirect_def split: option.splits)
  then obtain u where "rbind (valid_https_url u (ag_allow ag)) (\<lambda>valid.
      rbind (if valid then same_origin current u else Ok False) (\<lambda>same.
      rbind (require same (Value_Error ''AEP Inspect redirect changed origin or scheme'')) (\<lambda>_. Ok u))) = Inr target"
    by (auto simp: rbind_Ok_iff)
  then show ?thesis unfolding valid_and_same by auto
qed

lemma map_sum_Ok: "map_sum Python id m = Inr v \<longleftrightarrow> m = Inr v"
  by (cases m) auto

text \<open>A response that is accepted at a URL carries a document bound to that URL.\<close>

lemma inspect_answer_bound:
  assumes "inspect_answer ag cached now response current = Inr e"
    and "\<And>c. cached = Some c \<Longrightarrow> bound (ag_allow ag) (ie_document c) current"
  shows "bound (ag_allow ag) (ie_document e) (ie_final_url e) \<and> same_origin current (ie_final_url e) = Inr True"
proof -
  have "bound (ag_allow ag) (ie_document e) current \<and> ie_final_url e = current"
    using assms
    by (auto simp: inspect_answer_def Let_def bound_def map_sum_Ok rbind_Ok_iff split: if_splits option.splits)
  with bound_origin show ?thesis by (fastforce simp: same_origin_iff)
qed

text \<open>An answer ends the loop, a redirect goes on.\<close>

lemma inspect_loop_cases:
  assumes "inspect_loop ag cached now n current s = (Inr e, t)"
  obtains (Answer) response where "inspect_answer ag cached now response current = Inr e"
  | (Redirect) response target m s' where "n = Suc m" "inspect_redirect ag response current = Inr target"
      "inspect_loop ag cached now m target s' = (Inr e, t)"
  using assms by (cases n) (auto simp: sbind_Ok py_Ok prog_run split: if_splits)

lemma inspect_loop_bound:
  assumes "inspect_loop ag cached now n current s = (Inr e, t)"
    and "\<And>c. cached = Some c \<Longrightarrow> bound (ag_allow ag) (ie_document c) current"
  shows "bound (ag_allow ag) (ie_document e) (ie_final_url e) \<and> same_origin current (ie_final_url e) = Inr True"
  using assms
proof (induction n arbitrary: current s)
  case (0 current s)
  then show ?case
    by (cases rule: inspect_loop_cases) (auto intro: inspect_answer_bound [THEN conjunct1] inspect_answer_bound [THEN conjunct2])
next
  case (Suc n current s)
  from Suc.prems(1) show ?case
  proof (cases rule: inspect_loop_cases)
    case (Answer response)
    then show ?thesis using inspect_answer_bound Suc.prems(2) by blast
  next
    case (Redirect response target m s')
    note r = inspect_redirect_Ok [OF Redirect(2)]
    have "bound (ag_allow ag) (ie_document c) target" if "cached = Some c" for c
      using bound_moves [OF Suc.prems(2)] that r by blast
    then have "bound (ag_allow ag) (ie_document e) (ie_final_url e) \<and> same_origin target (ie_final_url e) = Inr True"
      using Suc.IH Redirect by blast
    with r same_origin_trans show ?thesis by blast
  qed
qed

text \<open>An inspection is the entry it came from.\<close>

lemma inspection_from_cache_simps [simp]:
  "in_document (inspection_from_cache e i u) = ie_document e"
  "in_final_url (inspection_from_cache e i u) = ie_final_url e"
  "in_inspect_url (inspection_from_cache e i u) = i"
  "in_service_url (inspection_from_cache e i u) = u"
  by (simp_all add: inspection_from_cache_def)

lemma inspect_cases:
  assumes "inspect ag url s = (Inr i, t)"
  obtains (Cached) inspect_url found e s' s'' where "urljoin url AEP_WELL_KNOWN_PATH = Inr inspect_url"
      "usable_entry ag inspect_url found s' = (Inr (Some e), s'')" "i = inspection_from_cache e inspect_url url"
  | (Fetched) inspect_url found cached now s1 s2 s3 e where "urljoin url AEP_WELL_KNOWN_PATH = Inr inspect_url"
      "usable_entry ag inspect_url found s1 = (Inr cached, s2)"
      "inspect_loop ag cached now 5 (case cached of None \<Rightarrow> inspect_url | Some e \<Rightarrow> ie_final_url e) s2 = (Inr e, s3)"
      "i = inspection_from_cache e inspect_url url"
  using assms
  by (auto simp: inspect_def sbind_Ok py_Ok prog_run split: if_splits option.splits)

text \<open>C27 Whatever the cache holds and whatever the transport answers, an inspection that succeeds carries a document
  whose Service DID belongs to the origin of the URL it finally came from, and that URL has the origin of the
  well-known URL of the session: neither a redirect, nor a revalidated or a fresh cache entry, gets around the
  origin binding.\<close>

theorem inspection_bound:
  assumes "inspect ag url s = (Inr i, t)"
  shows "urljoin url AEP_WELL_KNOWN_PATH = Inr (in_inspect_url i)
    \<and> require_service_origin_binding (in_document i) (in_final_url i) (ag_allow ag) = Inr ()
    \<and> same_origin (in_inspect_url i) (in_final_url i) = Inr True"
  using assms
proof (cases rule: inspect_cases)
  case Cached
  with usable_entry_Some show ?thesis by (fastforce simp: bound_entry_def bound_def)
next
  case (Fetched inspect_url found cached now s1 s2 s3 e)
  have c: "bound_entry ag inspect_url c" if "cached = Some c" for c
    using usable_entry_Some Fetched(2) that by blast
  have "bound (ag_allow ag) (ie_document e) (ie_final_url e)
      \<and> same_origin (case cached of None \<Rightarrow> inspect_url | Some e \<Rightarrow> ie_final_url e) (ie_final_url e) = Inr True"
    by (rule inspect_loop_bound [OF Fetched(3)]) (use c in \<open>auto simp: bound_entry_def\<close>)
  with c Fetched(1,4) show ?thesis
    by (cases cached) (auto simp: bound_def bound_entry_def intro: same_origin_trans)
qed

end
