(* ===== verification/Agent_Urls.thy ===== *)
theory Agent_Urls
  imports Agent_Inspection
begin

text \<open>
  Where a command of a session goes: the URL of a session is the root of an origin, and an endpoint path without
  the characters that \<open>urlsplit\<close> drops keeps that origin when \<open>urljoin\<close> resolves it.
\<close>

text \<open>\<open>_UNSAFE_URL_BYTES_TO_REMOVE\<close>: tab, line feed and carriage return.\<close>

definition kept_chars :: "string \<Rightarrow> bool" where
  "kept_chars s = list_all (\<lambda>c. ord c \<noteq> 9 \<and> ord c \<noteq> 10 \<and> ord c \<noteq> 13) s"

lemma kept_append [simp]: "kept_chars (a @ b) \<longleftrightarrow> kept_chars a \<and> kept_chars b"
  by (simp add: kept_chars_def)

lemma sanitize_kept: "kept_chars u \<Longrightarrow> u = [] \<or> 32 < ord (hd u) \<Longrightarrow> sanitize u = u"
  by (cases u) (auto simp: sanitize_def lstrip_by_def kept_chars_def filter_id_conv list_all_iff)

lemma set_take_scheme: "set (snd (take_scheme u)) \<subseteq> set u"
proof (cases "partition_at CHR '':'' u")
  case (fields a f b)
  have "f \<Longrightarrow> u = a @ CHR '':'' # b"
    using partition_at_found [of "CHR '':''" u a b] fields by simp
  then show ?thesis using fields by (cases f) (auto simp: take_scheme_def)
qed

lemma split_origin_cong:
  assumes "scheme r = scheme q" and "netloc r = netloc q"
  shows "split_origin r = split_origin q"
proof -
  have "host_port r = host_port q" by (simp add: host_port_def assms(2))
  then have same: "hostname r = hostname q" "port r = port q" by (simp_all add: hostname_def port_def)
  show ?thesis unfolding split_origin_def same assms(1) ..
qed

text \<open>The netloc of a URL holds no dropped character and no delimiter, and it passed the bracket check.\<close>

lemma urlsplit_netloc:
  assumes "urlsplit u = Inr r"
  shows "kept_chars (netloc r) \<and> list_all (\<lambda>c. \<not> netloc_end c) (netloc r) \<and> (netloc r \<noteq> [] \<longrightarrow> netloc_ok (netloc r))"
proof -
  obtain s v where v: "take_scheme (sanitize u) = (s, v)" by (cases "take_scheme (sanitize u)")
  have set: "set v \<subseteq> set (sanitize u)" using set_take_scheme [of "sanitize u"] v by simp
  have n: "netloc r = (if starts_with v ''//'' then takeWhile (\<lambda>c. \<not> netloc_end c) (drop 2 v) else [])"
    and ok: "starts_with v ''//'' \<longrightarrow> netloc_ok (netloc r)"
    using assms v by (auto simp: urlsplit_def Let_def split: prod.splits if_splits)
  have "set (netloc r) \<subseteq> set (sanitize u)"
    using set n by (auto dest!: set_takeWhileD dest: in_set_dropD)
  moreover have "ord c \<noteq> 9 \<and> ord c \<noteq> 10 \<and> ord c \<noteq> 13" if "c \<in> set (sanitize u)" for c
    using that by (auto simp: sanitize_def)
  ultimately have "kept_chars (netloc r)" by (auto simp: kept_chars_def list_all_iff)
  moreover have "list_all (\<lambda>c. \<not> netloc_end c) (netloc r)"
    using n by (auto simp: list_all_iff dest: set_takeWhileD)
  ultimately show ?thesis using ok n by (auto split: if_splits)
qed

text \<open>The root URL of an origin.\<close>

definition root_url :: "string \<Rightarrow> string \<Rightarrow> string \<Rightarrow> bool" where
  "root_url s n u = (s \<in> {''http'', ''https''} \<and> n \<noteq> [] \<and> kept_chars n \<and> list_all (\<lambda>c. \<not> netloc_end c) n
     \<and> netloc_ok n \<and> u = s @ ''://'' @ n @ ''/'')"

lemma valid_https_url_True:
  assumes "valid_https_url u allow = Inr True"
  obtains r where "urlsplit u = Inr r" "scheme r \<in> {''http'', ''https''}" "truthy (hostname r)"
  using assms by (auto simp: valid_https_url_def rbind_Ok_iff split: if_splits)

lemma truthy_hostname: "truthy (hostname r) \<Longrightarrow> netloc r \<noteq> []"
  by (auto simp: truthy_def hostname_def host_port_def rpartition_at_def Let_def)

lemma service_url_root:
  assumes "service_url reference allow = Inr url"
  shows "\<exists>s n. root_url s n url"
proof -
  from assms obtain u where u: "valid_https_url u allow = Inr True" "origin_url u = Inr url"
    by (auto simp: service_url_def Let_def rbind_Ok_iff)
  from u(1) obtain r where r: "urlsplit u = Inr r" "scheme r \<in> {''http'', ''https''}" "truthy (hostname r)"
    by (rule valid_https_url_True)
  have "url = scheme r @ ''://'' @ netloc r @ ''/''"
    using u(2) r truthy_hostname [OF r(3)] by (auto simp: origin_url_def urlunsplit_def Let_def)
  then show ?thesis
    using urlsplit_netloc [OF r(1)] r truthy_hostname [OF r(3)] unfolding root_url_def by blast
qed

text \<open>Splitting a URL below a root.\<close>

lemma urlsplit_below:
  assumes "root_url s n u" and "kept_chars p" and "p = [] \<or> starts_with p ''/''"
    and "CHR ''?'' \<notin> set p" and "CHR ''#'' \<notin> set p"
  shows "urlsplit (s @ ''://'' @ n @ p) = Inr \<lparr>scheme = s, netloc = n, url_path = p, query = [], fragment = []\<rparr>"
proof -
  have s: "kept_chars (s @ ''://'' @ n @ p)" "s @ ''://'' @ n @ p \<noteq> []" "32 < ord (hd (s @ ''://'' @ n @ p))"
    using assms by (auto simp: root_url_def kept_chars_def)
  then have "sanitize (s @ ''://'' @ n @ p) = s @ ''://'' @ n @ p" by (intro sanitize_kept) auto
  moreover have "take_scheme (s @ ''://'' @ n @ p) = (s, ''//'' @ n @ p)"
    using take_scheme_http [of s "''//'' @ n @ p"] assms(1) by (simp add: root_url_def)
  ultimately show ?thesis using assms by (intro urlsplit_parts) (auto simp: root_url_def)
qed

lemma url_origin_below:
  assumes "root_url s n u" and "kept_chars p" and "starts_with p ''/''"
    and "CHR ''?'' \<notin> set p" and "CHR ''#'' \<notin> set p"
  shows "url_origin (s @ ''://'' @ n @ p) = url_origin u"
proof -
  have "split_origin (\<lparr>scheme = s, netloc = n, url_path = p, query = [], fragment = []\<rparr>)
      = split_origin (\<lparr>scheme = s, netloc = n, url_path = q, query = [], fragment = []\<rparr>)" for q
    by (rule split_origin_cong) simp_all
  moreover have "u = s @ ''://'' @ n @ ''/''" using assms(1) by (simp add: root_url_def)
  ultimately show ?thesis
    using urlsplit_below [OF assms(1,2)] assms urlsplit_below [OF assms(1), of "''/''"]
    by (simp add: url_origin_def kept_chars_def)
qed

text \<open>Resolving an endpoint path.\<close>

lemma resolve_segments_plain:
  "\<not> list_ex (\<lambda>x. x \<in> {''.'', ''..''}) segs \<Longrightarrow> resolve_segments acc segs = rev acc @ segs"
  by (induction acc segs rule: resolve_segments.induct) auto

lemma urlsplit_path:
  assumes "kept_chars p" and "starts_with p ''/''" and "\<not> starts_with p ''//''"
    and "CHR ''?'' \<notin> set p" and "CHR ''#'' \<notin> set p"
  shows "urlsplit p = Inr \<lparr>scheme = [], netloc = [], url_path = p, query = [], fragment = []\<rparr>"
proof -
  have h: "p \<noteq> []" "hd p = CHR ''/''" using assms(2) by (cases p; auto)+
  then have "sanitize p = p" using assms(1) by (intro sanitize_kept) auto
  moreover have "take_scheme p = ([], p)"
  proof (cases "partition_at CHR '':'' p")
    case (fields a f b)
    have "f \<Longrightarrow> a \<noteq> [] \<Longrightarrow> hd a = CHR ''/''"
      using partition_at_found [of "CHR '':''" p a b] fields h by (cases a) auto
    then show ?thesis
      using fields by (cases f) (auto simp: take_scheme_def is_alpha_def is_upper_def is_lower_def in_range_def)
  qed
  ultimately show ?thesis using assms by (simp add: urlsplit_def partition_at_not_found)
qed

lemma join_path_absolute:
  assumes "is_endpoint_path p" shows "join_path ''/'' p = p"
proof -
  have s: "starts_with p ''/''" "p \<noteq> []" "\<not> list_ex (\<lambda>x. x \<in> {''.'', ''..''}) (split_on CHR ''/'' p)"
    using assms by (auto simp: is_endpoint_path_def split: if_splits)
  then have "resolve_segments [] (split_on CHR ''/'' p) = split_on CHR ''/'' p"
    by (subst resolve_segments_plain) simp_all
  moreover have "last (split_on CHR ''/'' p) \<notin> {''.'', ''..''}"
    using s(3) split_on_nonempty [of "CHR ''/''" p] by (metis last_in_set list_ex_iff)
  ultimately show ?thesis using s join_split_on [of "CHR ''/''" p] by (simp add: join_path_def Let_def)
qed

lemma urljoin_endpoint:
  assumes "root_url s n u" and "is_endpoint_path p" and "kept_chars p" and "split_params p = (p, [])"
  shows "urljoin u p = Inr (s @ ''://'' @ n @ p)"
proof -
  have p: "starts_with p ''/''" "\<not> starts_with p ''//''" "CHR ''?'' \<notin> set p" "CHR ''#'' \<notin> set p" "p \<noteq> []"
    using assms(2) by (auto simp: is_endpoint_path_def split: if_splits)
  have b: "urlsplit u = Inr \<lparr>scheme = s, netloc = n, url_path = ''/'', query = [], fragment = []\<rparr>"
    using urlsplit_below [OF assms(1), of "''/''"] assms(1) by (simp add: root_url_def kept_chars_def)
  have "split_params ''/'' = (''/'', [])" by code_simp
  moreover have "u \<noteq> []" using assms(1) by (auto simp: root_url_def)
  moreover have "urlunparse s n p [] [] [] = s @ ''://'' @ n @ p"
    using p assms(1) by (auto simp: urlunparse_def urlunsplit_def root_url_def Let_def)
  ultimately show ?thesis
    using b urlsplit_path [OF assms(3) p(1-4)] assms(1,4) p join_path_absolute [OF assms(2)]
    by (auto simp: urljoin_def root_url_def)
qed

section \<open>An endpoint base with a tab\<close>

text \<open>A document whose endpoint base is a slash, a tab, a slash and a host. The base is an origin-relative path by the
  check of the models, and \<open>urlsplit\<close>, which drops the tab, reads it as the authority of another host.\<close>

definition stray :: "string \<Rightarrow> inspect_document \<Rightarrow> inspect_document" where
  "stray h d = d\<lparr>inspect_http := (inspect_http d)\<lparr>endpoint_base := Some (''/'' @ [char_of (9 :: nat)] @ ''/'' @ h @ ''/'')\<rparr>\<rparr>"

definition plain_host :: "string \<Rightarrow> bool" where
  "plain_host h = (h \<notin> {[], ''.'', ''..''} \<and> netloc_ok h \<and> list_all (\<lambda>x. in_range 33 126 x \<and> \<not> netloc_end x) h)"

abbreviation stray_base :: "string \<Rightarrow> string" where
  "stray_base h \<equiv> ''/'' @ [char_of (9 :: nat)] @ ''/'' @ h @ ''/''"

lemma tab_char: "ord (char_of (9 :: nat)) = 9" "char_of (9 :: nat) \<noteq> CHR ''/''" "char_of (9 :: nat) \<noteq> CHR ''?''"
    "char_of (9 :: nat) \<noteq> CHR ''#''" "char_of (9 :: nat) \<noteq> CHR ''.''"
  by code_simp+

lemma stray_endpoint_path:
  assumes "plain_host h" shows "is_endpoint_path (stray_base h)"
proof -
  have h: "CHR ''/'' \<notin> set h" "CHR ''?'' \<notin> set h" "CHR ''#'' \<notin> set h"
    using assms by (auto simp: plain_host_def list_all_iff netloc_end_def)
  have "split_on CHR ''/'' (stray_base h) = [[], [char_of (9 :: nat)], h, []]"
    using split_on_append [OF h(1), of "[]"] tab_char(2) by simp
  then show ?thesis using h tab_char assms by (simp add: is_endpoint_path_def plain_host_def)
qed

lemma stray_ok:
  assumes "inspect_document_ok d" and "plain_host h"
  shows "inspect_document_ok (stray h d)"
proof -
  have "check_http h' = Inr h'" if "endpoint_base h' = Some (stray_base h)" for h'
    using stray_endpoint_path [OF assms(2)] that
    by (simp add: check_http_def validate_endpoint_base_def)
  moreover have "check_inspect_document (stray h d) = Inr (stray h d)"
  proof -
    have "validate_document (stray h d) = validate_document d" "service_documents (stray h d) = service_documents d"
      by (simp_all add: validate_document_def stray_def cong: option.case_cong)
    then show ?thesis using assms(1) by (simp add: inspect_document_ok_def check_inspect_document_def del: checks.simps)
  qed
  ultimately show ?thesis
    using assms(1) by (simp add: inspect_document_ok_def parts_ok_def http_ok_def stray_def)
qed

lemma stray_path:
  assumes "plain_host h" and "c \<noteq> Cmd_Inspect"
  shows "command_path_from_inspect (stray h d) c = Inr (stray_base h @ command_value c)"
  using stray_endpoint_path [OF assms(1)] assms(2) ends_with_append [of "''/'' @ [char_of (9 :: nat)] @ ''/'' @ h" "''/''"]
  by (simp add: command_path_from_inspect_def command_path_def normalize_endpoint_base_def stray_def or_default_def)

lemma stray_split:
  assumes "plain_host h"
  shows "urlsplit (stray_base h @ command_value c)
    = Inr \<lparr>scheme = [], netloc = h, url_path = ''/'' @ command_value c, query = [], fragment = []\<rparr>"
proof -
  have h: "list_all (in_range 33 126) h" "list_all (\<lambda>x. \<not> netloc_end x) h" "netloc_ok h"
    using assms by (simp_all add: plain_host_def list_all_iff)
  have "list_all (in_range 33 126) (command_value c)" by (cases c) (simp_all add: in_range_def)
  with h(1) have "\<forall>x \<in> set (h @ ''/'' @ command_value c). ord x \<noteq> 9 \<and> ord x \<noteq> 10 \<and> ord x \<noteq> 13"
    by (auto simp: list_all_iff in_range_def)
  then have "filter (\<lambda>x. ord x \<noteq> 9 \<and> ord x \<noteq> 10 \<and> ord x \<noteq> 13) (h @ ''/'' @ command_value c) = h @ ''/'' @ command_value c"
    by (rule filter_True)
  then have "sanitize (stray_base h @ command_value c) = ''//'' @ h @ ''/'' @ command_value c"
    using tab_char(1) by (simp add: sanitize_def lstrip_by_def)
  moreover have "CHR ''?'' \<notin> set (command_value c)" "CHR ''#'' \<notin> set (command_value c)" by (cases c; simp)+
  ultimately show ?thesis
    using h by (intro urlsplit_parts) (simp_all add: take_scheme_none [simplified])
qed

lemma urljoin_other_host:
  assumes "root_url s n u" and "urlsplit p = Inr \<lparr>scheme = [], netloc = h, url_path = q, query = [], fragment = []\<rparr>"
    and "p \<noteq> []" and "h \<noteq> []" and "split_params q = (q, [])" and "starts_with q ''/''"
  shows "urljoin u p = Inr (s @ ''://'' @ h @ q)"
proof -
  have b: "urlsplit u = Inr \<lparr>scheme = s, netloc = n, url_path = ''/'', query = [], fragment = []\<rparr>"
    using urlsplit_below [OF assms(1), of "''/''"] assms(1) by (simp add: root_url_def kept_chars_def)
  have s: "s \<in> {''http'', ''https''}" "u \<noteq> []" using assms(1) by (auto simp: root_url_def)
  have "split_params ''/'' = (''/'', [])" by code_simp
  moreover have "urlunparse s h q [] [] [] = s @ ''://'' @ h @ q"
    using s assms(4,6) by (auto simp: urlunparse_def urlunsplit_def Let_def)
  ultimately show ?thesis using b assms(2-5) s by (simp add: urljoin_def)
qed

lemma stray_join:
  assumes "root_url s n u" and "plain_host h"
  shows "urljoin u (stray_base h @ command_value c) = Inr (s @ ''://'' @ h @ ''/'' @ command_value c)"
proof (rule urljoin_other_host [OF assms(1) stray_split [OF assms(2)]])
  show "split_params (''/'' @ command_value c) = (''/'' @ command_value c, [])" by (cases c) (simp_all add: split_params_def rpartition_at_def)
qed (use assms(2) in \<open>simp_all add: plain_host_def\<close>)

end
