(* ===== verification/Agent_Frames.thy ===== *)
theory Agent_Frames
  imports Protected_Resource Agent_Urls Frames
begin

text \<open>
  What the operations of an Agent keep. The locale \<open>agent_relation\<close> fixes a relation between states that the
  inspection, the stores and the collaborators keep, the command transport only on a given set of requests; its
  lemmas say that every operation of a session keeps it, so a session sends no other requests.
\<close>

lemma keeps_bind_run:
  assumes "transp R" and "keeps R m" and "\<And>a s s'. m s = (Inr a, s') \<Longrightarrow> keeps R (f a)"
  shows "keeps R (sbind m f)"
  unfolding keeps_def
proof
  fix s
  obtain r s' where m: "m s = (r, s')" by (cases "m s")
  then have "R s s'" using assms(2) by (rule keeps_run [rotated])
  moreover have "R s' (snd (f a s'))" if "r = Inr a" for a
    using assms(3) [of s a s'] m that by (simp add: keeps_def)
  ultimately show "R s (snd (sbind m f s))"
    using m assms(1) by (cases r) (auto simp: sbind_def transp_def)
qed

definition world_kept :: "('w \<Rightarrow> 'w \<Rightarrow> bool) \<Rightarrow> 'w agent_state \<Rightarrow> 'w agent_state \<Rightarrow> bool" where
  "world_kept R s t = R (as_world s) (as_world t)"

lemma world_kept_order [simp]: "reflp R \<Longrightarrow> reflp (world_kept R)" "transp R \<Longrightarrow> transp (world_kept R)"
  by (auto simp: world_kept_def reflp_def transp_def)

lemma keeps_on_aworld: "keeps R p \<Longrightarrow> keeps (world_kept R) (on_aworld p)"
  by (auto simp: keeps_def world_kept_def on_aworld_def split: prod.split) (metis snd_conv)

lemma keeps_state_only:
  assumes "reflp R" and "\<And>s. as_world (f s) = as_world s"
  shows "keeps (world_kept R) (smodify f)"
  using assms by (auto simp: keeps_def smodify_def world_kept_def reflp_def)

lemma sbind_py_Ok [simp]: "sbind (py (Inr a)) f = f a"
  by (rule ext) simp

section \<open>The requests of an inspection\<close>

text \<open>A measure of the collaborators grows by at most so much. A request that no hypothesis allows may grow it
  without bound, so a bound also says which requests are sent.\<close>

definition grows :: "('w \<Rightarrow> nat) \<Rightarrow> nat \<Rightarrow> ('w agent_state, 'a) aprog \<Rightarrow> bool" where
  "grows f n p = (\<forall>s. f (as_world (snd (p s))) \<le> f (as_world s) + n)"

lemma grows_bind:
  assumes "grows f m p" and "\<And>a s s'. p s = (Inr a, s') \<Longrightarrow> grows f n (q a)"
  shows "grows f (m + n) (sbind p q)"
  unfolding grows_def
proof
  fix s
  obtain r s' where p: "p s = (r, s')" by (cases "p s")
  then have "f (as_world s') \<le> f (as_world s) + m" using assms(1) by (metis grows_def snd_conv)
  moreover have "f (as_world (snd (q a s'))) \<le> f (as_world s') + n" if "r = Inr a" for a
    using assms(2) [of s a s'] p that by (simp add: grows_def)
  ultimately show "f (as_world (snd (sbind p q s))) \<le> f (as_world s) + (m + n)"
    using p by (cases r) (fastforce simp: sbind_def)+
qed

lemma grows_silent [simp]:
  "grows f n (sret a)" "grows f n (sraise e)" "grows f n (slift m)" "grows f n (py v)" "grows f n (sget g)"
  "(\<And>s. as_world (h s) = as_world s) \<Longrightarrow> grows f n (smodify h)"
  by (simp_all add: grows_def prog_run py_def)

lemma grows_silent_bind:
  "grows f 0 p \<Longrightarrow> (\<And>a s s'. p s = (Inr a, s') \<Longrightarrow> grows f n (q a)) \<Longrightarrow> grows f n (sbind p q)"
  using grows_bind [of f 0 p n q] by simp

lemma grows_on_aworld: "(\<And>w. f (snd (p w)) \<le> f w + n) \<Longrightarrow> grows f n (on_aworld p)"
  by (auto simp: grows_def on_aworld_def split: prod.split) (metis snd_conv)

lemma grows_now: "(\<And>w. f (snd (ac_clock (ag_collaborators ag) w)) \<le> f w) \<Longrightarrow> grows f 0 (agent_now ag)"
  unfolding agent_now_def
  by (rule grows_on_aworld) (auto simp: validated_time_def sbind_def prog_run py_def slift_def split: prod.split sum.split,
    (metis snd_conv)+)

lemma grows_usable: "grows f n (usable_entry ag inspect_url found)"
  unfolding usable_entry_def
  by (auto split: option.split sum.split intro!: grows_silent_bind)

lemma grows_loop:
  assumes "\<And>q w. rq_url q = iu \<or> same_origin iu (rq_url q) = Inr True \<Longrightarrow>
      f (snd (ac_inspect_transport (ag_collaborators ag) q w)) \<le> f w + 1"
    and "current = iu \<or> same_origin iu current = Inr True"
  shows "grows f (Suc n) (inspect_loop ag cached now n current)"
  using assms(2)
proof (induction n arbitrary: current)
  case (0 current)
  then have "grows f 1 (on_aworld (ac_inspect_transport (ag_collaborators ag) (inspect_request cached current)))"
    by (intro grows_on_aworld assms(1)) (simp add: inspect_request_def)
  then have "grows f (1 + 0) (inspect_loop ag cached now 0 current)"
    unfolding inspect_loop.simps by (rule grows_bind) simp
  then show ?case by simp
next
  case (Suc n current)
  then have "grows f 1 (on_aworld (ac_inspect_transport (ag_collaborators ag) (inspect_request cached current)))"
    by (intro grows_on_aworld assms(1)) (simp add: inspect_request_def)
  moreover have "grows f (Suc n) (sbind (py (inspect_redirect ag response current)) (inspect_loop ag cached now n))" for response
  proof (rule grows_silent_bind)
    fix target s s'
    assume "py (inspect_redirect ag response current) s = (Inr target, s')"
    then have "same_origin current target = Inr True" by (auto simp: py_Ok dest: inspect_redirect_Ok)
    with Suc.prems have "same_origin iu target = Inr True" by (auto dest: same_origin_trans)
    then show "grows f (Suc n) (inspect_loop ag cached now n target)" by (intro Suc.IH) simp
  qed simp
  ultimately have "grows f (1 + Suc n) (inspect_loop ag cached now (Suc n) current)"
    unfolding inspect_loop.simps by (intro grows_bind) simp_all
  then show ?case by simp
qed

lemma grows_inspect:
  assumes "urljoin url AEP_WELL_KNOWN_PATH = Inr iu"
    and "\<And>q w. rq_url q = iu \<or> same_origin iu (rq_url q) = Inr True \<Longrightarrow>
      f (snd (ac_inspect_transport (ag_collaborators ag) q w)) \<le> f w + 1"
    and "\<And>w. f (snd (ac_clock (ag_collaborators ag) w)) \<le> f w"
  shows "grows f 6 (inspect ag url)"
proof -
  have "grows f 6 (inspect_loop ag cached now 5 (case cached of None \<Rightarrow> iu | Some e \<Rightarrow> ie_final_url e))"
    if e: "\<And>e. cached = Some e \<Longrightarrow> bound_entry ag iu e" for cached now
  proof -
    have "grows f (Suc 5) (inspect_loop ag cached now 5 (case cached of None \<Rightarrow> iu | Some e \<Rightarrow> ie_final_url e))"
      by (rule grows_loop [where iu = iu]) (use assms(2) e in \<open>auto simp: bound_entry_def split: option.split\<close>)
    then show ?thesis by simp
  qed
  then have rest: "grows f 6 (sbind (inspect_loop ag cached now 5 (case cached of None \<Rightarrow> iu | Some e \<Rightarrow> ie_final_url e)) (\<lambda>entry.
      sbind (smodify (as_cache_update (store_entry iu entry))) (\<lambda>_. sret (inspection_from_cache entry iu url))))"
    if "\<And>e. cached = Some e \<Longrightarrow> bound_entry ag iu e" for cached now
    using that by (intro grows_bind [where m = 6 and n = 0, simplified]) (auto intro!: grows_silent_bind)
  show ?thesis
    unfolding inspect_def assms(1) sbind_py_Ok
    by (rule grows_silent_bind, simp, rule grows_silent_bind, rule grows_now, rule assms(3),
        rule grows_silent_bind, rule grows_usable) (auto intro: rest dest: usable_entry_Some)
qed

section \<open>Inspections\<close>

text \<open>A relation that the clock, the Inspect transport and the cache keep.\<close>

locale inspect_relation =
  fixes S :: "'w agent_state \<Rightarrow> 'w agent_state \<Rightarrow> bool" and ag :: "'w agent"
  assumes refl: "reflp S" and trans: "transp S"
    and now: "keeps S (agent_now ag)"
    and inspect_sent: "keeps S (on_aworld (ac_inspect_transport (ag_collaborators ag) r))"
    and cached: "keeps S (smodify (as_cache_update f) :: ('w agent_state, unit) aprog)"
begin

lemma basic: "keeps S (sret a)" "keeps S (sraise e)" "keeps S (slift m)" "keeps S (sget g)" "keeps S (py v)"
  using refl by simp_all

lemma bind: "keeps S m \<Longrightarrow> (\<And>a. keeps S (f a)) \<Longrightarrow> keeps S (sbind m f)"
  by (rule keeps_bind [OF trans])

lemma py_bind: "(\<And>a. v = Inr a \<Longrightarrow> keeps S (f a)) \<Longrightarrow> keeps S (sbind (py v) f)"
  using refl by (intro keeps_bind_run [OF trans]) (auto simp: py_Ok)

lemma usable_kept: "keeps S (usable_entry ag inspect_url found)"
  unfolding usable_entry_def by (auto split: option.split sum.split intro!: bind basic cached)

lemma loop_kept: "keeps S (inspect_loop ag entry time n current)"
  by (induction n arbitrary: current) (auto intro!: bind basic inspect_sent)

lemma inspects: "keeps S (inspect ag url)"
  unfolding inspect_def by (intro bind basic now usable_kept loop_kept cached keeps_if)

end

section \<open>The operations of a session\<close>

text \<open>The requests that may be sent are given by \<open>allowed\<close>, as far as a session at a \<open>served\<close> URL sends them.\<close>

locale agent_relation = inspect_relation S ag
  for S :: "'w agent_state \<Rightarrow> 'w agent_state \<Rightarrow> bool" and ag :: "'w agent" +
  fixes served :: "string \<Rightarrow> bool" and allowed :: "http_request \<Rightarrow> bool"
  assumes token: "keeps S (on_aworld (ac_token_hex (ag_collaborators ag)))"
    and sleep: "keeps S (on_aworld (ac_sleep (ag_collaborators ag) d))"
    and created: "keeps S (on_aworld (ac_get_or_create (ag_collaborators ag) q))"
    and existing: "ac_find_existing (ag_collaborators ag) = Some find_existing \<Longrightarrow> keeps S (on_aworld (find_existing did))"
    and signer_for: "keeps S (on_aworld (ac_signer_for (ag_collaborators ag) i))"
    and signers: "ac_signer_for (ag_collaborators ag) i w = (Inr (Some f), w') \<Longrightarrow> keeps S (on_aworld (f c algs))"
    and key: "keeps S (on_aworld (ac_create_key (ag_collaborators ag) k))"
    and command_sent: "allowed r \<Longrightarrow> keeps S (on_aworld (ac_command_transport (ag_collaborators ag) r))"
    and targets: "served url \<Longrightarrow> inspect ag url s = (Inr inspection, t)
      \<Longrightarrow> rbind (command_path_from_inspect (in_document inspection) cmd) (urljoin url) = Inr (rq_url r) \<Longrightarrow> allowed r"
    and remembers: "validate_identity i inspection = Inr () \<Longrightarrow> keeps S (remember_identity i)"
    and session: "(\<And>v. ss_identity (g v) \<in> {None, ss_identity v}
        \<or> (\<exists>i inspection. ss_identity (g v) = Some i \<and> validate_identity i inspection = Inr ()))
      \<Longrightarrow> keeps S (smodify (as_session_update g) :: ('w agent_state, unit) aprog)"
    and saves: "parse_credential (hc_grant_type held) (hc_payload held) = Inr (Some b) \<Longrightarrow> built_in_id b = hc_credential_id held
      \<Longrightarrow> parse_rfc3339 (built_in_expires_at b) = Inr (hc_expires_at held) \<Longrightarrow> keeps S (credential_save ag held)"
    and drops: "(\<And>m. set (h m) \<subseteq> set m) \<Longrightarrow> keeps S (smodify (as_credentials_update h) :: ('w agent_state, unit) aprog)"
begin

text \<open>The first fact before the second: a bind of a checked value remembers what was checked.\<close>

lemmas steps = py_bind bind basic inspects now token created signer_for key keeps_if keeps_option keeps_prod

subsection \<open>Identities and signing\<close>

lemma resolve_kept: "keeps S (resolve_identity ag url inspection)"
proof -
  define look where "look found = (case found of
      None \<Rightarrow> sbind (on_aworld (ac_get_or_create (ag_collaborators ag) \<lparr>iq_inspect = in_document inspection,
          iq_service_did = advertised_did inspection, iq_service_url = url\<rparr>)) (\<lambda>i.
        sbind (py (validate_identity i inspection)) (\<lambda>_. sbind (remember_identity i) (\<lambda>_. sret i)))
    | Some i \<Rightarrow> sbind (py (validate_identity i inspection)) (\<lambda>_. sret i))" for found
  have "keeps S (look found)" for found
    unfolding look_def by (intro steps remembers) simp
  moreover have "keeps S (sbind (smodify (as_session_update (ss_identity_update (\<lambda>_. Some i)))) (\<lambda>_. sret i)
      :: ('w agent_state, scoped_identity) aprog)"
    if "look found s = (Inr i, t)" for found i s t
  proof -
    from that have "validate_identity i inspection = Inr ()"
      by (auto simp: look_def sbind_Ok py_Ok prog_run split: option.splits)
    then show ?thesis by (intro bind basic session) auto
  qed
  ultimately have "keeps S (sbind (look found) (\<lambda>i. sbind (smodify (as_session_update (ss_identity_update (\<lambda>_. Some i)))) (\<lambda>_. sret i)))" for found
    by (rule keeps_bind_run [OF trans])
  note rest = this [unfolded look_def]
  show ?thesis
    unfolding resolve_identity_def known_identity_def
    by (rule bind, rule basic, rule keeps_option, rule bind, rule basic, rule rest, intro steps)
qed

lemma signer_of_kept: "keeps S (signer_of ag i)"
  unfolding signer_of_def by (intro steps)

lemma signer_kept: "signer_of ag i s = (Inr f, t) \<Longrightarrow> keeps S (on_aworld (f c algs))"
  by (auto simp: signer_of_def sbind_Ok on_aworld_run prog_run split: option.splits dest: signers)

lemma key_kept: "keeps S (idempotency_key ag url inspection c provided cid chosen)"
  unfolding idempotency_key_def by (intro steps)

lemma sign_kept:
  "(\<And>c algs. keeps S (on_aworld (signer c algs))) \<Longrightarrow> keeps S (sign_assertion ag inspection i signer ope target)"
  unfolding sign_assertion_def Let_def by (intro steps)

lemma existing_kept: "keeps S (existing_identity ag inspection)"
proof -
  have "keeps S (case (found, ac_find_existing (ag_collaborators ag)) of
      (None, Some find_existing) \<Rightarrow> sbind (on_aworld (find_existing (advertised_did inspection))) (\<lambda>recovered.
        case recovered of None \<Rightarrow> sret None
        | Some i \<Rightarrow> sbind (py (validate_identity i inspection)) (\<lambda>_. sbind (remember_identity i) (\<lambda>_. sret (Some i))))
    | _ \<Rightarrow> sret found)" for found
  proof (cases "ac_find_existing (ag_collaborators ag)")
    case (Some find_existing)
    note found_kept = existing [OF this]
    from Some show ?thesis by (cases found) (auto intro!: steps found_kept remembers)
  qed (cases found; simp add: basic)
  then show ?thesis
    unfolding existing_identity_def known_identity_def
    by - (rule bind, rule basic, rule bind, assumption, intro steps)
qed

lemma context_kept: "keeps S (command_context ag url c)" "keeps S (existing_command_context ag url c)"
  unfolding command_context_def existing_command_context_def
  by (intro steps resolve_kept existing_kept signer_of_kept)+

text \<open>A context hands out an inspection of the session and a signer that keeps the relation.\<close>

definition at_hand :: "string \<Rightarrow> inspection \<Rightarrow> 'w signer \<Rightarrow> bool" where
  "at_hand url inspection signer = ((\<exists>s t. inspect ag url s = (Inr inspection, t))
     \<and> (\<forall>c algs. keeps S (on_aworld (signer c algs))))"

lemma context_at_hand:
  "command_context ag url c s = (Inr (inspection, i, signer), t) \<Longrightarrow> at_hand url inspection signer"
  "existing_command_context ag url c s = (Inr (inspection, i, signer), t) \<Longrightarrow> at_hand url inspection signer"
  by (auto simp: command_context_def existing_command_context_def sbind_Ok prog_run at_hand_def intro: signer_kept)

lemma with_context_of:
  assumes "p \<in> {command_context ag url c, existing_command_context ag url c}"
    and "\<And>inspection i signer. at_hand url inspection signer \<Longrightarrow> keeps S (f inspection i signer)"
  shows "keeps S (sbind p (\<lambda>(inspection, i, signer). f inspection i signer))"
proof (rule keeps_bind_run [OF trans])
  show "keeps S p" using assms(1) context_kept by auto
  fix a s s' assume "p s = (Inr a, s')"
  with assms(1) have "at_hand url (fst a) (snd (snd a))" by (cases a) (auto dest: context_at_hand)
  then show "keeps S (case a of (inspection, i, signer) \<Rightarrow> f inspection i signer)"
    using assms(2) by (cases a) auto
qed

lemma with_context:
  assumes "\<And>inspection i signer. at_hand url inspection signer \<Longrightarrow> keeps S (f inspection i signer)"
  shows "keeps S (sbind (command_context ag url c) (\<lambda>(inspection, i, signer). f inspection i signer))"
    and "keeps S (sbind (existing_command_context ag url c) (\<lambda>(inspection, i, signer). f inspection i signer))"
  by (rule with_context_of [where c = c], use assms in auto)+

subsection \<open>Commands\<close>

lemma execute_sends:
  assumes "\<And>c algs. keeps S (on_aworld (signer c algs))"
    and "\<And>q. rbind (command_path_from_inspect (in_document inspection) c) (urljoin url) = Inr (rq_url q) \<Longrightarrow> allowed q"
  shows "keeps S (execute ag url inspection i signer c method data key' parser)"
  unfolding execute_def
  by (rule py_bind) (intro steps sign_kept assms command_sent; simp)

lemma execute_kept:
  "at_hand url inspection signer \<Longrightarrow> served url \<Longrightarrow> keeps S (execute ag url inspection i signer c method data key' parser)"
  by (rule execute_sends) (auto simp: at_hand_def intro: targets)

lemma set_active_kept: "keeps S (set_active b)"
  unfolding set_active_def by (rule session) simp

lemma request_status_kept:
  "at_hand url inspection signer \<Longrightarrow> served url \<Longrightarrow> keeps S (request_status ag url inspection i signer)"
  unfolding request_status_def by (intro steps execute_kept set_active_kept)

lemma status_kept: "served url \<Longrightarrow> keeps S (agent_status_command ag url)"
  unfolding agent_status_command_def by (intro with_context request_status_kept)

lemma enroll_kept: "served url \<Longrightarrow> keeps S (agent_enroll ag url options)"
  unfolding agent_enroll_def
  by (intro with_context steps key_kept execute_kept set_active_kept)

lemma poll_kept: "served url \<Longrightarrow> keeps S (poll_active ag url interval n)"
  by (induction n) (auto intro!: steps status_kept sleep simp: Let_def)

lemma wait_kept: "served url \<Longrightarrow> keeps S (wait_for_active ag url options)"
  unfolding wait_for_active_def by (intro steps poll_kept)

subsection \<open>Credentials\<close>

lemma credentials_step:
  assumes "\<And>m. set (snd (g m)) \<subseteq> set m"
  shows "keeps S (\<lambda>s. case g (as_credentials s) of (a, m) \<Rightarrow> (Inr a, s\<lparr>as_credentials := m\<rparr>))"
proof -
  have "as_credentials_update (\<lambda>m. snd (g m)) s = s\<lparr>as_credentials := snd (g (as_credentials s))\<rparr>" for s :: "'w agent_state"
    by simp
  with drops [of "\<lambda>m. snd (g m)", OF assms] show ?thesis by (simp add: keeps_def smodify_def split_beta)
qed

lemma lookup_kept: "keeps S (credential_lookup ag service i)"
  unfolding credential_lookup_def
  by (intro steps credentials_step) (auto simp: find_held_def dict_pop_def split: option.split)

lemma list_kept: "keeps S (credential_list ag service)"
  unfolding credential_list_def
  by (intro steps credentials_step) (auto simp: list_held_def dict_keep_def Let_def)

lemma delete_held_subset: "set (fold (\<lambda>c. delete_held service (f c)) cs m) \<subseteq> set m"
  by (induction cs arbitrary: m) (fastforce simp: delete_held_def dict_pop_def)+

lemma keep_granted_kept:
  assumes "parse_credential grant_type raw = Inr credential"
  shows "keeps S (keep_granted ag url inspection grant_type raw credential)"
  unfolding keep_granted_def
  by (cases credential) (use assms in \<open>auto intro!: steps saves simp: check_held_credential_def rbind_Ok_iff\<close>)

lemma require_active_kept:
  "at_hand url inspection signer \<Longrightarrow> served url \<Longrightarrow> keeps S (require_active ag url inspection i signer)"
  unfolding require_active_def by (intro steps request_status_kept)

lemma grant_kept: "served url \<Longrightarrow> keeps S (agent_grant ag url options)"
  unfolding agent_grant_def
  by (intro with_context steps key_kept execute_kept require_active_kept keep_granted_kept)

lemma revoke_kept: "served url \<Longrightarrow> keeps S (agent_revoke ag url options)"
  unfolding agent_revoke_def
  by (intro py_bind with_context steps key_kept execute_kept list_kept drops delete_held_subset)

lemma forget_kept: "keeps S (forget_credential ag url i)"
  unfolding forget_credential_def credential_delete_def
  by (intro steps drops) (auto simp: delete_held_def dict_pop_def)

lemma find_kept: "keeps S (find_credential ag service methods options)"
  unfolding find_credential_def by (intro steps lookup_kept list_kept)

lemma assertion_headers_kept: "keeps S (assertion_headers ag url inspection carried target)"
  unfolding assertion_headers_def
  by (rule bind, rule resolve_kept, rule keeps_bind_run [OF trans], rule signer_of_kept, intro steps sign_kept)
    (rule signer_kept)

lemma headers_kept: "keeps S (authentication_headers ag url options)"
  unfolding authentication_headers_def Let_def by (intro steps find_kept assertion_headers_kept)

subsection \<open>Protected resources\<close>

lemma caught_kept: "keeps S p \<Longrightarrow> keeps S (none_on_discovery_failure p)"
  by (auto simp: none_on_discovery_failure_def keeps_def split: prod.split sum.split) (metis snd_conv)+

lemma or_grant_kept:
  assumes "served url" shows "keeps S (headers_or_grant ag url options methods authentication)"
proof -
  have "keeps S (sbind (agent_grant ag url g) (\<lambda>_. authentication_headers ag url authentication))" for g
    by (intro bind grant_kept headers_kept assms)
  moreover note headers_kept [of url authentication]
  ultimately show ?thesis
    unfolding keeps_def headers_or_grant_def
    by (auto split: prod.split sum.split option.split if_splits) (metis snd_conv trans transpD)+
qed

lemma openapi_kept: "keeps S (openapi_methods ag inspection method target)"
proof -
  have "keeps S (openapi_follow ag n url)" for n url
    by (induction n arbitrary: url) (auto intro!: steps inspect_sent)
  then show ?thesis unfolding openapi_methods_def by (intro steps)
qed

end

text \<open>The transport of a fetch is one more collaborator. It gets three kinds of requests: to the origin of the
  request of the caller, without headers, or with the headers an Agent presents to that very URL.\<close>

locale fetch_relation = agent_relation S ag served allowed
  for S :: "'w agent_state \<Rightarrow> 'w agent_state \<Rightarrow> bool" and ag served allowed +
  fixes options :: "'w fetch_options" and may_send :: "http_request \<Rightarrow> bool"
  assumes everywhere: "served url"
    and sent: "may_send r \<Longrightarrow> keeps S (on_aworld (fo_transport options r))"
    and original: "same_origin (rq_url (fo_request options)) (rq_url r) = Inr True \<Longrightarrow> may_send r"
    and anonymous: "rq_headers r = [] \<Longrightarrow> may_send r"
    and presented: "authentication_headers ag url authentication s = (Inr controlled, t)
      \<Longrightarrow> ao_resource authentication = rq_url r \<Longrightarrow> rq_headers r = dict_update [] controlled \<Longrightarrow> may_send r"
begin

lemma discover_kept: "keeps S (discover ag url method target use_openapi)"
  unfolding discover_def by (intro caught_kept steps openapi_kept)

lemma send_kept:
  "may_send ((fo_request options)\<lparr>rq_url := target, rq_headers := headers\<rparr>) \<Longrightarrow> keeps S (send_bounded ag options target headers)"
  unfolding send_bounded_def by (intro steps sent)

abbreviation initial :: string where
  "initial \<equiv> rq_url (fo_request options)"

text \<open>Headers for the first origin may be anything.\<close>

lemma may_send_if:
  assumes "same_origin initial target = Inr first"
    and "\<not> first \<Longrightarrow> headers = [] \<or> (\<exists>url authentication s controlled t.
      authentication_headers ag url authentication s = (Inr controlled, t) \<and> ao_resource authentication = target
      \<and> headers = dict_update [] controlled)"
  shows "may_send ((fo_request options)\<lparr>rq_url := target, rq_headers := headers\<rparr>)"
  using assms by (cases first) (auto intro: original anonymous presented)

lemma challenged_kept: "keeps S (challenged_methods ag url options target methods presented)"
  unfolding challenged_methods_def by (cases presented) (simp, intro steps caught_kept openapi_kept)

lemma anonymous_kept: "keeps S (anonymous_phase ag url options initial target redirects require_challenge methods)"
  unfolding anonymous_phase_def by (rule py_bind, intro steps send_kept challenged_kept may_send_if) auto

lemma headers_or_grant_Ok:
  assumes "headers_or_grant ag url options methods authentication s = (Inr controlled, t)"
  shows "\<exists>s'. authentication_headers ag url authentication s' = (Inr controlled, t)"
  using assms by (auto simp: headers_or_grant_def sbind_Ok split: prod.splits sum.splits if_splits option.splits)

lemma authenticated_kept:
  "keeps S (authenticated_phase ag url options initial target redirects require_challenge policy_used methods)"
proof -
  define authentication where "authentication = \<lparr>ao_resource = target, ao_carrier = fo_carrier options,
    ao_client_assertion_only = False, ao_credential_id = fo_credential_id options,
    ao_grant_type = fo_grant_type options, ao_allowed_methods = Some methods\<rparr>"
  have "keeps S (sbind (py (same_origin initial target)) (\<lambda>first.
      sbind (py (authenticated_headers options controlled first)) (\<lambda>headers.
      sbind (send_bounded ag options target headers) (\<lambda>response.
      sbind (if policy_used then py (challenge response) else sret None) (\<lambda>presented.
      if presented \<noteq> None then sret (Again target redirects require_challenge False)
      else if rs_status response \<notin> set redirect_statuses then sret (Finished response)
      else py (next_round ag response target redirects require_challenge))))))"
    if "headers_or_grant ag url options methods authentication s = (Inr controlled, t)" for s t controlled
    using headers_or_grant_Ok [OF that]
    by (intro steps send_kept may_send_if)
      (auto simp: authenticated_headers_def authentication_def, (metis authentication_options.select_convs(1))+)
  note rest = this [unfolded authentication_def]
  show ?thesis
    unfolding authenticated_phase_def Let_def
    by (rule py_bind, rule keeps_bind_run [OF trans], rule or_grant_kept, rule everywhere, rule rest)
qed

lemma round_kept: "keeps S (fetch_round ag options initial target redirects require_challenge use_openapi)"
proof -
  have step: "keeps S (case outcome of Inl step \<Rightarrow> sret step
      | Inr chosen \<Rightarrow> authenticated_phase ag url options initial target redirects require_challenge b chosen)" for url b outcome
    by (cases outcome) (simp_all add: authenticated_kept basic)
  have new: "keeps S (smodify (as_session_update (\<lambda>_. new_session)) :: ('w agent_state, unit) aprog)"
    by (rule session) (simp add: new_session_def)
  have "keeps S (case methods of
       Some (m # ms) \<Rightarrow>
         if require_challenge
         then sbind (anonymous_phase ag url options initial target redirects require_challenge methods) (\<lambda>outcome.
           case outcome of Inl step \<Rightarrow> sret step
           | Inr chosen \<Rightarrow> authenticated_phase ag url options initial target redirects require_challenge True chosen)
         else authenticated_phase ag url options initial target redirects require_challenge True (m # ms)
     | _ \<Rightarrow>
         sbind (anonymous_phase ag url options initial target redirects require_challenge methods) (\<lambda>outcome.
         case outcome of Inl step \<Rightarrow> sret step
         | Inr chosen \<Rightarrow> authenticated_phase ag url options initial target redirects require_challenge False chosen))" for methods url
    by (auto intro!: bind step anonymous_kept authenticated_kept split: option.split list.split)
  note methods = this
  show ?thesis unfolding fetch_round_def by (intro bind basic new discover_kept methods)
qed

lemma fetch_loop_kept: "keeps S (fetch_loop ag options initial fuel target redirects require_challenge use_openapi)"
proof (induction fuel arbitrary: target redirects require_challenge use_openapi)
  case (Suc fuel)
  have "keeps S (case step of Finished response \<Rightarrow> sret (Some response)
      | Again target' redirects' require_challenge' use_openapi' \<Rightarrow>
          fetch_loop ag options initial fuel target' redirects' require_challenge' use_openapi')" for step
    by (cases step) (simp_all add: Suc basic)
  then show ?case by (auto intro!: keeps_if basic bind round_kept)
qed (simp add: basic)

lemma fetch_kept: "keeps S (fetch_protected_resource ag options)"
  unfolding fetch_protected_resource_def Let_def by (intro steps fetch_loop_kept)

end

end
