(* ===== verification/Agent_Sample.thy ===== *)
theory Agent_Sample
  imports Protected_Resource Evaluation
begin

text \<open>
  A concrete Agent for the instances of the theorems: a fixed clock, a transport that serves the Inspect document
  of one Service, grants a bearer token and answers requests for data, and a signer whose tokens are told apart
  by their operation.
\<close>

definition field_time :: datetime where "field_time = \<lparr>instant = seconds 1000, utcoffset = Some 0\<rparr>"

definition field_document :: inspect_document where
  "field_document = \<lparr>aep_version = ''1.0'', inspect_authentication = Some \<lparr>auth_methods = [''oauth-bearer'', ''aep-jwt'']\<rparr>,
     inspect_bindings = \<lparr>bindings_supported = [''http''], bindings_extra = []\<rparr>, inspect_claims_of = None,
     inspect_commands = \<lparr>commands_supported = [''enroll'', ''grant'', ''inspect'', ''revoke'', ''status''],
       grant_types = Some [''oauth-bearer''], grant_types_config = None, commands_extra = []\<rparr>,
     inspect_core = \<lparr>core_algorithms = [''EdDSA'', ''ES256''], core_extra = []\<rparr>, inspect_extensions = None,
     inspect_http = \<lparr>endpoint_base = Some ''/aep/'', http_openapi = None, http_extra = []\<rparr>,
     inspect_identity = \<lparr>identity_methods = [''did:web''], identity_extra = []\<rparr>,
     inspect_service = \<lparr>service_did = ''did:web:service.example'', service_extra = []\<rparr>,
     service_documents = None, inspect_extra = []\<rparr>"

definition json_response :: "json \<Rightarrow> http_response" where
  "json_response j = \<lparr>rs_status = 200, rs_headers = [(''content-type'', AEP_MEDIA_TYPE), (''cache-control'', ''max-age=60'')],
     rs_body = \<lparr>body_size = 100, body_doc = Inr j\<rparr>\<rparr>"

definition field_did :: string where "field_did = ''did:web:agent.example''"

definition field_identity :: scoped_identity where
  "field_identity = \<lparr>si_agent_did = field_did, si_identity_method = ''did:web'',
     si_service_did = ''did:web:service.example'', si_algorithms = [EdDSA], si_metadata = []\<rparr>"

text \<open>The payload of the token for an operation; the middle part of a token names it.\<close>

definition field_payload :: "assertion_operation \<Rightarrow> members" where
  "field_payload ope = [(''aud'', JStr ''did:web:service.example''), (''exp'', JInt 1300), (''iat'', JInt 1000),
     (''iss'', JStr field_did), (''jti'', JStr ''j1''), (''op'', JStr (operation_value ope))]
     @ (if ope = Op_Authenticate then [(''resource'', JStr ''https://service.example/data'')] else [])
     @ [(''sub'', JStr field_did)]"

definition field_loads :: "string \<Rightarrow> json result" where
  "field_loads b =
     (if b = ''h'' then Ok (JObj [(''alg'', JStr ''EdDSA''), (''typ'', JStr ''JWT''), (''kid'', JStr field_did)])
      else if b = ''p'' then Ok (JObj (field_payload Op_Authenticate))
      else if b = ''q'' then Ok (JObj (field_payload Op_Status))
      else if b = ''r'' then Ok (JObj (field_payload Op_Grant)) else Raise (Value_Error ''not JSON''))"

definition field_token :: "assertion_operation \<Rightarrow> string" where
  "field_token ope = ''aA.'' @ (if ope = Op_Authenticate then ''cA'' else if ope = Op_Status then ''cQ'' else ''cg'') @ ''.c2ln''"

definition field_runtime :: agent_runtime where
  "field_runtime = \<lparr>ar_float_repr = (\<lambda>_. []), ar_loads = field_loads,
     ar_parsedate = (\<lambda>_. Raise (Value_Error ''not a date''))\<rparr>"

definition field_bearer :: json where
  "field_bearer = JObj [(''credential_id'', JStr ''c1''), (''expires_at'', JStr ''1970-01-01T01:00:00Z''),
     (''access_token'', JStr ''secret''), (''token_type'', JStr ''Bearer'')]"

definition field_commands :: "http_request \<Rightarrow> (unit, http_response) aprog" where
  "field_commands r = sret (json_response (
     if rq_method r = ''GET'' then JObj [(''status'', JStr ''active'')] else field_bearer))"

definition field_collaborators :: "unit agent_collaborators" where
  "field_collaborators = \<lparr>ac_clock = sret field_time, ac_command_transport = field_commands,
     ac_inspect_transport = (\<lambda>_. sret (json_response (inspect_document_to_wire field_document))),
     ac_get_or_create = (\<lambda>_. sret field_identity), ac_find_existing = Some (\<lambda>_. sret (Some field_identity)),
     ac_signer_for = (\<lambda>_. sret (Some (\<lambda>claims _. sret (field_token (op claims))))),
     ac_create_key = (\<lambda>_. sret ''k1''), ac_token_hex = sret ''j1'', ac_sleep = (\<lambda>_. sret ())\<rparr>"

definition field_options :: "unit agent_options" where
  "field_options = \<lparr>ao_collaborators = field_collaborators, ao_allow_insecure_loopback = False,
     ao_assertion_lifetime = seconds 300, ao_maximum_response_bytes = 1048576, ao_request_timeout = Some 30\<rparr>"

definition field_agent :: "unit agent" where
  "field_agent = \<lparr>ag_runtime = field_runtime, ag_collaborators = field_collaborators, ag_allow = False,
     ag_lifetime = 300, ag_maximum_bytes = 1048576\<rparr>"

lemma field_time_aware [simp]: "aware field_time"
  by (simp add: field_time_def aware_def)

lemma field_collaborator_runs [simp]:
  "ac_clock field_collaborators w = (Inr field_time, w)"
  "ac_inspect_transport field_collaborators r w = (Inr (json_response (inspect_document_to_wire field_document)), w)"
  "ac_get_or_create field_collaborators q w = (Inr field_identity, w)"
  "ac_create_key field_collaborators k w = (Inr ''k1'', w)"
  "ac_token_hex field_collaborators w = (Inr ''j1'', w)"
  by (simp_all add: field_collaborators_def prog_run)

lemma field_agent_parts [simp]:
  "ag_collaborators field_agent = field_collaborators" "ag_allow field_agent = False"
  "ag_maximum_bytes field_agent = 1048576" "ag_runtime field_agent = field_runtime" "ag_lifetime field_agent = 300"
  by (simp_all add: field_agent_def)

lemma field_made: "make_agent field_runtime field_options () = (Inr field_agent, ())"
  by (simp add: make_agent_def sbind_def require_def validated_time_def field_options_def field_agent_def prog_run
    positive_finite_def seconds_def)

section \<open>The inspection\<close>

definition field_url :: string where "field_url = ''https://service.example/''"
definition field_well_known :: string where "field_well_known = ''https://service.example/.well-known/aep''"

definition field_entry :: inspect_entry where
  "field_entry = \<lparr>ie_cached_at = field_time, ie_document = field_document, ie_final_url = field_well_known,
     ie_cache_control = ''max-age=60'', ie_etag = [], ie_last_modified = [], ie_age = [], ie_date = [], ie_expires = []\<rparr>"

lemma media_aep: "media_type_essence AEP_MEDIA_TYPE = AEP_MEDIA_TYPE"
  by code_simp

lemma field_parsed:
  "parse_json_model (Inr (inspect_document_to_wire field_document)) inspect_document_of_json ''Inspect document''
     = Inr field_document"
  by code_simp

lemma field_bound: "require_service_origin_binding field_document field_well_known False = Inr ()"
  by code_simp

lemma json_response_simps [simp]:
  "rs_status (json_response j) = 200" "body_doc (rs_body (json_response j)) = Inr j"
  "body_size (rs_body (json_response j)) = 100"
  "header_text (rs_headers (json_response j)) ''content-type'' = AEP_MEDIA_TYPE"
  by (simp_all add: json_response_def header_text_def find_header_def)

lemma field_headers:
  "map (header_text (rs_headers (json_response j))) [''cache-control'', ''etag'', ''last-modified'', ''age'', ''date'', ''expires'']
     = [''max-age=60'', [], [], [], [], []]"
proof -
  have "lower ''content-type'' = ''content-type''" "lower ''cache-control'' = ''cache-control''" "lower ''etag'' = ''etag''"
    "lower ''last-modified'' = ''last-modified''" "lower ''age'' = ''age''" "lower ''date'' = ''date''"
    "lower ''expires'' = ''expires''" by code_simp+
  then show ?thesis by (simp add: json_response_def header_text_def find_header_def)
qed

lemma field_answer:
  "inspect_answer field_agent None field_time (json_response (inspect_document_to_wire field_document)) field_well_known
     = Inr field_entry"
  using field_headers
  by (simp add: inspect_answer_def Let_def media_aep field_parsed field_bound bounded_def require_def field_entry_def)

lemma field_urls:
  "urljoin field_url AEP_WELL_KNOWN_PATH = Inr field_well_known"
  "store_entry field_well_known field_entry [] = [(field_well_known, field_entry)]"
  by code_simp+

lemma field_now: "agent_now field_agent s = (Inr field_time, s)"
  by (cases s) (simp add: agent_now_def on_aworld_def validated_time_def sbind_def prog_run)

definition field_inspection :: inspection where
  "field_inspection = inspection_from_cache field_entry field_well_known field_url"

lemma field_inspect_run:
  "inspect field_agent field_url (initial_agent ())
     = (Inr field_inspection, (initial_agent ())\<lparr>as_cache := [(field_well_known, field_entry)]\<rparr>)"
proof -
  have "inspect_loop field_agent None field_time 5 field_well_known s = (Inr field_entry, s)" for s
    by (cases s) (simp add: numeral_eq_Suc sbind_def on_aworld_def redirect_statuses_def prog_run field_answer)
  then show ?thesis
    using field_urls
    by (simp add: inspect_def sbind_def prog_run field_now usable_entry_def find_inspect_def initial_agent_def
      field_inspection_def)
qed

end
