(* ===== verification/Agent_Invariant.thy ===== *)
theory Agent_Invariant
  imports Agent_Frames Agent_Sample
begin

text \<open>
  The invariant of an Agent's memory, kept by every operation of its sessions and by a fetch, and what the commands
  of a session send.
\<close>

section \<open>The memory of an Agent\<close>

definition identity_ok :: "scoped_identity \<Rightarrow> bool" where
  "identity_ok i = (starts_with (si_agent_did i) ''did:'' \<and> si_algorithms i \<noteq> []
     \<and> (si_identity_method i = ''did:web'' \<longrightarrow> starts_with (si_agent_did i) ''did:web:''))"

text \<open>The metadata of a held credential is that of its payload.\<close>

definition payload_matches :: "held_credential \<Rightarrow> bool" where
  "payload_matches c =
     (case parse_credential (hc_grant_type c) (hc_payload c) of
        Inr (Some b) \<Rightarrow> built_in_id b = hc_credential_id c
          \<and> (case parse_rfc3339 (built_in_expires_at b) of
               Inr expires \<Rightarrow> instant expires = instant (hc_expires_at c) | Inl _ \<Rightarrow> False)
      | _ \<Rightarrow> False)"

definition agent_ok :: "'w agent_state \<Rightarrow> bool" where
  "agent_ok s =
     (list_all (\<lambda>(did, i). si_service_did i = did \<and> identity_ok i) (as_identities s)
      \<and> list_all (\<lambda>(k, c). k = (hc_service_did c, hc_credential_id c) \<and> payload_matches c) (as_credentials s)
      \<and> (case ss_identity (as_session s) of None \<Rightarrow> True | Some i \<Rightarrow> identity_ok i))"

lemma validate_identity_Ok: "validate_identity i inspection = Inr () \<Longrightarrow> identity_ok i"
  by (auto simp: validate_identity_def identity_ok_def rbind_Ok_iff)

definition memory_kept :: "'w agent_state \<Rightarrow> 'w agent_state \<Rightarrow> bool" where
  "memory_kept s t = (agent_ok s \<longrightarrow> agent_ok t)"

lemma memory_order: "reflp memory_kept" "transp memory_kept"
  by (auto simp: memory_kept_def reflp_def transp_def)

text \<open>What agent_ok looks at.\<close>

abbreviation memory :: "'w agent_state \<Rightarrow> identity_memory \<times> credential_memory \<times> session" where
  "memory s \<equiv> (as_identities s, as_credentials s, as_session s)"

lemma memory_unchanged: "keeps (unchanged memory) p \<Longrightarrow> keeps memory_kept p"
  by (simp add: keeps_def unchanged_def memory_kept_def agent_ok_def)

lemma on_aworld_memory: "keeps (unchanged memory) (on_aworld p)"
  by (simp add: keeps_def unchanged_def on_aworld_def split: prod.split)

lemma cache_memory: "keeps (unchanged memory) (smodify (as_cache_update f))"
  by (simp add: keeps_def unchanged_def smodify_def)

lemma remember_memory:
  assumes "validate_identity i inspection = Inr ()" shows "keeps memory_kept (remember_identity i)"
  using validate_identity_Ok [OF assms] set_dict_set [of "si_service_did i" i]
  by (fastforce simp: keeps_def memory_kept_def remember_identity_def smodify_def agent_ok_def save_identity_def list_all_iff)

lemma saved_memory:
  assumes "parse_credential (hc_grant_type held) (hc_payload held) = Inr (Some b)" "built_in_id b = hc_credential_id held"
    and "parse_rfc3339 (built_in_expires_at b) = Inr (hc_expires_at held)"
  shows "keeps memory_kept (credential_save (ag :: 'w agent) held)"
proof -
  have matches: "payload_matches held" using assms by (simp add: payload_matches_def)
  have "agent_ok (s\<lparr>as_credentials := saved\<rparr>)"
    if "agent_ok s" and "save_held held now (as_credentials s) = Inr saved" for s :: "'w agent_state" and saved now
    using that matches set_dict_set [of "(hc_service_did held, hc_credential_id held)" held "as_credentials s"]
    by (auto simp: agent_ok_def list_all_iff save_held_def rbind_Ok_iff)
  note stored = this
  have "keeps memory_kept (sbind (sget as_credentials) (\<lambda>records. sbind (py (save_held held now records)) (\<lambda>saved.
      smodify (as_credentials_update (\<lambda>_. saved)) :: ('w agent_state, unit) aprog)))" for now
    unfolding keeps_def
  proof
    fix s :: "'w agent_state"
    show "memory_kept s (snd (sbind (sget as_credentials) (\<lambda>records. sbind (py (save_held held now records)) (\<lambda>saved.
      smodify (as_credentials_update (\<lambda>_. saved)) :: ('w agent_state, unit) aprog)) s))"
    proof (cases "save_held held now (as_credentials s)")
      case (Inr saved)
      then show ?thesis using stored [of s now saved] by (simp add: memory_kept_def sbind_def sget_def smodify_def)
    qed (simp add: memory_kept_def sbind_def sget_def)
  qed
  note rest = this
  show ?thesis
    unfolding credential_save_def agent_now_def
    by (rule keeps_bind [OF memory_order(2)], rule memory_unchanged, rule on_aworld_memory, rule rest)
qed

lemma session_memory:
  assumes "\<And>v. ss_identity (g v) \<in> {None, ss_identity v}
      \<or> (\<exists>i inspection. ss_identity (g v) = Some i \<and> validate_identity i inspection = Inr ())"
  shows "keeps memory_kept (smodify (as_session_update g) :: ('w agent_state, unit) aprog)"
proof -
  have "agent_ok (as_session_update g s)" if "agent_ok s" for s :: "'w agent_state"
    using that assms [of "as_session s"]
    by (auto simp: agent_ok_def dest: validate_identity_Ok split: option.splits)
  then show ?thesis by (simp add: keeps_def smodify_def memory_kept_def)
qed

lemma dropped_memory: "(\<And>m. set (h m) \<subseteq> set m) \<Longrightarrow> keeps memory_kept (smodify (as_credentials_update h))"
  by (fastforce simp: keeps_def smodify_def memory_kept_def agent_ok_def list_all_iff)

interpretation memory: fetch_relation memory_kept ag "\<lambda>_. True" "\<lambda>_. True" options "\<lambda>_. True"
  for ag :: "'w agent" and options :: "'w fetch_options"
  by unfold_locales
    (simp_all add: memory_order agent_now_def remember_memory saved_memory session_memory dropped_memory
      cache_memory on_aworld_memory memory_unchanged)

text \<open>C30 The memory of an Agent stays consistent under every operation, also one that fails half-way: identities are kept
  under the DID of their Service and are well-formed, a credential is kept under the Service and the ID it carries, its ID
  and expiry are those of its payload, and the identity of the session is well-formed.\<close>

theorem agent_memory_invariant:
  assumes "agent_ok s"
  shows "agent_ok (snd (agent_enroll ag url enroll s)) \<and> agent_ok (snd (agent_status_command ag url s))
    \<and> agent_ok (snd (wait_for_active ag url wait s)) \<and> agent_ok (snd (agent_grant ag url grant s))
    \<and> agent_ok (snd (agent_revoke ag url revoke s)) \<and> agent_ok (snd (authentication_headers ag url present s))
    \<and> agent_ok (snd (forget_credential ag url cid s)) \<and> agent_ok (snd (fetch_protected_resource ag options s))"
  using assms memory.enroll_kept [where ag = ag and url = url] memory.status_kept [where ag = ag and url = url]
    memory.wait_kept [where ag = ag and url = url] memory.grant_kept [where ag = ag and url = url]
    memory.revoke_kept [where ag = ag and url = url] memory.headers_kept [where ag = ag and url = url]
    memory.forget_kept [where ag = ag and url = url] memory.fetch_kept [where ag = ag and options = options]
  by (simp add: keeps_def memory_kept_def)

lemma agent_memory_invariant_witness:
  "agent_ok (initial_agent ()) \<and> agent_ok (snd (agent_grant field_agent field_url default_grant_options (initial_agent ())))"
proof -
  have start: "agent_ok (initial_agent ())" by (simp add: agent_ok_def initial_agent_def new_session_def)
  with agent_memory_invariant [OF start, where ag = field_agent and url = field_url and grant = default_grant_options]
  show ?thesis by blast
qed

end
