(* ===== verification/Agent_Challenge.thy ===== *)
theory Agent_Challenge
  imports Protected_Resource Service
begin

text \<open>
  The challenge that a Service answers a request to a protected resource with, as an Agent reads it: the parameters
  of a quoted list are found one by one, and the two ends agree on the Service DID and the Inspect URL.
\<close>

definition quotable :: "string \<Rightarrow> bool" where
  "quotable v = list_all (\<lambda>c. ord c \<notin> {34, 92}) v"

abbreviation quoted :: "string \<Rightarrow> string \<Rightarrow> string" where
  "quoted name v \<equiv> name @ ''='' @ [char_of (34 :: nat)] @ v @ [char_of (34 :: nat)]"

lemma strip_id: "s \<noteq> [] \<Longrightarrow> \<not> is_space (hd s) \<Longrightarrow> \<not> is_space (last s) \<Longrightarrow> strip s = s"
proof -
  assume s: "s \<noteq> []" "\<not> is_space (hd s)" "\<not> is_space (last s)"
  then have "dropWhile is_space s = s" by (cases s) auto
  moreover have "dropWhile is_space (rev s) = rev s" using s by (cases s rule: rev_cases) auto
  ultimately show ?thesis by (simp add: strip_def strip_by_def)
qed

lemma challenge_chars:
  "is_parameter_char CHR ''_''"
  "is_parameter_char CHR ''a''"
  "is_parameter_char CHR ''c''"
  "is_parameter_char CHR ''d''"
  "is_parameter_char CHR ''e''"
  "is_parameter_char CHR ''i''"
  "is_parameter_char CHR ''n''"
  "is_parameter_char CHR ''o''"
  "is_parameter_char CHR ''p''"
  "is_parameter_char CHR ''r''"
  "is_parameter_char CHR ''s''"
  "is_parameter_char CHR ''t''"
  "is_parameter_char CHR ''v''"
  "\<not> is_parameter_char CHR ''=''" "\<not> is_blank CHR ''=''" "\<not> is_blank (char_of (34 :: nat))" "is_blank CHR '' ''"
  "\<not> is_space CHR ''i''" "\<not> is_space CHR ''r''" "\<not> is_space CHR ''s''" "\<not> is_space CHR '',''" "is_space CHR '' ''"
  "\<not> is_space (char_of (34 :: nat))"
  by code_simp+

lemma challenge_names:
  "lower ''service_did'' = ''service_did''" "lower ''inspect'' = ''inspect''" "lower ''reason'' = ''reason''"
  "lower ''WWW-Authenticate'' = ''www-authenticate''" "lower ''AEP'' = ''aep''"
  by code_simp+

lemma match_quoted:
  assumes "name \<noteq> []" and "list_all is_parameter_char name" and "quotable v"
  shows "match_parameter (quoted name v @ rest) = Some (name, v, rest)"
proof -
  have n: "takeWhile is_parameter_char (name @ CHR ''='' # w) = name"
    "dropWhile is_parameter_char (name @ CHR ''='' # w) = CHR ''='' # w" for w
    using assms(2) challenge_chars by (induction name) auto
  have v: "takeWhile (\<lambda>c. ord c \<notin> {34, 92}) (v @ char_of (34 :: nat) # rest) = v"
    "dropWhile (\<lambda>c. ord c \<notin> {34, 92}) (v @ char_of (34 :: nat) # rest) = char_of (34 :: nat) # rest"
    using assms(3) unfolding quotable_def by (induction v) auto
  have "match_parameter (name @ CHR ''='' # char_of (34 :: nat) # v @ char_of (34 :: nat) # rest) = Some (name, v, rest)"
    unfolding match_parameter_def Let_def n
    using assms(1) by (simp add: v [simplified] starts_with_single challenge_chars)
  then show ?thesis by simp
qed

text \<open>One parameter, the last one or followed by a comma.\<close>

lemma challenge_last:
  assumes "name \<noteq> []" and "list_all is_parameter_char name" and "quotable v" and "\<not> dict_has (lower name) acc"
  shows "challenge_parameters acc (quoted name v) = Some (dict_set (lower name) v acc)"
  using match_quoted [OF assms(1-3), of "[]"] assms(4) assms(1)
  by (subst challenge_parameters.simps) (simp add: Let_def strip_def strip_by_def)

lemma challenge_more:
  assumes "name \<noteq> []" and "list_all is_parameter_char name" and "quotable v" and "\<not> dict_has (lower name) acc"
    and "s \<noteq> []" and "\<not> is_space (hd s)" and "\<not> is_space (last s)"
  shows "challenge_parameters acc (quoted name v @ '','' @ s) = challenge_parameters (dict_set (lower name) v acc) s"
proof -
  have "strip ('','' @ s) = '','' @ s" "strip s = s"
    using assms(5-7) by (auto intro!: strip_id simp: challenge_chars)
  then show ?thesis
    using match_quoted [OF assms(1-3), of "'','' @ s"] assms(1,4,5)
    by (subst challenge_parameters.simps) (simp add: Let_def)
qed

lemma three_parameters:
  assumes "quotable d" and "quotable i" and "quotable c"
  shows "challenge_parameters [] (quoted ''service_did'' d @ '','' @ quoted ''inspect'' i @ '','' @ quoted ''reason'' c)
    = Some [(''service_did'', d), (''inspect'', i), (''reason'', c)]"
proof -
  have "challenge_parameters [] (quoted ''service_did'' d @ '','' @ (quoted ''inspect'' i @ '','' @ quoted ''reason'' c))
    = challenge_parameters [(''service_did'', d)] (quoted ''inspect'' i @ '','' @ quoted ''reason'' c)"
    by (subst challenge_more) (simp_all add: assms challenge_names challenge_chars dict_has_def)
  also have "\<dots> = challenge_parameters [(''service_did'', d), (''inspect'', i)] (quoted ''reason'' c)"
    by (subst challenge_more) (simp_all add: assms challenge_names challenge_chars dict_has_def)
  also have "\<dots> = Some [(''service_did'', d), (''inspect'', i), (''reason'', c)]"
    by (subst challenge_last) (simp_all add: assms challenge_names challenge_chars dict_has_def)
  finally show ?thesis .
qed

text \<open>The Inspect URL that the Service names: the configured one, or the well-known URL of the resource's origin.\<close>

definition challenge_inspect :: "'w service \<Rightarrow> string \<Rightarrow> string result" where
  "challenge_inspect sv target = (case sc_inspect_url sv of
     Some u \<Rightarrow> Ok u | None \<Rightarrow> rbind (origin_of target) (\<lambda>o'. Ok (o' @ ''/.well-known/aep'')))"

lemma challenge_problem_Ok:
  assumes "protected_problem sv code target = Inr r"
  obtains u result where "challenge_inspect sv target = Inr u"
    "pa_response r = Some result"
    "res_headers result = [(''WWW-Authenticate'', ''AEP '' @ quoted ''service_did'' (service_did (inspect_service (sc_document sv)))
       @ '','' @ quoted ''inspect'' u @ '','' @ quoted ''reason'' code)]"
  using assms by (auto simp: protected_problem_def challenge_inspect_def Let_def rbind_Ok_iff)

text \<open>C36 A Service and an Agent agree on the challenge: from the response with which a Service refuses a request to a
  protected resource the Agent reads back exactly the Service's DID and its Inspect URL, whatever the reason code, as long
  as the three texts hold neither a quote nor a backslash.\<close>

theorem challenge_round_trip:
  assumes "protected_problem sv code target = Inr r" and "pa_response r = Some result"
    and "challenge_inspect sv target = Inr u" and "service_did (inspect_service (sc_document sv)) \<noteq> []" and "u \<noteq> []"
    and "quotable (service_did (inspect_service (sc_document sv)))" and "quotable u" and "quotable code"
  shows "challenge \<lparr>rs_status = 401, rs_headers = res_headers result, rs_body = b\<rparr>
    = Inr (Some (service_did (inspect_service (sc_document sv)), u))"
proof -
  define did where "did = service_did (inspect_service (sc_document sv))"
  define ps where "ps = quoted ''service_did'' did @ '','' @ quoted ''inspect'' u @ '','' @ quoted ''reason'' code"
  have h: "res_headers result = [(''WWW-Authenticate'', ''AEP '' @ ps)]"
    using challenge_problem_Ok [OF assms(1)] assms(2,3) by (metis did_def ps_def option.inject sum.inject(2))
  have "strip (CHR '' '' # ps) = ps"
  proof -
    have "\<not> is_space (last ps)" "\<not> is_space (hd ps)" "ps \<noteq> []" by (simp_all add: ps_def challenge_chars)
    moreover have "strip (CHR '' '' # ps) = strip ps" by (simp add: strip_def strip_by_def challenge_chars)
    ultimately show ?thesis by (simp add: strip_id)
  qed
  moreover have "challenge_parameters [] ps = Some [(''service_did'', did), (''inspect'', u), (''reason'', code)]"
    using three_parameters assms(6-8) unfolding ps_def did_def by blast
  ultimately show ?thesis
    using assms(4,5) by (simp add: challenge_def single_header_def h did_def [symmetric] challenge_names challenge_chars)
qed

end
