(* ===== verification/Agent_Results.thy ===== *)
theory Agent_Results
  imports Agent_Invariant Agent_Challenge Service_Sample
begin

text \<open>
  What an Agent sends, and where: the requests of an inspection, of a command and of a fetch. The collaborators keep a
  relation on their state, the transports only on the requests allowed; every run then keeps it.
\<close>

section \<open>Relations of the collaborators\<close>

definition quiet :: "('w \<Rightarrow> 'w \<Rightarrow> bool) \<Rightarrow> 'w agent \<Rightarrow> bool" where
  "quiet R ag = (let c = ag_collaborators ag in
     reflp R \<and> transp R \<and> keeps R (ac_clock c) \<and> (\<forall>q. keeps R (ac_inspect_transport c q)) \<and> keeps R (ac_token_hex c)
     \<and> (\<forall>d. keeps R (ac_sleep c d)) \<and> (\<forall>q. keeps R (ac_get_or_create c q))
     \<and> (\<forall>f did. ac_find_existing c = Some f \<longrightarrow> keeps R (f did)) \<and> (\<forall>i. keeps R (ac_signer_for c i))
     \<and> (\<forall>i w f w' claims algs. ac_signer_for c i w = (Inr (Some f), w') \<longrightarrow> keeps R (f claims algs))
     \<and> (\<forall>k. keeps R (ac_create_key c k)))"

lemma quiet_relation:
  assumes "quiet R ag" and "\<And>q. allowed q \<Longrightarrow> keeps R (ac_command_transport (ag_collaborators ag) q)"
    and "\<And>url s inspection t cmd q. served url \<Longrightarrow> inspect ag url s = (Inr inspection, t)
      \<Longrightarrow> rbind (command_path_from_inspect (in_document inspection) cmd) (urljoin url) = Inr (rq_url q) \<Longrightarrow> allowed q"
  shows "agent_relation (world_kept R) ag served allowed"
proof -
  note q = assms(1) [unfolded quiet_def Let_def]
  have order: "reflp R" "transp R" using q by simp_all
  have now: "keeps (world_kept R) (agent_now ag)"
    unfolding agent_now_def validated_time_def
    by (intro keeps_on_aworld keeps_bind [OF order(2)]) (use q in auto)
  have "keeps (world_kept R) (credential_save ag held)" for held
    unfolding credential_save_def
    by (intro keeps_bind [OF world_kept_order(2) [OF order(2)]] now)
      (use order in \<open>auto intro: keeps_state_only\<close>)
  have signer: "keeps R (f claims algs)"
    if "ac_signer_for (ag_collaborators ag) i w = (Inr (Some f), w')" for i w f w' claims algs
    using q that by blast
  note saves = \<open>\<And>held. keeps (world_kept R) (credential_save ag held)\<close>
  show ?thesis
    using q now saves
    by unfold_locales
      (auto intro!: keeps_on_aworld keeps_state_only simp: remember_identity_def intro: assms(2,3) signer)
qed

section \<open>Inspections\<close>

lemma inspection_bound_witness:
  "urljoin field_url AEP_WELL_KNOWN_PATH = Inr (in_inspect_url field_inspection)
    \<and> require_service_origin_binding (in_document field_inspection) (in_final_url field_inspection) (ag_allow field_agent) = Inr ()
    \<and> same_origin (in_inspect_url field_inspection) (in_final_url field_inspection) = Inr True"
  by (rule inspection_bound [OF field_inspect_run])

text \<open>C32 An inspection sends at most six requests, and every one of them goes to the well-known URL of the session or to a
  URL of the same origin, whatever the answers redirect to and whatever URL the cache holds: a measure of the transport
  that such requests raise by one at most rises by six at most, though any other request may raise it without limit.\<close>

theorem inspect_requests_bounded:
  fixes f :: "'w \<Rightarrow> nat"
  assumes "urljoin url AEP_WELL_KNOWN_PATH = Inr inspect_url"
    and "\<And>q w. rq_url q = inspect_url \<or> same_origin inspect_url (rq_url q) = Inr True \<Longrightarrow>
      f (snd (ac_inspect_transport (ag_collaborators ag) q w)) \<le> f w + 1"
    and "\<And>w. f (snd (ac_clock (ag_collaborators ag) w)) \<le> f w"
  shows "f (as_world (snd (inspect ag url s))) \<le> f (as_world s) + 6"
proof -
  have "grows f 6 (inspect ag url)" by (rule grows_inspect) (fact assms)+
  then show ?thesis by (simp add: grows_def)
qed

text \<open>Transports that note what they are sent in the state \<open>'w\<close>; every inspection is redirected to the same place.\<close>

definition noting_agent :: "(http_request \<Rightarrow> 'w \<Rightarrow> 'w) \<Rightarrow> (http_request \<Rightarrow> 'w \<Rightarrow> 'w) \<Rightarrow> 'w agent" where
  "noting_agent inspected commanded = \<lparr>ag_runtime = field_runtime, ag_collaborators = \<lparr>ac_clock = sret field_time,
     ac_command_transport = (\<lambda>q w. (Inr (json_response (JObj [(''status'', JStr ''active'')])), commanded q w)),
     ac_inspect_transport = (\<lambda>q w. (Inr \<lparr>rs_status = 302, rs_headers = [(''Location'', rq_url q)],
       rs_body = \<lparr>body_size = 0, body_doc = not_json\<rparr>\<rparr>, inspected q w)),
     ac_get_or_create = (\<lambda>_. sret field_identity), ac_find_existing = None,
     ac_signer_for = (\<lambda>_. sret (Some (\<lambda>claims _. sret (field_token (op claims))))),
     ac_create_key = (\<lambda>_. sret ''k1''), ac_token_hex = sret ''j1'', ac_sleep = (\<lambda>_. sret ())\<rparr>,
     ag_allow = False, ag_lifetime = 300, ag_maximum_bytes = 1048576\<rparr>"

lemma noting_allow [simp]: "ag_allow (noting_agent f g) = False"
  by (simp add: noting_agent_def)

lemma noting_quiet: "reflp R \<Longrightarrow> transp R \<Longrightarrow> (\<And>q w. R w (f q w)) \<Longrightarrow> quiet R (noting_agent f g)"
  by (auto simp: quiet_def noting_agent_def keeps_def sret_def reflp_def)

lemma inspect_requests_bounded_witness:
  "as_world (snd (inspect (noting_agent (\<lambda>_. Suc) (\<lambda>_ n. n)) field_url (initial_agent 0))) \<le> 6"
proof -
  have "id (as_world (snd (inspect (noting_agent (\<lambda>_. Suc) (\<lambda>_ n. n)) field_url (initial_agent 0)))) \<le> id (as_world (initial_agent (0 :: nat))) + 6"
    by (rule inspect_requests_bounded [OF field_urls(1)]) (simp_all add: noting_agent_def sret_def)
  then show ?thesis by (simp add: initial_agent_def)
qed

section \<open>Commands\<close>

lemma command_path_parts:
  assumes "command_path c base = Inr p" and "kept_chars base"
  shows "is_endpoint_path p \<and> kept_chars p \<and> split_params p = (p, [])"
proof -
  from assms(1) obtain b where b: "normalize_endpoint_base base = Inr b" and p: "p = b @ command_value c"
    by (auto simp: command_path_def rbind_Ok_iff)
  note e = normalize_endpoint_base_path [OF b]
  then obtain a where a: "b = a @ ''/''"
    unfolding ends_with_def starts_with_iff by (metis rev.simps rev_append rev_rev_ident append.simps)
  have "is_endpoint_path p" unfolding p using e by (intro is_endpoint_path_append) (cases c; simp)+
  moreover have "kept_chars b" using b assms(2) by (auto simp: normalize_endpoint_base_Ok kept_chars_def split: if_splits)
  then have "kept_chars p" unfolding p by (cases c) (simp_all add: kept_chars_def)
  moreover have "split_params p = (p, [])"
  proof -
    have "rpartition_at CHR ''/'' (a @ ''/'' @ command_value c) = (a, True, command_value c)"
      by (cases c) (simp_all add: rpartition_at_def)
    moreover have "partition_at CHR '';'' (command_value c) = (command_value c, False, [])" by (cases c) simp_all
    ultimately show ?thesis by (simp add: split_params_def p a)
  qed
  ultimately show ?thesis by simp
qed

lemma command_target_origin:
  assumes "service_url reference allow = Inr url" and "command_path c base = Inr p" and "kept_chars base"
    and "urljoin url p = Inr target"
  shows "url_origin target = url_origin url"
proof -
  obtain s n where r: "root_url s n url" using service_url_root [OF assms(1)] by blast
  note p = command_path_parts [OF assms(2,3)]
  then have "target = s @ ''://'' @ n @ p" using urljoin_endpoint [OF r] assms(4) by auto
  moreover have "CHR ''?'' \<notin> set p" "CHR ''#'' \<notin> set p" "starts_with p ''/''"
    using p by (auto simp: is_endpoint_path_def split: if_splits)
  ultimately show ?thesis using url_origin_below [OF r] p by simp
qed

text \<open>The endpoint base of a document, with the default.\<close>

abbreviation document_base :: "inspect_document \<Rightarrow> string" where
  "document_base d \<equiv> or_default (endpoint_base (inspect_http d)) DEFAULT_HTTP_ENDPOINT_BASE"

text \<open>C28 A command stays on the origin of its session. When the endpoint base of the inspected document holds no tab, line
  feed or carriage return, the command transport is only ever given URLs with the origin of the session's URL, also in
  runs that fail: so a relation that the other collaborators keep, and the transport keeps on such URLs, is kept.\<close>

theorem commands_stay_on_origin:
  assumes "service_url reference (ag_allow ag) = Inr url" and "kept_chars (document_base (in_document inspection))"
    and "quiet R ag" and "\<And>claims algs. keeps R (signer claims algs)"
    and "\<And>q. url_origin (rq_url q) = url_origin url \<Longrightarrow> keeps R (ac_command_transport (ag_collaborators ag) q)"
  shows "R (as_world s) (as_world (snd (execute ag url inspection i signer c method data key parser s)))"
proof -
  have "agent_relation (world_kept R) ag (\<lambda>_. False) (\<lambda>q. url_origin (rq_url q) = url_origin url)"
    by (rule quiet_relation [OF assms(3,5)]) simp_all
  then have "keeps (world_kept R) (execute ag url inspection i signer c method data key parser)"
    by (rule agent_relation.execute_sends)
      (auto simp: command_path_from_inspect_def rbind_Ok_iff intro: keeps_on_aworld assms(4) dest: command_target_origin [OF assms(1) _ assms(2)])
  then show ?thesis by (simp add: keeps_def world_kept_def)
qed

text \<open>A list that holds only allowed entries goes on doing so.\<close>

definition only :: "('a \<Rightarrow> bool) \<Rightarrow> 'a list \<Rightarrow> 'a list \<Rightarrow> bool" where
  "only P v w = (list_all P v \<longrightarrow> list_all P w)"

lemma only_order [simp]: "reflp (only P)" "transp (only P)"
  by (auto simp: only_def reflp_def transp_def)

lemma keeps_only: "P (g q) \<Longrightarrow> keeps (only P) (\<lambda>w. (r, w @ [g q]))"
  by (simp add: keeps_def only_def)

lemma field_service_url: "service_url ''service.example'' False = Inr field_url"
  by code_simp

lemma field_base: "kept_chars (document_base (in_document field_inspection))"
  by (simp add: field_inspection_def field_entry_def field_document_def kept_chars_def or_default_def)

lemma commands_stay_on_origin_witness:
  "list_all (\<lambda>u. url_origin u = url_origin field_url) (as_world (snd (execute
     (noting_agent (\<lambda>_ w. w) (\<lambda>q w. w @ [rq_url q])) field_url field_inspection field_identity
     (\<lambda>claims _. sret (field_token (op claims))) Cmd_Status ''GET'' None None parse_status_response (initial_agent []))))"
proof -
  let ?P = "\<lambda>u. url_origin u = url_origin field_url" and ?ag = "noting_agent (\<lambda>_ w. w) (\<lambda>q w. w @ [rq_url q])"
  have "only ?P (as_world (initial_agent [])) (as_world (snd (execute ?ag field_url field_inspection field_identity
      (\<lambda>claims _. sret (field_token (op claims))) Cmd_Status ''GET'' None None parse_status_response (initial_agent []))))"
  proof (rule commands_stay_on_origin [OF _ field_base])
    show "service_url ''service.example'' (ag_allow ?ag) = Inr field_url" using field_service_url by simp
    show "quiet (only ?P) ?ag" by (rule noting_quiet) (simp_all add: only_def)
    show "keeps (only ?P) (ac_command_transport (ag_collaborators ?ag) q)" if "url_origin (rq_url q) = url_origin field_url" for q
      using keeps_only [of ?P rq_url q] that by (simp add: noting_agent_def)
  qed simp
  then show ?thesis by (simp add: only_def initial_agent_def)
qed




section \<open>Challenges\<close>

lemma plain_challenge_made:
  "case protected_problem plain_service ''authentication_required'' ''https://service.example/data'' of
     Inr r \<Rightarrow> (case pa_response r of Some _ \<Rightarrow> True | None \<Rightarrow> False) | Inl _ \<Rightarrow> False"
  by code_simp

lemma plain_challenge_inspect:
  "challenge_inspect plain_service ''https://service.example/data'' = Inr ''https://service.example/.well-known/aep''"
  by code_simp

lemma challenge_round_trip_witness:
  "\<exists>r result. protected_problem plain_service ''authentication_required'' ''https://service.example/data'' = Inr r
    \<and> pa_response r = Some result
    \<and> challenge \<lparr>rs_status = 401, rs_headers = res_headers result, rs_body = \<lparr>body_size = 0, body_doc = not_json\<rparr>\<rparr>
      = Inr (Some (''did:web:service.example'', ''https://service.example/.well-known/aep''))"
proof -
  obtain r result where r: "protected_problem plain_service ''authentication_required'' ''https://service.example/data'' = Inr r"
    "pa_response r = Some result"
    using plain_challenge_made by (auto split: sum.splits option.splits)
  have d: "service_did (inspect_service (sc_document plain_service)) = ''did:web:service.example''" by code_simp
  have q: "quotable ''did:web:service.example''" "quotable ''https://service.example/.well-known/aep''"
    "quotable ''authentication_required''" by code_simp+
  from challenge_round_trip [OF r plain_challenge_inspect] show ?thesis using r d q by auto
qed

section \<open>Fetches\<close>

text \<open>What a fetch may send: anything to the origin of the caller's request, elsewhere only requests without headers
  or with just the headers that the Agent presents to that very URL.\<close>

definition presentable :: "'w agent \<Rightarrow> 'w fetch_options \<Rightarrow> http_request \<Rightarrow> bool" where
  "presentable ag options q = (same_origin (rq_url (fo_request options)) (rq_url q) = Inr True \<or> rq_headers q = []
     \<or> (\<exists>url authentication s controlled t. authentication_headers ag url authentication s = (Inr controlled, t)
          \<and> ao_resource authentication = rq_url q \<and> rq_headers q = dict_update [] controlled))"

text \<open>C29 No header that the caller supplied crosses origins: every request of a fetch goes to the origin of the caller's
  request, or has no header at all, or has only the headers that \<open>authentication_headers\<close> made for its own URL. This
  covers the additional authentication headers, every redirect and every retry after a challenge.\<close>

theorem fetch_keeps_headers_home:
  assumes "quiet R ag" and "\<And>q. keeps R (ac_command_transport (ag_collaborators ag) q)"
    and "\<And>q. presentable ag options q \<Longrightarrow> keeps R (fo_transport options q)"
  shows "R (as_world s) (as_world (snd (fetch_protected_resource ag options s)))"
proof -
  have "agent_relation (world_kept R) ag (\<lambda>_. True) (\<lambda>_. True)"
    by (rule quiet_relation [OF assms(1,2)]) simp_all
  then have "fetch_relation (world_kept R) ag (\<lambda>_. True) (\<lambda>_. True) options (presentable ag options)"
  proof (rule fetch_relation.intro)
    show "fetch_relation_axioms (world_kept R) ag (\<lambda>_. True) options (presentable ag options)"
    proof (unfold_locales, goal_cases)
      case (2 r) then show ?case by (intro keeps_on_aworld assms(3))
    next
      case (5 url authentication s controlled t r) then show ?case unfolding presentable_def by blast
    qed (simp_all add: presentable_def)
  qed
  then have "keeps (world_kept R) (fetch_protected_resource ag options)" by (rule fetch_relation.fetch_kept)
  then show ?thesis by (simp add: keeps_def world_kept_def)
qed

definition noting_options :: "http_request list fetch_options" where
  "noting_options = \<lparr>fo_request = \<lparr>rq_method = ''GET'', rq_url = ''https://service.example/data'',
     rq_headers = [(''X-Api-Key'', ''secret''), (''Accept'', ''text/plain'')], rq_body = None\<rparr>,
     fo_carrier = ''Authorization'', fo_credential_id = None, fo_grant_type = None, fo_additional = [],
     fo_transport = (\<lambda>q w. (Inr (json_response JNull), w @ [q])), fo_max_redirects = 5, fo_timeout = Some 30\<rparr>"

lemma fetch_keeps_headers_home_witness:
  "list_all (presentable (noting_agent (\<lambda>_ w. w) (\<lambda>_ w. w)) noting_options)
     (as_world (snd (fetch_protected_resource (noting_agent (\<lambda>_ w. w) (\<lambda>_ w. w)) noting_options (initial_agent []))))"
proof -
  let ?ag = "noting_agent (\<lambda>_ w. w) (\<lambda>_ w. w) :: http_request list agent"
  let ?P = "presentable ?ag noting_options"
  have "only ?P (as_world (initial_agent [])) (as_world (snd (fetch_protected_resource ?ag noting_options (initial_agent []))))"
  proof (rule fetch_keeps_headers_home)
    show "quiet (only ?P) ?ag" by (rule noting_quiet) (simp_all add: only_def)
    show "keeps (only ?P) (ac_command_transport (ag_collaborators ?ag) q)" for q
      by (simp add: noting_agent_def keeps_def only_def)
    show "keeps (only ?P) (fo_transport noting_options q)" if "?P q" for q
      using keeps_only [of ?P "\<lambda>q. q" q] that by (simp add: noting_options_def)
  qed
  then show ?thesis by (simp add: only_def initial_agent_def)
qed

subsection \<open>Termination\<close>

text \<open>How many rounds may be left: two for every redirect still allowed, one more while OpenAPI may be used.\<close>

definition rounds_left :: "'w fetch_options \<Rightarrow> nat \<Rightarrow> bool \<Rightarrow> nat" where
  "rounds_left options redirects use_openapi = 2 * (Suc (nat (fo_max_redirects options)) - redirects) + (if use_openapi then 1 else 0)"

lemma next_round_Ok:
  assumes "next_round ag response target redirects require_challenge = Inr (Again target' redirects' b use_openapi)"
  shows "redirects' = Suc redirects \<and> use_openapi"
  using assms by (auto simp: next_round_def rbind_Ok_iff)

lemma next_round_step: "next_round ag response target redirects require_challenge = Inr step \<Longrightarrow> \<exists>t b. step = Again t (Suc redirects) b True"
  by (auto simp: next_round_def rbind_Ok_iff)

text \<open>A round ends the fetch, follows a redirect, or repeats the round without OpenAPI after a policy was used.\<close>

definition progress :: "fetch_step \<Rightarrow> nat \<Rightarrow> bool \<Rightarrow> bool" where
  "progress step redirects policy = (case step of Finished _ \<Rightarrow> True
     | Again _ redirects' _ use_openapi \<Rightarrow> (redirects' = Suc redirects \<and> use_openapi) \<or> (policy \<and> redirects' = redirects \<and> \<not> use_openapi))"

lemma anonymous_progress:
  "anonymous_phase ag url options initial target redirects require_challenge methods s = (Inr (Inl step), t) \<Longrightarrow> progress step redirects policy"
  by (auto simp: anonymous_phase_def sbind_Ok py_Ok prog_run progress_def split: if_splits option.splits
      dest!: next_round_step)

lemma authenticated_progress:
  "authenticated_phase ag url options initial target redirects require_challenge policy methods s = (Inr step, t) \<Longrightarrow> progress step redirects policy"
  by (auto simp: authenticated_phase_def Let_def sbind_Ok py_Ok prog_run progress_def split: if_splits dest!: next_round_step)

lemma challenged_progress:
  assumes "sbind (anonymous_phase ag url options initial target redirects require_challenge methods) (\<lambda>outcome.
      case outcome of Inl step \<Rightarrow> sret step
      | Inr chosen \<Rightarrow> authenticated_phase ag url options initial target redirects require_challenge policy chosen) s = (Inr step, t)"
  shows "progress step redirects policy"
proof -
  from assms obtain outcome s' where o': "anonymous_phase ag url options initial target redirects require_challenge methods s = (Inr outcome, s')"
    and r: "(case outcome of Inl step \<Rightarrow> sret step
      | Inr chosen \<Rightarrow> authenticated_phase ag url options initial target redirects require_challenge policy chosen) s' = (Inr step, t)"
    by (auto simp: sbind_Ok)
  then show ?thesis
    by (cases outcome) (auto simp: prog_run intro: anonymous_progress authenticated_progress)
qed

lemma no_policy: "discover ag url method target False s = (Inr methods, t) \<Longrightarrow> methods = None"
  by (auto simp: discover_def none_on_discovery_failure_def sbind_Ok prog_run split: prod.splits sum.splits if_splits)

lemma round_progress:
  assumes "fetch_round ag options initial target redirects require_challenge use_openapi s = (Inr step, t)"
  shows "progress step redirects use_openapi"
proof -
  from assms obtain url methods s1 s2 where d: "discover ag url (rq_method (fo_request options)) target use_openapi s1 = (Inr methods, s2)"
    and r: "(case methods of
       Some (m # ms) \<Rightarrow>
         if require_challenge
         then sbind (anonymous_phase ag url options initial target redirects require_challenge methods) (\<lambda>outcome.
           case outcome of
             Inl step \<Rightarrow> sret step
           | Inr chosen \<Rightarrow> authenticated_phase ag url options initial target redirects require_challenge True chosen)
         else authenticated_phase ag url options initial target redirects require_challenge True (m # ms)
     | _ \<Rightarrow>
         sbind (anonymous_phase ag url options initial target redirects require_challenge methods) (\<lambda>outcome.
         case outcome of
           Inl step \<Rightarrow> sret step
         | Inr chosen \<Rightarrow> authenticated_phase ag url options initial target redirects require_challenge False chosen)) s2 = (Inr step, t)"
    unfolding fetch_round_def by (auto simp: sbind_Ok py_Ok)
  have weaken: "progress step redirects False \<Longrightarrow> progress step redirects use_openapi"
    by (auto simp: progress_def split: fetch_step.splits)
  show ?thesis
  proof (cases "\<exists>m ms. methods = Some (m # ms)")
    case True
    with d no_policy have "use_openapi" by (cases use_openapi) (auto dest: no_policy)
    with True r show ?thesis
      by (auto split: if_splits intro: challenged_progress authenticated_progress)
  next
    case False
    with r show ?thesis
      by (auto split: option.splits list.splits intro!: weaken intro: challenged_progress)
  qed
qed

lemma fetch_loop_ends:
  "0 < fuel \<Longrightarrow> rounds_left options redirects use_openapi \<le> fuel \<Longrightarrow>
     fst (fetch_loop ag options initial fuel target redirects require_challenge use_openapi s) \<noteq> Inr None"
proof (induction fuel arbitrary: target redirects require_challenge use_openapi s)
  case (Suc fuel)
  show ?case
  proof (cases "fo_max_redirects options < int redirects")
    case False
    obtain r t where r: "fetch_round ag options initial target redirects require_challenge use_openapi s = (r, t)"
      by (cases "fetch_round ag options initial target redirects require_challenge use_openapi s")
    have "rounds_left options redirects' b \<le> fuel \<and> 0 < fuel" if "r = Inr (Again target' redirects' c b)" for target' redirects' c b
      using round_progress [of ag options initial target redirects require_challenge use_openapi s _ t] r that False Suc.prems
      by (auto simp: progress_def rounds_left_def split: if_splits)
    with r False Suc.IH show ?thesis
      by (cases r) (auto simp: sbind_def sret_def split: fetch_step.split)
  qed (simp add: prog_run)
qed simp

text \<open>C33 A fetch returns: the rounds counted by \<open>fetch_fuel\<close>, two for each redirect allowed and three more, always reach
  a response or an exception, whatever the Service and the Agent's collaborators answer. A round that repeats itself after
  an unexpected challenge does so without OpenAPI, hence once only.\<close>

theorem fetch_terminates:
  "fst (fetch_protected_resource ag options s) \<noteq> Inr None"
proof -
  have "fst (fetch_loop ag options initial (fetch_fuel options) target 0 False True t) \<noteq> Inr None" for initial target t
    by (rule fetch_loop_ends) (simp_all add: fetch_fuel_def rounds_left_def)
  then show ?thesis
    by (cases "validate_url (rq_url (fo_request options)) (ag_allow ag)") (simp_all add: fetch_protected_resource_def Let_def)
qed

subsection \<open>Discovery that fails\<close>

text \<open>C37 An Inspect document that is not valid ends the fetch: its exception is none of those that the loop treats as a failed
  discovery, so no request is sent to the resource and no live challenge is seen, although the loop means discovery
  to be advisory.\<close>

theorem invalid_discovery_ends_fetch:
  assumes "validate_url (rq_url (fo_request options)) (ag_allow ag) = Inr ()" and "0 \<le> fo_max_redirects options"
    and "service_url (rq_url (fo_request options)) (ag_allow ag) = Inr url"
    and "inspect ag url (s\<lparr>as_session := new_session\<rparr>) = (Inl (Python e), t)" and "is_validation_error e"
  shows "fetch_protected_resource ag options s = (Inl (Python e), t)"
proof -
  have "\<not> discovery_failure (Python e)" using assms(5) by (cases e) simp_all
  moreover have "as_session_update (\<lambda>_. new_session) s = s\<lparr>as_session := new_session\<rparr>" by simp
  ultimately have "fetch_round ag options (rq_url (fo_request options)) (rq_url (fo_request options)) 0 False True s = (Inl (Python e), t)"
    using assms(3,4) by (simp add: fetch_round_def sbind_def discover_def none_on_discovery_failure_def smodify_def)
  then show ?thesis
    using assms(1,2) by (simp add: fetch_protected_resource_def Let_def fetch_fuel_def sbind_def eval_nat_numeral)
qed

definition mute_agent :: "unit agent" where
  "mute_agent = field_agent\<lparr>ag_collaborators := field_collaborators\<lparr>ac_inspect_transport :=
     (\<lambda>_. sret ((json_response JNull)\<lparr>rs_body := \<lparr>body_size = 3, body_doc = not_json\<rparr>\<rparr>))\<rparr>\<rparr>"

definition unit_options :: "unit fetch_options" where
  "unit_options = \<lparr>fo_request = \<lparr>rq_method = ''GET'', rq_url = ''https://service.example/data'', rq_headers = [], rq_body = None\<rparr>,
     fo_carrier = ''Authorization'', fo_credential_id = None, fo_grant_type = None, fo_additional = [],
     fo_transport = (\<lambda>_. sret (json_response JNull)), fo_max_redirects = 5, fo_timeout = Some 30\<rparr>"

lemma mute_inspect:
  "\<exists>e. inspect mute_agent field_url (initial_agent ()) = (Inl (Python e), initial_agent ()) \<and> is_validation_error e"
proof -
  obtain e where e: "parse_json_model not_json inspect_document_of_json ''Inspect document'' = Inl e" "is_validation_error e"
    by (simp add: parse_json_model_def reject_duplicate_members_def json_loads_def)
  let ?r = "(json_response JNull)\<lparr>rs_body := \<lparr>body_size = 3, body_doc = not_json\<rparr>\<rparr>"
  have "inspect_answer mute_agent None field_time ?r field_well_known = Inl (Python e)"
    using e by (simp add: inspect_answer_def Let_def media_aep bounded_def require_def mute_agent_def)
  then have "inspect_loop mute_agent None field_time 5 field_well_known s = (Inl (Python e), s)" for s
    by (cases s) (simp add: numeral_eq_Suc sbind_def on_aworld_def redirect_statuses_def prog_run mute_agent_def)
  moreover have "agent_now mute_agent s = (Inr field_time, s)" for s
    by (cases s) (simp add: agent_now_def on_aworld_def validated_time_def sbind_def prog_run mute_agent_def)
  ultimately show ?thesis
    using field_urls e by (simp add: inspect_def sbind_def prog_run usable_entry_def find_inspect_def initial_agent_def)
qed

lemma invalid_discovery_ends_fetch_witness:
  "\<exists>e. fetch_protected_resource mute_agent unit_options (initial_agent ()) = (Inl (Python e), initial_agent ()) \<and> is_validation_error e"
proof -
  obtain e where e: "inspect mute_agent field_url (initial_agent ()) = (Inl (Python e), initial_agent ())" "is_validation_error e"
    using mute_inspect by blast
  have "validate_url (rq_url (fo_request unit_options)) (ag_allow mute_agent) = Inr ()"
    "service_url (rq_url (fo_request unit_options)) (ag_allow mute_agent) = Inr field_url" by code_simp+
  moreover have "(initial_agent ())\<lparr>as_session := new_session\<rparr> = initial_agent ()" by (simp add: initial_agent_def)
  moreover have "0 \<le> fo_max_redirects unit_options" by (simp add: unit_options_def)
  ultimately show ?thesis using invalid_discovery_ends_fetch [of unit_options mute_agent field_url] e by metis
qed

end
