(* ===== verification/Agent_Signing.thy ===== *)
theory Agent_Signing
  imports Agent_Invariant
begin

text \<open>
  What an Agent signs and presents: the assertion it accepts from a signer, the credential it picks, and the size of the
  bodies it reads.
\<close>

section \<open>Assertions\<close>

lemma validate_signed_assertion_Ok:
  assumes "validate_signed_assertion loads assertion claims algorithms allow now = Inr parsed"
  shows "\<exists>header payload. decode_jwt_unverified loads assertion = Inr (header, payload)
    \<and> assertion_claims_of_json allow (JObj payload) = Inr parsed \<and> map_of header ''typ'' = Some (JStr ''JWT'')
    \<and> map_of header ''alg'' \<in> Some ` JStr ` set algorithms
    \<and> (\<exists>key_id. map_of header ''kid'' = Some (JStr key_id) \<and> fst (partition_at CHR ''#'' key_id) = iss claims)
    \<and> parsed\<lparr>iat := iat claims, exp_at := exp_at claims\<rparr> = claims
    \<and> exp_at parsed - iat parsed = exp_at claims - iat claims \<and> iat parsed \<le> now \<and> now < exp_at parsed"
  using assms
  by (auto simp: validate_signed_assertion_def Let_def rbind_Ok_iff split: sum.splits if_splits option.splits json.splits)

lemma validate_signed_assertion_match:
  assumes "validate_signed_assertion loads assertion claims algorithms allow now = Inr parsed"
  shows "aud parsed = aud claims \<and> iss parsed = iss claims \<and> sub parsed = sub claims \<and> op parsed = op claims
    \<and> jti parsed = jti claims \<and> resource parsed = resource claims \<and> assertion_extra parsed = assertion_extra claims"
proof -
  from validate_signed_assertion_Ok [OF assms] have "parsed\<lparr>iat := iat claims, exp_at := exp_at claims\<rparr> = claims" by blast
  then show ?thesis by (cases parsed; cases claims) simp
qed

text \<open>C31 Whatever a signer returns, an assertion that an Agent goes on to send reads back, at the time of sending, as a
  live assertion from this identity to this Service for this operation and resource, of the configured lifetime, without
  claims that nobody asked for, signed with an algorithm the Service and the identity share and a key of the Agent's DID.\<close>

theorem agent_assertion_sound:
  fixes ag :: "'w agent"
  assumes "sign_assertion ag inspection i signer operation target s = (Inr assertion, t)"
  shows "\<exists>header payload parsed now s' s''. decode_jwt_unverified (ar_loads (ag_runtime ag)) assertion = Inr (header, payload)
    \<and> assertion_claims_of_json (ag_allow ag) (JObj payload) = Inr parsed \<and> agent_now ag s' = (Inr now, s'')
    \<and> aud parsed = si_service_did i \<and> aud parsed = advertised_did inspection
    \<and> iss parsed = si_agent_did i \<and> sub parsed = si_agent_did i \<and> op parsed = operation
    \<and> (case target of None \<Rightarrow> resource parsed = None
         | Some r \<Rightarrow> map_option Inr (resource parsed) = Some (normalize_resource_uri r (ag_allow ag)))
    \<and> assertion_extra parsed = [] \<and> exp_at parsed - iat parsed = ag_lifetime ag
    \<and> iat parsed \<le> timestamp now \<and> timestamp now < exp_at parsed
    \<and> map_of header ''alg'' \<in> Some ` JStr ` (set (core_algorithms (inspect_core (in_document inspection)))
         \<inter> algorithm_value ` set (si_algorithms i))
    \<and> (\<exists>key_id. map_of header ''kid'' = Some (JStr key_id) \<and> fst (partition_at CHR ''#'' key_id) = si_agent_did i)"
proof -
  define algorithms where "algorithms = shared_algorithms inspection i"
  from assms obtain now0 jti0 normalized claims and s1 s2 s3 s4 :: "'w agent_state" and later parsed
    where identity: "validate_identity i inspection = Inr ()"
      and normalized: "(case target of None \<Rightarrow> sret None
          | Some r \<Rightarrow> sbind (py (normalize_resource_uri r (ag_allow ag))) (\<lambda>u. sret (Some u))) s1 = (Inr normalized, s2)"
      and claims: "check_assertion_claims (ag_allow ag) \<lparr>aud = advertised_did inspection,
        exp_at = timestamp now0 + ag_lifetime ag, iat = timestamp now0, iss = si_agent_did i, jti = jti0,
        op = operation, resource = normalized, sub = si_agent_did i, assertion_extra = []\<rparr> = Inr claims"
      and later: "agent_now ag s3 = (Inr later, s4)"
      and parsed: "validate_signed_assertion (ar_loads (ag_runtime ag)) assertion claims algorithms (ag_allow ag)
        (timestamp later) = Inr parsed"
    unfolding sign_assertion_def Let_def algorithms_def by (auto simp: sbind_Ok py_Ok prog_run)
  from claims have c: "claims = \<lparr>aud = advertised_did inspection,
        exp_at = timestamp now0 + ag_lifetime ag, iat = timestamp now0, iss = si_agent_did i, jti = jti0,
        op = operation, resource = normalized, sub = si_agent_did i, assertion_extra = []\<rparr>"
    by (simp add: check_assertion_claims_Ok)
  have r: "case target of None \<Rightarrow> normalized = None
      | Some r \<Rightarrow> map_option Inr normalized = Some (normalize_resource_uri r (ag_allow ag))"
    using normalized by (cases target) (auto simp: prog_run sbind_Ok py_Ok)
  have a: "set algorithms = set (core_algorithms (inspect_core (in_document inspection))) \<inter> algorithm_value ` set (si_algorithms i)"
    by (auto simp: algorithms_def shared_algorithms_def)
  have d: "si_service_did i = advertised_did inspection"
    using identity by (auto simp: validate_identity_def rbind_Ok_iff)
  note validate_signed_assertion_Ok [OF parsed] validate_signed_assertion_match [OF parsed]
  then show ?thesis using later c r a d by (fastforce split: option.splits)
qed

definition field_claims :: "assertion_operation \<Rightarrow> assertion_claims" where
  "field_claims ope = \<lparr>aud = ''did:web:service.example'', exp_at = 1300, iat = 1000, iss = field_did, jti = ''j1'',
     op = ope, resource = None, sub = field_did, assertion_extra = []\<rparr>"

lemma field_status_valid:
  "validate_signed_assertion field_loads (field_token Op_Status) (field_claims Op_Status) [''EdDSA''] False 1000
     = Inr (field_claims Op_Status)"
  by code_simp

lemma field_claims_checked:
  "check_assertion_claims False (field_claims Op_Status) = Inr (field_claims Op_Status)"
  by code_simp

lemma field_identity_checked: "validate_identity field_identity field_inspection = Inr ()"
  by code_simp

lemma field_loads_used [simp]: "ar_loads field_runtime = field_loads"
  by (simp add: field_runtime_def)

lemma field_sign_run:
  "sign_assertion field_agent field_inspection field_identity (\<lambda>claims _. sret (field_token (op claims))) Op_Status None s
     = (Inr (field_token Op_Status), s)"
proof -
  have "shared_algorithms field_inspection field_identity = [''EdDSA'']" by code_simp
  moreover have "timestamp field_time = 1000" "advertised_did field_inspection = ''did:web:service.example''"
    "si_agent_did field_identity = field_did" by code_simp+
  moreover have "field_token Op_Status \<noteq> []" by (simp add: field_token_def)
  ultimately show ?thesis
    using field_claims_checked [unfolded field_claims_def] field_status_valid [unfolded field_claims_def]
    by (cases s) (simp add: sign_assertion_def Let_def sbind_def field_identity_checked field_now on_aworld_def prog_run require_def)
qed

lemma agent_assertion_sound_witness:
  "\<exists>header payload parsed. decode_jwt_unverified field_loads (field_token Op_Status) = Inr (header, payload)
    \<and> assertion_claims_of_json False (JObj payload) = Inr parsed
    \<and> aud parsed = si_service_did field_identity \<and> op parsed = Op_Status \<and> exp_at parsed - iat parsed = 300"
  using agent_assertion_sound [OF field_sign_run [of "initial_agent ()"]] by (auto simp del: split_paired_Ex) 

end
