(* ===== verification/Agent_Documents.thy ===== *)
theory Agent_Documents
  imports Agent
begin

text \<open>
  \<^verbatim>\<open>agent/documents.py\<close>: reading the portable form of a Service document. The HTTP client is a program on the
  state of the collaborators that yields the status, the fields, the charset and the chunks of a raw stream; the
  time limit is its \<open>Io_Error\<close>.
\<close>

datatype unread_reason = Not_Advertised | Unavailable_Or_Unsupported

record document_read_result =
  dr_descriptor :: service_document
  dr_web_url :: string
  dr_document :: "portable_document option"
  dr_reason :: "unread_reason option"

record document_stream = stream_response +
  ds_charset :: "string option"

definition representation_url :: "string \<Rightarrow> service_document \<Rightarrow> string option" where
  "representation_url kind d = map_option rep_url (find (\<lambda>r. media_type r = kind) (representations d))"

definition supported_stream :: "document_stream \<Rightarrow> bool" where
  "supported_stream response =
     (200 \<le> ht_status response \<and> ht_status response \<le> 299
      \<and> media_type_essence (header_text (ht_headers response) ''content-type'') = ''application/json''
      \<and> ds_charset response \<in> {None, Some ''utf-8'', Some ''UTF-8''}
      \<and> lower (case find_header (ht_headers response) ''content-encoding'' of None \<Rightarrow> ''identity'' | Some v \<Rightarrow> v) = ''identity'')"

fun read_document_chunks :: "string \<Rightarrow> string list \<Rightarrow> string result" where
  "read_document_chunks body [] = Ok body"
| "read_document_chunks body (chunk # chunks) =
     (if MAX_SERVICE_DOCUMENT_BYTES < length body + length chunk
      then Raise (Value_Error ''document exceeds one mebibyte'')
      else read_document_chunks (body @ chunk) chunks)"

definition document_request :: "string \<Rightarrow> http_request" where
  "document_request url = \<lparr>rq_method = ''GET'', rq_url = url,
     rq_headers = [(''Accept'', ''application/json''), (''Accept-Encoding'', ''identity'')], rq_body = None\<rparr>"

definition fetch_portable :: "(string \<Rightarrow> json result) \<Rightarrow> (http_request \<Rightarrow> ('w, document_stream) aprog) \<Rightarrow> string
    \<Rightarrow> string \<Rightarrow> ('w, portable_document) aprog" where
  "fetch_portable loads client url expected =
     sbind (client (document_request url)) (\<lambda>response.
     sbind (demand (supported_stream response) ''unsupported document response'') (\<lambda>_.
     sbind (py (read_document_chunks [] (ht_chunks response))) (\<lambda>bytes.
     py (parse_portable_service_document (body_of_bytes loads bytes) expected))))"

text \<open>\<open>except (TimeoutError, httpx.HTTPError, httpx.InvalidURL, ValueError, AepValidationError)\<close>\<close>

fun document_failure :: "agent_error \<Rightarrow> bool" where
  "document_failure (Io_Error _) = True"
| "document_failure (Python e) = (is_value_error e \<or> is_validation_error e)"
| "document_failure e = value_error_class e"

definition none_on_document_failure :: "('w, 'a) aprog \<Rightarrow> ('w, 'a option) aprog" where
  "none_on_document_failure p s = (case p s of
      (Inr v, s') \<Rightarrow> (Inr (Some v), s')
    | (Inl e, s') \<Rightarrow> if document_failure e then (Inr None, s') else (Inl e, s'))"

text \<open>A descriptor without a web page makes \<open>next\<close> raise StopIteration, in a coroutine a RuntimeError.\<close>

definition read_service_document :: "(string \<Rightarrow> json result) \<Rightarrow> (http_request \<Rightarrow> ('w, document_stream) aprog)
    \<Rightarrow> service_document \<Rightarrow> rat option \<Rightarrow> ('w, document_read_result) aprog" where
  "read_service_document loads client given timeout =
     sbind (demand (positive_finite timeout) ''document timeout must be positive and finite'') (\<lambda>_.
     sbind (py (service_document_of_json (service_document_to_wire given))) (\<lambda>descriptor.
     case representation_url ''text/html'' descriptor of
       None \<Rightarrow> sraise (Python (Runtime_Error ''coroutine raised StopIteration''))
     | Some web \<Rightarrow>
         (case representation_url ''application/json'' descriptor of
            None \<Rightarrow> sret \<lparr>dr_descriptor = descriptor, dr_web_url = web, dr_document = None,
              dr_reason = Some Not_Advertised\<rparr>
          | Some portable \<Rightarrow>
              sbind (none_on_document_failure (fetch_portable loads client portable (doc_id descriptor))) (\<lambda>fetched.
              sret (case fetched of
                 Some d \<Rightarrow> \<lparr>dr_descriptor = descriptor, dr_web_url = web, dr_document = Some d, dr_reason = None\<rparr>
               | None \<Rightarrow> \<lparr>dr_descriptor = descriptor, dr_web_url = web, dr_document = None,
                   dr_reason = Some Unavailable_Or_Unsupported\<rparr>)))))"

end
