(* ===== verification/Asgi.thy ===== *)
theory Asgi
  imports Service Platform_Document
begin

text \<open>
  \<^verbatim>\<open>adapters/asgi.py\<close>: the ASGI application in front of a Service and the authentication middleware. A scope is a
  record of the members the adapter reads; bytes are lists of code points below 256, which is what decoding as
  Latin-1 gives. \<open>receive\<close> and \<open>send\<close> are programs on the state of the collaborators. An application need not
  return, so its runs are optional: \<^const>\<open>None\<close> is a run that goes on for ever.
\<close>

section \<open>Scopes, messages and runs\<close>

text \<open>Header items as the server passes them: a pair of values, each \<^const>\<open>None\<close> when it is not bytes, an iterable of
  another length, or something that is not iterable.\<close>

datatype raw_item = Raw_Pair "string option" "string option" | Raw_Other_Length | Raw_Item_Not_Iterable
datatype raw_headers = Raw_Items "raw_item list" | Raw_Not_Iterable

text \<open>A text member is \<^const>\<open>None\<close> when it is absent or not a \<open>str\<close>, \<open>raw_path\<close> when it is not bytes, the query string
  when it is present and not bytes; \<open>aep.principal\<close> when it is not an \<open>AuthenticatedPrincipal\<close>.\<close>

record asgi_scope =
  scope_type :: "string option"
  scope_path :: "string option"
  scope_method :: "string option"
  scope_raw_path :: "string option"
  scope_query_string :: "string option"
  scope_headers :: raw_headers
  scope_principal :: "principal option"

text \<open>A body is \<^const>\<open>None\<close> when it is not bytes, and empty when the member is absent.\<close>

record asgi_message =
  ms_type :: "string option"
  ms_body :: "string option"
  ms_more_body :: bool

datatype asgi_event =
    Response_Start int "(string \<times> string) list"
  | Response_Body string
  | Startup_Complete
  | Shutdown_Complete

record 'w channel =
  ch_receive :: "('w, asgi_message) prog"
  ch_send :: "asgi_event \<Rightarrow> ('w, unit) prog"

type_synonym ('s, 'a) run = "'s \<Rightarrow> ((exn + 'a) \<times> 's) option"

definition returns :: "('s, 'a) prog \<Rightarrow> ('s, 'a) run" where
  "returns p s = Some (p s)"

definition run_bind :: "('s, 'a) run \<Rightarrow> ('a \<Rightarrow> ('s, 'b) run) \<Rightarrow> ('s, 'b) run" where
  "run_bind p f s = (case p s of
      None \<Rightarrow> None
    | Some (Inl e, t) \<Rightarrow> Some (Inl e, t)
    | Some (Inr a, t) \<Rightarrow> f a t)"

type_synonym 'w asgi_app = "asgi_scope \<Rightarrow> 'w channel \<Rightarrow> ('w service_state, unit) run"

definition send_event :: "'w channel \<Rightarrow> asgi_event \<Rightarrow> ('w service_state, unit) prog" where
  "send_event ch e = on_world (ch_send ch e)"

definition receive_message :: "'w channel \<Rightarrow> ('w service_state, asgi_message) prog" where
  "receive_message ch = on_world (ch_receive ch)"

section \<open>Requests\<close>

definition raw_pair :: "raw_item \<Rightarrow> (string \<times> string) result" where
  "raw_pair item = (case item of
      Raw_Pair (Some n) (Some v) \<Rightarrow> Ok (n, v)
    | Raw_Pair _ _ \<Rightarrow> Raise (Runtime_Error ''AEP ASGI request headers must contain bytes'')
    | _ \<Rightarrow> Raise (Runtime_Error ''AEP ASGI request header entries must be pairs''))"

definition raw_pairs :: "asgi_scope \<Rightarrow> (string \<times> string) list result" where
  "raw_pairs sc = (case scope_headers sc of
      Raw_Not_Iterable \<Rightarrow> Raise (Runtime_Error ''AEP ASGI request headers must be iterable'')
    | Raw_Items items \<Rightarrow> rmap raw_pair items)"

definition grouped_headers :: "(string \<times> string) list \<Rightarrow> (string, string list) dict" where
  "grouped_headers pairs = foldl (\<lambda>acc (name, v). dict_set (lower name)
     ((case map_of acc (lower name) of None \<Rightarrow> [] | Some vs \<Rightarrow> vs) @ [v]) acc) [] pairs"

definition decoded_headers :: "(string \<times> string) list \<Rightarrow> (string \<times> header_value) list" where
  "decoded_headers pairs = map (\<lambda>(name, vs). (name, case vs of [v] \<Rightarrow> One_Value v | _ \<Rightarrow> Values vs)) (grouped_headers pairs)"

definition single_value :: "header_value option \<Rightarrow> string option" where
  "single_value v = (case v of Some (One_Value s) \<Rightarrow> Some s | _ \<Rightarrow> None)"

definition single_media_type :: "header_value option \<Rightarrow> string \<Rightarrow> bool" where
  "single_media_type v expected = (case v of Some (One_Value s) \<Rightarrow> media_type_essence s = expected | _ \<Rightarrow> False)"

definition command_assertion :: "header_value option \<Rightarrow> string result" where
  "command_assertion v = (case v of
      Some (One_Value s) \<Rightarrow>
        (case parse_authorization s Carrier_Standard of
           Inr a \<Rightarrow> Ok (if auth_scheme_of a = Scheme_AEP then credentials a else [])
         | Inl (Authorization_Error c m) \<Rightarrow> Ok []
         | Inl e \<Rightarrow> Raise e)
    | _ \<Rightarrow> Ok [])"

definition field_values :: "header_value option \<Rightarrow> string list" where
  "field_values v = (case v of None \<Rightarrow> [] | Some (One_Value s) \<Rightarrow> [s] | Some (Values vs) \<Rightarrow> vs)"

definition etag_matches :: "header_value option \<Rightarrow> string \<Rightarrow> bool" where
  "etag_matches v expected = list_ex (\<lambda>field_value. list_ex (\<lambda>item. let candidate = strip item in
       candidate = ''*'' \<or> candidate = expected \<or> remove_prefix candidate ''W/'' = expected)
     (split_on CHR '','' field_value)) (field_values v)"

definition scope_text :: "string option \<Rightarrow> string \<Rightarrow> string result" where
  "scope_text v name = (case v of
      None \<Rightarrow> Raise (Runtime_Error (''AEP ASGI scope field '' @ [char_of (34 :: nat)] @ name @ [char_of (34 :: nat)] @ '' must be text''))
    | Some s \<Rightarrow> Ok s)"

subsection \<open>The body\<close>

text \<open>\<open>_read_body\<close>: \<open>Inl\<close> stands for a disconnect, \<open>None\<close> for a body over the limit.\<close>

partial_function (option) read_body :: "'w channel \<Rightarrow> int \<Rightarrow> string \<Rightarrow> 'w service_state
    \<Rightarrow> ((exn + (unit + string option)) \<times> 'w service_state) option" where
  "read_body ch maximum body s =
     (case receive_message ch s of
        (Inl e, t) \<Rightarrow> Some (Inl e, t)
      | (Inr m, t) \<Rightarrow>
          if ms_type m = Some ''http.disconnect'' then Some (Inr (Inl ()), t)
          else if ms_type m \<noteq> Some ''http.request''
          then Some (Inl (Runtime_Error ''AEP ASGI application received an invalid request message''), t)
          else (case ms_body m of
            None \<Rightarrow> Some (Inl (Runtime_Error ''AEP ASGI request body chunks must be bytes''), t)
          | Some chunk \<Rightarrow>
              if maximum < int (length body) + int (length chunk) then Some (Inr (Inr None), t)
              else if \<not> ms_more_body m then Some (Inr (Inr (Some (body @ chunk))), t)
              else read_body ch maximum (body @ chunk) t))"

section \<open>Responses\<close>

definition token_chars_only :: "string \<Rightarrow> bool" where
  "token_chars_only name = list_all (\<lambda>c. is_alpha c \<or> is_digit c \<or> c \<in> set ''!#$%&*+-.^_`|~'' \<or> ord c = 39) name"

definition response_field_ok :: "string \<times> string \<Rightarrow> bool" where
  "response_field_ok entry = (case entry of (name, v) \<Rightarrow>
     name \<noteq> [] \<and> token_chars_only name \<and> list_all (\<lambda>c. ord c \<noteq> 13 \<and> ord c \<noteq> 10) v)"

definition response_fields :: "int \<Rightarrow> string \<Rightarrow> (string, string) dict \<Rightarrow> (string, string) dict" where
  "response_fields status body headers =
     (let values = foldl (\<lambda>acc (name, v). dict_set (lower name) v acc) []
            (filter (\<lambda>(name, _). lower name \<noteq> ''content-length'') headers) in
      if status \<noteq> 304 then dict_set ''content-length'' (show_int (int (length body))) values else values)"

definition send_response :: "'w channel \<Rightarrow> int \<Rightarrow> string \<Rightarrow> (string, string) dict \<Rightarrow> bool
    \<Rightarrow> ('w service_state, unit) prog" where
  "send_response ch status body headers head =
     (let fields = response_fields status body headers in
      sbind (slift (require (list_all response_field_ok fields)
        (Value_Error ''AEP ASGI response contains an invalid HTTP field''))) (\<lambda>_.
      sbind (send_event ch (Response_Start status fields)) (\<lambda>_.
      send_event ch (Response_Body (if head then [] else body)))))"

text \<open>\<open>_json_bytes\<close>; the output is ASCII.\<close>

definition json_bytes :: "(rat \<Rightarrow> string) \<Rightarrow> json \<Rightarrow> string" where
  "json_bytes float_repr v = dumps_canonical float_repr v"

definition send_problem :: "(rat \<Rightarrow> string) \<Rightarrow> 'w channel \<Rightarrow> int \<Rightarrow> string \<Rightarrow> string option \<Rightarrow> (string, string) dict
    \<Rightarrow> ('w service_state, unit) prog" where
  "send_problem float_repr ch status title code headers =
     send_response ch status
       (json_bytes float_repr (JObj ([(''status'', JInt status), (''title'', JStr title),
          (''type'', JStr (case code of None \<Rightarrow> ''about:blank'' | Some c \<Rightarrow> ''urn:aep:error:'' @ c))]
          @ (case code of None \<Rightarrow> [] | Some c \<Rightarrow> [(''code'', JStr c)]))))
       (dict_set ''Content-Type'' AEP_PROBLEM_MEDIA_TYPE (dict_set ''Cache-Control'' ''no-store'' headers)) False"

text \<open>\<open>_send_service_result\<close>; \<open>enc\<close> is \<open>model_dump\<close> of the model in the body.\<close>

definition send_service_result :: "(rat \<Rightarrow> string) \<Rightarrow> 'w channel \<Rightarrow> ('b \<Rightarrow> json) \<Rightarrow> 'b service_result \<Rightarrow> bool
    \<Rightarrow> ('w service_state, unit) prog" where
  "send_service_result float_repr ch enc result head =
     send_response ch (res_status result) (json_bytes float_repr (response_value enc result))
       (dict_set ''Content-Type'' (res_content_type result) (dict_set ''Cache-Control'' ''no-store'' (res_headers result))) head"

definition status_response_dump :: "status_response \<Rightarrow> json" where
  "status_response_dump r = JObj (lifecycle_dump r @ wire_opt ''since'' JStr (sr_since r) @ lr_extra r)"

section \<open>The default application\<close>

partial_function (option) lifespan_loop :: "'w channel \<Rightarrow> 'w service_state \<Rightarrow> ((exn + unit) \<times> 'w service_state) option" where
  "lifespan_loop ch s =
     (case receive_message ch s of
        (Inl e, t) \<Rightarrow> Some (Inl e, t)
      | (Inr m, t) \<Rightarrow>
          if ms_type m = Some ''lifespan.startup'' then
            (case send_event ch Startup_Complete t of
               (Inl e, u) \<Rightarrow> Some (Inl e, u)
             | (Inr _, u) \<Rightarrow> lifespan_loop ch u)
          else if ms_type m = Some ''lifespan.shutdown'' then Some (send_event ch Shutdown_Complete t)
          else Some (Inl (Runtime_Error ''AEP ASGI application received an invalid lifespan message''), t))"

definition default_application :: "(rat \<Rightarrow> string) \<Rightarrow> 'w asgi_app" where
  "default_application float_repr sc ch =
     (if scope_type sc = Some ''http'' then returns (send_problem float_repr ch 404 ''Not Found'' None [])
      else if scope_type sc \<noteq> Some ''lifespan''
      then returns (sraise (Runtime_Error ''AEP ASGI application received an unsupported scope''))
      else lifespan_loop ch)"

section \<open>AepAsgiApplication\<close>

record 'w asgi_application =
  ap_application :: "'w asgi_app"
  ap_command_paths :: "(string, command) dict"
  ap_inspect_body :: string
  ap_cache_control :: string
  ap_etag :: string
  ap_maximum :: int
  ap_service :: "'w service"

definition safe_methods :: "string list" where
  "safe_methods = [''GET'', ''HEAD'']"

definition served_commands :: "inspect_document \<Rightarrow> command list" where
  "served_commands document =
     filter (\<lambda>c. command_value c \<in> set (commands_supported (inspect_commands document)))
       [Cmd_Enroll, Cmd_Grant, Cmd_Revoke, Cmd_Status]"

definition make_asgi_application :: "'w service \<Rightarrow> 'w asgi_app option \<Rightarrow> string \<Rightarrow> int \<Rightarrow> 'w asgi_application result" where
  "make_asgi_application sv application cache_control maximum =
     rbind (require (1 \<le> maximum) (Value_Error ''AEP ASGI request body limit must be positive'')) (\<lambda>_.
     rbind (require (strip cache_control \<noteq> [] \<and> list_all (\<lambda>c. ord c \<noteq> 13 \<and> ord c \<noteq> 10) cache_control)
       (Value_Error ''AEP Inspect Cache-Control must be a valid HTTP field value'')) (\<lambda>_.
     let fr = rt_float_repr (sc_runtime sv);
         body = json_bytes fr (inspect_document_to_wire (sc_document sv)) in
     rbind (rmap (\<lambda>c. rbind (command_path_from_inspect (sc_document sv) c) (\<lambda>p. Ok (unquote p, c)))
       (served_commands (sc_document sv))) (\<lambda>paths.
     Ok \<lparr>ap_application = (case application of None \<Rightarrow> default_application fr | Some f \<Rightarrow> f),
       ap_command_paths = foldl (\<lambda>acc (p, c). dict_set p c acc) [] paths,
       ap_inspect_body = body, ap_cache_control = cache_control,
       ap_etag = [char_of (34 :: nat)] @ ''sha256:'' @ rt_sha256_hex (sc_runtime sv) body @ [char_of (34 :: nat)],
       ap_maximum = maximum, ap_service = sv\<rparr>)))"

abbreviation ap_float_repr :: "'w asgi_application \<Rightarrow> rat \<Rightarrow> string" where
  "ap_float_repr ap \<equiv> rt_float_repr (sc_runtime (ap_service ap))"

definition method_not_allowed :: "'w asgi_application \<Rightarrow> 'w channel \<Rightarrow> string \<Rightarrow> ('w service_state, unit) prog" where
  "method_not_allowed ap ch allow =
     send_problem (ap_float_repr ap) ch 405 ''Method not allowed'' (Some ''invalid_request'') [(''Allow'', allow)]"

definition serve_inspect :: "'w asgi_application \<Rightarrow> asgi_scope \<Rightarrow> 'w channel \<Rightarrow> ('w service_state, unit) prog" where
  "serve_inspect ap sc ch =
     (if scope_method sc \<notin> Some ` set safe_methods then method_not_allowed ap ch ''GET, HEAD''
      else
      sbind (slift (raw_pairs sc)) (\<lambda>pairs.
      if etag_matches (map_of (decoded_headers pairs) ''if-none-match'') (ap_etag ap)
      then send_response ch 304 [] [(''Cache-Control'', ap_cache_control ap), (''ETag'', ap_etag ap)] False
      else send_response ch 200 (ap_inspect_body ap)
        [(''Cache-Control'', ap_cache_control ap), (''Content-Type'', AEP_MEDIA_TYPE), (''ETag'', ap_etag ap)]
        (scope_method sc = Some ''HEAD'')))"

definition request_body :: "'w service \<Rightarrow> string \<Rightarrow> body" where
  "request_body sv bytes = \<lparr>body_size = length bytes, body_doc = rt_loads (sc_runtime sv) bytes\<rparr>"

text \<open>The body has been read.\<close>

definition run_command :: "'w asgi_application \<Rightarrow> 'w channel \<Rightarrow> command \<Rightarrow> command_options \<Rightarrow> string
    \<Rightarrow> ('w service_state, unit) prog" where
  "run_command ap ch c options bytes =
     (let sv = ap_service ap; fr = ap_float_repr ap; data = request_body sv bytes in
      if c = Cmd_Enroll then sbind (service_enroll sv data options) (\<lambda>r. send_service_result fr ch enroll_response_dump r False)
      else if c = Cmd_Grant then sbind (service_grant sv data options) (\<lambda>r. send_service_result fr ch JObj r False)
      else sbind (service_revoke sv data options) (\<lambda>r. send_service_result fr ch revoke_response_dump r False))"

definition serve_status :: "'w asgi_application \<Rightarrow> 'w channel \<Rightarrow> string \<Rightarrow> bool \<Rightarrow> ('w service_state, unit) prog" where
  "serve_status ap ch assertion head =
     sbind (service_status (ap_service ap) \<lparr>client_assertion = assertion, opt_idempotency_key = None\<rparr>) (\<lambda>r.
     send_service_result (ap_float_repr ap) ch status_response_dump r head)"

definition serve_command :: "'w asgi_application \<Rightarrow> asgi_scope \<Rightarrow> 'w channel \<Rightarrow> command
    \<Rightarrow> ('w service_state, unit) run" where
  "serve_command ap sc ch c =
     (let safe = (c = Cmd_Status) in
      if scope_method sc \<notin> Some ` set (if safe then safe_methods else [''POST''])
      then returns (method_not_allowed ap ch (if safe then ''GET, HEAD'' else ''POST''))
      else
      run_bind (returns (slift (raw_pairs sc))) (\<lambda>pairs.
      let headers = decoded_headers pairs in
      run_bind (returns (slift (command_assertion (map_of headers ''authorization'')))) (\<lambda>assertion.
      if safe then returns (serve_status ap ch assertion (scope_method sc = Some ''HEAD''))
      else if \<not> single_media_type (map_of headers ''content-type'') AEP_MEDIA_TYPE
      then returns (send_problem (ap_float_repr ap) ch 400 ''Invalid request'' (Some ''invalid_request'') [])
      else
      run_bind (read_body ch (ap_maximum ap) []) (\<lambda>received.
      case received of
        Inl _ \<Rightarrow> returns (sret ())
      | Inr None \<Rightarrow> returns (send_problem (ap_float_repr ap) ch 413 ''Content too large'' (Some ''invalid_request'') [])
      | Inr (Some bytes) \<Rightarrow> returns (run_command ap ch c \<lparr>client_assertion = assertion,
          opt_idempotency_key = Some (case single_value (map_of headers ''idempotency-key'') of None \<Rightarrow> [] | Some k \<Rightarrow> k)\<rparr> bytes)))))"

definition asgi_call :: "'w asgi_application \<Rightarrow> 'w asgi_app" where
  "asgi_call ap sc ch =
     (if scope_type sc \<noteq> Some ''http'' then ap_application ap sc ch
      else if scope_path sc = Some AEP_WELL_KNOWN_PATH then returns (serve_inspect ap sc ch)
      else case Option.bind (scope_path sc) (map_of (ap_command_paths ap)) of
        None \<Rightarrow> ap_application ap sc ch
      | Some c \<Rightarrow> serve_command ap sc ch c)"

section \<open>AepAuthenticationMiddleware\<close>

text \<open>\<open>ipaddress.ip_address(hostname).is_loopback\<close>.\<close>

definition hextet_value :: "string \<Rightarrow> nat" where
  "hextet_value s = foldl (\<lambda>n c. 16 * n + hex_value c) 0 s"

definition ipv6_is_one :: "string \<Rightarrow> bool" where
  "ipv6_is_one s = (let ps = split_on CHR '':'' (fst (partition_at CHR ''%'' s)) in
     list_all (\<lambda>p. hextet_value p = 0) (butlast ps) \<and> last ps \<noteq> []
     \<and> (if CHR ''.'' \<in> set (last ps) then map decimal_value (split_on CHR ''.'' (last ps)) = [0, 0, 0, 1]
        else hextet_value (last ps) = 1))"

definition asgi_loopback :: "string \<Rightarrow> bool" where
  "asgi_loopback host =
     (if host = ''localhost'' then True
      else if ipv4_ok host then decimal_value (hd (split_on CHR ''.'' host)) = 127
      else ipv6_address_ok host \<and> ipv6_is_one host)"

definition resource_origin :: "string \<Rightarrow> bool \<Rightarrow> (string \<times> string) result" where
  "resource_origin v allow =
     rbind (urlsplit v) (\<lambda>parsed.
     rbind (reraise_value_error (port parsed) (Value_Error ''AEP protected-resource origin is invalid'')) (\<lambda>_.
     rbind (require (\<not> (\<not> truthy (hostname parsed) \<or> username parsed \<noteq> None \<or> password parsed \<noteq> None
         \<or> url_path parsed \<notin> {'''', ''/''} \<or> query parsed \<noteq> [] \<or> fragment parsed \<noteq> []
         \<or> CHR ''?'' \<in> set v \<or> CHR ''#'' \<in> set v))
       (Value_Error ''AEP protected-resource origin must not contain credentials, path, query, or fragment'')) (\<lambda>_.
     rbind (require (scheme parsed = ''https''
         \<or> (scheme parsed = ''http'' \<and> allow \<and> (case hostname parsed of None \<Rightarrow> False | Some h \<Rightarrow> asgi_loopback h)))
       (Value_Error ''AEP protected-resource origin must use HTTPS'')) (\<lambda>_.
     Ok (scheme parsed, netloc parsed)))))"

definition percent_encode :: "string \<Rightarrow> string \<Rightarrow> string" where
  "percent_encode safe s = concat (map (\<lambda>c. if is_alpha c \<or> is_digit c \<or> c \<in> set ''_.-~'' \<or> c \<in> set safe then [c]
     else [CHR ''%'', hex_upper (ord c div 16), hex_upper (ord c mod 16)]) s)"

definition path_safe :: string where
  "path_safe = ''/:@!$&()*+,;=-._~'' @ [char_of (39 :: nat)]"

definition resource_path :: "asgi_scope \<Rightarrow> string result" where
  "resource_path sc = (case scope_raw_path sc of
      Some raw \<Rightarrow> Ok (percent_encode (CHR ''%'' # path_safe) raw)
    | None \<Rightarrow> rbind (scope_text (scope_path sc) ''path'') (\<lambda>p. Ok (percent_encode path_safe (utf8_encode p))))"

definition resource_url :: "string \<times> string \<Rightarrow> asgi_scope \<Rightarrow> string result" where
  "resource_url origin sc =
     rbind (resource_path sc) (\<lambda>path.
     case scope_query_string sc of
       None \<Rightarrow> Raise (Runtime_Error ''AEP ASGI query string must be bytes'')
     | Some q \<Rightarrow> rbind (require (isascii q) (Value_Error ''ordinal not in range(128)'')) (\<lambda>_.
         Ok (urlunsplit (fst origin) (snd origin) path q [])))"

record 'w asgi_middleware =
  mw_application :: "'w asgi_app"
  mw_origin :: "string \<times> string"
  mw_service :: "'w service"

definition make_middleware :: "'w asgi_app \<Rightarrow> 'w service \<Rightarrow> string \<Rightarrow> bool \<Rightarrow> 'w asgi_middleware result" where
  "make_middleware application sv origin allow =
     rbind (resource_origin origin allow) (\<lambda>o'.
     Ok \<lparr>mw_application = application, mw_origin = o', mw_service = sv\<rparr>)"

definition resource_request_of :: "'w asgi_middleware \<Rightarrow> asgi_scope \<Rightarrow> (string \<times> string) list \<Rightarrow> resource_request result" where
  "resource_request_of mw sc pairs =
     rbind (scope_text (scope_method sc) ''method'') (\<lambda>method.
     rbind (resource_url (mw_origin mw) sc) (\<lambda>url.
     Ok \<lparr>prr_headers = decoded_headers pairs, prr_method = method, prr_url = url\<rparr>))"

definition authenticated_scope :: "asgi_scope \<Rightarrow> (string \<times> string) list \<Rightarrow> principal \<Rightarrow> asgi_scope" where
  "authenticated_scope sc pairs p =
     sc\<lparr>scope_headers := Raw_Items (map (\<lambda>(n, v). Raw_Pair (Some n) (Some v)) pairs), scope_principal := Some p\<rparr>"

definition middleware_call :: "'w asgi_middleware \<Rightarrow> 'w asgi_app" where
  "middleware_call mw sc ch =
     (if scope_type sc \<noteq> Some ''http'' then mw_application mw sc ch
      else
      run_bind (returns (slift (raw_pairs sc))) (\<lambda>pairs.
      run_bind (returns (slift (resource_request_of mw sc pairs))) (\<lambda>request.
      run_bind (returns (authenticate_protected_resource (mw_service mw) request)) (\<lambda>result.
      if \<not> pa_authenticated result
      then (case pa_response result of
          None \<Rightarrow> returns (sraise (Runtime_Error ''AEP Service returned an incomplete authentication result''))
        | Some r \<Rightarrow> returns (send_service_result (rt_float_repr (sc_runtime (mw_service mw))) ch (\<lambda>_. JNull) r False))
      else (case pa_principal result of
          None \<Rightarrow> returns (sraise (Runtime_Error ''AEP Service returned an authenticated result without a principal''))
        | Some p \<Rightarrow> mw_application mw (authenticated_scope sc pairs p) ch)))))"

definition principal_from_scope :: "asgi_scope \<Rightarrow> principal option" where
  "principal_from_scope sc = scope_principal sc"

end
