(* ===== verification/Asgi_Facts.thy ===== *)
theory Asgi_Facts
  imports Asgi Service_Facts Service_Sample
begin

text \<open>
  What the ASGI adapter guarantees: the limit on request bodies, HEAD against GET, and the gate of the authentication
  middleware.
\<close>

section \<open>Runs\<close>

lemma returns_run [simp]: "returns p s = Some (p s)"
  by (simp add: returns_def)

lemma run_bind_returns [simp]: "run_bind (returns (slift m)) f s = (case m of Inl e \<Rightarrow> Some (Inl e, s) | Inr a \<Rightarrow> f a s)"
  by (cases m) (simp_all add: run_bind_def slift_def)

lemma run_bind_Some:
  "run_bind p f s = Some (Inr b, t) \<longleftrightarrow> (\<exists>a s'. p s = Some (Inr a, s') \<and> f a s' = Some (Inr b, t))"
  by (auto simp: run_bind_def split: option.splits prod.splits sum.splits)

lemma run_bind_cong:
  assumes "p s = q s" and "\<And>a t. p s = Some (Inr a, t) \<Longrightarrow> f a t = g a t"
  shows "run_bind p f s = run_bind q g s"
  using assms unfolding run_bind_def by (auto split: option.splits prod.splits sum.splits)

section \<open>The body\<close>

text \<open>The messages of a body: chunks that announce more, and the last one.\<close>

definition in_limit :: "int \<Rightarrow> (exn + (unit + string option)) \<times> 's \<Rightarrow> bool" where
  "in_limit maximum r = (case fst r of Inr (Inr (Some bytes)) \<Rightarrow> int (length bytes) \<le> maximum | _ \<Rightarrow> True)"

lemma read_body_run: "read_body ch maximum body s = Some r \<Longrightarrow> in_limit maximum r"
proof (rule read_body.raw_induct [where P = "\<lambda>ch maximum body s r. in_limit maximum r"], goal_cases)
  case (1 rec ch maximum body s r)
  show ?case
  proof (cases "receive_message ch s")
    case (Pair m t)
    with 1 show ?thesis
      by (cases m) (auto simp: in_limit_def split: if_splits option.splits)
  qed
qed

lemma read_body_within:
  "read_body ch maximum body s = Some (Inr (Inr (Some bytes)), t) \<Longrightarrow> int (length bytes) \<le> maximum"
  by (drule read_body_run) (simp add: in_limit_def)

text \<open>Chunks are put together in order.\<close>

lemma read_body_last:
  assumes "receive_message ch s = (Inr m, t)" and "ms_type m = Some ''http.request''" and "ms_body m = Some chunk"
    and "\<not> ms_more_body m" and "int (length body) + int (length chunk) \<le> maximum"
  shows "read_body ch maximum body s = Some (Inr (Inr (Some (body @ chunk))), t)"
  using assms by (simp add: read_body.simps [of ch maximum body s])

lemma read_body_next:
  assumes "receive_message ch s = (Inr m, t)" and "ms_type m = Some ''http.request''" and "ms_body m = Some chunk"
    and "ms_more_body m" and "int (length body) + int (length chunk) \<le> maximum"
  shows "read_body ch maximum body s = read_body ch maximum (body @ chunk) t"
  using assms by (simp add: read_body.simps [of ch maximum body s])

lemma read_body_over:
  assumes "receive_message ch s = (Inr m, t)" and "ms_type m = Some ''http.request''" and "ms_body m = Some chunk"
    and "maximum < int (length body) + int (length chunk)"
  shows "read_body ch maximum body s = Some (Inr (Inr None), t)"
  using assms by (simp add: read_body.simps [of ch maximum body s])

text \<open>A server that has the messages of a body queued.\<close>

definition queue :: "asgi_message list channel" where
  "queue = \<lparr>ch_receive = (\<lambda>w. case w of [] \<Rightarrow> (Inl (Runtime_Error ''empty''), []) | m # ms \<Rightarrow> (Inr m, ms)),
     ch_send = (\<lambda>_. sret ())\<rparr>"

primrec chunk_messages :: "string \<Rightarrow> string list \<Rightarrow> asgi_message list" where
  "chunk_messages c [] = [\<lparr>ms_type = Some ''http.request'', ms_body = Some c, ms_more_body = False\<rparr>]"
| "chunk_messages c (d # ds) = \<lparr>ms_type = Some ''http.request'', ms_body = Some c, ms_more_body = True\<rparr> # chunk_messages d ds"

lemma queue_receives: "receive_message queue (s\<lparr>sv_world := m # ms\<rparr>) = (Inr m, s\<lparr>sv_world := ms\<rparr>)"
  by (simp add: receive_message_def on_world_def queue_def)

lemma read_queue:
  assumes "int (length body) \<le> maximum" and "all = body @ concat (c # cs)"
  shows "\<exists>t. read_body queue maximum body (s\<lparr>sv_world := chunk_messages c cs\<rparr>)
     = Some (Inr (Inr (if int (length all) \<le> maximum then Some all else None)), t)"
  using assms
proof (induction cs arbitrary: body c)
  case Nil
  then show ?case
    using read_body_last [OF queue_receives] read_body_over [OF queue_receives]
    by (cases "int (length body) + int (length c) \<le> maximum") simp_all
next
  case (Cons d ds)
  show ?case
  proof (cases "int (length body) + int (length c) \<le> maximum")
    case True
    then have "read_body queue maximum body (s\<lparr>sv_world := chunk_messages c (d # ds)\<rparr>)
        = read_body queue maximum (body @ c) (s\<lparr>sv_world := chunk_messages d ds\<rparr>)"
      by (simp add: read_body_next [OF queue_receives])
    with Cons.IH [of "body @ c" d] Cons.prems True show ?thesis by simp
  next
    case False
    then have "read_body queue maximum body (s\<lparr>sv_world := chunk_messages c (d # ds)\<rparr>)
        = Some (Inr (Inr None), s\<lparr>sv_world := chunk_messages d ds\<rparr>)"
      by (simp add: read_body_over [OF queue_receives])
    with False Cons.prems show ?thesis by simp
  qed
qed

text \<open>C34 The request body limit is exact: for a body that arrives in any split into chunks, the adapter hands on the whole
  body when it has at most the configured number of bytes, and otherwise refuses it, having read no further than the
  chunk that exceeds the limit.\<close>

theorem request_body_limit:
  "0 \<le> maximum \<Longrightarrow> \<exists>t. read_body queue maximum [] (s\<lparr>sv_world := chunk_messages c cs\<rparr>)
     = Some (Inr (Inr (if int (length (concat (c # cs))) \<le> maximum then Some (concat (c # cs)) else None)), t)"
  by (rule read_queue) simp_all

lemma request_body_limit_witness:
  "\<exists>t. read_body queue 3 [] ((initial_state [])\<lparr>sv_world := chunk_messages ''ab'' [''cd'']\<rparr>) = Some (Inr (Inr None), t)"
  using request_body_limit [where maximum = 3 and c = "''ab''" and cs = "[''cd'']" and s = "initial_state []"] by simp

section \<open>HEAD\<close>

text \<open>A server that notes the events.\<close>

definition noting :: "asgi_event list channel" where
  "noting = \<lparr>ch_receive = sraise (Runtime_Error ''no message''), ch_send = (\<lambda>e w. (Inr (), w @ [e]))\<rparr>"

lemma noting_send: "send_event noting e s = (Inr (), s\<lparr>sv_world := sv_world s @ [e]\<rparr>)"
  by (simp add: send_event_def on_world_def noting_def)

lemma noting_response:
  "send_response noting status body headers head s =
     (if list_all response_field_ok (response_fields status body headers)
      then (Inr (), s\<lparr>sv_world := sv_world s @ [Response_Start status (response_fields status body headers),
        Response_Body (if head then [] else body)]\<rparr>)
      else (Inl (Value_Error ''AEP ASGI response contains an invalid HTTP field''), s))"
  by (simp add: send_response_def Let_def sbind_def prog_run require_def noting_send)

definition pair_of :: "int \<Rightarrow> string \<Rightarrow> (string, string) dict \<Rightarrow> bool \<Rightarrow> asgi_event list" where
  "pair_of status body headers head = [Response_Start status (response_fields status body headers), Response_Body (if head then [] else body)]"

lemma fields_length: "status \<noteq> 304 \<Longrightarrow> map_of (response_fields status body headers) ''content-length'' = Some (show_int (int (length body)))"
  by (simp add: response_fields_def Let_def)

lemma response_like_get:
  assumes "send_response noting status body headers False s = (Inr (), t)"
  shows "\<exists>w fields. t = t\<lparr>sv_world := w @ [Response_Start status fields, Response_Body body]\<rparr>
    \<and> send_response noting status body headers True s = (Inr (), t\<lparr>sv_world := w @ [Response_Start status fields, Response_Body []]\<rparr>)
    \<and> (status \<noteq> 304 \<longrightarrow> map_of fields ''content-length'' = Some (show_int (int (length body))))"
proof -
  let ?w = "sv_world s" and ?fields = "response_fields status body headers"
  have "list_all response_field_ok ?fields"
    and t: "t = s\<lparr>sv_world := ?w @ [Response_Start status ?fields, Response_Body body]\<rparr>"
    using assms by (auto simp: noting_response split: if_splits)
  then show ?thesis
    by (intro exI [of _ ?w] exI [of _ ?fields]) (simp add: noting_response fields_length)
qed

text \<open>The conclusion, for a program that is given whether to omit the content.\<close>

definition like_get :: "(bool \<Rightarrow> (asgi_event list service_state, unit) prog) \<Rightarrow> asgi_event list service_state
    \<Rightarrow> asgi_event list service_state \<Rightarrow> bool" where
  "like_get p s t = (\<exists>w status fields body. t = t\<lparr>sv_world := w @ [Response_Start status fields, Response_Body body]\<rparr>
    \<and> p True s = (Inr (), t\<lparr>sv_world := w @ [Response_Start status fields, Response_Body []]\<rparr>)
    \<and> (status \<noteq> 304 \<longrightarrow> map_of fields ''content-length'' = Some (show_int (int (length body)))))"

lemma response_without_content: "send_response ch status [] headers True = send_response ch status [] headers False"
  by (simp add: send_response_def)

lemma inspect_like_get:
  assumes "scope_method sc = Some ''GET''" and "serve_inspect ap sc noting s = (Inr (), t)"
  shows "like_get (\<lambda>head. serve_inspect ap (if head then sc\<lparr>scope_method := Some ''HEAD''\<rparr> else sc) noting) s t"
proof -
  obtain pairs where p: "raw_pairs sc = Inr pairs"
    using assms by (cases "raw_pairs sc") (auto simp: serve_inspect_def safe_methods_def sbind_Ok prog_run)
  have same: "raw_pairs (sc\<lparr>scope_method := m\<rparr>) = Inr pairs" for m using p by (simp add: raw_pairs_def)
  show ?thesis
  proof (cases "etag_matches (map_of (decoded_headers pairs) ''if-none-match'') (ap_etag ap)")
    case True
    with assms p have "send_response noting 304 [] [(''Cache-Control'', ap_cache_control ap), (''ETag'', ap_etag ap)] False s = (Inr (), t)"
      by (simp add: serve_inspect_def safe_methods_def prog_run sbind_def)
    from response_like_get [OF this] True show ?thesis
      by (auto simp: like_get_def serve_inspect_def safe_methods_def prog_run sbind_def same response_without_content)
  next
    case False
    with assms p have "send_response noting 200 (ap_inspect_body ap) [(''Cache-Control'', ap_cache_control ap),
        (''Content-Type'', AEP_MEDIA_TYPE), (''ETag'', ap_etag ap)] False s = (Inr (), t)"
      by (simp add: serve_inspect_def safe_methods_def prog_run sbind_def)
    from response_like_get [OF this] False show ?thesis
      by (auto simp: like_get_def serve_inspect_def safe_methods_def prog_run sbind_def same)
  qed
qed

lemma status_like_get:
  assumes "serve_status ap noting assertion False s = (Inr (), t)"
  shows "like_get (serve_status ap noting assertion) s t"
proof -
  from assms obtain r s' where r: "service_status (ap_service ap) \<lparr>client_assertion = assertion, opt_idempotency_key = None\<rparr> s = (Inr r, s')"
    and "send_service_result (ap_float_repr ap) noting status_response_dump r False s' = (Inr (), t)"
    by (auto simp: serve_status_def sbind_Ok)
  from this(2) [unfolded send_service_result_def, THEN response_like_get] r show ?thesis
    by (auto simp: like_get_def serve_status_def sbind_def send_service_result_def)
qed

text \<open>C35 HEAD is GET without the content: where the adapter answers GET, for the Inspect document and for the status command,
  it answers HEAD in the same state with the same status and the same header fields, among them the length of the content
  that GET has, and an empty body.\<close>

theorem head_answers_like_get:
  assumes "scope_type sc = Some ''http''" and "scope_method sc = Some ''GET''" and "scope_path sc = Some path"
    and "path = AEP_WELL_KNOWN_PATH \<or> map_of (ap_command_paths ap) path = Some Cmd_Status"
    and "asgi_call ap sc noting s = Some (Inr (), t)"
  shows "\<exists>w status fields body. t = t\<lparr>sv_world := w @ [Response_Start status fields, Response_Body body]\<rparr>
    \<and> asgi_call ap (sc\<lparr>scope_method := Some ''HEAD''\<rparr>) noting s
        = Some (Inr (), t\<lparr>sv_world := w @ [Response_Start status fields, Response_Body []]\<rparr>)
    \<and> (status \<noteq> 304 \<longrightarrow> map_of fields ''content-length'' = Some (show_int (int (length body))))"
proof (cases "path = AEP_WELL_KNOWN_PATH")
  case True
  then have "serve_inspect ap sc noting s = (Inr (), t)" using assms by (simp add: asgi_call_def)
  from inspect_like_get [OF assms(2) this] True assms show ?thesis by (simp add: like_get_def asgi_call_def)
next
  case False
  with assms have run: "serve_command ap sc noting Cmd_Status s = Some (Inr (), t)"
    and head: "asgi_call ap (sc\<lparr>scope_method := Some ''HEAD''\<rparr>) noting s
      = serve_command ap (sc\<lparr>scope_method := Some ''HEAD''\<rparr>) noting Cmd_Status s"
    by (simp_all add: asgi_call_def)
  from run assms(2) obtain pairs assertion where p: "raw_pairs sc = Inr pairs"
    "command_assertion (map_of (decoded_headers pairs) ''authorization'') = Inr assertion"
    "serve_status ap noting assertion False s = (Inr (), t)"
    by (auto simp: serve_command_def safe_methods_def Let_def split: sum.splits)
  have "raw_pairs (sc\<lparr>scope_method := m\<rparr>) = Inr pairs" for m using p(1) by (simp add: raw_pairs_def)
  with status_like_get [OF p(3)] p(2) show ?thesis
    unfolding head by (simp add: like_get_def serve_command_def safe_methods_def Let_def)
qed

subsection \<open>An application\<close>

definition noted_service :: "asgi_event list service" where
  "noted_service = \<lparr>sc_runtime = plain_runtime\<lparr>rt_sha256_hex := (\<lambda>_. ''4f'')\<rparr>, sc_collaborators = \<lparr>co_clock = sret (plain_time 1000),
       co_identifier = sret ''enrollment-1'', co_policy = static_policy None,
       co_verify = (\<lambda>token context. sret (plain_claims token context))\<rparr>,
     sc_allow_insecure_loopback = False, sc_clock_tolerance = 5, sc_maximum_lifetime = 300,
     sc_claim_limits = default_claim_limits, sc_inspect_url = None, sc_grant_types = [],
     sc_authentication_methods = [''aep-jwt''], sc_document = plain_document\<rparr>"

definition noted_body :: string where
  "noted_body = json_bytes (\<lambda>_. []) (inspect_document_to_wire plain_document)"

definition noted_app :: "asgi_event list asgi_application" where
  "noted_app = \<lparr>ap_application = default_application (\<lambda>_. []),
     ap_command_paths = [(''/aep/enroll'', Cmd_Enroll), (''/aep/status'', Cmd_Status)],
     ap_inspect_body = noted_body, ap_cache_control = ''public, max-age=300'',
     ap_etag = [char_of (34 :: nat)] @ ''sha256:4f'' @ [char_of (34 :: nat)],
     ap_maximum = 1048576, ap_service = noted_service\<rparr>"

lemma noted_paths:
  "rmap (\<lambda>c. rbind (command_path_from_inspect plain_document c) (\<lambda>p. Ok (unquote p, c))) (served_commands plain_document)
     = Inr [(''/aep/enroll'', Cmd_Enroll), (''/aep/status'', Cmd_Status)]"
  by code_simp

lemma noted_made: "make_asgi_application noted_service None ''public, max-age=300'' 1048576 = Inr noted_app"
proof -
  have "strip ''public, max-age=300'' \<noteq> []" "list_all (\<lambda>c. ord c \<noteq> 13 \<and> ord c \<noteq> 10) ''public, max-age=300''"
    by code_simp+
  moreover have "rt_sha256_hex (sc_runtime noted_service) b = ''4f''" "rt_float_repr (sc_runtime noted_service) = (\<lambda>_. [])"
    "sc_document noted_service = plain_document" for b
    by (simp_all add: noted_service_def plain_runtime_def)
  ultimately show ?thesis
    by (simp add: make_asgi_application_def Let_def require_def noted_paths noted_app_def noted_body_def)
qed

definition plain_scope :: "string \<Rightarrow> string \<Rightarrow> asgi_scope" where
  "plain_scope method path = \<lparr>scope_type = Some ''http'', scope_path = Some path, scope_method = Some method,
     scope_raw_path = None, scope_query_string = Some [], scope_headers = Raw_Items [], scope_principal = None\<rparr>"

definition noted_headers :: "(string, string) dict" where
  "noted_headers = [(''Cache-Control'', ap_cache_control noted_app), (''Content-Type'', AEP_MEDIA_TYPE), (''ETag'', ap_etag noted_app)]"

text \<open>The length field is always valid.\<close>

lemma response_fields_valid:
  assumes "list_all response_field_ok (response_fields 304 [] headers)"
  shows "list_all response_field_ok (response_fields status body headers)"
proof -
  have "list_all (\<lambda>c. ord c \<noteq> 13 \<and> ord c \<noteq> 10) (show_int (int n))" for n
    using show_nat_digits [of n] by (auto simp: show_int_def list_all_iff is_digit_def in_range_def)
  moreover have "token_chars_only ''content-length''" by code_simp
  ultimately have "response_field_ok (''content-length'', show_int (int n))" for n
    by (simp add: response_field_ok_def)
  then show ?thesis
    using assms set_dict_set [of "''content-length''" "show_int (int (length body))"]
    by (fastforce simp: response_fields_def Let_def list_all_iff)
qed

lemma noted_fields_ok: "list_all response_field_ok (response_fields 200 noted_body noted_headers)"
  by (rule response_fields_valid) code_simp

lemma noted_get:
  "\<exists>t. asgi_call noted_app (plain_scope ''GET'' AEP_WELL_KNOWN_PATH) noting s = Some (Inr (), t)"
proof -
  have "ap_inspect_body noted_app = noted_body" by (simp add: noted_app_def)
  then show ?thesis
    using noted_fields_ok [unfolded noted_headers_def]
    by (simp add: asgi_call_def plain_scope_def serve_inspect_def safe_methods_def raw_pairs_def sbind_def prog_run
      decoded_headers_def grouped_headers_def field_values_def etag_matches_def noting_response)
qed

lemma head_answers_like_get_witness:
  "\<exists>t w status fields body. asgi_call noted_app (plain_scope ''GET'' AEP_WELL_KNOWN_PATH) noting (initial_state [])
      = Some (Inr (), t\<lparr>sv_world := w @ [Response_Start status fields, Response_Body body]\<rparr>)
    \<and> asgi_call noted_app ((plain_scope ''GET'' AEP_WELL_KNOWN_PATH)\<lparr>scope_method := Some ''HEAD''\<rparr>) noting (initial_state [])
      = Some (Inr (), t\<lparr>sv_world := w @ [Response_Start status fields, Response_Body []]\<rparr>)"
proof -
  let ?sc = "plain_scope ''GET'' AEP_WELL_KNOWN_PATH"
  obtain t where t: "asgi_call noted_app ?sc noting (initial_state []) = Some (Inr (), t)" using noted_get by blast
  have "scope_type ?sc = Some ''http''" "scope_method ?sc = Some ''GET''" "scope_path ?sc = Some AEP_WELL_KNOWN_PATH"
    by (simp_all add: plain_scope_def)
  from head_answers_like_get [OF this disjI1 [OF refl] t] t show ?thesis by metis
qed

text \<open>C38 A refusal does not follow that rule: HEAD on the path of any other command is answered with status 405 and a
  problem document as content, where the response helper is documented to omit the content for HEAD.\<close>

theorem head_refusal_has_content:
  assumes "scope_type sc = Some ''http''" and "scope_method sc = Some ''HEAD''" and "scope_path sc = Some path"
    and "path \<noteq> AEP_WELL_KNOWN_PATH" and "map_of (ap_command_paths ap) path = Some c" and "c \<noteq> Cmd_Status"
  shows "\<exists>fields body. asgi_call ap sc noting s
      = Some (Inr (), s\<lparr>sv_world := sv_world s @ [Response_Start 405 fields, Response_Body body]\<rparr>) \<and> body \<noteq> []"
proof -
  define body where "body = json_bytes (ap_float_repr ap) (JObj [(''status'', JInt 405), (''title'', JStr ''Method not allowed''),
    (''type'', JStr ''urn:aep:error:invalid_request''), (''code'', JStr ''invalid_request'')])"
  have fixed: "body = json_bytes (\<lambda>_. []) (JObj [(''status'', JInt 405), (''title'', JStr ''Method not allowed''),
    (''type'', JStr ''urn:aep:error:invalid_request''), (''code'', JStr ''invalid_request'')])"
    by (simp add: body_def json_bytes_def)
  define headers where "headers = [(''Allow'', ''POST''), (''Cache-Control'', ''no-store''), (''Content-Type'', AEP_PROBLEM_MEDIA_TYPE)]"
  have run: "asgi_call ap sc noting s = Some (send_response noting 405 body headers False s)"
    using assms by (simp add: asgi_call_def serve_command_def Let_def method_not_allowed_def send_problem_def
      body_def headers_def)
  have "list_all response_field_ok (response_fields 405 body headers)"
    unfolding headers_def by (rule response_fields_valid) code_simp
  moreover have "body \<noteq> []" unfolding fixed by code_simp
  ultimately show ?thesis unfolding run by (auto simp: noting_response)
qed

lemma head_refusal_has_content_witness:
  "\<exists>fields body. asgi_call noted_app (plain_scope ''HEAD'' ''/aep/enroll'') noting (initial_state [])
      = Some (Inr (), (initial_state [])\<lparr>sv_world := [Response_Start 405 fields, Response_Body body]\<rparr>) \<and> body \<noteq> []"
proof -
  let ?sc = "plain_scope ''HEAD'' ''/aep/enroll''"
  have "scope_type ?sc = Some ''http''" "scope_method ?sc = Some ''HEAD''" "scope_path ?sc = Some ''/aep/enroll''"
    "''/aep/enroll'' \<noteq> AEP_WELL_KNOWN_PATH" "map_of (ap_command_paths noted_app) ''/aep/enroll'' = Some Cmd_Enroll"
    by (simp_all add: plain_scope_def noted_app_def AEP_WELL_KNOWN_PATH_def)
  from head_refusal_has_content [OF this, of "initial_state []"] show ?thesis by (simp add: initial_state_def)
qed

section \<open>The middleware\<close>

text \<open>C8 The middleware is a gate: on an HTTP request the application runs only with a scope whose principal the Service
  has just authenticated for this very request, an agent with an active enrollment; a principal that was in the scope
  before is replaced. So two applications that agree on such scopes and states are the same application.\<close>

theorem middleware_is_a_gate:
  assumes "scope_type sc = Some ''http''"
    and "\<And>p pairs request s' t. raw_pairs sc = Inr pairs \<Longrightarrow> resource_request_of mw sc pairs = Inr request
      \<Longrightarrow> authenticate_protected_resource (mw_service mw) request s' = (Inr (authenticated_as p), t)
      \<Longrightarrow> active_in t (pr_agent_did p)
      \<Longrightarrow> app (authenticated_scope sc pairs p) ch t = app' (authenticated_scope sc pairs p) ch t"
  shows "middleware_call (mw\<lparr>mw_application := app\<rparr>) sc ch s = middleware_call (mw\<lparr>mw_application := app'\<rparr>) sc ch s"
proof -
  have admitted: "app (authenticated_scope sc pairs p) ch t = app' (authenticated_scope sc pairs p) ch t"
    if r: "raw_pairs sc = Inr pairs" "resource_request_of mw sc pairs = Inr request"
      and run: "authenticate_protected_resource (mw_service mw) request s = (Inr result, t)"
      and p: "pa_authenticated result" "pa_principal result = Some p" for pairs request result p t
  proof -
    obtain q where q: "result = authenticated_as q" "active_in s (pr_agent_did q)" "sv_enrollments t = sv_enrollments s"
      using protected_resource_access [OF run p(1)] by blast
    then have "q = p" using p(2) by (simp add: authenticated_as_def)
    with q assms(2) [OF r] run show ?thesis by (auto simp: active_in_def)
  qed
  show ?thesis
    using assms(1) admitted
    by (auto simp: middleware_call_def resource_request_of_def run_bind_def slift_def returns_def
        split: sum.splits prod.splits option.splits)
qed

definition greeting :: "'w asgi_app" where
  "greeting sc ch = returns (send_event ch (Response_Start 200 []))"

definition members_only :: "'w asgi_app" where
  "members_only sc ch = (case principal_from_scope sc of
     None \<Rightarrow> returns (sraise (Runtime_Error ''anonymous'')) | Some _ \<Rightarrow> returns (send_event ch (Response_Start 200 [])))"

definition noted_middleware :: "asgi_event list asgi_middleware" where
  "noted_middleware = \<lparr>mw_application = greeting, mw_origin = (''https'', ''service.example''), mw_service = noted_service\<rparr>"

lemma middleware_is_a_gate_witness:
  "middleware_call (noted_middleware\<lparr>mw_application := greeting\<rparr>) (plain_scope ''GET'' ''/data'') noting (initial_state [])
    = middleware_call (noted_middleware\<lparr>mw_application := members_only\<rparr>) (plain_scope ''GET'' ''/data'') noting (initial_state [])"
  by (rule middleware_is_a_gate)
    (simp_all add: plain_scope_def greeting_def members_only_def principal_from_scope_def authenticated_scope_def)

lemma noted_middleware_made: "make_middleware greeting noted_service ''https://service.example'' False = Inr noted_middleware"
proof -
  have "resource_origin ''https://service.example'' False = Inr (''https'', ''service.example'')" by code_simp
  then show ?thesis by (simp add: make_middleware_def noted_middleware_def)
qed

end
