(* ===== verification/Single_Flight.thy ===== *)
theory Single_Flight
  imports Prelude
begin

text \<open>
  The loop that four stores share: \<open>find_or_create\<close> and \<open>execute\<close> of \<^verbatim>\<open>service/stores.py\<close> and of
  \<^verbatim>\<open>platform/stores.py\<close> let one call at a time run the factory of a key and park the others on an
  \<open>asyncio.Event\<close>, which the running call sets when it leaves. Here the calls are tasks whose sections
  interleave freely: a section is what the code does in one \<open>async with self._lock\<close>; no section awaits
  anything while it holds the lock, and between two sections any other task may move. A factory is not a
  program here: it answers at any moment, with any value or any exception, or its task is cancelled.
  A store enters with what its own sections do (\<open>sections\<close>).
\<close>

section \<open>What the tasks share\<close>

text \<open>The dictionaries of the store, and the events made so far: an event is its position in the list, and
  the value there tells whether it is set.\<close>

record ('k, 'r) shared =
  sh_records :: 'r
  sh_pending :: "('k, nat) dict"
  sh_events :: "bool list"

text \<open>\<open>self._pending[key] = asyncio.Event()\<close> and \<open>self._pending.pop(key).set()\<close>\<close>

definition claim :: "'k \<Rightarrow> ('k, 'r) shared \<Rightarrow> ('k, 'r) shared" where
  "claim k s = s\<lparr>sh_pending := dict_set k (length (sh_events s)) (sh_pending s),
                 sh_events := sh_events s @ [False]\<rparr>"

definition release :: "'k \<Rightarrow> ('k, 'r) shared \<Rightarrow> ('k, 'r) shared result" where
  "release k s =
     (case map_of (sh_pending s) k of
        None \<Rightarrow> Raise (Key_Error ''pending'')
      | Some ev \<Rightarrow> Ok (s\<lparr>sh_pending := dict_pop k (sh_pending s), sh_events := (sh_events s)[ev := True]\<rparr>))"

section \<open>Tasks and their sections\<close>

datatype 'a outcome = Returned "'a result" | Cancelled

text \<open>A task is a call with its arguments and the place it has reached: before the first section, at
  \<open>await pending.wait()\<close>, at \<open>await factory()\<close>, before the section of \<open>finally\<close>, and at the end.\<close>

datatype ('q, 'a) task =
    Entering 'q
  | Waiting 'q nat
  | Working 'q
  | Leaving 'q "'a outcome"
  | Done 'q "'a outcome"

text \<open>What distinguishes one store from another: the check of the arguments before the loop, the key, the
  look at the records under the lock (with the time the clock returns) which answers the call or finds
  nothing, what happens with the answer of the factory, and the other operations of the store.\<close>

record ('k, 'r, 'q, 'v, 'o, 'a, 'u) sections =
  sc_check :: "'q \<Rightarrow> unit result"
  sc_key :: "'q \<Rightarrow> 'k"
  sc_look :: "'q \<Rightarrow> 'v \<Rightarrow> 'r \<Rightarrow> 'a result option \<times> 'r"
  sc_complete :: "'q \<Rightarrow> 'o result \<Rightarrow> 'r \<Rightarrow> 'a result \<times> 'r"
  sc_other :: "'u \<Rightarrow> 'r \<Rightarrow> 'r"

record ('k, 'r, 'q, 'a) world =
  wd_shared :: "('k, 'r) shared"
  wd_tasks :: "('q, 'a) task list"

definition idle :: "'r \<Rightarrow> ('k, 'r, 'q, 'a) world" where
  "idle rs = \<lparr>wd_shared = \<lparr>sh_records = rs, sh_pending = [], sh_events = []\<rparr>, wd_tasks = []\<rparr>"

definition enter_section :: "('k, 'r, 'q, 'v, 'o, 'a, 'u) sections \<Rightarrow> 'q \<Rightarrow> 'v \<Rightarrow> ('k, 'r) shared
    \<Rightarrow> ('q, 'a) task \<times> ('k, 'r) shared" where
  "enter_section c q now s =
     (case sc_look c q now (sh_records s) of
        (Some a, rs) \<Rightarrow> (Done q (Returned a), s\<lparr>sh_records := rs\<rparr>)
      | (None, rs) \<Rightarrow>
          (case map_of (sh_pending s) (sc_key c q) of
             Some ev \<Rightarrow> (Waiting q ev, s\<lparr>sh_records := rs\<rparr>)
           | None \<Rightarrow> (Working q, claim (sc_key c q) (s\<lparr>sh_records := rs\<rparr>))))"

definition work_section :: "('k, 'r, 'q, 'v, 'o, 'a, 'u) sections \<Rightarrow> 'q \<Rightarrow> 'o result \<Rightarrow> ('k, 'r) shared
    \<Rightarrow> ('q, 'a) task \<times> ('k, 'r) shared" where
  "work_section c q v s =
     (case sc_complete c q v (sh_records s) of
        (a, rs) \<Rightarrow> (Leaving q (Returned a), s\<lparr>sh_records := rs\<rparr>))"

definition leave_section :: "('k, 'r, 'q, 'v, 'o, 'a, 'u) sections \<Rightarrow> 'q \<Rightarrow> 'a outcome \<Rightarrow> ('k, 'r) shared
    \<Rightarrow> ('q, 'a) task \<times> ('k, 'r) shared" where
  "leave_section c q out s =
     (case release (sc_key c q) s of
        Inl e \<Rightarrow> (Done q (Returned (Inl e)), s)
      | Inr s' \<Rightarrow> (Done q out, s'))"

section \<open>The step relation\<close>

text \<open>The labels: \<open>Enter\<close> carries what the clock of the store returns, \<open>Work\<close> what the factory answers.\<close>

datatype ('q, 'v, 'o, 'u) move =
    Start 'q
  | Enter nat 'v
  | Wake nat
  | Work nat "'o result"
  | Cancel nat
  | Leave nat
  | Other 'u

definition at_task :: "('k, 'r, 'q, 'a) world \<Rightarrow> nat \<Rightarrow> ('q, 'a) task \<Rightarrow> bool" where
  "at_task w i t = (i < length (wd_tasks w) \<and> wd_tasks w ! i = t)"

definition move_task :: "nat \<Rightarrow> ('q, 'a) task \<times> ('k, 'r) shared \<Rightarrow> ('k, 'r, 'q, 'a) world
    \<Rightarrow> ('k, 'r, 'q, 'a) world" where
  "move_task i m w = \<lparr>wd_shared = snd m, wd_tasks = (wd_tasks w)[i := fst m]\<rparr>"

definition add_task :: "('q, 'a) task \<Rightarrow> ('k, 'r, 'q, 'a) world \<Rightarrow> ('k, 'r, 'q, 'a) world" where
  "add_task t w = w\<lparr>wd_tasks := wd_tasks w @ [t]\<rparr>"

inductive call_step :: "('k, 'r, 'q, 'v, 'o, 'a, 'u) sections \<Rightarrow> ('k, 'r, 'q, 'a) world
    \<Rightarrow> ('q, 'v, 'o, 'u) move \<Rightarrow> ('k, 'r, 'q, 'a) world \<Rightarrow> bool" for c where
  start: "sc_check c q = Inr () \<Longrightarrow> call_step c w (Start q) (add_task (Entering q) w)"
| refuse: "sc_check c q = Inl e \<Longrightarrow> call_step c w (Start q) (add_task (Done q (Returned (Inl e))) w)"
| enter: "at_task w i (Entering q) \<Longrightarrow>
    call_step c w (Enter i now) (move_task i (enter_section c q now (wd_shared w)) w)"
| wake: "at_task w i (Waiting q ev) \<Longrightarrow> sh_events (wd_shared w) ! ev \<Longrightarrow>
    call_step c w (Wake i) (move_task i (Entering q, wd_shared w) w)"
| work: "at_task w i (Working q) \<Longrightarrow>
    call_step c w (Work i v) (move_task i (work_section c q v (wd_shared w)) w)"
| stop_entering: "at_task w i (Entering q) \<Longrightarrow>
    call_step c w (Cancel i) (move_task i (Done q Cancelled, wd_shared w) w)"
| stop_waiting: "at_task w i (Waiting q ev) \<Longrightarrow>
    call_step c w (Cancel i) (move_task i (Done q Cancelled, wd_shared w) w)"
| stop_working: "at_task w i (Working q) \<Longrightarrow>
    call_step c w (Cancel i) (move_task i (Leaving q Cancelled, wd_shared w) w)"
| leave: "at_task w i (Leaving q out) \<Longrightarrow>
    call_step c w (Leave i) (move_task i (leave_section c q out (wd_shared w)) w)"
| other: "call_step c w (Other u)
    (w\<lparr>wd_shared := (wd_shared w)\<lparr>sh_records := sc_other c u (sh_records (wd_shared w))\<rparr>\<rparr>)"

inductive_simps call_step_simps:
  "call_step c w (Start q) w'"
  "call_step c w (Enter i now) w'"
  "call_step c w (Wake i) w'"
  "call_step c w (Work i v) w'"
  "call_step c w (Cancel i) w'"
  "call_step c w (Leave i) w'"
  "call_step c w (Other u) w'"

text \<open>A schedule is the moves of a run in their order.\<close>

fun run_schedule :: "('k, 'r, 'q, 'v, 'o, 'a, 'u) sections \<Rightarrow> ('q, 'v, 'o, 'u) move list
    \<Rightarrow> ('k, 'r, 'q, 'a) world \<Rightarrow> ('k, 'r, 'q, 'a) world \<Rightarrow> bool" where
  "run_schedule c [] w w' = (w' = w)"
| "run_schedule c (m # ms) w w' = (\<exists>v. call_step c w m v \<and> run_schedule c ms v w')"

lemma run_schedule_append:
  "run_schedule c (ms @ ns) w w' \<longleftrightarrow> (\<exists>v. run_schedule c ms w v \<and> run_schedule c ns v w')"
  by (induction ms arbitrary: w) auto

lemma run_schedule_invariant:
  assumes "run_schedule c ms w w'" and "P w"
    and "\<And>w m w'. call_step c w m w' \<Longrightarrow> P w \<Longrightarrow> P w'"
  shows "P w'"
  using assms(1,2) by (induction ms arbitrary: w) (auto dest: assms(3))

section \<open>One flight for each key, and no lost wake-up\<close>

text \<open>The key whose factory a task runs, until the task has left.\<close>

fun flight_key :: "('q \<Rightarrow> 'k) \<Rightarrow> ('q, 'a) task \<Rightarrow> 'k option" where
  "flight_key key (Working q) = Some (key q)"
| "flight_key key (Leaving q out) = Some (key q)"
| "flight_key key (Entering q) = None"
| "flight_key key (Waiting q ev) = None"
| "flight_key key (Done q out) = None"

definition in_flight :: "('q \<Rightarrow> 'k) \<Rightarrow> 'k \<Rightarrow> ('q, 'a) task list \<Rightarrow> nat" where
  "in_flight key k ts = count_list (map (flight_key key) ts) (Some k)"

lemma count_list_update:
  assumes "i < length xs"
  shows "count_list (xs[i := y]) k + (if xs ! i = k then 1 else 0) = count_list xs k + (if y = k then 1 else 0)"
  using assms
proof (induction xs arbitrary: i)
  case (Cons x xs)
  show ?case
  proof (cases i)
    case 0
    then show ?thesis by auto
  next
    case (Suc j)
    then show ?thesis using Cons.prems Cons.IH [of j] by auto
  qed
qed simp

lemma count_list_map_pos: "i < length ts \<Longrightarrow> f (ts ! i) = k \<Longrightarrow> 0 < count_list (map f ts) k"
  by (metis count_list_0_iff gr0I length_map nth_map nth_mem)

lemma count_list_map_update:
  assumes "i < length ts"
  shows "count_list (map f (ts[i := t])) k
    = count_list (map f ts) k - (if f (ts ! i) = k then 1 else 0) + (if f t = k then 1 else 0)"
  using count_list_update [of i "map f ts" "f t" k] count_list_map_pos [OF assms, of f k] assms
  by (simp add: map_update split: if_splits)

lemma count_list_le_1_unique:
  assumes "count_list xs k \<le> 1" and "i < length xs" "j < length xs" and "xs ! i = k" "xs ! j = k"
  shows "i = j"
proof -
  have "count_list xs k = card {n. n < length xs \<and> k = xs ! n}"
    by (simp add: count_list_eq_length_filter length_filter_conv_card)
  then have "\<forall>m \<in> {n. n < length xs \<and> k = xs ! n}. \<forall>n \<in> {n. n < length xs \<and> k = xs ! n}. m = n"
    using assms(1) by (subst card_le_Suc0_iff_eq [symmetric]) auto
  then show ?thesis using assms by auto
qed

definition flights_ok :: "('q \<Rightarrow> 'k) \<Rightarrow> ('k, 'r, 'q, 'a) world \<Rightarrow> bool" where
  "flights_ok key w = (let s = wd_shared w; pending = map_of (sh_pending s); events = sh_events s in
     (\<forall>k. in_flight key k (wd_tasks w) = (if pending k = None then 0 else 1))
   \<and> (\<forall>k ev. pending k = Some ev \<longrightarrow> ev < length events \<and> \<not> events ! ev)
   \<and> (\<forall>k k' ev. pending k = Some ev \<and> pending k' = Some ev \<longrightarrow> k = k')
   \<and> (\<forall>i q ev. at_task w i (Waiting q ev) \<longrightarrow>
        ev < length events \<and> (events ! ev \<or> pending (key q) = Some ev)))"

lemma flights_ok_idle: "flights_ok key (idle rs)"
  by (simp add: flights_ok_def idle_def in_flight_def at_task_def)

lemma flights_okI:
  assumes "map_of (sh_pending (wd_shared w)) = p" and "sh_events (wd_shared w) = e"
    and "\<And>k. in_flight key k (wd_tasks w) = (if p k = None then 0 else 1)"
    and "\<And>k ev. p k = Some ev \<Longrightarrow> ev < length e \<and> \<not> e ! ev"
    and "\<And>k k' ev. p k = Some ev \<Longrightarrow> p k' = Some ev \<Longrightarrow> k = k'"
    and "\<And>i q ev. at_task w i (Waiting q ev) \<Longrightarrow> ev < length e \<and> (e ! ev \<or> p (key q) = Some ev)"
  shows "flights_ok key w"
  unfolding flights_ok_def Let_def assms(1,2) using assms(3-6) by blast

lemma flights_okD:
  assumes "flights_ok key w"
  shows "in_flight key k (wd_tasks w) = (if map_of (sh_pending (wd_shared w)) k = None then 0 else 1)"
    and "map_of (sh_pending (wd_shared w)) k = Some ev \<Longrightarrow>
      ev < length (sh_events (wd_shared w)) \<and> \<not> sh_events (wd_shared w) ! ev"
    and "map_of (sh_pending (wd_shared w)) k = Some ev \<Longrightarrow> map_of (sh_pending (wd_shared w)) k' = Some ev \<Longrightarrow> k = k'"
    and "at_task w i (Waiting q ev) \<Longrightarrow> ev < length (sh_events (wd_shared w))
      \<and> (sh_events (wd_shared w) ! ev \<or> map_of (sh_pending (wd_shared w)) (key q) = Some ev)"
  using assms by (auto simp: flights_ok_def Let_def)

subsection \<open>Every step keeps it\<close>

lemma at_task_move [simp]:
  "at_task (move_task i m w) j t
    \<longleftrightarrow> j < length (wd_tasks w) \<and> (if j = i then fst m = t else at_task w j t)"
  by (auto simp: at_task_def move_task_def nth_list_update)

lemma at_task_add [simp]:
  "at_task (add_task t w) j t' \<longleftrightarrow> at_task w j t' \<or> (j = length (wd_tasks w) \<and> t = t')"
  by (auto simp: at_task_def add_task_def nth_append less_Suc_eq)

lemma in_flight_move:
  assumes "at_task w i t"
  shows "in_flight key k (wd_tasks (move_task i m w)) = in_flight key k (wd_tasks w)
    - (if flight_key key t = Some k then 1 else 0) + (if flight_key key (fst m) = Some k then 1 else 0)"
  using assms by (simp add: in_flight_def move_task_def at_task_def count_list_map_update)

lemma in_flight_pos:
  assumes "at_task w i t" and "flight_key key t = Some k"
  shows "0 < in_flight key k (wd_tasks w)"
  using assms count_list_map_pos [of i "wd_tasks w" "flight_key key" "Some k"]
  by (simp add: in_flight_def at_task_def)

lemma flights_ok_add:
  assumes "flights_ok key w" and "flight_key key t = None" and "\<And>q ev. t \<noteq> Waiting q ev"
  shows "flights_ok key (add_task t w)"
  using assms by (auto simp: flights_ok_def add_task_def [of t w] in_flight_def Let_def at_task_def nth_append less_Suc_eq
      split: if_splits)

text \<open>A task moves and neither the pending entries nor the events change.\<close>

lemma flights_ok_move:
  assumes ok: "flights_ok key w" and i: "at_task w i t"
    and s: "sh_pending (snd m) = sh_pending (wd_shared w)" "sh_events (snd m) = sh_events (wd_shared w)"
    and f: "flight_key key (fst m) = flight_key key t"
    and waits: "\<And>q ev. fst m = Waiting q ev \<Longrightarrow> map_of (sh_pending (wd_shared w)) (key q) = Some ev"
  shows "flights_ok key (move_task i m w)"
proof -
  let ?p = "map_of (sh_pending (wd_shared w))" and ?e = "sh_events (wd_shared w)"
  have sh: "wd_shared (move_task i m w) = snd m" by (simp add: move_task_def)
  have "in_flight key k (wd_tasks (move_task i m w)) = in_flight key k (wd_tasks w)" for k
    using in_flight_pos [OF i, of key k] by (simp add: in_flight_move [OF i] f)
  moreover have "ev < length ?e \<and> (?e ! ev \<or> ?p (key q) = Some ev)"
    if "at_task (move_task i m w) j (Waiting q ev)" for j q ev
    using that waits [of q ev] flights_okD(2) [OF ok, of "key q" ev] flights_okD(4) [OF ok, of j q ev]
    by (auto split: if_splits)
  ultimately show ?thesis
    by (intro flights_okI [of _ ?p ?e]) (use flights_okD(1-3) [OF ok] in \<open>auto simp: sh s\<close>)
qed

lemma flights_ok_claim:
  assumes ok: "flights_ok key w" and i: "at_task w i (Entering q)"
    and free: "map_of (sh_pending (wd_shared w)) (key q) = None"
  shows "flights_ok key (move_task i (Working q, claim (key q) ((wd_shared w)\<lparr>sh_records := rs\<rparr>)) w)"
    (is "flights_ok key ?w'")
proof -
  let ?p = "map_of (sh_pending (wd_shared w))" and ?e = "sh_events (wd_shared w)"
  have p': "map_of (sh_pending (wd_shared ?w')) = ?p(key q \<mapsto> length ?e)"
    and e': "sh_events (wd_shared ?w') = ?e @ [False]"
    by (simp_all add: move_task_def claim_def)
  have bound: "ev < length ?e" if "?p k = Some ev" for k ev using flights_okD(2) [OF ok that] by simp
  have "in_flight key k (wd_tasks ?w') = (if (?p(key q \<mapsto> length ?e)) k = None then 0 else 1)" for k
    using flights_okD(1) [OF ok, of k] free by (simp add: in_flight_move [OF i])
  moreover have "ev < length (?e @ [False]) \<and> \<not> (?e @ [False]) ! ev"
    if "(?p(key q \<mapsto> length ?e)) k = Some ev" for k ev
    using that flights_okD(2) [OF ok, of k ev] by (auto simp: nth_append split: if_splits)
  moreover have "k = k'" if "(?p(key q \<mapsto> length ?e)) k = Some ev" "(?p(key q \<mapsto> length ?e)) k' = Some ev" for k k' ev
    using that bound [of k ev] bound [of k' ev] flights_okD(3) [OF ok, of k ev k'] by (auto split: if_splits)
  moreover have "ev < length (?e @ [False]) \<and> ((?e @ [False]) ! ev \<or> (?p(key q \<mapsto> length ?e)) (key r) = Some ev)"
    if "at_task ?w' j (Waiting r ev)" for j r ev
    using that flights_okD(4) [OF ok, of j r ev] free by (auto simp: nth_append split: if_splits)
  ultimately show ?thesis by (rule flights_okI [OF p' e'])
qed

lemma flights_ok_release:
  assumes ok: "flights_ok key w" and i: "at_task w i (Leaving q out)"
    and ev: "map_of (sh_pending (wd_shared w)) (key q) = Some ev"
  shows "flights_ok key (move_task i (Done q out', (wd_shared w)\<lparr>sh_pending := dict_pop (key q) (sh_pending (wd_shared w)),
      sh_events := (sh_events (wd_shared w))[ev := True]\<rparr>) w)"
    (is "flights_ok key ?w'")
proof -
  let ?p = "map_of (sh_pending (wd_shared w))" and ?e = "sh_events (wd_shared w)"
  have p': "map_of (sh_pending (wd_shared ?w')) = ?p(key q := None)"
    and e': "sh_events (wd_shared ?w') = ?e[ev := True]"
    by (simp_all add: move_task_def)
  have "in_flight key k (wd_tasks ?w') = (if (?p(key q := None)) k = None then 0 else 1)" for k
    using flights_okD(1) [OF ok, of k] ev by (simp add: in_flight_move [OF i])
  moreover have "n < length (?e[ev := True]) \<and> \<not> (?e[ev := True]) ! n"
    if "(?p(key q := None)) k = Some n" for k n
  proof -
    have k: "?p k = Some n" "k \<noteq> key q" using that by (auto split: if_splits)
    then have "n \<noteq> ev" using flights_okD(3) [OF ok k(1)] ev by blast
    then show ?thesis using flights_okD(2) [OF ok k(1)] by simp
  qed
  moreover have "k = k'" if "(?p(key q := None)) k = Some n" "(?p(key q := None)) k' = Some n" for k k' n
    using that flights_okD(3) [OF ok, of k n k'] by (auto split: if_splits)
  moreover have "n < length (?e[ev := True]) \<and> ((?e[ev := True]) ! n \<or> (?p(key q := None)) (key r) = Some n)"
    if "at_task ?w' j (Waiting r n)" for j r n
  proof -
    have "at_task w j (Waiting r n)" using that by (simp split: if_splits)
    from flights_okD(4) [OF ok this] show ?thesis using ev by (cases "n = ev") (auto simp: nth_list_update)
  qed
  ultimately show ?thesis by (rule flights_okI [OF p' e'])
qed

lemma pending_of_flight:
  assumes "flights_ok key w" and "at_task w i t" and "flight_key key t = Some k"
  obtains ev where "map_of (sh_pending (wd_shared w)) k = Some ev"
  using flights_okD(1) [OF assms(1), of k] in_flight_pos [OF assms(2,3)]
  by (cases "map_of (sh_pending (wd_shared w)) k") auto

lemma leave_section_releases:
  assumes "map_of (sh_pending s) (sc_key c q) = Some ev"
  shows "leave_section c q out s = (Done q out, s\<lparr>sh_pending := dict_pop (sc_key c q) (sh_pending s),
    sh_events := (sh_events s)[ev := True]\<rparr>)"
  using assms by (simp add: leave_section_def release_def)

lemma flights_ok_step:
  assumes "call_step c w m w'" and ok: "flights_ok (sc_key c) w"
  shows "flights_ok (sc_key c) w'"
  using assms(1)
proof cases
  case (enter i q now)
  obtain a rs where look: "sc_look c q now (sh_records (wd_shared w)) = (a, rs)" by fastforce
  show ?thesis
  proof (cases "a = None \<and> map_of (sh_pending (wd_shared w)) (sc_key c q) = None")
    case True
    then show ?thesis using flights_ok_claim [OF ok enter(3)] look enter(2) by (simp add: enter_section_def)
  next
    case False
    then show ?thesis unfolding enter(2)
      by (intro flights_ok_move [OF ok enter(3)])
        (auto simp: enter_section_def look split: option.splits)
  qed
next
  case (leave i q out)
  obtain ev where ev: "map_of (sh_pending (wd_shared w)) (sc_key c q) = Some ev"
    using pending_of_flight [OF ok leave(3)] by auto
  show ?thesis unfolding leave(2) leave_section_releases [OF ev]
    by (rule flights_ok_release [OF ok leave(3) ev])
next
  case (work i q v)
  show ?thesis unfolding work(2)
    by (intro flights_ok_move [OF ok work(3)]) (auto simp: work_section_def split: prod.splits)
next
  case (other u)
  show ?thesis using ok unfolding other(2) flights_ok_def Let_def at_task_def by simp
qed (auto intro!: flights_ok_add flights_ok_move ok)

lemma flights_ok_run:
  assumes "run_schedule c ms (idle rs) w"
  shows "flights_ok (sc_key c) w"
  by (rule run_schedule_invariant [where P = "flights_ok (sc_key c)", OF assms flights_ok_idle]) (rule flights_ok_step)

text \<open>What the invariant says in the words of the code: at most one task runs the factory of a key or is
  about to leave it; \<open>pop\<close> finds its entry; a task that waits for an event not yet set has the task that
  will set it.\<close>

definition one_flight :: "('q \<Rightarrow> 'k) \<Rightarrow> ('k, 'r, 'q, 'a) world \<Rightarrow> bool" where
  "one_flight key w = (\<forall>i j t u. at_task w i t \<and> at_task w j u \<and> flight_key key t \<noteq> None
     \<and> flight_key key t = flight_key key u \<longrightarrow> i = j)"

definition leaves_cleanly :: "('q \<Rightarrow> 'k) \<Rightarrow> ('k, 'r, 'q, 'a) world \<Rightarrow> bool" where
  "leaves_cleanly key w = (\<forall>i t k. at_task w i t \<and> flight_key key t = Some k \<longrightarrow> is_ok (release k (wd_shared w)))"

definition waits_for_flight :: "('q \<Rightarrow> 'k) \<Rightarrow> ('k, 'r, 'q, 'a) world \<Rightarrow> bool" where
  "waits_for_flight key w = (\<forall>i q ev. at_task w i (Waiting q ev) \<longrightarrow> sh_events (wd_shared w) ! ev
     \<or> (map_of (sh_pending (wd_shared w)) (key q) = Some ev
        \<and> (\<exists>j t. at_task w j t \<and> flight_key key t = Some (key q))))"

lemma one_flight_if: "flights_ok key w \<Longrightarrow> one_flight key w"
  unfolding one_flight_def at_task_def
proof (intro allI impI, elim conjE)
  fix i j t u
  assume ok: "flights_ok key w" and i: "i < length (wd_tasks w)" "wd_tasks w ! i = t"
    and j: "j < length (wd_tasks w)" "wd_tasks w ! j = u"
    and f: "flight_key key t \<noteq> None" "flight_key key t = flight_key key u"
  obtain k where k: "flight_key key t = Some k" using f(1) by blast
  have "count_list (map (flight_key key) (wd_tasks w)) (Some k) \<le> 1"
    using flights_okD(1) [OF ok, of k] by (simp add: in_flight_def)
  then show "i = j" using i j k f(2) using count_list_le_1_unique [of "map (flight_key key) (wd_tasks w)" "Some k" i j] by simp
qed

lemma leaves_cleanly_if: "flights_ok key w \<Longrightarrow> leaves_cleanly key w"
  unfolding leaves_cleanly_def
  by (auto elim!: pending_of_flight simp: release_def)

lemma flight_if_pending:
  assumes "flights_ok key w" and "map_of (sh_pending (wd_shared w)) k = Some ev"
  shows "\<exists>j t. at_task w j t \<and> flight_key key t = Some k"
proof -
  have "count_list (map (flight_key key) (wd_tasks w)) (Some k) = 1"
    using flights_okD(1) [OF assms(1), of k] assms(2) by (simp add: in_flight_def)
  then have "Some k \<in> set (map (flight_key key) (wd_tasks w))"
    by (metis count_list_0_iff zero_neq_one)
  then show ?thesis by (auto simp: in_set_conv_nth at_task_def)
qed

lemma waits_for_flight_if: "flights_ok key w \<Longrightarrow> waits_for_flight key w"
  unfolding waits_for_flight_def by (meson flights_okD(4) flight_if_pending)

section \<open>Every call can return\<close>

text \<open>The moves that only continue the calls under way: nothing starts, nothing is cancelled, the clock
  reads \<open>now\<close> and the factory of task \<open>i\<close> answers \<open>answer i\<close>.\<close>

fun continues :: "'v \<Rightarrow> (nat \<Rightarrow> 'o result) \<Rightarrow> ('q, 'v, 'o, 'u) move \<Rightarrow> bool" where
  "continues now answer (Enter i t) = (t = now)"
| "continues now answer (Wake i) = True"
| "continues now answer (Work i v) = (v = answer i)"
| "continues now answer (Leave i) = True"
| "continues now answer _ = False"

fun returned :: "('q, 'a) task \<Rightarrow> bool" where
  "returned (Done q out) = True"
| "returned _ = False"

fun rank :: "('q, 'a) task \<Rightarrow> nat" where
  "rank (Waiting q ev) = 5"
| "rank (Entering q) = 4"
| "rank (Working q) = 3"
| "rank (Leaving q out) = 2"
| "rank (Done q out) = 0"

definition work_left :: "('k, 'r, 'q, 'a) world \<Rightarrow> nat" where
  "work_left w = sum_list (map rank (wd_tasks w))"

lemma work_left_move:
  assumes "at_task w i t" and "rank (fst m) < rank t"
  shows "work_left (move_task i m w) < work_left w"
proof -
  have i: "i < length (wd_tasks w)" "wd_tasks w ! i = t" using assms(1) by (simp_all add: at_task_def)
  have "sum_list ((map rank (wd_tasks w))[i := rank (fst m)]) < sum_list (map rank (wd_tasks w))"
    using i assms(2) elem_le_sum_list [of i "map rank (wd_tasks w)"] by (simp add: sum_list_update)
  then show ?thesis by (simp add: work_left_def move_task_def map_update)
qed

lemma progress_by:
  assumes "call_step c w m (move_task i x w)" and "continues now answer m" and "at_task w i t" and "rank (fst x) < rank t"
  shows "\<exists>m w'. call_step c w m w' \<and> continues now answer m \<and> work_left w' < work_left w"
  using assms(1,2) work_left_move [OF assms(3,4)] by blast

lemma section_ranks:
  "rank (fst (work_section c q v s)) = 2"
  "rank (fst (leave_section c q out s)) = 0"
  "map_of (sh_pending s) (sc_key c q) = None \<Longrightarrow> rank (fst (enter_section c q t s)) \<le> 3"
  by (auto simp: work_section_def leave_section_def enter_section_def split: prod.splits sum.splits option.splits)

lemma call_progress:
  assumes ok: "flights_ok (sc_key c) w" and left: "\<not> list_all returned (wd_tasks w)"
  shows "\<exists>m w'. call_step c w m w' \<and> continues now answer m \<and> work_left w' < work_left w"
proof (cases "\<exists>j t k. at_task w j t \<and> flight_key (sc_key c) t = Some k")
  case True
  then obtain j t k where j: "at_task w j t" and k: "flight_key (sc_key c) t = Some k" by blast
  show ?thesis
  proof (cases t)
    case (Working q)
    then have "call_step c w (Work j (answer j)) (move_task j (work_section c q (answer j) (wd_shared w)) w)"
      using j by (simp add: call_step.work)
    from progress_by [OF this _ j] Working show ?thesis by (simp add: section_ranks)
  next
    case (Leaving q out)
    then show ?thesis using progress_by [OF call_step.leave _ j] j by (simp add: section_ranks)
  qed (use k in auto)
next
  case False
  then have free: "map_of (sh_pending (wd_shared w)) k = None" for k
    using flight_if_pending [OF ok, of k] by (cases "map_of (sh_pending (wd_shared w)) k") auto
  obtain i t where i: "at_task w i t" and t: "\<not> returned t"
    using left by (auto simp: list_all_iff in_set_conv_nth at_task_def)
  have none: "flight_key (sc_key c) t = None"
    using False i by (cases "flight_key (sc_key c) t") blast+
  show ?thesis
  proof (cases t)
    case (Entering q)
    have less: "rank (fst (enter_section c q now (wd_shared w))) < rank t"
      using section_ranks(3) [OF free, of c q now] Entering by simp
    have step: "call_step c w (Enter i now) (move_task i (enter_section c q now (wd_shared w)) w)"
      using i Entering by (simp add: call_step.enter)
    show ?thesis by (rule progress_by [OF step _ i less]) simp
  next
    case (Waiting q ev)
    then have "sh_events (wd_shared w) ! ev" using flights_okD(4) [OF ok, of i q ev] i free by simp
    then show ?thesis using progress_by [OF call_step.wake _ i] i Waiting by simp
  qed (use none t in auto)
qed

lemma calls_can_return:
  assumes "flights_ok (sc_key c) w"
  shows "\<exists>ms w'. run_schedule c ms w w' \<and> list_all (continues now answer) ms \<and> list_all returned (wd_tasks w')"
  using assms
proof (induction "work_left w" arbitrary: w rule: less_induct)
  case less
  show ?case
  proof (cases "list_all returned (wd_tasks w)")
    case True
    then show ?thesis by (intro exI [of _ "[]"] exI [of _ w]) simp
  next
    case False
    then obtain m v where v: "call_step c w m v" "continues now answer m" "work_left v < work_left w"
      using call_progress [OF less.prems] by blast
    from less.hyps [OF v(3) flights_ok_step [OF v(1) less.prems]] v
    show ?thesis by (metis list.pred_inject(2) run_schedule.simps(2))
  qed
qed

section \<open>Creating at most once\<close>

text \<open>The interface of a store that creates: a record found under the lock answers the call without
  creating, an entry of the index is never lost, and what creates leaves an entry for its key.\<close>

locale create_once =
  fixes c :: "('k, 'r, 'q, 'v, 'o, 'a, 'u) sections"
    and entry :: "'r \<Rightarrow> 'k \<Rightarrow> 'i option"
    and created :: "'a \<Rightarrow> bool"
  assumes look_none: "sc_look c q now rs = (None, rs') \<Longrightarrow> entry rs (sc_key c q) = None"
    and look_some: "sc_look c q now rs = (Some (Inr a), rs') \<Longrightarrow> \<not> created a"
    and look_keeps: "sc_look c q now rs = (found, rs') \<Longrightarrow> entry rs k \<noteq> None \<Longrightarrow> entry rs' k \<noteq> None"
    and complete_makes: "sc_complete c q v rs = (Inr a, rs') \<Longrightarrow> entry rs' (sc_key c q) \<noteq> None"
    and complete_keeps: "sc_complete c q v rs = (x, rs') \<Longrightarrow> entry rs k \<noteq> None \<Longrightarrow> entry rs' k \<noteq> None"
    and other_keeps: "entry rs k \<noteq> None \<Longrightarrow> entry (sc_other c u rs) k \<noteq> None"
begin

abbreviation (input) key :: "'q \<Rightarrow> 'k" where "key \<equiv> sc_key c"

text \<open>The key for which a task has created.\<close>

fun made_key :: "('q, 'a) task \<Rightarrow> 'k option" where
  "made_key (Leaving q (Returned (Inr a))) = (if created a then Some (key q) else None)"
| "made_key (Done q (Returned (Inr a))) = (if created a then Some (key q) else None)"
| "made_key t = None"

text \<open>The key for which a task has created or may still create.\<close>

definition maker_key :: "('q, 'a) task \<Rightarrow> 'k option" where
  "maker_key t = (case t of Working q \<Rightarrow> Some (key q) | _ \<Rightarrow> made_key t)"

lemma maker_key_simps [simp]:
  "maker_key (Working q) = Some (key q)"
  "maker_key (Entering q) = None"
  "maker_key (Waiting q ev) = None"
  "maker_key (Leaving q out) = made_key (Leaving q out)"
  "maker_key (Done q out) = made_key (Done q out)"
  by (simp_all add: maker_key_def)

lemma made_key_cancelled [simp]: "made_key (Leaving q Cancelled) = None" "made_key (Done q Cancelled) = None"
  by simp_all

lemma made_key_done [simp]: "made_key (Done q out) = made_key (Leaving q out)"
  by (cases out; cases "case out of Returned r \<Rightarrow> r | _ \<Rightarrow> undefined") auto

definition once_ok :: "('k, 'r, 'q, 'a) world \<Rightarrow> bool" where
  "once_ok w = ((\<forall>k. count_list (map maker_key (wd_tasks w)) (Some k) \<le> 1)
     \<and> (\<forall>i t k. at_task w i t \<and> made_key t = Some k \<longrightarrow> entry (sh_records (wd_shared w)) k \<noteq> None))"

lemma once_okD:
  assumes "once_ok w" and "at_task w i t" and "made_key t = Some k"
  shows "entry (sh_records (wd_shared w)) k \<noteq> None"
  using assms unfolding once_ok_def by blast

lemma once_ok_idle: "once_ok (idle rs)"
  by (simp add: once_ok_def idle_def at_task_def)

lemma made_key_answered:
  assumes "sc_look c q now rs = (Some a, rs')"
  shows "made_key (Leaving q (Returned a)) = None"
  using look_some assms by (cases a) auto

lemma once_ok_add:
  assumes "once_ok w" and "maker_key t = None" and "made_key t = None"
  shows "once_ok (add_task t w)"
  using assms by (auto simp: once_ok_def) (auto simp: add_task_def)

text \<open>A task moves without becoming a maker.\<close>

lemma once_ok_move:
  assumes ok: "once_ok w" and i: "at_task w i t"
    and maker: "maker_key (fst m) = maker_key t \<or> maker_key (fst m) = None"
    and keeps: "\<And>k. entry (sh_records (wd_shared w)) k \<noteq> None \<Longrightarrow> entry (sh_records (snd m)) k \<noteq> None"
    and made: "\<And>k. made_key (fst m) = Some k \<Longrightarrow> entry (sh_records (snd m)) k \<noteq> None"
  shows "once_ok (move_task i m w)"
proof -
  have len: "i < length (wd_tasks w)" "wd_tasks w ! i = t" using i by (simp_all add: at_task_def)
  have "count_list (map maker_key (wd_tasks (move_task i m w))) (Some k) \<le> 1" for k
  proof -
    have "count_list (map maker_key (wd_tasks w)) (Some k) \<le> 1" using ok by (simp add: once_ok_def)
    with maker show ?thesis using count_list_map_pos [of i "wd_tasks w" maker_key "Some k"] len
      by (auto simp: move_task_def count_list_map_update split: if_splits)
  qed
  moreover have "entry (sh_records (snd m)) k \<noteq> None"
    if "at_task (move_task i m w) j u" "made_key u = Some k" for j u k
    using that made keeps ok unfolding once_ok_def at_task_move by metis
  moreover have "wd_shared (move_task i m w) = snd m" by (simp add: move_task_def)
  ultimately show ?thesis unfolding once_ok_def by metis
qed

lemma no_maker:
  assumes ok: "once_ok w" and f: "flights_ok key w"
    and none: "entry (sh_records (wd_shared w)) k = None" and free: "map_of (sh_pending (wd_shared w)) k = None"
  shows "count_list (map maker_key (wd_tasks w)) (Some k) = 0"
proof (rule ccontr)
  assume "count_list (map maker_key (wd_tasks w)) (Some k) \<noteq> 0"
  then have "Some k \<in> set (map maker_key (wd_tasks w))" by (metis count_list_0_iff)
  then obtain i t where i: "at_task w i t" and t: "maker_key t = Some k"
    by (auto simp: in_set_conv_nth at_task_def)
  have "made_key t \<noteq> Some k" using once_okD [OF ok i] none by blast
  with t have "flight_key key t = Some k" by (cases t) (auto simp: maker_key_def)
  from pending_of_flight [OF f i this] free show False by simp
qed

lemma once_ok_claim:
  assumes ok: "once_ok w" and f: "flights_ok key w" and i: "at_task w i (Entering q)"
    and none: "entry (sh_records (wd_shared w)) (key q) = None"
    and free: "map_of (sh_pending (wd_shared w)) (key q) = None"
    and keeps: "\<And>k. entry (sh_records (wd_shared w)) k \<noteq> None \<Longrightarrow> entry rs k \<noteq> None"
  shows "once_ok (move_task i (Working q, claim (key q) ((wd_shared w)\<lparr>sh_records := rs\<rparr>)) w)" (is "once_ok ?w'")
proof -
  have len: "i < length (wd_tasks w)" "wd_tasks w ! i = Entering q" using i by (simp_all add: at_task_def)
  have "count_list (map maker_key (wd_tasks ?w')) (Some k) \<le> 1" for k
    using no_maker [OF ok f none free] ok len by (auto simp: move_task_def count_list_map_update once_ok_def)
  moreover have "entry rs k \<noteq> None" if "at_task ?w' j u" "made_key u = Some k" for j u k
    using that keeps ok unfolding once_ok_def at_task_move by (metis fst_conv made_key.simps(5) option.distinct(1))
  moreover have "sh_records (wd_shared ?w') = rs" by (simp add: move_task_def claim_def)
  ultimately show ?thesis unfolding once_ok_def by metis
qed

lemma once_ok_step:
  assumes "call_step c w m w'" and ok: "once_ok w" and f: "flights_ok key w"
  shows "once_ok w'"
  using assms(1)
proof cases
  case (enter i q now)
  obtain a rs where look: "sc_look c q now (sh_records (wd_shared w)) = (a, rs)" by fastforce
  note keeps = look_keeps [OF look]
  show ?thesis
  proof (cases "a = None \<and> map_of (sh_pending (wd_shared w)) (key q) = None")
    case True
    then show ?thesis using once_ok_claim [OF ok f enter(3) _ _ keeps] look look_none enter(2)
      by (simp add: enter_section_def)
  next
    case False
    have "maker_key (fst (enter_section c q now (wd_shared w))) = None"
      "made_key (fst (enter_section c q now (wd_shared w))) = None"
      using False look made_key_answered by (auto simp: enter_section_def split: option.splits)
    moreover have "sh_records (snd (enter_section c q now (wd_shared w))) = rs"
      using False look by (auto simp: enter_section_def split: option.splits)
    ultimately show ?thesis unfolding enter(2) using keeps by (intro once_ok_move [OF ok enter(3)]) simp_all
  qed
next
  case (work i q v)
  obtain a rs where complete: "sc_complete c q v (sh_records (wd_shared w)) = (a, rs)" by fastforce
  have made: "made_key (Leaving q (Returned a)) = None \<or> made_key (Leaving q (Returned a)) = Some (key q) \<and> entry rs (key q) \<noteq> None"
    using complete_makes complete by (cases a) auto
  then show ?thesis unfolding work(2) using complete_keeps [OF complete]
    by (intro once_ok_move [OF ok work(3)]) (auto simp: work_section_def complete)
next
  case (leave i q out)
  obtain ev where ev: "map_of (sh_pending (wd_shared w)) (key q) = Some ev"
    using pending_of_flight [OF f leave(3)] by auto
  show ?thesis unfolding leave(2) leave_section_releases [OF ev]
    using ok leave(3) by (intro once_ok_move [OF ok leave(3)]) (auto simp: once_ok_def)
next
  case (other u)
  then show ?thesis using ok other_keeps by (simp add: once_ok_def at_task_def)
qed (auto intro!: once_ok_add once_ok_move ok)

lemma once_ok_run:
  assumes "run_schedule c ms (idle rs) w"
  shows "once_ok w"
proof -
  have "once_ok w \<and> flights_ok key w"
  proof (rule run_schedule_invariant [where P = "\<lambda>w. once_ok w \<and> flights_ok key w", OF assms])
    show "once_ok (idle rs) \<and> flights_ok key (idle rs)" by (simp add: once_ok_idle flights_ok_idle)
  qed (blast intro: once_ok_step flights_ok_step)
  then show ?thesis ..
qed

lemma one_creation:
  assumes "run_schedule c ms (idle rs) w"
    and "at_task w i (Done q (Returned (Inr a)))" "created a"
    and "at_task w j (Done r (Returned (Inr b)))" "created b" and "key q = key r"
  shows "i = j"
proof -
  have "count_list (map maker_key (wd_tasks w)) (Some (key q)) \<le> 1"
    using once_ok_run [OF assms(1)] by (simp add: once_ok_def)
  then show ?thesis
    using count_list_le_1_unique [of "map maker_key (wd_tasks w)" "Some (key q)" i j] assms(2-)
    by (simp add: at_task_def)
qed

end

text \<open>When the entry names what was created, and nothing but a creation makes an entry, all calls with
  one key that return agree on it.\<close>

locale create_agreed = create_once c entry created
  for c :: "('k, 'r, 'q, 'v, 'o, 'a, 'u) sections" and entry :: "'r \<Rightarrow> 'k \<Rightarrow> 'i option" and created :: "'a \<Rightarrow> bool" +
  fixes ident :: "'a \<Rightarrow> 'i" and ok :: "'r \<Rightarrow> bool"
  assumes look_ok: "sc_look c q now rs = (found, rs') \<Longrightarrow> ok rs \<Longrightarrow> ok rs' \<and> entry rs' = entry rs"
    and look_ident: "sc_look c q now rs = (Some (Inr a), rs') \<Longrightarrow> ok rs \<Longrightarrow> entry rs (sc_key c q) = Some (ident a)"
    and complete_ok: "sc_complete c q v rs = (x, rs') \<Longrightarrow> ok rs \<Longrightarrow> entry rs (sc_key c q) = None \<Longrightarrow>
      ok rs' \<and> entry rs' = (case x of Inl e \<Rightarrow> entry rs | Inr a \<Rightarrow> (entry rs)(sc_key c q \<mapsto> ident a))"
    and other_ok: "ok rs \<Longrightarrow> ok (sc_other c u rs) \<and> entry (sc_other c u rs) = entry rs"
begin

fun answer_of :: "('q, 'a) task \<Rightarrow> ('k \<times> 'i) option" where
  "answer_of (Leaving q (Returned (Inr a))) = Some (sc_key c q, ident a)"
| "answer_of (Done q (Returned (Inr a))) = Some (sc_key c q, ident a)"
| "answer_of t = None"

lemma answer_of_done [simp]: "answer_of (Done q out) = answer_of (Leaving q out)"
  by (cases out; cases "case out of Returned r \<Rightarrow> r | _ \<Rightarrow> undefined") auto

definition agreed :: "('k, 'r, 'q, 'a) world \<Rightarrow> bool" where
  "agreed w = (let rs = sh_records (wd_shared w) in ok rs
     \<and> (\<forall>i q. at_task w i (Working q) \<longrightarrow> entry rs (sc_key c q) = None)
     \<and> (\<forall>i t k x. at_task w i t \<and> answer_of t = Some (k, x) \<longrightarrow> entry rs k = Some x))"

lemma agreedD:
  assumes "agreed w"
  shows "ok (sh_records (wd_shared w))"
    and "at_task w i (Working q) \<Longrightarrow> entry (sh_records (wd_shared w)) (sc_key c q) = None"
    and "at_task w i t \<Longrightarrow> answer_of t = Some (k, x) \<Longrightarrow> entry (sh_records (wd_shared w)) k = Some x"
  using assms by (auto simp: agreed_def Let_def)

lemma agreed_add:
  assumes "agreed w" and "answer_of t = None" and "\<And>q. t \<noteq> Working q"
  shows "agreed (add_task t w)"
proof -
  have "wd_shared (add_task t w) = wd_shared w" by (simp add: add_task_def)
  then show ?thesis unfolding agreed_def Let_def at_task_add using agreedD [OF assms(1)] assms(2,3) by auto
qed

lemma agreed_move:
  assumes a: "agreed w" and rs: "ok (sh_records (snd m))"
    and other: "\<And>k. entry (sh_records (snd m)) k \<noteq> entry (sh_records (wd_shared w)) k \<Longrightarrow>
      entry (sh_records (wd_shared w)) k = None \<and> (\<forall>j q. j \<noteq> i \<longrightarrow> at_task w j (Working q) \<longrightarrow> sc_key c q \<noteq> k)"
    and working: "\<And>q. fst m = Working q \<Longrightarrow> entry (sh_records (snd m)) (sc_key c q) = None"
    and answer: "\<And>k x. answer_of (fst m) = Some (k, x) \<Longrightarrow> entry (sh_records (snd m)) k = Some x"
  shows "agreed (move_task i m w)"
proof -
  have "wd_shared (move_task i m w) = snd m" by (simp add: move_task_def)
  moreover have "entry (sh_records (snd m)) (sc_key c q) = None" if "at_task (move_task i m w) j (Working q)" for j q
    using that working other [of "sc_key c q"] agreedD(2) [OF a] by (cases "j = i") fastforce+
  moreover have "entry (sh_records (snd m)) k = Some x"
    if "at_task (move_task i m w) j t" "answer_of t = Some (k, x)" for j t k x
    using that answer other [of k] agreedD(3) [OF a] by (cases "j = i") fastforce+
  ultimately show ?thesis unfolding agreed_def Let_def using rs by (simp del: at_task_move) blast
qed

lemma agreed_idle: "ok rs \<Longrightarrow> agreed (idle rs)"
  by (simp add: agreed_def idle_def at_task_def)

lemma agreed_step:
  assumes "call_step c w m w'" and a: "agreed w" and f: "flights_ok (sc_key c) w"
  shows "agreed w'"
  using assms(1)
proof cases
  case (enter i q now)
  let ?m = "enter_section c q now (wd_shared w)"
  obtain found rs where look: "sc_look c q now (sh_records (wd_shared w)) = (found, rs)" by fastforce
  have rs: "sh_records (snd ?m) = rs" by (auto simp: enter_section_def look claim_def split: option.splits)
  have "entry rs (sc_key c q) = None" if "fst ?m = Working q'" for q'
    using that look_none [of q now] look_ok [OF look agreedD(1) [OF a]] look
    by (auto simp: enter_section_def split: option.splits)
  moreover have "entry rs k = Some x" if "answer_of (fst ?m) = Some (k, x)" for k x
    using that look_ident [of q now _ _ rs] look look_ok [OF look agreedD(1) [OF a]] agreedD(1) [OF a]
    by (cases found) (auto simp: enter_section_def split: option.splits elim!: answer_of.elims)
  moreover have "q' = q" if "fst ?m = Working q'" for q'
    using that by (auto simp: enter_section_def look split: option.splits)
  ultimately show ?thesis unfolding enter(2)
    using look_ok [OF look agreedD(1) [OF a]] by (intro agreed_move [OF a]) (auto simp: rs)
next
  case (work i q v)
  obtain x rs where complete: "sc_complete c q v (sh_records (wd_shared w)) = (x, rs)" by fastforce
  have effect: "ok rs \<and> entry rs = (case x of Inl e \<Rightarrow> entry (sh_records (wd_shared w))
      | Inr a \<Rightarrow> (entry (sh_records (wd_shared w)))(sc_key c q \<mapsto> ident a))"
    by (rule complete_ok [OF complete agreedD(1) [OF a] agreedD(2) [OF a work(3)]])
  have alone: "sc_key c r \<noteq> sc_key c q" if "j \<noteq> i" "at_task w j (Working r)" for j r
    using one_flight_if [OF f] that work(3) unfolding one_flight_def by fastforce
  show ?thesis unfolding work(2)
    by (rule agreed_move [OF a])
      (use effect alone agreedD(2) [OF a work(3)] in \<open>auto simp: work_section_def complete split: sum.splits if_splits\<close>)
next
  case (leave i q out)
  obtain ev where ev: "map_of (sh_pending (wd_shared w)) (sc_key c q) = Some ev"
    using pending_of_flight [OF f leave(3)] by auto
  show ?thesis unfolding leave(2) leave_section_releases [OF ev]
    by (rule agreed_move [OF a]) (use agreedD [OF a] leave(3) in auto)
next
  case (other u)
  have sh: "sh_records (wd_shared w') = sc_other c u (sh_records (wd_shared w))" "at_task w' = at_task w"
    using other(2) by (simp_all add: at_task_def fun_eq_iff)
  show ?thesis unfolding agreed_def Let_def sh using other_ok [OF agreedD(1) [OF a], of u] agreedD [OF a] by metis
qed (auto intro!: agreed_add agreed_move a agreedD [OF a])

lemma agreed_run:
  assumes "run_schedule c ms (idle rs) w" and "ok rs"
  shows "agreed w"
proof -
  have "agreed w \<and> flights_ok (sc_key c) w"
  proof (rule run_schedule_invariant [where P = "\<lambda>w. agreed w \<and> flights_ok (sc_key c) w", OF assms(1)])
    show "agreed (idle rs) \<and> flights_ok (sc_key c) (idle rs)"
      using assms(2) by (simp add: flights_ok_idle agreed_idle)
  qed (blast intro: agreed_step flights_ok_step)
  then show ?thesis ..
qed

lemma one_answer:
  assumes "run_schedule c ms (idle rs) w" and "ok rs"
    and "at_task w i (Done q (Returned (Inr a)))" and "at_task w j (Done r (Returned (Inr b)))"
    and "sc_key c q = sc_key c r"
  shows "ident a = ident b"
  using agreedD(3) [OF agreed_run [OF assms(1,2)] assms(3)] agreedD(3) [OF agreed_run [OF assms(1,2)] assms(4)] assms(5)
  by simp

end

end
