(* ===== verification/Store_Calls.thy ===== *)
theory Store_Calls
  imports Single_Flight Service_Sample Platform_Sample
begin

text \<open>
  The four stores of \<^verbatim>\<open>service/stores.py\<close> and \<^verbatim>\<open>platform/stores.py\<close> whose calls wait for each other, as
  sections of the loop of \<open>Single_Flight\<close>. \<open>Service_Stores\<close> and \<open>Platform_Stores\<close> model one call on its
  own; the lemmas \<open>\<dots>_alone\<close> show that this is what the sections do when no other task is under way.
\<close>

section \<open>The sections of each store\<close>

definition enrollment_sections ::
    "(string, enrollment_state, string, unit, enrollment_record, enrollment_record \<times> bool, enrollment_record) sections" where
  "enrollment_sections =
     \<lparr>sc_check = (\<lambda>agent_did. Ok ()),
      sc_key = (\<lambda>agent_did. agent_did),
      sc_look = (\<lambda>agent_did now records.
        (case enrollment_find agent_did records of
           Some existing \<Rightarrow> (Some (Ok (existing, False)), records)
         | None \<Rightarrow> (None, records))),
      sc_complete = (\<lambda>agent_did answer records.
        (case answer of
           Inl e \<Rightarrow> (Raise e, records)
         | Inr created \<Rightarrow>
             if en_agent_did created \<noteq> agent_did
             then (Raise (Value_Error ''enrollment factory returned a mismatched Agent DID''), records)
             else (Ok (created, True), dict_set agent_did created records))),
      sc_other = enrollment_save\<rparr>"

definition idempotency_sections ::
    "(string \<times> string, idempotency_store, idempotency_input, datetime, stored_response, idempotency_result, unit) sections" where
  "idempotency_sections =
     \<lparr>sc_check = (\<lambda>v. require (ii_agent_did v \<noteq> [] \<and> ii_command v \<noteq> [] \<and> ii_key v \<noteq> [] \<and> ii_hash v \<noteq> [])
        (Value_Error ''AEP idempotency store received invalid input'')),
      sc_key = (\<lambda>v. (ii_agent_did v, ii_key v)),
      sc_look = (\<lambda>v now records.
        if \<not> aware now
        then (Some (Raise (Value_Error ''AEP idempotency clock must return an offset-aware datetime'')), records)
        else let kept = prune_idempotency now records in
          case map_of kept (ii_agent_did v, ii_key v) of
            Some (previous, response) \<Rightarrow>
              (Some (Ok (if ii_command previous \<noteq> ii_command v \<or> ii_hash previous \<noteq> ii_hash v
                 then \<lparr>ir_response = None, ir_state = Idem_Conflict\<rparr>
                 else \<lparr>ir_response = Some response, ir_state = Idem_Replayed\<rparr>)), kept)
          | None \<Rightarrow> (None, kept)),
      sc_complete = (\<lambda>v answer records.
        (case answer of
           Inl e \<Rightarrow> (Raise e, records)
         | Inr response \<Rightarrow> (Ok \<lparr>ir_response = Some response, ir_state = Idem_Created\<rparr>,
             dict_set (ii_agent_did v, ii_key v) (v, response) records))),
      sc_other = (\<lambda>_ records. records)\<rparr>"

definition identity_sections ::
    "(string \<times> string, identity_state, string \<times> string, unit, identity_record, identity_record \<times> bool,
      string \<times> managed_status \<times> datetime) sections" where
  "identity_sections =
     \<lparr>sc_check = (\<lambda>(owner, service). require (owner \<noteq> [] \<and> service \<noteq> [])
        (Value_Error ''AEP Platform identity scope must not be empty'')),
      sc_key = (\<lambda>scope. scope),
      sc_look = (\<lambda>scope now st.
        (case map_of (im_by_scope st) scope of
           Some i \<Rightarrow> (Some (case identity_get i st of Some r \<Rightarrow> Ok (r, False) | None \<Rightarrow> Raise (Key_Error i)), st)
         | None \<Rightarrow> (None, st))),
      sc_complete = (\<lambda>scope answer st.
        (case rbind answer (\<lambda>r. rbind (validate_identity_record r) (\<lambda>_.
            rbind (require (scope_of r = scope)
              (Value_Error ''AEP Platform identity does not match its requested scope'')) (\<lambda>_.
            rbind (identity_insert r st) (\<lambda>st'. Ok (r, st'))))) of
           Inl e \<Rightarrow> (Raise e, st)
         | Inr (r, st') \<Rightarrow> (Ok (r, True), st'))),
      sc_other = (\<lambda>(i, status, t) st. snd (identity_update i status t st))\<rparr>"

definition platform_idempotency_sections ::
    "(string \<times> string, platform_idempotency, platform_input, datetime, platform_stored, platform_idempotency_result, unit) sections" where
  "platform_idempotency_sections =
     \<lparr>sc_check = (\<lambda>v. require (pn_principal v \<noteq> [] \<and> pn_key v \<noteq> [] \<and> pn_hash v \<noteq> [])
        (Value_Error ''AEP Platform idempotency input is invalid'')),
      sc_key = (\<lambda>v. (pn_principal v, pn_key v)),
      sc_look = (\<lambda>v now records.
        if \<not> aware now
        then (Some (Raise (Value_Error ''AEP Platform idempotency clock must be offset-aware'')), records)
        else let kept = prune_platform now records in
          case map_of kept (pn_principal v, pn_key v) of
            Some (previous, response) \<Rightarrow>
              (Some (Ok (if pn_operation previous \<noteq> pn_operation v \<or> pn_hash previous \<noteq> pn_hash v
                 then \<lparr>px_response = None, px_state = Platform_Conflict\<rparr>
                 else \<lparr>px_response = Some response, px_state = Platform_Replayed\<rparr>)), kept)
          | None \<Rightarrow> (None, kept)),
      sc_complete = (\<lambda>v answer records.
        (case answer of
           Inl e \<Rightarrow> (Raise e, records)
         | Inr response \<Rightarrow> (Ok \<lparr>px_response = Some response, px_state = Platform_Created\<rparr>,
             dict_set (pn_principal v, pn_key v) (v, response) records))),
      sc_other = (\<lambda>_ records. records)\<rparr>"

section \<open>One call on its own\<close>

text \<open>The sections in a row, around a factory that is a program on the whole state. \<open>get\<close> and \<open>upd\<close> reach
  the records of the store in it.\<close>

definition alone :: "('k, 'r, 'q, 'v, 'o, 'a, 'u) sections \<Rightarrow> ('s \<Rightarrow> 'r) \<Rightarrow> (('r \<Rightarrow> 'r) \<Rightarrow> 's \<Rightarrow> 's)
    \<Rightarrow> ('s, 'v) prog \<Rightarrow> 'q \<Rightarrow> ('s, 'o) prog \<Rightarrow> ('s, 'a) prog" where
  "alone c get upd clock q factory =
     sbind (slift (sc_check c q)) (\<lambda>_. sbind clock (\<lambda>now s.
       case sc_look c q now (get s) of
         (Some answer, rs) \<Rightarrow> (answer, upd (\<lambda>_. rs) s)
       | (None, rs) \<Rightarrow>
           (case factory (upd (\<lambda>_. rs) s) of (v, s') \<Rightarrow>
              (case sc_complete c q v (get s') of (a, rs') \<Rightarrow> (a, upd (\<lambda>_. rs') s')))))"

text \<open>What \<open>get\<close> and \<open>upd\<close> are to each other.\<close>

definition field_access :: "('s \<Rightarrow> 'r) \<Rightarrow> (('r \<Rightarrow> 'r) \<Rightarrow> 's \<Rightarrow> 's) \<Rightarrow> bool" where
  "field_access get upd = (\<forall>s. upd (\<lambda>_. get s) s = s \<and> (\<forall>f. upd f s = upd (\<lambda>_. f (get s)) s \<and> get (upd f s) = f (get s)))"

lemma field_accessD:
  assumes "field_access get upd"
  shows "upd (\<lambda>_. get s) s = s" and "upd f s = upd (\<lambda>_. f (get s)) s" and "get (upd f s) = f (get s)"
  using assms unfolding field_access_def by blast+

lemma enrollment_alone:
  assumes "field_access get upd"
  shows "find_or_create get upd agent_did factory = alone enrollment_sections get upd (sret ()) agent_did factory"
proof
  fix s
  show "find_or_create get upd agent_did factory s = alone enrollment_sections get upd (sret ()) agent_did factory s"
    using field_accessD [OF assms]
    by (simp add: find_or_create_def alone_def enrollment_sections_def sbind_def prog_run split: option.split prod.split sum.split)
qed

lemma identity_alone:
  assumes "field_access get upd"
  shows "identity_find_or_create get upd owner service factory
    = alone identity_sections get upd (sret ()) (owner, service) factory"
proof
  fix s
  show "identity_find_or_create get upd owner service factory s
      = alone identity_sections get upd (sret ()) (owner, service) factory s"
    using field_accessD [OF assms]
    by (auto simp: identity_find_or_create_def alone_def identity_sections_def sbind_def prog_run require_def rbind_def
        split: option.split prod.split sum.split)
qed

lemma idempotency_alone:
  assumes "field_access get upd"
  shows "idempotency_execute get upd clock v compute = alone idempotency_sections get upd clock v compute"
proof
  fix s
  show "idempotency_execute get upd clock v compute s = alone idempotency_sections get upd clock v compute s"
    using field_accessD [OF assms]
    by (auto simp: idempotency_execute_def alone_def idempotency_sections_def sbind_def prog_run require_def Let_def
        split: option.split prod.split sum.split)
qed

lemma platform_idempotency_alone:
  assumes "field_access get upd"
  shows "platform_execute get upd clock v operation = alone platform_idempotency_sections get upd clock v operation"
proof
  fix s
  show "platform_execute get upd clock v operation s = alone platform_idempotency_sections get upd clock v operation s"
    using field_accessD [OF assms]
    by (auto simp: platform_execute_def alone_def platform_idempotency_sections_def sbind_def prog_run require_def Let_def
        split: option.split prod.split sum.split)
qed

section \<open>The stores that create\<close>

interpretation enrollment_calls: create_once enrollment_sections map_of snd
  by unfold_locales
    (auto simp: enrollment_sections_def enrollment_find_def enrollment_save_def split: option.splits sum.splits if_splits)

text \<open>The records of the identity store are filed under their own identifiers.\<close>

definition filed :: "identity_state \<Rightarrow> bool" where
  "filed st = (\<forall>i r. map_of (im_records st) i = Some r \<longrightarrow> id_identity_id r = i)"

lemma filed_get: "filed st \<Longrightarrow> identity_get i st = Some r \<Longrightarrow> id_identity_id r = i"
  by (simp add: filed_def identity_get_def)

lemma identity_update_scope:
  "im_by_scope (snd (identity_update i status t st)) = im_by_scope st"
  "filed st \<Longrightarrow> filed (snd (identity_update i status t st))"
  by (auto simp: identity_update_def filed_def identity_get_def sbind_def prog_run require_def Let_def split: option.splits)

lemma identity_complete_Inr:
  assumes "sc_complete identity_sections scope answer st = (Inr (r, new), st')"
  shows "new" and "identity_insert r st = Inr st'" and "scope_of r = scope"
  using assms by (auto simp: identity_sections_def rbind_def require_def split: sum.splits if_splits)

lemma identity_complete_Inl:
  "sc_complete identity_sections scope answer st = (Inl e, st') \<Longrightarrow> st' = st"
  by (auto simp: identity_sections_def split: sum.splits prod.splits)

lemma identity_insert_scope:
  assumes "identity_insert r st = Inr st'"
  shows "map_of (im_by_scope st') = (map_of (im_by_scope st))(scope_of r \<mapsto> id_identity_id r)"
    and "filed st \<Longrightarrow> filed st'"
  using assms by (auto simp: identity_insert_def filed_def split: if_splits)

lemma identity_complete_scope:
  assumes step: "sc_complete identity_sections scope answer st = (x, st')"
  shows "map_of (im_by_scope st') = (case x of Inl e \<Rightarrow> map_of (im_by_scope st)
      | Inr (r, new) \<Rightarrow> (map_of (im_by_scope st))(scope \<mapsto> id_identity_id r))"
    and "filed st \<Longrightarrow> filed st'"
proof -
  have "map_of (im_by_scope st') = (case x of Inl e \<Rightarrow> map_of (im_by_scope st)
      | Inr (r, new) \<Rightarrow> (map_of (im_by_scope st))(scope \<mapsto> id_identity_id r)) \<and> (filed st \<longrightarrow> filed st')"
  proof (cases x)
    case (Inl e)
    show ?thesis using identity_complete_Inl [OF step [unfolded Inl]] by (simp add: Inl)
  next
    case (Inr a)
    obtain r new where a: "a = (r, new)" by (cases a)
    note effect = identity_complete_Inr [OF step [unfolded Inr a]]
    show ?thesis using identity_insert_scope [OF effect(2)] effect(3) by (simp add: Inr a)
  qed
  then show "map_of (im_by_scope st') = (case x of Inl e \<Rightarrow> map_of (im_by_scope st)
      | Inr (r, new) \<Rightarrow> (map_of (im_by_scope st))(scope \<mapsto> id_identity_id r))" "filed st \<Longrightarrow> filed st'" by auto
qed

lemma identity_key [simp]: "sc_key identity_sections scope = scope"
  by (simp add: identity_sections_def)

interpretation identity_calls: create_agreed identity_sections "\<lambda>st. map_of (im_by_scope st)" snd "\<lambda>(r, _). id_identity_id r" filed
proof unfold_locales
  fix scope :: "string \<times> string" and answer st x st' k u
  assume step: "sc_complete identity_sections scope answer st = (x, st')"
  show "map_of (im_by_scope st) k \<noteq> None \<Longrightarrow> map_of (im_by_scope st') k \<noteq> None"
    by (simp add: identity_complete_scope(1) [OF step] split: sum.splits prod.splits)
  show "filed st \<Longrightarrow> map_of (im_by_scope st) (sc_key identity_sections scope) = None \<Longrightarrow>
    filed st' \<and> map_of (im_by_scope st') = (case x of Inl e \<Rightarrow> map_of (im_by_scope st)
      | Inr a \<Rightarrow> (map_of (im_by_scope st))(sc_key identity_sections scope \<mapsto> (case a of (r, _) \<Rightarrow> id_identity_id r)))"
    using identity_complete_scope [OF step] by (simp split: sum.splits prod.splits)
next
  fix scope :: "string \<times> string" and answer st a st'
  assume "sc_complete identity_sections scope answer st = (Inr a, st')"
  from identity_complete_scope(1) [OF this]
  show "map_of (im_by_scope st') (sc_key identity_sections scope) \<noteq> None" by (simp split: prod.splits)
qed (auto simp: identity_sections_def identity_update_scope dest: filed_get split: option.splits)

section \<open>The properties of the stores\<close>

text \<open>The machine of the waiting calls: what \<open>Single_Flight\<close> proves of every store, for a reachable world.\<close>

definition synchronised :: "('k, 'r, 'q, 'v, 'o, 'a, 'u) sections \<Rightarrow> ('k, 'r, 'q, 'a) world \<Rightarrow> bool" where
  "synchronised c w = (one_flight (sc_key c) w \<and> leaves_cleanly (sc_key c) w \<and> waits_for_flight (sc_key c) w)"

lemma synchronised_run: "run_schedule c ms (idle rs) w \<Longrightarrow> synchronised c w"
  by (simp add: synchronised_def one_flight_if leaves_cleanly_if waits_for_flight_if flights_ok_run)

text \<open>C10 Whatever requests with idempotency keys arrive at the Service, and however their sections interleave, get
  cancelled, or their operations fail: no two run the operation of one key at once, leaving never meets a missing
  entry, and a request that waits on an event waits for the one that will set it. And no request hangs because of the
  store: from every such state, whatever the clock shows and however the operations under way answer, some
  continuation ends every call.\<close>

theorem operations_single_flight:
  assumes "run_schedule idempotency_sections ms (idle records) w"
  shows "synchronised idempotency_sections w
    \<and> (\<exists>ns w'. run_schedule idempotency_sections ns w w' \<and> list_all (continues now answer) ns
        \<and> list_all returned (wd_tasks w'))"
  using synchronised_run [OF assms] calls_can_return [OF flights_ok_run [OF assms]] by blast

text \<open>C11 Calls of \<open>find_or_create\<close> of the Service for one Agent DID, interleaved with each other and with \<open>save\<close>:
  at most one of them returns \<open>True\<close> for having created the enrollment.\<close>

theorem enrollment_created_once:
  assumes "run_schedule enrollment_sections ms (idle records) w"
    and "at_task w i (Done agent_did (Returned (Inr (r, True))))"
    and "at_task w j (Done agent_did (Returned (Inr (r', True))))"
  shows "i = j"
  by (rule enrollment_calls.one_creation [OF assms(1,2) _ assms(3)]) simp_all

text \<open>C15 Calls of \<open>find_or_create\<close> of the Platform for one principal and Service, interleaved with each other and with
  status updates: all that return have the same identity, and at most one of them has created it.\<close>

theorem identity_created_once:
  assumes "run_schedule identity_sections ms (idle st) w" and "filed st"
    and "at_task w i (Done scope (Returned (Inr (r, new))))"
    and "at_task w j (Done scope (Returned (Inr (r', new'))))"
  shows "id_identity_id r = id_identity_id r' \<and> (i = j \<or> \<not> new \<or> \<not> new')"
  using identity_calls.one_answer [OF assms] identity_calls.one_creation [OF assms(1,3) _ assms(4)] by auto

section \<open>A run of each store\<close>

lemmas run_simps = call_step_simps at_task_def move_task_def add_task_def idle_def enter_section_def
  work_section_def leave_section_def claim_def release_def dict_pop_def

definition demo_input :: idempotency_input where
  "demo_input = \<lparr>ii_agent_did = ''did:web:a'', ii_command = ''enroll'', ii_key = ''k1'', ii_hash = ''h''\<rparr>"

text \<open>Two requests with one key: the second waits, and the operation of the first fails.\<close>

lemma operations_single_flight_witness:
  "\<exists>w. run_schedule idempotency_sections [Start demo_input, Start demo_input, Enter 0 demo_time, Enter 1 demo_time]
      (idle []) w \<and> wd_tasks w = [Working demo_input, Waiting demo_input 0]
    \<and> synchronised idempotency_sections w
    \<and> (\<exists>ns w'. run_schedule idempotency_sections ns w w'
        \<and> list_all (continues demo_time (\<lambda>_. Raise (Runtime_Error ''failed''))) ns \<and> list_all returned (wd_tasks w'))"
proof -
  have "\<exists>w. run_schedule idempotency_sections [Start demo_input, Start demo_input, Enter 0 demo_time, Enter 1 demo_time]
      (idle []) w \<and> wd_tasks w = [Working demo_input, Waiting demo_input 0]"
    by (simp add: run_simps idempotency_sections_def demo_input_def demo_time_def aware_def prune_idempotency_def
        dict_keep_def)
  then show ?thesis using operations_single_flight by blast
qed

lemma enrollment_created_once_witness:
  "\<exists>w. run_schedule enrollment_sections [Start ''did:web:agent.example'', Start ''did:web:agent.example'',
        Enter 0 (), Enter 1 (), Work 0 (Inr plain_record), Leave 0, Wake 1, Enter 1 ()] (idle []) w
    \<and> at_task w 1 (Done ''did:web:agent.example'' (Returned (Inr (plain_record, False))))
    \<and> {j. at_task w j (Done ''did:web:agent.example'' (Returned (Inr (plain_record, True))))} = {0}"
proof -
  have "\<exists>w. run_schedule enrollment_sections [Start ''did:web:agent.example'', Start ''did:web:agent.example'',
        Enter 0 (), Enter 1 (), Work 0 (Inr plain_record), Leave 0, Wake 1, Enter 1 ()] (idle []) w
    \<and> at_task w 1 (Done ''did:web:agent.example'' (Returned (Inr (plain_record, False))))
    \<and> at_task w 0 (Done ''did:web:agent.example'' (Returned (Inr (plain_record, True))))"
    by (simp add: run_simps enrollment_sections_def enrollment_find_def plain_record_def)
  then show ?thesis using enrollment_created_once by blast
qed

definition demo_scope :: "string \<times> string" where
  "demo_scope = (''owner'', ''did:web:service.example'')"

text \<open>A second caller waits for the first, and the identity is suspended before it looks again.\<close>

lemma identity_created_once_witness:
  "\<exists>w r r'. run_schedule identity_sections [Start demo_scope, Start demo_scope, Enter 0 (), Enter 1 (),
        Work 0 (Inr demo_identity), Leave 0, Other (''pai_1'', Managed_Suspended, demo_time), Wake 1, Enter 1 ()]
        (idle no_identities) w
    \<and> at_task w 0 (Done demo_scope (Returned (Inr (r, True)))) \<and> at_task w 1 (Done demo_scope (Returned (Inr (r', False))))
    \<and> id_identity_id r = id_identity_id r' \<and> id_status r' = Managed_Suspended"
proof -
  have "\<exists>w r r'. run_schedule identity_sections [Start demo_scope, Start demo_scope, Enter 0 (), Enter 1 (),
        Work 0 (Inr demo_identity), Leave 0, Other (''pai_1'', Managed_Suspended, demo_time), Wake 1, Enter 1 ()]
        (idle no_identities) w
    \<and> at_task w 0 (Done demo_scope (Returned (Inr (r, True)))) \<and> at_task w 1 (Done demo_scope (Returned (Inr (r', False))))
    \<and> id_status r' = Managed_Suspended"
    by (simp add: run_simps identity_sections_def demo_scope_def no_identities_def identity_get_def validate_identity_record_def
        demo_identity_def demo_did_def demo_time_def aware_def scope_of_def identity_insert_def dict_has_def
        identity_update_def sbind_def prog_run require_def Let_def)
  moreover have "filed no_identities" by (simp add: filed_def no_identities_def)
  ultimately show ?thesis using identity_created_once by blast
qed

end
