(* ===== verification/Spec2Isabelle.thy ===== *)
theory Spec2Isabelle
  imports Service_Enrollments Platform_Identities Platform_Signing Platform_Provider
    Agent_Results Agent_Signing Agent_Documents Asgi_Facts Store_Calls
begin

text \<open>
  The Agent Enrollment Protocol library (package \<^verbatim>\<open>agent_enrollment_protocol\<close> under \<^verbatim>\<open>src/src\<close>).

  An \<^emph>\<open>Agent\<close> owns a DID and signs short-lived client assertions. A \<^emph>\<open>Service\<close> publishes an Inspect document,
  enrolls agents, grants and revokes credentials and authenticates requests to protected resources. A
  \<^emph>\<open>Platform\<close> hosts identities for agents: it provisions one DID per principal and Service, signs
  assertions and verifies them for Services. All three speak JSON models with strict decoding.

  \<^bold>\<open>Theories and sources.\<close>
  \<^item> \<open>Prelude\<close>: exceptions as values (\<^verbatim>\<open>core/errors.py\<close>), Python strings, dictionaries, timestamps.
  \<^item> \<open>Regex\<close>, \<open>Url\<close>, \<open>Encoding\<close>: the parts of the standard library the code computes with (\<open>re.fullmatch\<close>,
    \<open>urllib.parse\<close>, UTF-8 and base64).
  \<^item> \<open>Json\<close>: JSON trees, \<open>json.dumps\<close>, and \<^verbatim>\<open>core/validation.py\<close>.
  \<^item> \<open>Model_Syntax\<close>, \<open>Model_Base\<close>, \<open>Model_Inspect\<close>, \<open>Model_Document\<close>, \<open>Inspect_Document\<close>, \<open>Model_Enroll\<close>,
    \<open>Model_Credential\<close>, \<open>Model_Platform\<close>: the models of \<^verbatim>\<open>core/models.py\<close>; each is a record with its field
    constraints and validators (\<open>check_\<close>), its strict decoder (\<open>_of_json\<close>) and its encoder (\<open>_to_wire\<close>).
  \<^item> \<open>Core_Http\<close>, \<open>Did_Web\<close>, \<open>Open_Api\<close>, \<open>Assertions\<close>: \<^verbatim>\<open>core/http.py\<close>, \<^verbatim>\<open>core/did_web.py\<close> and
    \<^verbatim>\<open>core/inspect.py\<close>, \<^verbatim>\<open>core/claims.py\<close> and \<^verbatim>\<open>core/openapi.py\<close>, \<^verbatim>\<open>core/assertions.py\<close>.
  \<^item> \<open>Service_Types\<close>, \<open>Service_Stores\<close>, \<open>Credentials\<close>, \<open>Service_Support\<close>, \<open>Service\<close>: the package \<^verbatim>\<open>service\<close>.
    A method is a program from the state of the Service (the three in-memory stores and the state of the
    collaborators) to a result and the state after it; the state survives an exception.
  \<^item> \<open>Platform_Types\<close>, \<open>Platform_Document\<close>, \<open>Platform_Stores\<close>, \<open>Platform\<close>: the package \<^verbatim>\<open>platform\<close>, in the
    same style.
  \<^item> \<open>Single_Flight\<close>, \<open>Store_Calls\<close>: the loop by which concurrent calls of \<open>find_or_create\<close> and \<open>execute\<close> wait for each
    other (\<^verbatim>\<open>service/stores.py\<close>, \<^verbatim>\<open>platform/stores.py\<close>), as a step relation between the sections under the lock. The
    tasks, the pending entries and the events are explicit; a schedule is the list of moves of a run.
  \<^item> \<open>Agent_Types\<close>, \<open>Agent_Stores\<close>, \<open>Agent\<close>, \<open>Agent_Session\<close>, \<open>Agent_Credentials\<close>: \<^verbatim>\<open>agent/types.py\<close>,
    \<^verbatim>\<open>agent/stores.py\<close> and \<^verbatim>\<open>agent/transport.py\<close>, \<^verbatim>\<open>agent/client.py\<close> (inspection; identities, signing and commands;
    credentials and authentication headers). The state is the three stores, the session and the state of the
    collaborators.
  \<^item> \<open>Protected_Resource\<close>, \<open>Platform_Provider\<close>, \<open>Agent_Documents\<close>: \<^verbatim>\<open>agent/protected_resource.py\<close>,
    \<^verbatim>\<open>agent/platform_provider.py\<close>, \<^verbatim>\<open>agent/documents.py\<close>.
  \<^item> \<open>Asgi\<close>: \<^verbatim>\<open>adapters/asgi.py\<close>, the HTTP binding of a Service and the authentication middleware. The server and
    the inner application are parameters; the loops over received messages are partial functions, with
    \<^const>\<open>None\<close> for a run that never returns.
  \<^item> \<open>Service_Sample\<close>, \<open>Platform_Sample\<close>, \<open>Agent_Sample\<close>: concrete instances, made by the modelled constructors, on which the
    theorems are instantiated; \<open>Evaluation\<close> has code equations for that.

  \<^bold>\<open>What is shown.\<close>
  \<^item> Lexical level: regular expressions are decided by derivatives; round trips of UTF-8, base64, authorization
    fields, Inspect documents and client assertions; the best matching path template is unique; the bounds of
    portable documents are decided and the work list ends; \<open>did:web\<close> identifiers and their URLs.
  \<^item> Assertions: what an accepted assertion is, which exceptions verification and unverified decoding raise, and
    that signing followed by verification gives the claims back. Hosted signing and verification are tied to the key
    that the key store holds for the identity and to the time of the request.
  \<^item> Stores: the replay contract is a locale (\<open>replay_guard\<close>) with two implementations (Service and
    Platform); \<open>revocable_store\<close> is the contract of the credential store; \<open>identity_index\<close> states that the four
    dictionaries of the identity store are searches in one set of records.
  \<^item> Interleaved calls: in every reachable state at most one call per key runs its factory, a waiting call waits for a
    call that will wake it, and every call can return; by the locales \<open>create_once\<close> and \<open>create_agreed\<close>, at most one call
    creates and all agree on what was created. The lemmas \<open>\<dots>_alone\<close> of \<open>Store_Calls\<close> show that the model of one call
    on its own is the sections in a row.
  \<^item> Operations: \<open>Frames\<close>, \<open>Service_Facts\<close> and \<open>Platform_Facts\<close> lift a relation between states from the stores and
    collaborators to every operation and every history of calls (locales \<open>service_relation\<close> and
    \<open>platform_relation\<close>); \<open>Service_Enrollments\<close>, \<open>Platform_Identities\<close> and \<open>Platform_Signing\<close> use that for the
    invariants of enrollments and identities, for access to protected resources, signing and verification.

  \<^item> Agents: \<open>Agent_Inspection\<close> and \<open>Agent_Urls\<close> compare origins and show where inspections and commands go;
    \<open>Agent_Frames\<close> has the locales \<open>inspect_relation\<close>, \<open>agent_relation\<close> and \<open>fetch_relation\<close>, which lift a relation
    between states to every operation of a session and to a fetch; \<open>Agent_Invariant\<close> interprets them for the
    consistency of the memory, \<open>Agent_Results\<close> uses them for the requests that are sent. A fetch runs on
    \<open>fetch_fuel\<close> rounds, two for each redirect allowed and three more, which is shown to be enough.
    \<open>Agent_Challenge\<close> reads the challenge of a Service back; \<open>Agent_Signing\<close> shows what an accepted assertion is.

  \<^item> The ASGI binding: \<open>Asgi_Facts\<close> shows that the body limit is exact, that HEAD is GET without the content, and
    that an application behind the middleware only sees scopes with a principal that was just authenticated.

  \<^bold>\<open>Conventions and limits.\<close> A \<open>str\<close> is a list of code points below 256. A request body is its size and the
  outcome of reading it: the JSON tree, or the exception with which \<open>json.loads\<close> stops before the end of the text
  (a ValueError, or a RecursionError when the nesting exceeds the interpreter's limit). \<open>json.loads\<close> itself, the text
  of a float, \<open>hashlib\<close>, \<open>secrets\<close> and PyJWT are parameters; \<open>json.loads\<close> and PyJWT return or raise any
  exception, so what the except clauses of the code let through is an outcome of the model. Where a document is read to
  the end by \<open>json.loads\<close>, pydantic's own parser and \<open>json.dumps\<close> are taken to reach its end as well. JSON floats are exact rationals. A \<open>datetime\<close> is an instant in microseconds with
  its offset; the range of years is not bounded. The clock, policies, verifiers, handlers, key stores and
  authorizers that the classes receive are arbitrary programs on a state of their own. Stores are the
  in-memory defaults; operations of the Service, the Platform and the Agent that call them run one at a time; the regular expressions, URL functions and calendar
  functions are executable, so every definition can be run on concrete inputs.

  \<^bold>\<open>Not modelled.\<close> The scripts and examples (a conformance harness and demonstration programs around the library),
  the re-exporting package files, and the interleaving of whole operations of a Service, a Platform or an Agent: only the
  calls of the stores interleave, with arbitrary factories, so a time limit that passes is a cancelled call there and
  a failed call of the transport elsewhere.
\<close>

end
